(* ===== verification/Go_Prelude.thy ===== *)
theory Go_Prelude
  imports Main "HOL-Library.Word" "HOL-Library.State_Monad"
begin

text \<open>
  The shared base of the development: the fragments of the Go language and of its standard
  library that the operator uses (strings, slices, maps, 64-bit integers, durations, errors),
  the state monad in which the operator's calls to its environment are threaded, the proof
  rules of that monad, and the generic lemmas and named collections the components share.

  Go strings are byte sequences, so they are HOL strings (lists of 8-bit characters). A Go
  pointer that may be nil is an option. A Go map that is only read or copied is a HOL map,
  since a nil map reads as an empty one; where the code distinguishes nil it is an option of
  a map. A Go \<^verbatim>\<open>int\<close> and \<^verbatim>\<open>int64\<close> is an \<open>int\<close> whose arithmetic is wrapped to 64 bits by
  \<open>wrap64\<close> wherever the code computes with it.
\<close>

named_theorems wp \<open>symbolic execution of monadic programs\<close>
named_theorems emits_intro \<open>composition rules for the calls a program makes\<close>
named_theorems runs_intro \<open>composition rules for the results and calls of a program\<close>
named_theorems go_eval \<open>definitions unfolded to evaluate the model on concrete input\<close>

section \<open>Strings\<close>

type_synonym strmap = "string \<rightharpoonup> string"

text \<open>\<^verbatim>\<open>strings.Split(s, sep)\<close> for a separator of one character.\<close>

fun strings_Split :: "string \<Rightarrow> char \<Rightarrow> string list" where
  "strings_Split [] sep = [[]]"
| "strings_Split (c # s) sep =
     (if c = sep then [] # strings_Split s sep
      else (case strings_Split s sep of
              [] \<Rightarrow> [[c]]
            | w # ws \<Rightarrow> (c # w) # ws))"

text \<open>\<^verbatim>\<open>strings.Join(elems, sep)\<close>.\<close>

fun strings_Join :: "string list \<Rightarrow> string \<Rightarrow> string" where
  "strings_Join [] sep = []"
| "strings_Join [w] sep = w"
| "strings_Join (w # v # ws) sep = w @ sep @ strings_Join (v # ws) sep"

text \<open>\<^verbatim>\<open>strings.TrimRight(s, cutset)\<close> for a cutset of one character.\<close>

definition strings_TrimRight :: "string \<Rightarrow> char \<Rightarrow> string" where
  "strings_TrimRight s c = rev (dropWhile (\<lambda>x. x = c) (rev s))"

fun strings_HasPrefix :: "string \<Rightarrow> string \<Rightarrow> bool" where
  "strings_HasPrefix s [] = True"
| "strings_HasPrefix [] (p # ps) = False"
| "strings_HasPrefix (c # s) (p # ps) = (c = p \<and> strings_HasPrefix s ps)"

definition strings_ContainsChar :: "string \<Rightarrow> char \<Rightarrow> bool" where
  "strings_ContainsChar s c = (c \<in> set s)"

lemma strings_Split_not_Nil [simp]: "strings_Split s sep \<noteq> []"
  by (induction s) (auto split: list.splits)

lemma strings_Split_no_sep: "sep \<notin> set s \<Longrightarrow> strings_Split s sep = [s]"
  by (induction s) auto

lemma strings_Split_append_sep:
  "sep \<notin> set w \<Longrightarrow> strings_Split (w @ sep # s) sep = w # strings_Split s sep"
  by (induction w) auto

lemma strings_Split_Join:
  assumes "ws \<noteq> []" and "\<forall>w \<in> set ws. sep \<notin> set w"
  shows "strings_Split (strings_Join ws [sep]) sep = ws"
  using assms
  by (induction ws "[sep]" rule: strings_Join.induct)
    (auto simp: strings_Split_no_sep strings_Split_append_sep)

lemma strings_Split_words: "w \<in> set (strings_Split s sep) \<Longrightarrow> sep \<notin> set w"
  by (induction s arbitrary: w) (auto split: list.splits if_splits)

lemma strings_Join_Cons:
  "ws \<noteq> [] \<Longrightarrow> strings_Join (w # ws) sep = w @ sep @ strings_Join ws sep"
  by (cases ws) auto

lemma strings_Join_Split: "strings_Join (strings_Split s sep) [sep] = s"
proof (induction s)
  case Nil
  show ?case by simp
next
  case (Cons c s)
  obtain w ws where sp: "strings_Split s sep = w # ws"
    by (cases "strings_Split s sep") auto
  with Cons show ?case
    by (cases ws) (auto simp: strings_Join_Cons)
qed

lemma strings_TrimRight_last: "s \<noteq> [] \<Longrightarrow> last s \<noteq> c \<Longrightarrow> strings_TrimRight s c = s"
  by (cases s rule: rev_cases) (auto simp: strings_TrimRight_def)

lemma strings_HasPrefix_append [simp]: "strings_HasPrefix (p @ s) p"
  by (induction p) auto

lemma strings_HasPrefix_iff: "strings_HasPrefix s p \<longleftrightarrow> (\<exists>t. s = p @ t)"
  by (induction s p rule: strings_HasPrefix.induct) auto

text \<open>The decimal digits \<^verbatim>\<open>fmt.Sprintf\<close> prints for the verb \<^verbatim>\<open>%d\<close>.\<close>

fun fmt_nat :: "nat \<Rightarrow> string" where
  "fmt_nat n =
     (if n < 10 then [''0123456789'' ! n]
      else fmt_nat (n div 10) @ [''0123456789'' ! (n mod 10)])"

declare fmt_nat.simps [simp del]

definition fmt_d :: "int \<Rightarrow> string" where
  "fmt_d i = (if i < 0 then ''-'' @ fmt_nat (nat (- i)) else fmt_nat (nat i))"

section \<open>Slices and maps\<close>

text \<open>\<^verbatim>\<open>slices.Contains\<close>, \<^verbatim>\<open>slices.Index\<close> (\<open>-1\<close> when absent is \<open>None\<close>) and
  \<^verbatim>\<open>slices.Delete(s, i, i+1)\<close>.\<close>

definition slices_Contains :: "'a list \<Rightarrow> 'a \<Rightarrow> bool" where
  "slices_Contains xs x = (x \<in> set xs)"

fun slices_Index :: "'a list \<Rightarrow> 'a \<Rightarrow> nat option" where
  "slices_Index [] x = None"
| "slices_Index (y # ys) x = (if y = x then Some 0 else map_option Suc (slices_Index ys x))"

definition slices_Delete1 :: "'a list \<Rightarrow> nat \<Rightarrow> 'a list" where
  "slices_Delete1 xs i = take i xs @ drop (Suc i) xs"

lemma slices_Index_None: "slices_Index xs x = None \<longleftrightarrow> x \<notin> set xs"
  by (induction xs) auto

lemma slices_Delete_Index:
  "slices_Index xs x = Some i \<Longrightarrow> slices_Delete1 xs i = remove1 x xs"
  by (induction xs arbitrary: i) (auto simp: slices_Delete1_def split: if_splits)

text \<open>\<^verbatim>\<open>m[key]\<close> on a \<^verbatim>\<open>map[string]string\<close>: a missing key reads as the empty string.\<close>

definition map_index :: "strmap \<Rightarrow> string \<Rightarrow> string" where
  "map_index m k = (case m k of None \<Rightarrow> [] | Some v \<Rightarrow> v)"

lemma map_index_upd [simp]: "map_index (m(k \<mapsto> v)) k = v"
  by (simp add: map_index_def)

section \<open>64-bit integers and durations\<close>

definition wrap64 :: "int \<Rightarrow> int" where
  "wrap64 x = (x + 2 ^ 63) mod 2 ^ 64 - 2 ^ 63"

lemma wrap64_range: "- (2 ^ 63) \<le> wrap64 x \<and> wrap64 x < 2 ^ 63"
  by (simp add: wrap64_def)

lemma wrap64_id [simp]: "- (2 ^ 63) \<le> x \<Longrightarrow> x < 2 ^ 63 \<Longrightarrow> wrap64 x = x"
  by (simp add: wrap64_def)

text \<open>Wrapping agrees with the two's complement reading of a 64-bit machine word.\<close>

lemma wrap64_sint: "wrap64 x = sint (word_of_int x :: 64 word)"
proof -
  have "sint (word_of_int x :: 64 word) = signed_take_bit 63 x"
    by transfer simp
  also have "\<dots> = (x + 2 ^ 63) mod 2 ^ 64 - 2 ^ 63"
    by (simp add: signed_take_bit_eq_take_bit_shift take_bit_eq_mod)
  finally show ?thesis by (simp add: wrap64_def)
qed

text \<open>
  \<^verbatim>\<open>x << n\<close> on \<^verbatim>\<open>int64\<close>: the count may exceed the width, and then every bit is lost; a
  negative count panics, which the callers model.
\<close>

definition shl64 :: "int \<Rightarrow> nat \<Rightarrow> int" where
  "shl64 x n = wrap64 (x * 2 ^ n)"

type_synonym duration = int  \<comment> \<open>nanoseconds\<close>

definition time_Second :: duration where "time_Second = 1000000000"

definition time_Minute :: duration where "time_Minute = 60 * time_Second"

section \<open>Errors\<close>

text \<open>
  A Go error is its message and what the predicates the code applies to it say. An error of
  third-party code carries the class those predicates (\<^verbatim>\<open>apierrors.IsNotFound\<close>,
  \<^verbatim>\<open>apierrors.IsConflict\<close>, \<^verbatim>\<open>errors.As\<close> on \<^verbatim>\<open>action.ReleaseNotFoundError\<close>, \<^verbatim>\<open>errors.Is\<close> on the
  two plan errors of nelm) report for it; \<open>Wrapped\<close> is \<^verbatim>\<open>fmt.Errorf("prefix: %w", err)\<close>,
  through which they see.
\<close>

datatype err_class =
  NotFound | Conflict | ReleaseNotFoundError | ErrResourceChangesPlanned
| ErrReleaseInstallPlanned | OtherClass

datatype error =
  ExtError err_class string
| SourceNotReadyError string
| NewError string
| Wrapped string error

fun Error_text :: "error \<Rightarrow> string" where
  "Error_text (ExtError c m) = m"
| "Error_text (SourceNotReadyError m) = ''source not ready: '' @ m"
| "Error_text (NewError m) = m"
| "Error_text (Wrapped p e) = p @ '': '' @ Error_text e"

fun err_class_of :: "error \<Rightarrow> err_class" where
  "err_class_of (ExtError c m) = c"
| "err_class_of (Wrapped p e) = err_class_of e"
| "err_class_of _ = OtherClass"

definition IsNotFound :: "error \<Rightarrow> bool" where
  "IsNotFound e \<longleftrightarrow> err_class_of e = NotFound"

definition IsConflict :: "error \<Rightarrow> bool" where
  "IsConflict e \<longleftrightarrow> err_class_of e = Conflict"

text \<open>\<^verbatim>\<open>errors.As(err, &notReady)\<close> for a \<^verbatim>\<open>*source.SourceNotReadyError\<close>.\<close>

fun as_SourceNotReady :: "error \<Rightarrow> string option" where
  "as_SourceNotReady (SourceNotReadyError m) = Some m"
| "as_SourceNotReady (Wrapped p e) = as_SourceNotReady e"
| "as_SourceNotReady _ = None"

definition wrap_result :: "string \<Rightarrow> error + 'a \<Rightarrow> error + 'a" where
  "wrap_result p r = (case r of Inl e \<Rightarrow> Inl (Wrapped p e) | Inr a \<Rightarrow> Inr a)"

section \<open>Programs over a state\<close>

text \<open>
  An operation with effects is a program of the library's state monad. \<open>hoare P m Q\<close> says
  that \<open>m\<close>, started in a state where \<open>P\<close> holds, ends with a result and a state that satisfy
  \<open>Q\<close>; programs are total, so this is total correctness. The rules follow the syntax of
  programs, so a proof is their repeated application.
\<close>

abbreviation returnM :: "'a \<Rightarrow> ('s, 'a) state" where
  "returnM \<equiv> State_Monad.return"

definition hoare :: "('s \<Rightarrow> bool) \<Rightarrow> ('s, 'a) state \<Rightarrow> ('a \<Rightarrow> 's \<Rightarrow> bool) \<Rightarrow> bool" where
  "hoare P m Q \<longleftrightarrow> (\<forall>s. P s \<longrightarrow> Q (fst (run_state m s)) (snd (run_state m s)))"

lemma hoareI: "(\<And>s a s'. P s \<Longrightarrow> run_state m s = (a, s') \<Longrightarrow> Q a s') \<Longrightarrow> hoare P m Q"
  by (simp add: hoare_def)

lemma hoareD: "hoare P m Q \<Longrightarrow> P s \<Longrightarrow> run_state m s = (a, s') \<Longrightarrow> Q a s'"
  unfolding hoare_def by (metis fst_conv snd_conv)

lemma hoare_return: "(\<And>s. P s \<Longrightarrow> Q a s) \<Longrightarrow> hoare P (returnM a) Q"
  by (simp add: hoare_def)

lemma hoare_bind:
  assumes "hoare P m R" and "\<And>a. hoare (R a) (f a) Q"
  shows "hoare P (State_Monad.bind m f) Q"
  using assms by (simp add: hoare_def split_beta)

lemma hoare_weaken:
  assumes "hoare P' m Q'" and "\<And>s. P s \<Longrightarrow> P' s" and "\<And>a s. Q' a s \<Longrightarrow> Q a s"
  shows "hoare P m Q"
  using assms by (simp add: hoare_def)

lemma hoare_conj: "hoare P m Q \<Longrightarrow> hoare P m R \<Longrightarrow> hoare P m (\<lambda>a s. Q a s \<and> R a s)"
  by (simp add: hoare_def)

lemma hoare_if:
  "(b \<Longrightarrow> hoare P m Q) \<Longrightarrow> (\<not> b \<Longrightarrow> hoare P n Q) \<Longrightarrow> hoare P (if b then m else n) Q"
  by simp

lemma hoare_assume: "(A \<Longrightarrow> hoare P m Q) \<Longrightarrow> hoare (\<lambda>s. P s \<and> A) m Q"
  by (auto simp: hoare_def)

end
