(* ===== verification/Release_Types.thy ===== *)
theory Release_Types
  imports Go_Prelude
begin

text \<open>
  The data model of \<^verbatim>\<open>api/v1alpha1\<close>: the \<open>Release\<close> custom resource, its specification and
  status with every nested struct, the constants of \<^verbatim>\<open>const.go\<close>, and the methods of
  \<^verbatim>\<open>release_types.go\<close>. A field is named by its struct and its Go name
  (\<^verbatim>\<open>InstallConfig.Retries\<close> is \<open>Install_Retries\<close>). A pointer field is an option; a value
  of a third-party type that the operator only copies (a Flux verification block, raw JSON
  values) is an \<open>opaque\<close>, identified by its serialised text.
\<close>

datatype opaque = Opaque string

section \<open>Constants\<close>

definition ReleaseFinalizerName :: string where
  "ReleaseFinalizerName = ''nelm.werf.io/release''"

definition HelmChartReleaseRefLabelName :: string where
  "HelmChartReleaseRefLabelName = ''nelm.werf.io/release-ref''"

definition SourceRefReleaseRefAnnotationName :: string where
  "SourceRefReleaseRefAnnotationName = ''nelm.werf.io/release-refs''"

definition ChartSourcePhaseReady :: string where
  "ChartSourcePhaseReady = ''Ready''"

definition ChartSourcePhasePending :: string where
  "ChartSourcePhasePending = ''Pending''"

definition ChartSourcePhaseDisconnecting :: string where
  "ChartSourcePhaseDisconnecting = ''Disconnecting''"

lemmas phase_defs =
  ChartSourcePhaseReady_def ChartSourcePhasePending_def ChartSourcePhaseDisconnecting_def

section \<open>References\<close>

record CredentialReference =
  Credential_Kind :: string
  Credential_Name :: string

record ProxySettingsReference =
  Proxy_Kind :: string
  Proxy_Name :: string

record CertificateReference =
  Certificate_Name :: string

record SecretKeyReference =
  SecretKey_Kind :: string
  SecretKey_Name :: string
  SecretKey_DataKey :: string

record ValuesReference =
  Values_Kind :: string
  Values_Name :: string
  Values_DataKey :: string
  Values_Optional :: bool

record ChartSourceRef =
  ChartRef_APIVersion :: string
  ChartRef_Kind :: string
  ChartRef_Name :: string
  ChartRef_Namespace :: string

record ChartSourceReference =
  SourceRef_Group :: string
  SourceRef_Version :: string
  SourceRef_Kind :: string
  SourceRef_Name :: string
  SourceRef_Namespace :: string

section \<open>Chart sources\<close>

record GitRepositoryChartSource =
  Git_URL :: string
  Git_Branch :: string
  Git_Tag :: string
  Git_SemVer :: string
  Git_Commit :: string
  Git_Reference :: string
  Git_Path :: string
  Git_ValuesFiles :: "string list"
  Git_IgnoreMissingValuesFiles :: bool
  Git_CredentialsFrom :: "CredentialReference option"
  Git_Provider :: string
  Git_ServiceAccountName :: string
  Git_ProxySettingsFrom :: "ProxySettingsReference option"
  Git_Submodules :: bool
  Git_SparseCheckout :: "string list"
  Git_Ignore :: "string option"
  Git_Verification :: "opaque option"
  Git_Include :: "opaque list"
  Git_Interval :: duration
  Git_Timeout :: "duration option"
  Git_ReconcileStrategy :: string

record OCIRepositoryChartSource =
  OCI_URL :: string
  OCI_Tag :: string
  OCI_SemVer :: string
  OCI_Digest :: string
  OCI_SemverFilter :: string
  OCI_CredentialsFrom :: "CredentialReference option"
  OCI_CertificateFrom :: "CertificateReference option"
  OCI_ProxySettingsFrom :: "ProxySettingsReference option"
  OCI_ServiceAccountName :: string
  OCI_Provider :: string
  OCI_Insecure :: bool
  OCI_Ignore :: "string option"
  OCI_LayerSelector :: "opaque option"
  OCI_Verify :: "opaque option"
  OCI_Interval :: duration
  OCI_Timeout :: "duration option"

record HelmRepositoryChartSource =
  Repo_URL :: string
  Repo_Name :: string
  Repo_Version :: string
  Repo_ValuesFiles :: "string list"
  Repo_IgnoreMissingValuesFiles :: bool
  Repo_CredentialsFrom :: "CredentialReference option"
  Repo_CertificateFrom :: "CertificateReference option"
  Repo_PassCredentials :: bool
  Repo_Verify :: "opaque option"
  Repo_Insecure :: bool
  Repo_Interval :: duration
  Repo_Timeout :: "duration option"

record BucketChartSource =
  Bucket_Endpoint :: string
  Bucket_BucketName :: string
  Bucket_Path :: string
  Bucket_ValuesFiles :: "string list"
  Bucket_IgnoreMissingValuesFiles :: bool
  Bucket_Provider :: string
  Bucket_Region :: string
  Bucket_Prefix :: string
  Bucket_CredentialsFrom :: "CredentialReference option"
  Bucket_CertificateFrom :: "CertificateReference option"
  Bucket_ProxySettingsFrom :: "ProxySettingsReference option"
  Bucket_ServiceAccountName :: string
  Bucket_Insecure :: bool
  Bucket_Ignore :: "string option"
  Bucket_STS :: "opaque option"
  Bucket_Interval :: duration
  Bucket_Timeout :: "duration option"
  Bucket_ReconcileStrategy :: string

record ReleaseChart =
  Chart_Bucket :: "BucketChartSource option"
  Chart_Git :: "GitRepositoryChartSource option"
  Chart_OCI :: "OCIRepositoryChartSource option"
  Chart_Repo :: "HelmRepositoryChartSource option"

section \<open>Lifecycle configuration\<close>

record InstallConfig =
  Install_Timeout :: "duration option"
  Install_AutoRollback :: bool
  Install_NoInstallCRDs :: bool
  Install_DeletePropagation :: string
  Install_NoForceAdoption :: bool
  Install_NoRemoveManualChanges :: bool
  Install_NoDefaultPatches :: bool
  Install_TemplatesAllowDNS :: bool
  Install_Retries :: int

record RollbackConfig =
  Rollback_Timeout :: "duration option"
  Rollback_DeletePropagation :: string
  Rollback_NoForceAdoption :: bool
  Rollback_NoRemoveManualChanges :: bool
  Rollback_NoDefaultPatches :: bool

record UninstallConfig =
  Uninstall_Timeout :: "duration option"
  Uninstall_DeleteNamespace :: bool
  Uninstall_DeletePropagation :: string
  Uninstall_NoRemoveManualChanges :: bool
  Uninstall_NoDefaultPatches :: bool

record TrackingConfig =
  Tracking_ReadinessTimeout :: duration
  Tracking_CreationTimeout :: duration
  Tracking_DeletionTimeout :: duration
  Tracking_PodLogs :: bool
  Tracking_FinalTracking :: bool

record ProvenanceConfig =
  Provenance_Strategy :: string
  Provenance_KeyringFrom :: "SecretKeyReference option"

record ReleaseStorageConfig =
  Storage_HistoryLimit :: int

record ValidationConfig =
  Validation_NoResourceValidation :: bool
  Validation_NoValuesSchemaValidation :: bool
  Validation_Skip :: "string list"
  Validation_ExtraSchemas :: "string list"
  Validation_SchemaCacheLifetime :: duration

record TypescriptConfig =
  Typescript_IgnoreBundleJS :: bool

record PatchMatcher =
  Match_Kinds :: "string list"
  Match_Names :: "string list"
  Match_Namespaces :: "string list"
  Match_Groups :: "string list"
  Match_Versions :: "string list"
  Match_Charts :: "string list"
  Match_Labels :: strmap
  Match_Annotations :: strmap

record Patch =
  Patch_Match :: PatchMatcher
  Patch_Type :: string
  Patch_Patch :: string

section \<open>Specification, status and the resource\<close>

record ReleaseSpec =
  Spec_Chart :: "ReleaseChart option"
  Spec_ChartRef :: "ChartSourceRef option"
  Spec_TargetNamespace :: string
  Spec_Interval :: duration
  Spec_Timeout :: duration
  Spec_Suspend :: bool
  Spec_Values :: "string option"
  Spec_ValuesFrom :: "ValuesReference list"
  Spec_NoDefaultValues :: bool
  Spec_SetRootContextJSON :: "string list"
  Spec_SecretKeyFrom :: "SecretKeyReference option"
  Spec_SecretValuesFrom :: "ValuesReference list"
  Spec_ServiceAccountName :: string
  Spec_NoDefaultSecretValues :: bool
  Spec_Install :: "InstallConfig option"
  Spec_Rollback :: "RollbackConfig option"
  Spec_Uninstall :: "UninstallConfig option"
  Spec_ExtraAnnotations :: strmap
  Spec_ExtraLabels :: strmap
  Spec_RuntimeAnnotations :: strmap
  Spec_RuntimeLabels :: strmap
  Spec_DiffPatches :: "Patch list"
  Spec_RenderPatches :: "Patch list"
  Spec_AppVersion :: string
  Spec_ReleaseInfoAnnotations :: strmap
  Spec_ReleaseLabels :: strmap
  Spec_Tracking :: "TrackingConfig option"
  Spec_Provenance :: "ProvenanceConfig option"
  Spec_ReleaseStorage :: "ReleaseStorageConfig option"
  Spec_Validation :: "ValidationConfig option"
  Spec_Typescript :: "TypescriptConfig option"

text \<open>A \<^verbatim>\<open>metav1.Condition\<close>; an empty transition time is the zero time.\<close>

record Condition =
  Cond_Type :: string
  Cond_Status :: string
  Cond_ObservedGeneration :: int
  Cond_LastTransitionTime :: string
  Cond_Reason :: string
  Cond_Message :: string

record ReleaseStatus =
  Status_ObservedGeneration :: int
  Status_Conditions :: "Condition list"
  Status_Revision :: int
  Status_RevisionStatus :: string
  Status_LastAction :: string
  Status_LastActionFailures :: int
  Status_LastAttemptedArtifactRevision :: string
  Status_LastAttemptedArtifactDigest :: string
  Status_ChartSourcePhase :: string
  Status_LastAppliedChartSource :: "ChartSourceReference option"
  Status_CandidateChartSource :: "ChartSourceReference option"

text \<open>The fields of \<^verbatim>\<open>metav1.ObjectMeta\<close> the operator reads or writes on a Release.\<close>

record ObjectMeta =
  Meta_Name :: string
  Meta_Namespace :: string
  Meta_Generation :: int
  Meta_DeletionTimestamp :: "string option"
  Meta_Finalizers :: "string list"

record Release =
  Release_Meta :: ObjectMeta
  Release_Spec :: ReleaseSpec
  Release_Status :: ReleaseStatus

abbreviation rel_Name :: "Release \<Rightarrow> string" where
  "rel_Name rel \<equiv> Meta_Name (Release_Meta rel)"

abbreviation rel_Namespace :: "Release \<Rightarrow> string" where
  "rel_Namespace rel \<equiv> Meta_Namespace (Release_Meta rel)"

abbreviation rel_Generation :: "Release \<Rightarrow> int" where
  "rel_Generation rel \<equiv> Meta_Generation (Release_Meta rel)"

abbreviation with_status :: "(ReleaseStatus \<Rightarrow> ReleaseStatus) \<Rightarrow> Release \<Rightarrow> Release" where
  "with_status f rel \<equiv> Release_Status_update f rel"

section \<open>Methods\<close>

definition GetConditions :: "Release \<Rightarrow> Condition list" where
  "GetConditions r = Status_Conditions (Release_Status r)"

record GroupVersionKind =
  GVK_Group :: string
  GVK_Version :: string
  GVK_Kind :: string

definition GroupVersionKind_of :: "ChartSourceReference \<Rightarrow> GroupVersionKind" where
  "GroupVersionKind_of g =
     \<lparr>GVK_Group = SourceRef_Group g, GVK_Version = SourceRef_Version g, GVK_Kind = SourceRef_Kind g\<rparr>"

definition GetInstallTimeout :: "Release \<Rightarrow> duration" where
  "GetInstallTimeout r =
     (case Spec_Install (Release_Spec r) of
        Some i \<Rightarrow> (case Install_Timeout i of
                     Some t \<Rightarrow> t
                   | None \<Rightarrow> Spec_Timeout (Release_Spec r))
      | None \<Rightarrow> Spec_Timeout (Release_Spec r))"

definition GetRollbackTimeout :: "Release \<Rightarrow> duration" where
  "GetRollbackTimeout r =
     (case Spec_Rollback (Release_Spec r) of
        Some i \<Rightarrow> (case Rollback_Timeout i of
                     Some t \<Rightarrow> t
                   | None \<Rightarrow> Spec_Timeout (Release_Spec r))
      | None \<Rightarrow> Spec_Timeout (Release_Spec r))"

definition GetUninstallTimeout :: "Release \<Rightarrow> duration" where
  "GetUninstallTimeout r =
     (case Spec_Uninstall (Release_Spec r) of
        Some i \<Rightarrow> (case Uninstall_Timeout i of
                     Some t \<Rightarrow> t
                   | None \<Rightarrow> Spec_Timeout (Release_Spec r))
      | None \<Rightarrow> Spec_Timeout (Release_Spec r))"

definition GetReleaseNamespace :: "Release \<Rightarrow> string" where
  "GetReleaseNamespace r =
     (if Spec_TargetNamespace (Release_Spec r) \<noteq> [] then Spec_TargetNamespace (Release_Spec r)
      else rel_Namespace r)"

end
