(* ===== verification/Go_Sha256.thy ===== *)
theory Go_Sha256
  imports Go_Prelude
begin

text \<open>
  \<^verbatim>\<open>crypto/sha256.Sum256\<close> and \<^verbatim>\<open>encoding/hex.EncodeToString\<close> of the Go standard library,
  which the operator uses to derive the names of the source objects it creates. The hash is
  the one of FIPS 180-4 over 32-bit words, so that names can be computed; the lemmas the
  naming theorems need are the length of the digest and of its hexadecimal form.
\<close>

unbundle bit_operations_syntax

type_synonym u32 = "32 word"

definition sha_K :: "u32 list" where
  "sha_K =
    [1116352408, 1899447441, 3049323471, 3921009573, 961987163, 1508970993, 2453635748,
     2870763221, 3624381080, 310598401, 607225278, 1426881987, 1925078388, 2162078206,
     2614888103, 3248222580, 3835390401, 4022224774, 264347078, 604807628, 770255983,
     1249150122, 1555081692, 1996064986, 2554220882, 2821834349, 2952996808, 3210313671,
     3336571891, 3584528711, 113926993, 338241895, 666307205, 773529912, 1294757372,
     1396182291, 1695183700, 1986661051, 2177026350, 2456956037, 2730485921, 2820302411,
     3259730800, 3345764771, 3516065817, 3600352804, 4094571909, 275423344, 430227734,
     506948616, 659060556, 883997877, 958139571, 1322822218, 1537002063, 1747873779,
     1955562222, 2024104815, 2227730452, 2361852424, 2428436474, 2756734187, 3204031479,
     3329325298]"

definition sha_H0 :: "u32 list" where
  "sha_H0 =
    [1779033703, 3144134277, 1013904242, 2773480762, 1359893119, 2600822924, 528734635,
     1541459225]"

section \<open>The compression function\<close>

definition sha_Sigma0 :: "u32 \<Rightarrow> u32" where
  "sha_Sigma0 x = word_rotr 2 x XOR word_rotr 13 x XOR word_rotr 22 x"

definition sha_Sigma1 :: "u32 \<Rightarrow> u32" where
  "sha_Sigma1 x = word_rotr 6 x XOR word_rotr 11 x XOR word_rotr 25 x"

definition sha_sigma0 :: "u32 \<Rightarrow> u32" where
  "sha_sigma0 x = word_rotr 7 x XOR word_rotr 18 x XOR drop_bit 3 x"

definition sha_sigma1 :: "u32 \<Rightarrow> u32" where
  "sha_sigma1 x = word_rotr 17 x XOR word_rotr 19 x XOR drop_bit 10 x"

definition sha_Ch :: "u32 \<Rightarrow> u32 \<Rightarrow> u32 \<Rightarrow> u32" where
  "sha_Ch x y z = (x AND y) XOR (NOT x AND z)"

definition sha_Maj :: "u32 \<Rightarrow> u32 \<Rightarrow> u32 \<Rightarrow> u32" where
  "sha_Maj x y z = (x AND y) XOR (x AND z) XOR (y AND z)"

text \<open>The message schedule: sixteen words of the block, then forty-eight derived ones.\<close>

primrec sha_schedule :: "nat \<Rightarrow> u32 list \<Rightarrow> u32 list" where
  "sha_schedule 0 ws = ws"
| "sha_schedule (Suc n) ws =
     (let t = length ws
      in sha_schedule n
           (ws @ [sha_sigma1 (ws ! (t - 2)) + ws ! (t - 7)
                  + sha_sigma0 (ws ! (t - 15)) + ws ! (t - 16)]))"

type_synonym sha_regs = "u32 \<times> u32 \<times> u32 \<times> u32 \<times> u32 \<times> u32 \<times> u32 \<times> u32"

fun sha_round :: "u32 \<times> u32 \<Rightarrow> sha_regs \<Rightarrow> sha_regs" where
  "sha_round (k, w) (a, b, c, d, e, f, g, h) =
     (let t1 = h + sha_Sigma1 e + sha_Ch e f g + k + w;
          t2 = sha_Sigma0 a + sha_Maj a b c
      in (t1 + t2, a, b, c, d + t1, e, f, g))"

fun sha_block :: "u32 list \<Rightarrow> sha_regs \<Rightarrow> sha_regs" where
  "sha_block ws (a, b, c, d, e, f, g, h) =
     (case fold sha_round (zip sha_K (sha_schedule 48 ws)) (a, b, c, d, e, f, g, h) of
        (a', b', c', d', e', f', g', h') \<Rightarrow>
          (a + a', b + b', c + c', d + d', e + e', f + f', g + g', h + h'))"

section \<open>Padding and the digest\<close>

fun be_words :: "int list \<Rightarrow> u32 list" where
  "be_words (a # b # c # d # bs) =
     word_of_int (((a * 256 + b) * 256 + c) * 256 + d) # be_words bs"
| "be_words _ = []"

definition be_bytes :: "nat \<Rightarrow> int \<Rightarrow> int list" where
  "be_bytes n x = rev (map (\<lambda>i. (x div 256 ^ i) mod 256) [0..<n])"

definition sha_pad :: "int list \<Rightarrow> int list" where
  "sha_pad bs =
     bs @ 128 # replicate ((119 - length bs mod 64) mod 64) 0 @ be_bytes 8 (int (8 * length bs))"

function sha_blocks :: "u32 list \<Rightarrow> sha_regs \<Rightarrow> sha_regs" where
  "sha_blocks ws r = (if ws = [] then r else sha_blocks (drop 16 ws) (sha_block (take 16 ws) r))"
  by pat_completeness auto
termination
  by (relation "measure (\<lambda>(ws, r). length ws)") auto

declare sha_blocks.simps [simp del]

definition regs_of :: "u32 list \<Rightarrow> sha_regs" where
  "regs_of hs = (hs ! 0, hs ! 1, hs ! 2, hs ! 3, hs ! 4, hs ! 5, hs ! 6, hs ! 7)"

fun regs_list :: "sha_regs \<Rightarrow> u32 list" where
  "regs_list (a, b, c, d, e, f, g, h) = [a, b, c, d, e, f, g, h]"

definition sha256_Sum256 :: "string \<Rightarrow> int list" where
  "sha256_Sum256 s =
     concat (map (\<lambda>w. be_bytes 4 (uint w))
       (regs_list (sha_blocks (be_words (sha_pad (map of_char s))) (regs_of sha_H0))))"

definition hex_EncodeToString :: "int list \<Rightarrow> string" where
  "hex_EncodeToString bs =
     concat (map (\<lambda>b. [''0123456789abcdef'' ! nat (b div 16),
                      ''0123456789abcdef'' ! nat (b mod 16)]) bs)"

section \<open>Lengths\<close>

lemma length_be_bytes [simp]: "length (be_bytes n x) = n"
  by (simp add: be_bytes_def)

lemma be_bytes_small: "b \<in> set (be_bytes n x) \<Longrightarrow> 0 \<le> b \<and> b < 256"
  by (auto simp: be_bytes_def)

lemma length_regs_list [simp]: "length (regs_list r) = 8"
  by (cases r) auto

lemma length_concat_const: "\<forall>x \<in> set xs. length (f x) = k \<Longrightarrow> length (concat (map f xs)) = k * length xs"
  by (induction xs) auto

lemma length_Sum256 [simp]: "length (sha256_Sum256 s) = 32"
  unfolding sha256_Sum256_def by (subst length_concat_const [where k = 4]) auto

lemma length_hex [simp]: "length (hex_EncodeToString bs) = 2 * length bs"
  unfolding hex_EncodeToString_def by (subst length_concat_const [where k = 2]) auto

lemma hex_digit_mem:
  assumes "n < 16"
  shows "''0123456789abcdef'' ! n \<in> set ''0123456789abcdef''"
  by (rule nth_mem) (use assms in simp)

lemma hex_digits:
  assumes "\<forall>b \<in> set bs. 0 \<le> b \<and> b < 256"
  shows "set (hex_EncodeToString bs) \<subseteq> set ''0123456789abcdef''"
  using assms
proof (induction bs)
  case Nil
  show ?case by (simp add: hex_EncodeToString_def)
next
  case (Cons b bs)
  then have "nat (b div 16) < 16" and "nat (b mod 16) < 16" by auto
  then have "set [''0123456789abcdef'' ! nat (b div 16), ''0123456789abcdef'' ! nat (b mod 16)]
      \<subseteq> set ''0123456789abcdef''"
    using hex_digit_mem by (metis empty_subsetI insert_subset list.set)
  moreover have "set (hex_EncodeToString bs) \<subseteq> set ''0123456789abcdef''"
    using Cons by (metis list.set_intros(2))
  ultimately show ?case
    unfolding hex_EncodeToString_def list.map concat.simps set_append by (rule Un_least)
qed

lemma Sum256_small: "b \<in> set (sha256_Sum256 s) \<Longrightarrow> 0 \<le> b \<and> b < 256"
  by (auto simp: sha256_Sum256_def dest: be_bytes_small)

text \<open>The one-block test vector of FIPS 180-4.\<close>

lemma Sum256_abc:
  "hex_EncodeToString (sha256_Sum256 ''abc'') =
     ''ba7816bf8f01cfea414140de5dae2223b00361a396177a9cb410ff61f20015ad''"
  by code_simp

end
