(* ===== verification/Source_Builders.thy ===== *)
theory Source_Builders
  imports Release_Types Go_Sha256
begin

text \<open>
  The builders of \<^verbatim>\<open>internal/source\<close>: from a Release with an inline \<^verbatim>\<open>spec.chart\<close> to the Flux
  source object (GitRepository, HelmRepository, Bucket or OCIRepository) and the companion
  HelmChart, and the content-derived names of both. The Flux object types are third-party;
  their records hold exactly the fields the operator sets. Conversion to unstructured content
  and JSON encoding are parameters, gathered in \<open>source_lib\<close>.
\<close>

section \<open>Unstructured content\<close>

text \<open>The values of Go's \<^verbatim>\<open>map[string]any\<close> as the API machinery decodes them.\<close>

datatype json =
  JNull
| JBool bool
| JInt int
| JFloat string
| JString string
| JArray "json list"
| JObject "(string \<times> json) list"

fun json_field :: "json \<Rightarrow> string \<Rightarrow> json" where
  "json_field (JObject kvs) k = (case map_of kvs k of None \<Rightarrow> JNull | Some v \<Rightarrow> v)"
| "json_field _ k = JNull"

section \<open>Flux objects\<close>

record TypeMeta =
  Type_APIVersion :: string
  Type_Kind :: string

text \<open>
  Annotations that are written back into an object are an association list with distinct keys.
\<close>

type_synonym annotations = "(string \<times> string) list"

record SourceMeta =
  SMeta_Name :: string
  SMeta_Namespace :: string
  SMeta_Labels :: strmap
  SMeta_Annotations :: "annotations option"
  SMeta_OwnerReferences :: "opaque list"

record GitRepositoryRef =
  GRef_Branch :: string
  GRef_Tag :: string
  GRef_SemVer :: string
  GRef_Commit :: string
  GRef_Name :: string

record GitRepositorySpec =
  GSpec_URL :: string
  GSpec_Reference :: "GitRepositoryRef option"
  GSpec_Provider :: string
  GSpec_ServiceAccountName :: string
  GSpec_RecurseSubmodules :: bool
  GSpec_SparseCheckout :: "string list"
  GSpec_Ignore :: "string option"
  GSpec_Include :: "opaque list"
  GSpec_Interval :: duration
  GSpec_Timeout :: "duration option"
  GSpec_Verification :: "opaque option"
  GSpec_SecretRef :: "string option"
  GSpec_ProxySecretRef :: "string option"

record HelmRepositorySpec =
  HSpec_URL :: string
  HSpec_Type :: string
  HSpec_PassCredentials :: bool
  HSpec_Insecure :: bool
  HSpec_Interval :: duration
  HSpec_Timeout :: "duration option"
  HSpec_SecretRef :: "string option"
  HSpec_CertSecretRef :: "string option"

record BucketSpec =
  BSpec_Endpoint :: string
  BSpec_BucketName :: string
  BSpec_Provider :: string
  BSpec_Region :: string
  BSpec_Prefix :: string
  BSpec_ServiceAccountName :: string
  BSpec_Insecure :: bool
  BSpec_Ignore :: "string option"
  BSpec_STS :: "opaque option"
  BSpec_Interval :: duration
  BSpec_Timeout :: "duration option"
  BSpec_SecretRef :: "string option"
  BSpec_CertSecretRef :: "string option"
  BSpec_ProxySecretRef :: "string option"

record OCIRepositoryRef =
  ORef_Tag :: string
  ORef_SemVer :: string
  ORef_SemverFilter :: string
  ORef_Digest :: string

record OCIRepositorySpec =
  OSpec_URL :: string
  OSpec_Reference :: "OCIRepositoryRef option"
  OSpec_Provider :: string
  OSpec_ServiceAccountName :: string
  OSpec_Insecure :: bool
  OSpec_Ignore :: "string option"
  OSpec_LayerSelector :: "opaque option"
  OSpec_Interval :: duration
  OSpec_Timeout :: "duration option"
  OSpec_Verify :: "opaque option"
  OSpec_SecretRef :: "string option"
  OSpec_ProxySecretRef :: "string option"
  OSpec_CertSecretRef :: "string option"

datatype source_spec =
  GitRepository GitRepositorySpec
| HelmRepository HelmRepositorySpec
| Bucket BucketSpec
| OCIRepository OCIRepositorySpec

text \<open>A \<^verbatim>\<open>client.Object\<close> holding one of the four source types.\<close>

record SourceObject =
  Source_Type :: TypeMeta
  Source_Meta :: SourceMeta
  Source_Spec :: source_spec

record HelmChartSpec =
  HC_Chart :: string
  HC_Version :: string
  HC_SourceRef_APIVersion :: string
  HC_SourceRef_Kind :: string
  HC_SourceRef_Name :: string
  HC_Interval :: duration
  HC_ValuesFiles :: "string list"
  HC_IgnoreMissingValuesFiles :: bool
  HC_Verify :: "opaque option"
  HC_ReconcileStrategy :: string

record HelmChart =
  HelmChart_Type :: TypeMeta
  HelmChart_Meta :: SourceMeta
  HelmChart_Spec :: HelmChartSpec

text \<open>The kinds and defaults Flux's \<^verbatim>\<open>sourcev1\<close> package names.\<close>

definition GitRepositoryKind :: string where "GitRepositoryKind = ''GitRepository''"
definition HelmRepositoryKind :: string where "HelmRepositoryKind = ''HelmRepository''"
definition BucketKind :: string where "BucketKind = ''Bucket''"
definition OCIRepositoryKind :: string where "OCIRepositoryKind = ''OCIRepository''"
definition HelmChartKind :: string where "HelmChartKind = ''HelmChart''"
definition HelmRepositoryTypeDefault :: string where "HelmRepositoryTypeDefault = ''default''"
definition HelmRepositoryTypeOCI :: string where "HelmRepositoryTypeOCI = ''oci''"
definition ReconcileStrategyChartVersion :: string where
  "ReconcileStrategyChartVersion = ''ChartVersion''"
definition sourcev1_GroupVersion :: string where
  "sourcev1_GroupVersion = ''source.toolkit.fluxcd.io/v1''"

lemmas kind_defs =
  GitRepositoryKind_def HelmRepositoryKind_def BucketKind_def OCIRepositoryKind_def
  HelmChartKind_def

definition inline_meta :: "Release \<Rightarrow> SourceMeta" where
  "inline_meta rel =
     \<lparr>SMeta_Name = rel_Namespace rel @ ''-'' @ ''inline'', SMeta_Namespace = rel_Namespace rel,
      SMeta_Labels = Map.empty, SMeta_Annotations = None, SMeta_OwnerReferences = []\<rparr>"

section \<open>Source builders\<close>

definition getNoneZeroDuration :: "duration \<Rightarrow> duration \<Rightarrow> duration" where
  "getNoneZeroDuration d fallback = (if d = 0 then fallback else d)"

definition buildGitRepository ::
  "string \<Rightarrow> string \<Rightarrow> Release \<Rightarrow> GitRepositoryChartSource \<Rightarrow> SourceObject" where
  "buildGitRepository sourceAPIGroup sourceAPIVersion rel git =
     \<lparr>Source_Type =
        \<lparr>Type_APIVersion = sourceAPIGroup @ ''/'' @ sourceAPIVersion, Type_Kind = GitRepositoryKind\<rparr>,
      Source_Meta = inline_meta rel,
      Source_Spec = GitRepository
        \<lparr>GSpec_URL = Git_URL git,
         GSpec_Reference = Some
           \<lparr>GRef_Branch = Git_Branch git, GRef_Tag = Git_Tag git, GRef_SemVer = Git_SemVer git,
            GRef_Commit = Git_Commit git, GRef_Name = Git_Reference git\<rparr>,
         GSpec_Provider = Git_Provider git,
         GSpec_ServiceAccountName = Git_ServiceAccountName git,
         GSpec_RecurseSubmodules = Git_Submodules git,
         GSpec_SparseCheckout = Git_SparseCheckout git,
         GSpec_Ignore = Git_Ignore git,
         GSpec_Include = Git_Include git,
         GSpec_Interval = getNoneZeroDuration (Git_Interval git) (Spec_Interval (Release_Spec rel)),
         GSpec_Timeout = Git_Timeout git,
         GSpec_Verification = Git_Verification git,
         GSpec_SecretRef = map_option Credential_Name (Git_CredentialsFrom git),
         GSpec_ProxySecretRef = map_option Proxy_Name (Git_ProxySettingsFrom git)\<rparr>\<rparr>"

definition buildHelmRepository ::
  "string \<Rightarrow> string \<Rightarrow> Release \<Rightarrow> HelmRepositoryChartSource \<Rightarrow> SourceObject" where
  "buildHelmRepository sourceAPIGroup sourceAPIVersion rel repo =
     (let repoType = (if strings_HasPrefix (Repo_URL repo) ''oci://'' then HelmRepositoryTypeOCI
                      else HelmRepositoryTypeDefault)
      in \<lparr>Source_Type =
            \<lparr>Type_APIVersion = sourceAPIGroup @ ''/'' @ sourceAPIVersion,
             Type_Kind = HelmRepositoryKind\<rparr>,
          Source_Meta = inline_meta rel,
          Source_Spec = HelmRepository
            \<lparr>HSpec_URL = Repo_URL repo,
             HSpec_Type = repoType,
             HSpec_PassCredentials = Repo_PassCredentials repo,
             HSpec_Insecure = Repo_Insecure repo,
             HSpec_Interval = getNoneZeroDuration (Repo_Interval repo) (Spec_Interval (Release_Spec rel)),
             HSpec_Timeout = Repo_Timeout repo,
             HSpec_SecretRef = map_option Credential_Name (Repo_CredentialsFrom repo),
             HSpec_CertSecretRef = map_option Certificate_Name (Repo_CertificateFrom repo)\<rparr>\<rparr>)"

definition buildBucket ::
  "string \<Rightarrow> string \<Rightarrow> Release \<Rightarrow> BucketChartSource \<Rightarrow> SourceObject" where
  "buildBucket sourceAPIGroup sourceAPIVersion rel bucket =
     \<lparr>Source_Type =
        \<lparr>Type_APIVersion = sourceAPIGroup @ ''/'' @ sourceAPIVersion, Type_Kind = BucketKind\<rparr>,
      Source_Meta = inline_meta rel,
      Source_Spec = Bucket
        \<lparr>BSpec_Endpoint = Bucket_Endpoint bucket,
         BSpec_BucketName = Bucket_BucketName bucket,
         BSpec_Provider = Bucket_Provider bucket,
         BSpec_Region = Bucket_Region bucket,
         BSpec_Prefix = Bucket_Prefix bucket,
         BSpec_ServiceAccountName = Bucket_ServiceAccountName bucket,
         BSpec_Insecure = Bucket_Insecure bucket,
         BSpec_Ignore = Bucket_Ignore bucket,
         BSpec_STS = Bucket_STS bucket,
         BSpec_Interval = getNoneZeroDuration (Bucket_Interval bucket) (Spec_Interval (Release_Spec rel)),
         BSpec_Timeout = Bucket_Timeout bucket,
         BSpec_SecretRef = map_option Credential_Name (Bucket_CredentialsFrom bucket),
         BSpec_CertSecretRef = map_option Certificate_Name (Bucket_CertificateFrom bucket),
         BSpec_ProxySecretRef = map_option Proxy_Name (Bucket_ProxySettingsFrom bucket)\<rparr>\<rparr>"

definition buildOCIRepository ::
  "string \<Rightarrow> string \<Rightarrow> Release \<Rightarrow> OCIRepositoryChartSource \<Rightarrow> SourceObject" where
  "buildOCIRepository sourceAPIGroup sourceAPIVersion rel oci =
     (let ref = (if OCI_Tag oci \<noteq> [] \<or> OCI_SemVer oci \<noteq> [] \<or> OCI_SemverFilter oci \<noteq> [] \<or> OCI_Digest oci \<noteq> []
                 then Some \<lparr>ORef_Tag = OCI_Tag oci, ORef_SemVer = OCI_SemVer oci,
                            ORef_SemverFilter = OCI_SemverFilter oci, ORef_Digest = OCI_Digest oci\<rparr>
                 else None)
      in \<lparr>Source_Type =
            \<lparr>Type_APIVersion = sourceAPIGroup @ ''/'' @ sourceAPIVersion,
             Type_Kind = OCIRepositoryKind\<rparr>,
          Source_Meta = inline_meta rel,
          Source_Spec = OCIRepository
            \<lparr>OSpec_URL = OCI_URL oci,
             OSpec_Reference = ref,
             OSpec_Provider = OCI_Provider oci,
             OSpec_ServiceAccountName = OCI_ServiceAccountName oci,
             OSpec_Insecure = OCI_Insecure oci,
             OSpec_Ignore = OCI_Ignore oci,
             OSpec_LayerSelector = OCI_LayerSelector oci,
             OSpec_Interval = getNoneZeroDuration (OCI_Interval oci) (Spec_Interval (Release_Spec rel)),
             OSpec_Timeout = OCI_Timeout oci,
             OSpec_Verify = OCI_Verify oci,
             OSpec_SecretRef = map_option Credential_Name (OCI_CredentialsFrom oci),
             OSpec_ProxySecretRef = map_option Proxy_Name (OCI_ProxySettingsFrom oci),
             OSpec_CertSecretRef = map_option Certificate_Name (OCI_CertificateFrom oci)\<rparr>\<rparr>)"

section \<open>Content-derived names\<close>

record source_lib =
  lib_ToUnstructured :: "SourceObject \<Rightarrow> error + json"
  lib_json_Marshal :: "json \<Rightarrow> error + string"

definition GetObjectHashedName :: "source_lib \<Rightarrow> SourceObject \<Rightarrow> error + string" where
  "GetObjectHashedName L obj =
     (case lib_ToUnstructured L obj of
        Inl err \<Rightarrow> Inl (Wrapped ''failed to convert to unstructured'' err)
      | Inr unstructuredMap \<Rightarrow>
          (let spec = json_field unstructuredMap ''spec''
           in case lib_json_Marshal L spec of
                Inl err \<Rightarrow> Inl (Wrapped ''failed to marshal spec'' err)
              | Inr specBytes \<Rightarrow>
                  Inr (strings_TrimRight (SMeta_Name (Source_Meta obj)) (CHR ''-'') @ ''-'' @
                       take 12 (hex_EncodeToString (sha256_Sum256 specBytes)))))"

definition SetName :: "SourceObject \<Rightarrow> string \<Rightarrow> SourceObject" where
  "SetName obj name = obj\<lparr>Source_Meta := (Source_Meta obj)\<lparr>SMeta_Name := name\<rparr>\<rparr>"

definition set_hashed_name :: "source_lib \<Rightarrow> SourceObject \<Rightarrow> error + SourceObject" where
  "set_hashed_name L source =
     (case GetObjectHashedName L source of
        Inl err \<Rightarrow> Inl (Wrapped ''set chart source hashed name'' err)
      | Inr name \<Rightarrow> Inr (SetName source name))"

text \<open>
  The caller has checked that \<^verbatim>\<open>spec.chart\<close> is set; the four cases are tried in the order of
  the switch.
\<close>

definition BuildChartSourceFromRelease ::
  "source_lib \<Rightarrow> string \<Rightarrow> string \<Rightarrow> Release \<Rightarrow> ReleaseChart \<Rightarrow> error + SourceObject" where
  "BuildChartSourceFromRelease L sourceAPIGroup sourceAPIVersion rel chart =
     (case Chart_Git chart of
        Some git \<Rightarrow> set_hashed_name L (buildGitRepository sourceAPIGroup sourceAPIVersion rel git)
      | None \<Rightarrow>
     (case Chart_Repo chart of
        Some repo \<Rightarrow> set_hashed_name L (buildHelmRepository sourceAPIGroup sourceAPIVersion rel repo)
      | None \<Rightarrow>
     (case Chart_Bucket chart of
        Some bucket \<Rightarrow> set_hashed_name L (buildBucket sourceAPIGroup sourceAPIVersion rel bucket)
      | None \<Rightarrow>
     (case Chart_OCI chart of
        Some oci \<Rightarrow> set_hashed_name L (buildOCIRepository sourceAPIGroup sourceAPIVersion rel oci)
      | None \<Rightarrow>
          Inl (NewError ''no chart source configured: exactly one of git, repo, oci or bucket must be set'')))))"

section \<open>The companion HelmChart\<close>

definition GetHelmChartHashedName :: "string \<Rightarrow> string \<Rightarrow> string" where
  "GetHelmChartHashedName releaseNamespace releaseName =
     (let namePrefix = releaseNamespace @ ''-inline-'' @ releaseName
      in namePrefix @ ''-'' @ take 12 (hex_EncodeToString (sha256_Sum256 namePrefix)))"

definition buildHelmChart ::
  "string \<Rightarrow> string \<Rightarrow> Release \<Rightarrow> string \<Rightarrow> string \<Rightarrow> string \<Rightarrow> string \<Rightarrow> duration \<Rightarrow>
   string list \<Rightarrow> bool \<Rightarrow> opaque option \<Rightarrow> string \<Rightarrow> HelmChart" where
  "buildHelmChart sourceAPIGroup sourceAPIVersion rel sourceKind sourceName chart version interval
       valuesFiles ignoreMissing verify reconcileStrategy =
     (let name = GetHelmChartHashedName (rel_Namespace rel) (rel_Name rel);
          verify' = (if sourceKind \<noteq> HelmRepositoryKind then None else verify)
      in \<lparr>HelmChart_Type =
            \<lparr>Type_APIVersion = sourceAPIGroup @ ''/'' @ sourceAPIVersion, Type_Kind = HelmChartKind\<rparr>,
          HelmChart_Meta =
            \<lparr>SMeta_Name = name, SMeta_Namespace = rel_Namespace rel,
             SMeta_Labels = [HelmChartReleaseRefLabelName \<mapsto> rel_Name rel],
             SMeta_Annotations = None, SMeta_OwnerReferences = []\<rparr>,
          HelmChart_Spec =
            \<lparr>HC_Chart = chart, HC_Version = version,
             HC_SourceRef_APIVersion = sourcev1_GroupVersion,
             HC_SourceRef_Kind = sourceKind, HC_SourceRef_Name = sourceName,
             HC_Interval = getNoneZeroDuration interval (Spec_Interval (Release_Spec rel)),
             HC_ValuesFiles = valuesFiles, HC_IgnoreMissingValuesFiles = ignoreMissing,
             HC_Verify = verify', HC_ReconcileStrategy = reconcileStrategy\<rparr>\<rparr>)"

definition BuildHelmChartForHelmRepositorySource ::
  "string \<Rightarrow> string \<Rightarrow> Release \<Rightarrow> string \<Rightarrow> HelmRepositoryChartSource \<Rightarrow> HelmChart" where
  "BuildHelmChartForHelmRepositorySource sourceAPIGroup sourceAPIVersion rel sourceName repo =
     buildHelmChart sourceAPIGroup sourceAPIVersion rel HelmRepositoryKind sourceName
       (Repo_Name repo) (Repo_Version repo) (Repo_Interval repo) (Repo_ValuesFiles repo)
       (Repo_IgnoreMissingValuesFiles repo) (Repo_Verify repo) ReconcileStrategyChartVersion"

definition BuildHelmChartForGitRepositorySource ::
  "string \<Rightarrow> string \<Rightarrow> Release \<Rightarrow> string \<Rightarrow> GitRepositoryChartSource \<Rightarrow> HelmChart" where
  "BuildHelmChartForGitRepositorySource sourceAPIGroup sourceAPIVersion rel sourceName git =
     buildHelmChart sourceAPIGroup sourceAPIVersion rel GitRepositoryKind sourceName
       (Git_Path git) '''' (Git_Interval git) (Git_ValuesFiles git)
       (Git_IgnoreMissingValuesFiles git) None (Git_ReconcileStrategy git)"

definition BuildHelmChartForBucketSource ::
  "string \<Rightarrow> string \<Rightarrow> Release \<Rightarrow> string \<Rightarrow> BucketChartSource \<Rightarrow> HelmChart" where
  "BuildHelmChartForBucketSource sourceAPIGroup sourceAPIVersion rel sourceName bucket =
     buildHelmChart sourceAPIGroup sourceAPIVersion rel BucketKind sourceName
       (Bucket_Path bucket) '''' (Bucket_Interval bucket) (Bucket_ValuesFiles bucket)
       (Bucket_IgnoreMissingValuesFiles bucket) None (Bucket_ReconcileStrategy bucket)"

end
