(* ===== verification/Environment.thy ===== *)
theory Environment
  imports Source_Builders "HOL-Library.AList"
begin

text \<open>
  What the operator is configured with and what it calls. \<open>OperatorConfig\<close> is the struct of
  \<^verbatim>\<open>internal/config\<close>. The Kubernetes API client, the file system, the HTTP client, the nelm
  library and the helper functions of the Kubernetes modules are not part of the repository:
  they are the fields of the records below, which every operation takes as part of the
  reconciler \<open>r\<close>. A call with effects is a function of an arbitrary world \<open>'w\<close> and returns
  the next world; nothing is assumed of these functions here.

  The state of a program is the world together with the list of the calls made so far, each
  with whether it succeeded. The list is only ever appended to, by \<open>perform\<close>; the theorems on
  the order of effects are statements about it.
\<close>

section \<open>Operator configuration\<close>

record OperatorConfig =
  Config_DefaultServiceAccountName :: string
  Config_LeaderElect :: bool
  Config_MaxConcurrentReconciles :: int
  Config_MetricsBindAddress :: string
  Config_HealthProbeBindAddress :: string
  Config_MetricsSecure :: bool
  Config_MetricsCertDir :: string
  Config_MetricsCertName :: string
  Config_MetricsCertKey :: string
  Config_GracefulShutdownTimeout :: duration
  Config_WatchAllNamespaces :: bool
  Config_WatchNamespace :: string
  Config_DependencyWatchLabelSelector :: "strmap \<Rightarrow> bool"  \<comment> \<open>its \<^verbatim>\<open>Matches\<close> method\<close>
  Config_SourceAPIGroup :: string
  Config_SourceAPIVersion :: string
  Config_HTTPRetry :: int
  Config_HTTPTimeout :: duration
  Config_ReleaseStorageDriver :: string
  Config_ReleaseStorageSQLConnection :: string
  Config_KubeQPSLimit :: int
  Config_KubeBurstLimit :: int
  Config_KubeRequestTimeout :: duration
  Config_NetworkParallelism :: int
  Config_DenoBinaryPath :: string
  Config_TempDir :: string
  Config_LogLevel :: string

section \<open>Arguments of the nelm library\<close>

record KubeConnectionOptions =
  Kube_APIServerAddress :: string
  Kube_TLSCAPath :: string
  Kube_BearerTokenPath :: string
  Kube_QPSLimit :: int
  Kube_BurstLimit :: int
  Kube_RequestTimeout :: duration
  Kube_ImpersonateUser :: string

record TrackingOptions =
  TO_NoProgressTablePrint :: bool
  TO_NoPodLogs :: bool
  TO_TrackReadinessTimeout :: duration
  TO_TrackCreationTimeout :: duration
  TO_TrackDeletionTimeout :: duration
  TO_NoFinalTracking :: bool

record ResourceValidationOptions =
  VO_NoResourceValidation :: bool
  VO_NoValuesSchemaValidation :: bool
  VO_ValidationSkip :: "string list"
  VO_ValidationExtraSchemas :: "string list"
  VO_ValidationSchemaCacheLifetime :: duration

record ReleaseInstallRuntimeOptions =
  RO_Validation :: ResourceValidationOptions
  RO_ExtraAnnotations :: strmap
  RO_ExtraLabels :: strmap
  RO_ExtraRuntimeAnnotations :: strmap
  RO_ExtraRuntimeLabels :: strmap
  RO_ReleaseInfoAnnotations :: strmap
  RO_ReleaseLabels :: strmap
  RO_ReleaseStorageDriver :: string
  RO_ReleaseStorageSQLConnection :: string
  RO_ForceAdoption :: bool
  RO_PatchesFiles :: "string list"
  RO_ReleaseHistoryLimit :: int
  RO_NoInstallStandaloneCRDs :: bool
  RO_DefaultDeletePropagation :: string
  RO_NoRemoveManualChanges :: bool
  RO_DefaultPatchesDisable :: bool

record ValuesOptions =
  ValuesO_ValuesFiles :: "string list"
  ValuesO_RootSetJSON :: "string list"
  ValuesO_DefaultValuesDisable :: bool

record SecretValuesOptions =
  SecretO_SecretKey :: string
  SecretO_SecretValuesFiles :: "string list"
  SecretO_DefaultSecretValuesDisable :: bool

record ReleasePlanInstallOptions =
  Plan_Kube :: KubeConnectionOptions
  Plan_Runtime :: ReleaseInstallRuntimeOptions
  Plan_Values :: ValuesOptions
  Plan_SecretValues :: SecretValuesOptions
  Plan_Chart :: string
  Plan_ChartAppVersion :: string
  Plan_ChartProvenanceKeyring :: string
  Plan_ChartProvenanceStrategy :: string
  Plan_DenoBinaryPath :: string
  Plan_ErrorIfChangesPlanned :: bool
  Plan_IgnoreBundleJS :: bool
  Plan_NetworkParallelism :: int
  Plan_TemplatesAllowDNS :: bool
  Plan_TempDirPath :: string
  Plan_Timeout :: duration

record ReleaseInstallOptions =
  Inst_Kube :: KubeConnectionOptions
  Inst_Runtime :: ReleaseInstallRuntimeOptions
  Inst_Tracking :: TrackingOptions
  Inst_Values :: ValuesOptions
  Inst_SecretValues :: SecretValuesOptions
  Inst_Chart :: string
  Inst_ChartAppVersion :: string
  Inst_ChartProvenanceKeyring :: string
  Inst_ChartProvenanceStrategy :: string
  Inst_DenoBinaryPath :: string
  Inst_IgnoreBundleJS :: bool
  Inst_NetworkParallelism :: int
  Inst_TemplatesAllowDNS :: bool
  Inst_TempDirPath :: string
  Inst_Timeout :: duration
  Inst_LegacyPlanArtifact :: "opaque option"
  Inst_PlanArtifactLifetime :: duration

record ReleaseRollbackOptions =
  Roll_PatchesFiles :: "string list"
  Roll_Kube :: KubeConnectionOptions
  Roll_Validation :: ResourceValidationOptions
  Roll_Tracking :: TrackingOptions
  Roll_ReleaseStorageDriver :: string
  Roll_ReleaseStorageSQLConnection :: string
  Roll_NetworkParallelism :: int
  Roll_TempDirPath :: string
  Roll_Timeout :: duration
  Roll_ExtraRuntimeAnnotations :: strmap
  Roll_ExtraRuntimeLabels :: strmap
  Roll_ReleaseInfoAnnotations :: strmap
  Roll_ReleaseLabels :: strmap
  Roll_ForceAdoption :: bool
  Roll_Revision :: int
  Roll_ReleaseHistoryLimit :: int
  Roll_DefaultDeletePropagation :: string
  Roll_NoRemoveManualChanges :: bool
  Roll_DefaultPatchesDisable :: bool

record ReleaseUninstallOptions =
  Un_PatchesFiles :: "string list"
  Un_Kube :: KubeConnectionOptions
  Un_Tracking :: TrackingOptions
  Un_ReleaseStorageDriver :: string
  Un_ReleaseStorageSQLConnection :: string
  Un_NetworkParallelism :: int
  Un_TempDirPath :: string
  Un_Timeout :: duration
  Un_ReleaseHistoryLimit :: int
  Un_DeleteReleaseNamespace :: bool
  Un_DefaultDeletePropagation :: string
  Un_NoRemoveManualChanges :: bool
  Un_DefaultPatchesDisable :: bool

record ReleaseGetOptions =
  GetO_Kube :: KubeConnectionOptions
  GetO_OutputNoPrint :: bool
  GetO_ReleaseStorageDriver :: string
  GetO_ReleaseStorageSQLConnection :: string
  GetO_Revision :: int

text \<open>The latest stored revision, \<^verbatim>\<open>action.ReleaseGetResultRelease\<close>.\<close>

record StoredRelease =
  Stored_Revision :: int
  Stored_Status :: string
  Stored_StorageLabels :: strmap

text \<open>The patches file of nelm's \<^verbatim>\<open>spec\<close> package.\<close>

record SpecResourceMatcher =
  SM_Kinds :: "string list"
  SM_Names :: "string list"
  SM_Namespaces :: "string list"
  SM_Groups :: "string list"
  SM_Versions :: "string list"
  SM_Charts :: "string list"
  SM_Labels :: strmap
  SM_Annotations :: strmap

record SpecPatch =
  SP_Match :: SpecResourceMatcher
  SP_Type :: string
  SP_Patch :: string

record PatchesFile =
  PF_RenderPatches :: "SpecPatch list"
  PF_DiffPatches :: "SpecPatch list"

section \<open>Calls and programs\<close>

record NamespacedName =
  NN_Namespace :: string
  NN_Name :: string

type_synonym obj_key = "GroupVersionKind \<times> NamespacedName"

datatype call =
  CGetRelease NamespacedName
| CPatchRelease Release Release
| CStatusUpdate Release
| CGetObject GroupVersionKind NamespacedName
| CCreateSource SourceObject
| CUpdateObject json
| CDeleteObject GroupVersionKind NamespacedName "(string \<times> string) option"
| CApplyHelmChart HelmChart
| CGetConfigMap NamespacedName
| CGetSecret NamespacedName
| CListReleases string string
| CMkdirTemp string string
| CRemoveAll string
| CCreateTemp string string
| CWriteFile string string
| CCloseFile string
| CRemoveFile string
| CHttpGet string string int duration
| CReleaseGet string string ReleaseGetOptions
| CReleasePlanInstall string string ReleasePlanInstallOptions
| CReleaseInstall string string ReleaseInstallOptions
| CReleaseRollback string string ReleaseRollbackOptions
| CReleaseUninstall string string ReleaseUninstallOptions
| CNewKubeConfig KubeConnectionOptions string
| CNewClientFactory opaque
| CNewReleaseStorage string string opaque string
| CUpdateLabels opaque string int strmap
| CEvent Release string string string

record 'w sys =
  world :: 'w
  calls :: "(call \<times> bool) list"

type_synonym ('w, 'a) io = "('w sys, 'a) state"

definition perform :: "call \<Rightarrow> ('a \<Rightarrow> bool) \<Rightarrow> ('w \<Rightarrow> 'a \<times> 'w) \<Rightarrow> ('w, 'a) io" where
  "perform c ok f = State (\<lambda>s.
     case f (world s) of (a, w) \<Rightarrow> (a, \<lparr>world = w, calls = calls s @ [(c, ok a)]\<rparr>))"

definition succeeded :: "'e + 'a \<Rightarrow> bool" where
  "succeeded r = (case r of Inl _ \<Rightarrow> False | Inr _ \<Rightarrow> True)"

lemma succeeded_simps [simp]: "succeeded (Inl e) = False" "succeeded (Inr a) = True"
  by (simp_all add: succeeded_def)

definition no_error :: "error option \<Rightarrow> bool" where
  "no_error e = (e = None)"

lemma no_error_simps [simp]: "no_error None = True" "no_error (Some e) = False"
  by (simp_all add: no_error_def)

definition observe :: "('w \<Rightarrow> 'a) \<Rightarrow> ('w, 'a) io" where
  "observe f = State (\<lambda>s. (f (world s), s))"

section \<open>The environment of the reconciler\<close>

record 'w kube_client =
  client_GetRelease :: "NamespacedName \<Rightarrow> 'w \<Rightarrow> (error + Release) \<times> 'w"
  client_PatchRelease :: "Release \<Rightarrow> Release \<Rightarrow> 'w \<Rightarrow> (error + Release) \<times> 'w"
  client_StatusUpdate :: "Release \<Rightarrow> 'w \<Rightarrow> (error + Release) \<times> 'w"
  client_GetObject :: "GroupVersionKind \<Rightarrow> NamespacedName \<Rightarrow> 'w \<Rightarrow> (error + json) \<times> 'w"
  client_CreateSource :: "SourceObject \<Rightarrow> 'w \<Rightarrow> error option \<times> 'w"
  client_UpdateObject :: "json \<Rightarrow> 'w \<Rightarrow> (error + json) \<times> 'w"
  client_DeleteObject ::
    "GroupVersionKind \<Rightarrow> NamespacedName \<Rightarrow> (string \<times> string) option \<Rightarrow> 'w \<Rightarrow> error option \<times> 'w"
  client_ApplyHelmChart :: "HelmChart \<Rightarrow> 'w \<Rightarrow> (error + HelmChart) \<times> 'w"
  client_GetConfigMap :: "NamespacedName \<Rightarrow> 'w \<Rightarrow> (error + strmap) \<times> 'w"
  client_GetSecret :: "NamespacedName \<Rightarrow> 'w \<Rightarrow> (error + strmap) \<times> 'w"
  client_ListReleases :: "string \<Rightarrow> string \<Rightarrow> 'w \<Rightarrow> (error + Release list) \<times> 'w"

record 'w os_env =
  os_Getenv :: "string \<Rightarrow> string"
  os_MkdirTemp :: "string \<Rightarrow> string \<Rightarrow> 'w \<Rightarrow> (error + string) \<times> 'w"
  os_RemoveAll :: "string \<Rightarrow> 'w \<Rightarrow> error option \<times> 'w"
  os_CreateTemp :: "string \<Rightarrow> string \<Rightarrow> 'w \<Rightarrow> (error + string) \<times> 'w"
  os_Write :: "string \<Rightarrow> string \<Rightarrow> 'w \<Rightarrow> error option \<times> 'w"
  os_Close :: "string \<Rightarrow> 'w \<Rightarrow> error option \<times> 'w"
  os_Remove :: "string \<Rightarrow> 'w \<Rightarrow> error option \<times> 'w"
  resty_Get :: "string \<Rightarrow> string \<Rightarrow> int \<Rightarrow> duration \<Rightarrow> 'w \<Rightarrow> (error + int) \<times> 'w"

record 'w nelm_lib =
  nelm_DefaultResourceValidationCacheLifetime :: duration
  nelm_ReleaseGet :: "string \<Rightarrow> string \<Rightarrow> ReleaseGetOptions \<Rightarrow> 'w \<Rightarrow> (error + StoredRelease option) \<times> 'w"
  nelm_ReleasePlanInstall ::
    "string \<Rightarrow> string \<Rightarrow> ReleasePlanInstallOptions \<Rightarrow> 'w \<Rightarrow> (opaque option \<times> error option) \<times> 'w"
  nelm_ReleaseInstall :: "string \<Rightarrow> string \<Rightarrow> ReleaseInstallOptions \<Rightarrow> 'w \<Rightarrow> error option \<times> 'w"
  nelm_ReleaseRollback :: "string \<Rightarrow> string \<Rightarrow> ReleaseRollbackOptions \<Rightarrow> 'w \<Rightarrow> error option \<times> 'w"
  nelm_ReleaseUninstall :: "string \<Rightarrow> string \<Rightarrow> ReleaseUninstallOptions \<Rightarrow> 'w \<Rightarrow> error option \<times> 'w"
  nelm_NewKubeConfig :: "KubeConnectionOptions \<Rightarrow> string \<Rightarrow> 'w \<Rightarrow> (error + opaque) \<times> 'w"
  nelm_NewClientFactory :: "opaque \<Rightarrow> 'w \<Rightarrow> (error + opaque) \<times> 'w"
  nelm_NewReleaseStorage :: "string \<Rightarrow> string \<Rightarrow> opaque \<Rightarrow> string \<Rightarrow> 'w \<Rightarrow> (error + opaque) \<times> 'w"
  nelm_UpdateLabels :: "opaque \<Rightarrow> string \<Rightarrow> int \<Rightarrow> strmap \<Rightarrow> 'w \<Rightarrow> error option \<times> 'w"

text \<open>\<open>lib_SetStatusCondition\<close> reads the clock of the world.\<close>

record 'w k8s_lib =
  lib_source :: source_lib
  lib_SetStatusCondition :: "'w \<Rightarrow> Condition list \<Rightarrow> Condition \<Rightarrow> Condition list"
  lib_ContainsFinalizer :: "string list \<Rightarrow> string \<Rightarrow> bool"
  lib_AddFinalizer :: "string list \<Rightarrow> string \<Rightarrow> string list"
  lib_RemoveFinalizer :: "string list \<Rightarrow> string \<Rightarrow> string list"
  lib_SetControllerReference :: "Release \<Rightarrow> HelmChart \<Rightarrow> error + HelmChart"
  lib_RetryOnConflict ::
    "('w, error + (json \<times> string list) option) io \<Rightarrow> ('w, error + (json \<times> string list) option) io"
  lib_GetAnnotations :: "json \<Rightarrow> annotations option"
  lib_SetAnnotations :: "json \<Rightarrow> annotations \<Rightarrow> json"
  lib_GetResourceVersion :: "json \<Rightarrow> string"
  lib_GetUID :: "json \<Rightarrow> string"
  lib_NestedString :: "json \<Rightarrow> string list \<Rightarrow> error + string option"
  lib_NestedSlice :: "json \<Rightarrow> string list \<Rightarrow> error + json list option"
  lib_NestedStringSlice :: "json \<Rightarrow> string list \<Rightarrow> error + string list option"
  lib_yaml_Marshal :: "PatchesFile \<Rightarrow> error + string"
  lib_IsReady :: "Condition list \<Rightarrow> bool"
  lib_IsReconciling :: "Condition list \<Rightarrow> bool"

text \<open>
  \<^verbatim>\<open>ReleaseReconciler\<close>: its embedded client, its configuration and whether an event recorder is
  set, beside the environment.
\<close>

record 'w ReleaseReconciler =
  rr_Client :: "'w kube_client"
  rr_Config :: OperatorConfig
  rr_EventRecorder :: bool
  rr_Os :: "'w os_env"
  rr_Nelm :: "'w nelm_lib"
  rr_Lib :: "'w k8s_lib"

abbreviation "api_group r \<equiv> Config_SourceAPIGroup (rr_Config r)"
abbreviation "api_version r \<equiv> Config_SourceAPIVersion (rr_Config r)"

section \<open>Symbolic execution\<close>

lemma run_perform [wp]:
  "run_state (perform c ok f) s =
     (fst (f (world s)),
      \<lparr>world = snd (f (world s)), calls = calls s @ [(c, ok (fst (f (world s))))]\<rparr>)"
  by (simp add: perform_def split_beta)

lemma run_observe [wp]: "run_state (observe f) s = (f (world s), s)"
  by (simp add: observe_def)

lemma hoare_perform:
  "(\<And>s a w. P s \<Longrightarrow> f (world s) = (a, w) \<Longrightarrow> Q a \<lparr>world = w, calls = calls s @ [(c, ok a)]\<rparr>) \<Longrightarrow>
   hoare P (perform c ok f) Q"
  by (simp add: hoare_def wp split_beta)

lemmas [wp] = State_Monad.run_state_return State_Monad.run_state_bind

section \<open>The calls a program makes\<close>

text \<open>\<open>emits P m\<close>: every call that \<open>m\<close> makes, on any run, satisfies \<open>P\<close>.\<close>

definition emits :: "(call \<times> bool \<Rightarrow> bool) \<Rightarrow> ('w, 'a) io \<Rightarrow> bool" where
  "emits P m \<longleftrightarrow> (\<forall>s. \<exists>cs. calls (snd (run_state m s)) = calls s @ cs \<and> list_all P cs)"

text \<open>The calls that one run of \<open>m\<close> adds.\<close>

definition trace :: "('w, 'a) io \<Rightarrow> 'w sys \<Rightarrow> (call \<times> bool) list" where
  "trace m s = drop (length (calls s)) (calls (snd (run_state m s)))"

lemma emits_return [emits_intro]: "emits P (returnM a)"
  by (simp add: emits_def)

lemma emits_observe [emits_intro]: "emits P (observe f)"
  by (simp add: emits_def observe_def)

lemma emits_bind [emits_intro]:
  assumes "emits P m" and "\<And>a. emits P (f a)"
  shows "emits P (State_Monad.bind m f)"
  unfolding emits_def
proof
  fix s
  obtain a t where m: "run_state m s = (a, t)" by fastforce
  with assms(1) obtain cs where cs: "calls t = calls s @ cs" "list_all P cs"
    unfolding emits_def by (metis snd_conv)
  from assms(2) [of a] obtain ds
    where "calls (snd (run_state (f a) t)) = calls t @ ds" "list_all P ds"
    unfolding emits_def by blast
  with m cs show "\<exists>cs. calls (snd (run_state (State_Monad.bind m f) s)) = calls s @ cs \<and> list_all P cs"
    by (intro exI [of _ "cs @ ds"]) simp
qed

lemma emits_perform [emits_intro]: "(\<And>b. P (c, b)) \<Longrightarrow> emits P (perform c ok f)"
  by (simp add: emits_def wp)

lemma emits_if [emits_intro]:
  "(b \<Longrightarrow> emits P m) \<Longrightarrow> (\<not> b \<Longrightarrow> emits P n) \<Longrightarrow> emits P (if b then m else n)"
  by simp

lemma emits_case_sum [emits_intro]:
  "(\<And>e. x = Inl e \<Longrightarrow> emits P (f e)) \<Longrightarrow> (\<And>a. x = Inr a \<Longrightarrow> emits P (g a)) \<Longrightarrow>
   emits P (case x of Inl e \<Rightarrow> f e | Inr a \<Rightarrow> g a)"
  by (cases x) simp_all

lemma emits_case_option [emits_intro]:
  "(x = None \<Longrightarrow> emits P m) \<Longrightarrow> (\<And>a. x = Some a \<Longrightarrow> emits P (g a)) \<Longrightarrow>
   emits P (case x of None \<Rightarrow> m | Some a \<Rightarrow> g a)"
  by (cases x) simp_all

lemma emits_case_prod [emits_intro]:
  "(\<And>a b. x = (a, b) \<Longrightarrow> emits P (f a b)) \<Longrightarrow> emits P (case x of (a, b) \<Rightarrow> f a b)"
  by (cases x) simp

lemma emits_let [emits_intro]: "emits P (f a) \<Longrightarrow> emits P (let x = a in f x)"
  by simp

lemma emits_mono: "emits P m \<Longrightarrow> (\<And>c. P c \<Longrightarrow> Q c) \<Longrightarrow> emits Q m"
  unfolding emits_def by (metis list.pred_mono_strong)

lemma emits_trace: "emits P m \<Longrightarrow> list_all P (trace m s)"
  unfolding emits_def trace_def by (metis append_eq_conv_conj)

lemma emits_grows: "emits P m \<Longrightarrow> calls (snd (run_state m s)) = calls s @ trace m s"
  unfolding emits_def trace_def by (metis append_eq_conv_conj)

lemma trace_bind:
  assumes "emits P m" and "\<And>a. emits Q (f a)" and "run_state m s = (a, t)"
  shows "trace (State_Monad.bind m f) s = trace m s @ trace (f a) t"
proof -
  have "calls t = calls s @ trace m s"
    using emits_grows [OF assms(1), of s] assms(3) by simp
  moreover have "calls (snd (run_state (f a) t)) = calls t @ trace (f a) t"
    using emits_grows [OF assms(2)] .
  ultimately have "calls (snd (run_state (f a) t)) = calls s @ trace m s @ trace (f a) t"
    by simp
  with assms(3) show ?thesis
    by (simp add: trace_def [of "State_Monad.bind m f"])
qed

text \<open>
  \<open>runs m Q\<close>: every run of \<open>m\<close>, from any state, ends with a result and a list of calls that
  satisfy \<open>Q\<close>. The rules compute the list along the program, so that a statement about the
  order of effects is proved by walking through the code once.
\<close>

definition runs :: "('w, 'a) io \<Rightarrow> ('a \<Rightarrow> (call \<times> bool) list \<Rightarrow> bool) \<Rightarrow> bool" where
  "runs m Q \<longleftrightarrow>
     (\<forall>s. \<exists>cs. calls (snd (run_state m s)) = calls s @ cs \<and> Q (fst (run_state m s)) cs)"

lemma runs_return [runs_intro]: "Q a [] \<Longrightarrow> runs (returnM a) Q"
  by (simp add: runs_def)

lemma runs_observe [runs_intro]: "(\<And>w. Q (f w) []) \<Longrightarrow> runs (observe f) Q"
  by (simp add: runs_def observe_def)

lemma runs_perform [runs_intro]:
  "(\<And>a w w'. f w = (a, w') \<Longrightarrow> Q a [(c, ok a)]) \<Longrightarrow> runs (perform c ok f) Q"
  unfolding runs_def run_perform by (metis prod.collapse fst_conv snd_conv sys.select_convs(2))

lemma runs_mono: "runs m R \<Longrightarrow> (\<And>a cs. R a cs \<Longrightarrow> Q a cs) \<Longrightarrow> runs m Q"
  unfolding runs_def by meson

lemma runs_bind [runs_intro]:
  assumes "runs m (\<lambda>a cs. runs (f a) (\<lambda>b ds. Q b (cs @ ds)))"
  shows "runs (State_Monad.bind m f) Q"
  unfolding runs_def
proof
  fix s
  obtain a t where m: "run_state m s = (a, t)" by fastforce
  with assms obtain cs where cs: "calls t = calls s @ cs"
    and f: "runs (f a) (\<lambda>b ds. Q b (cs @ ds))"
    unfolding runs_def by (metis fst_conv snd_conv)
  from f obtain ds where "calls (snd (run_state (f a) t)) = calls t @ ds"
    and "Q (fst (run_state (f a) t)) (cs @ ds)"
    unfolding runs_def by blast
  with m cs show "\<exists>cs. calls (snd (run_state (State_Monad.bind m f) s)) = calls s @ cs \<and>
      Q (fst (run_state (State_Monad.bind m f) s)) cs"
    by (intro exI [of _ "cs @ ds"]) simp
qed

lemma runs_if [runs_intro]:
  "(b \<Longrightarrow> runs m Q) \<Longrightarrow> (\<not> b \<Longrightarrow> runs n Q) \<Longrightarrow> runs (if b then m else n) Q"
  by simp

lemma runs_case_sum [runs_intro]:
  "(\<And>e. x = Inl e \<Longrightarrow> runs (f e) Q) \<Longrightarrow> (\<And>a. x = Inr a \<Longrightarrow> runs (g a) Q) \<Longrightarrow>
   runs (case x of Inl e \<Rightarrow> f e | Inr a \<Rightarrow> g a) Q"
  by (cases x) simp_all

lemma runs_case_option [runs_intro]:
  "(x = None \<Longrightarrow> runs m Q) \<Longrightarrow> (\<And>a. x = Some a \<Longrightarrow> runs (g a) Q) \<Longrightarrow>
   runs (case x of None \<Rightarrow> m | Some a \<Rightarrow> g a) Q"
  by (cases x) simp_all

lemma runs_case_prod [runs_intro]:
  "(\<And>a b. x = (a, b) \<Longrightarrow> runs (f a b) Q) \<Longrightarrow> runs (case x of (a, b) \<Rightarrow> f a b) Q"
  by (cases x) simp

lemma runs_let [runs_intro]: "runs (f a) Q \<Longrightarrow> runs (let x = a in f x) Q"
  by simp

lemma emits_runs: "emits P m \<longleftrightarrow> runs m (\<lambda>_ cs. list_all P cs)"
  by (simp add: emits_def runs_def)

lemma runs_emits: "emits P m \<Longrightarrow> (\<And>a cs. list_all P cs \<Longrightarrow> Q a cs) \<Longrightarrow> runs m Q"
  by (auto simp: emits_runs intro: runs_mono)

lemma runs_conj: "runs m Q \<Longrightarrow> runs m R \<Longrightarrow> runs m (\<lambda>a cs. Q a cs \<and> R a cs)"
  unfolding runs_def by (metis same_append_eq)

lemma runs_trace: "runs m Q \<Longrightarrow> Q (fst (run_state m s)) (trace m s)"
  unfolding runs_def trace_def by (metis append_eq_conv_conj)

text \<open>
  \<open>guarded A B cs\<close>: every call of \<open>cs\<close> in \<open>A\<close> comes after a call in \<open>B\<close>.
\<close>

fun guarded :: "('c \<Rightarrow> bool) \<Rightarrow> ('c \<Rightarrow> bool) \<Rightarrow> 'c list \<Rightarrow> bool" where
  "guarded A B [] = True"
| "guarded A B (c # cs) = (\<not> A c \<and> (B c \<or> guarded A B cs))"

lemma guarded_append:
  "guarded A B (xs @ ys) \<longleftrightarrow> guarded A B xs \<and> ((\<exists>x \<in> set xs. B x) \<or> guarded A B ys)"
  by (induction xs) auto

lemma guarded_none: "list_all (\<lambda>c. \<not> A c) cs \<Longrightarrow> guarded A B cs"
  by (induction cs) auto

lemma guarded_iff:
  "guarded A B cs \<longleftrightarrow> (\<forall>i < length cs. A (cs ! i) \<longrightarrow> (\<exists>j < i. B (cs ! j)))"
proof (induction cs)
  case (Cons c cs)
  then show ?case by (auto simp: All_less_Suc2 Ex_less_Suc2)
qed simp

section \<open>Kinds of calls\<close>

datatype call_kind =
  KReleaseGet | KReleasePatch | KStatusUpdate | KObjectGet | KSourceCreate | KObjectUpdate
| KObjectDelete | KHelmChartApply | KConfigGet | KReleaseList | KMkdirTemp | KRemoveAll | KTempFile
| KHttp | KStorageGet | KPlan | KInstall | KRollback | KUninstall | KStorageConnect | KLabels | KEvent

fun kind_of :: "call \<Rightarrow> call_kind" where
  "kind_of (CGetRelease _) = KReleaseGet"
| "kind_of (CPatchRelease _ _) = KReleasePatch"
| "kind_of (CStatusUpdate _) = KStatusUpdate"
| "kind_of (CGetObject _ _) = KObjectGet"
| "kind_of (CCreateSource _) = KSourceCreate"
| "kind_of (CUpdateObject _) = KObjectUpdate"
| "kind_of (CDeleteObject _ _ _) = KObjectDelete"
| "kind_of (CApplyHelmChart _) = KHelmChartApply"
| "kind_of (CGetConfigMap _) = KConfigGet"
| "kind_of (CGetSecret _) = KConfigGet"
| "kind_of (CListReleases _ _) = KReleaseList"
| "kind_of (CMkdirTemp _ _) = KMkdirTemp"
| "kind_of (CRemoveAll _) = KRemoveAll"
| "kind_of (CCreateTemp _ _) = KTempFile"
| "kind_of (CWriteFile _ _) = KTempFile"
| "kind_of (CCloseFile _) = KTempFile"
| "kind_of (CRemoveFile _) = KTempFile"
| "kind_of (CHttpGet _ _ _ _) = KHttp"
| "kind_of (CReleaseGet _ _ _) = KStorageGet"
| "kind_of (CReleasePlanInstall _ _ _) = KPlan"
| "kind_of (CReleaseInstall _ _ _) = KInstall"
| "kind_of (CReleaseRollback _ _ _) = KRollback"
| "kind_of (CReleaseUninstall _ _ _) = KUninstall"
| "kind_of (CNewKubeConfig _ _) = KStorageConnect"
| "kind_of (CNewClientFactory _) = KStorageConnect"
| "kind_of (CNewReleaseStorage _ _ _ _) = KStorageConnect"
| "kind_of (CUpdateLabels _ _ _ _) = KLabels"
| "kind_of (CEvent _ _ _ _) = KEvent"

definition in_kinds :: "call_kind set \<Rightarrow> call \<times> bool \<Rightarrow> bool" where
  "in_kinds K c \<longleftrightarrow> kind_of (fst c) \<in> K"

lemma in_kinds_simp [simp]: "in_kinds K (c, b) \<longleftrightarrow> kind_of c \<in> K"
  by (simp add: in_kinds_def)

lemma emits_kinds_mono: "emits (in_kinds K) m \<Longrightarrow> K \<subseteq> K' \<Longrightarrow> emits (in_kinds K') m"
  by (erule emits_mono) (auto simp: in_kinds_def)

end
