(* ===== verification/Reference_Env.thy ===== *)
theory Reference_Env
  imports Environment
begin

text \<open>
  An executable environment: an in-memory API server, file system, HTTP server and nelm
  library behind the records of theory \<open>Environment\<close>. No theorem about the operator depends on
  it: the theorems hold for every environment that satisfies the hypotheses they state. It
  shows that those hypotheses hold together, and the concrete runs of the development are runs
  in it. Any call can be made to fail, by \<open>mw_fail\<close>.
\<close>

section \<open>The world\<close>

record mem_world =
  mw_objects :: "(obj_key \<times> json) list"
  mw_releases :: "(NamespacedName \<times> Release) list"
  mw_stored :: "StoredRelease option"
  mw_configmaps :: "(NamespacedName \<times> (string \<times> string) list) list"
  mw_secrets :: "(NamespacedName \<times> (string \<times> string) list) list"
  mw_files :: "(string \<times> string) list"
  mw_next :: nat
  mw_http :: int
  mw_plan :: "opaque option \<times> error option"
  mw_fail :: "call \<Rightarrow> bool"
  mw_now :: string

definition unavailable :: error where
  "unavailable = ExtError OtherClass ''unavailable''"

definition not_found :: error where
  "not_found = ExtError NotFound ''not found''"

lemma error_classes [simp]:
  "\<not> IsNotFound unavailable" "\<not> IsConflict unavailable" "IsNotFound not_found" "\<not> IsConflict not_found"
  by (simp_all add: unavailable_def not_found_def IsNotFound_def IsConflict_def)

text \<open>Results of a call that returns a value, and of one that returns an error or nil.\<close>

definition unless_down :: "call \<Rightarrow> (mem_world \<Rightarrow> (error + 'a) \<times> mem_world) \<Rightarrow> mem_world \<Rightarrow> (error + 'a) \<times> mem_world" where
  "unless_down c f w = (if mw_fail w c then (Inl unavailable, w) else f w)"

definition unless_down_err :: "call \<Rightarrow> (mem_world \<Rightarrow> error option \<times> mem_world) \<Rightarrow> mem_world \<Rightarrow> error option \<times> mem_world" where
  "unless_down_err c f w = (if mw_fail w c then (Some unavailable, w) else f w)"

section \<open>Unstructured objects\<close>

fun json_set :: "json \<Rightarrow> string \<Rightarrow> json \<Rightarrow> json" where
  "json_set (JObject kvs) k v = JObject (AList.update k v kvs)"
| "json_set _ k v = JObject [(k, v)]"

fun json_text :: "json \<Rightarrow> string" where
  "json_text (JString s) = s"
| "json_text _ = ''''"

fun json_strings :: "(string \<times> json) list \<Rightarrow> (string \<times> string) list" where
  "json_strings [] = []"
| "json_strings ((k, v) # kvs) = (k, json_text v) # json_strings kvs"

definition mem_GetAnnotations :: "json \<Rightarrow> annotations option" where
  "mem_GetAnnotations u =
     (case json_field (json_field u ''metadata'') ''annotations'' of
        JObject kvs \<Rightarrow> Some (json_strings kvs)
      | _ \<Rightarrow> None)"

definition mem_SetAnnotations :: "json \<Rightarrow> annotations \<Rightarrow> json" where
  "mem_SetAnnotations u a =
     json_set u ''metadata''
       (json_set (json_field u ''metadata'') ''annotations''
          (JObject (map (\<lambda>(k, v). (k, JString v)) a)))"

definition mem_group :: string where "mem_group = ''source.toolkit.fluxcd.io''"
definition mem_version :: string where "mem_version = ''v1''"

definition mem_okey :: "json \<Rightarrow> obj_key" where
  "mem_okey u =
     (\<lparr>GVK_Group = mem_group, GVK_Version = mem_version, GVK_Kind = json_text (json_field u ''kind'')\<rparr>,
      \<lparr>NN_Namespace = json_text (json_field (json_field u ''metadata'') ''namespace''),
       NN_Name = json_text (json_field (json_field u ''metadata'') ''name'')\<rparr>)"

lemma json_field_set: "json_field (json_set u k v) k' = (if k' = k then v else json_field u k')"
  by (cases u) (auto simp: update_conv' split: option.splits)

lemma json_strings_map [simp]: "json_strings (map (\<lambda>(k, v). (k, JString v)) a) = a"
  by (induction a) auto

lemma mem_Get_SetAnnotations: "mem_GetAnnotations (mem_SetAnnotations u a) = Some a"
  by (simp add: mem_GetAnnotations_def mem_SetAnnotations_def json_field_set)

lemma mem_okey_SetAnnotations: "mem_okey (mem_SetAnnotations u a) = mem_okey u"
  by (simp add: mem_okey_def mem_SetAnnotations_def json_field_set)

text \<open>Reading nested fields: absent is \<open>Inr None\<close>, a field of another type an error.\<close>

fun json_path :: "json \<Rightarrow> string list \<Rightarrow> error + json option" where
  "json_path u [] = Inr (Some u)"
| "json_path (JObject kvs) (k # ks) =
     (case map_of kvs k of None \<Rightarrow> Inr None | Some v \<Rightarrow> json_path v ks)"
| "json_path _ (k # ks) = Inl (ExtError OtherClass ''accessor error'')"

definition mem_nested :: "(json \<Rightarrow> 'a option) \<Rightarrow> json \<Rightarrow> string list \<Rightarrow> error + 'a option" where
  "mem_nested conv u ks =
     (case json_path u ks of
        Inl e \<Rightarrow> Inl e
      | Inr None \<Rightarrow> Inr None
      | Inr (Some v) \<Rightarrow> (case conv v of None \<Rightarrow> Inl (ExtError OtherClass ''accessor error'')
                         | Some a \<Rightarrow> Inr (Some a)))"

fun as_JString :: "json \<Rightarrow> string option" where
  "as_JString (JString s) = Some s"
| "as_JString _ = None"

fun as_JArray :: "json \<Rightarrow> json list option" where
  "as_JArray (JArray xs) = Some xs"
| "as_JArray _ = None"

fun as_strings :: "json \<Rightarrow> string list option" where
  "as_strings (JArray xs) = those (map as_JString xs)"
| "as_strings _ = None"

section \<open>The API server\<close>

definition mem_store :: "mem_world \<Rightarrow> obj_key \<rightharpoonup> json" where
  "mem_store w k =
     (case map_of (mw_objects w) k of
        Some u \<Rightarrow> if mem_okey u = k then Some u else None
      | None \<Rightarrow> None)"

definition mem_put :: "json \<Rightarrow> mem_world \<Rightarrow> mem_world" where
  "mem_put u w = w\<lparr>mw_objects := AList.update (mem_okey u) u (mw_objects w)\<rparr>"

definition mem_drop :: "obj_key \<Rightarrow> mem_world \<Rightarrow> mem_world" where
  "mem_drop k w = w\<lparr>mw_objects := AList.delete k (mw_objects w)\<rparr>"

lemma mem_store_put: "mem_store (mem_put u w) = (mem_store w)(mem_okey u \<mapsto> u)"
  by (rule ext) (simp add: mem_store_def mem_put_def update_conv')

lemma mem_store_drop: "mem_store (mem_drop k w) = (mem_store w)(k := None)"
  by (rule ext) (simp add: mem_store_def mem_drop_def delete_conv')

definition mem_object :: "string \<Rightarrow> SourceMeta \<Rightarrow> json \<Rightarrow> json" where
  "mem_object kind m spec =
     (let u = JObject
        [(''apiVersion'', JString (mem_group @ ''/'' @ mem_version)), (''kind'', JString kind),
         (''metadata'', JObject [(''name'', JString (SMeta_Name m)),
            (''namespace'', JString (SMeta_Namespace m))]),
         (''spec'', spec)]
      in case SMeta_Annotations m of None \<Rightarrow> u | Some a \<Rightarrow> mem_SetAnnotations u a)"

lemma mem_okey_object:
  "mem_okey (mem_object kind m spec) =
     (\<lparr>GVK_Group = mem_group, GVK_Version = mem_version, GVK_Kind = kind\<rparr>,
      \<lparr>NN_Namespace = SMeta_Namespace m, NN_Name = SMeta_Name m\<rparr>)"
  by (simp add: mem_object_def mem_SetAnnotations_def json_field_set mem_okey_def Let_def split: option.splits)

lemma mem_annotations_object:
  "SMeta_Annotations m = Some a \<Longrightarrow> mem_GetAnnotations (mem_object kind m spec) = Some a"
  by (simp add: mem_object_def mem_Get_SetAnnotations)

text \<open>The serialised specification keeps the URL of the source, enough to tell sources apart.\<close>

definition mem_spec :: "source_spec \<Rightarrow> json" where
  "mem_spec sp = JObject [(''url'', JString
     (case sp of GitRepository g \<Rightarrow> GSpec_URL g | HelmRepository h \<Rightarrow> HSpec_URL h
      | Bucket b \<Rightarrow> BSpec_Endpoint b | OCIRepository c \<Rightarrow> OSpec_URL c))]"

definition mem_GetRelease :: "NamespacedName \<Rightarrow> mem_world \<Rightarrow> (error + Release) \<times> mem_world" where
  "mem_GetRelease n = unless_down (CGetRelease n) (\<lambda>w.
     (case map_of (mw_releases w) n of None \<Rightarrow> Inl not_found | Some rel \<Rightarrow> Inr rel, w))"

definition mem_key :: "Release \<Rightarrow> NamespacedName" where
  "mem_key rel = \<lparr>NN_Namespace = rel_Namespace rel, NN_Name = rel_Name rel\<rparr>"

definition mem_put_release :: "Release \<Rightarrow> mem_world \<Rightarrow> mem_world" where
  "mem_put_release rel w = w\<lparr>mw_releases := AList.update (mem_key rel) rel (mw_releases w)\<rparr>"

definition mem_PatchRelease :: "Release \<Rightarrow> Release \<Rightarrow> mem_world \<Rightarrow> (error + Release) \<times> mem_world" where
  "mem_PatchRelease rel base = unless_down (CPatchRelease rel base) (\<lambda>w.
     (Inr rel, mem_put_release rel w))"

definition mem_StatusUpdate :: "Release \<Rightarrow> mem_world \<Rightarrow> (error + Release) \<times> mem_world" where
  "mem_StatusUpdate rel = unless_down (CStatusUpdate rel) (\<lambda>w. (Inr rel, mem_put_release rel w))"

definition mem_GetObject ::
  "GroupVersionKind \<Rightarrow> NamespacedName \<Rightarrow> mem_world \<Rightarrow> (error + json) \<times> mem_world" where
  "mem_GetObject gvk key = unless_down (CGetObject gvk key) (\<lambda>w.
     (case mem_store w (gvk, key) of None \<Rightarrow> Inl not_found | Some u \<Rightarrow> Inr u, w))"

definition mem_CreateSource :: "SourceObject \<Rightarrow> mem_world \<Rightarrow> error option \<times> mem_world" where
  "mem_CreateSource src = unless_down_err (CCreateSource src) (\<lambda>w.
     let u = mem_object (Type_Kind (Source_Type src)) (Source_Meta src) (mem_spec (Source_Spec src))
     in case mem_store w (mem_okey u) of
          Some _ \<Rightarrow> (Some (ExtError OtherClass ''already exists''), w)
        | None \<Rightarrow> (None, mem_put u w))"

definition mem_UpdateObject :: "json \<Rightarrow> mem_world \<Rightarrow> (error + json) \<times> mem_world" where
  "mem_UpdateObject u = unless_down (CUpdateObject u) (\<lambda>w.
     case mem_store w (mem_okey u) of None \<Rightarrow> (Inl not_found, w) | Some _ \<Rightarrow> (Inr u, mem_put u w))"

definition mem_DeleteObject ::
  "GroupVersionKind \<Rightarrow> NamespacedName \<Rightarrow> (string \<times> string) option \<Rightarrow> mem_world \<Rightarrow>
   error option \<times> mem_world" where
  "mem_DeleteObject gvk key pre = unless_down_err (CDeleteObject gvk key pre) (\<lambda>w.
     case mem_store w (gvk, key) of None \<Rightarrow> (Some not_found, w)
     | Some _ \<Rightarrow> (None, mem_drop (gvk, key) w))"

definition mem_ApplyHelmChart :: "HelmChart \<Rightarrow> mem_world \<Rightarrow> (error + HelmChart) \<times> mem_world" where
  "mem_ApplyHelmChart hc = unless_down (CApplyHelmChart hc) (\<lambda>w.
     let k = mem_okey (mem_object HelmChartKind (HelmChart_Meta hc) JNull)
     in (Inr hc, case mem_store w k of
           Some _ \<Rightarrow> w
         | None \<Rightarrow> mem_put (mem_object HelmChartKind (HelmChart_Meta hc) (JObject [])) w))"

definition mem_data :: "(string \<times> string) list \<Rightarrow> strmap" where
  "mem_data kvs = map_of kvs"

definition mem_GetConfigMap :: "NamespacedName \<Rightarrow> mem_world \<Rightarrow> (error + strmap) \<times> mem_world" where
  "mem_GetConfigMap n = unless_down (CGetConfigMap n) (\<lambda>w.
     (case map_of (mw_configmaps w) n of None \<Rightarrow> Inl not_found | Some d \<Rightarrow> Inr (mem_data d), w))"

definition mem_GetSecret :: "NamespacedName \<Rightarrow> mem_world \<Rightarrow> (error + strmap) \<times> mem_world" where
  "mem_GetSecret n = unless_down (CGetSecret n) (\<lambda>w.
     (case map_of (mw_secrets w) n of None \<Rightarrow> Inl not_found | Some d \<Rightarrow> Inr (mem_data d), w))"

definition mem_ListReleases ::
  "(string \<Rightarrow> Release \<Rightarrow> string list) \<Rightarrow> string \<Rightarrow> string \<Rightarrow> mem_world \<Rightarrow> (error + Release list) \<times> mem_world" where
  "mem_ListReleases indexer field v = unless_down (CListReleases field v) (\<lambda>w.
     (Inr (filter (\<lambda>rel. v \<in> set (indexer field rel)) (map snd (mw_releases w))), w))"

definition mem_client :: "(string \<Rightarrow> Release \<Rightarrow> string list) \<Rightarrow> mem_world kube_client" where
  "mem_client indexer =
     \<lparr>client_GetRelease = mem_GetRelease, client_PatchRelease = mem_PatchRelease,
      client_StatusUpdate = mem_StatusUpdate, client_GetObject = mem_GetObject,
      client_CreateSource = mem_CreateSource, client_UpdateObject = mem_UpdateObject,
      client_DeleteObject = mem_DeleteObject, client_ApplyHelmChart = mem_ApplyHelmChart,
      client_GetConfigMap = mem_GetConfigMap, client_GetSecret = mem_GetSecret,
      client_ListReleases = mem_ListReleases indexer\<rparr>"

section \<open>Files and HTTP\<close>

text \<open>A temporary name is the directory, the pattern and a number that was not used before.\<close>

definition mem_temp :: "string \<Rightarrow> string \<Rightarrow> mem_world \<Rightarrow> string" where
  "mem_temp dir pat w = dir @ ''/'' @ pat @ fmt_nat (mw_next w)"

definition mem_MkdirTemp :: "string \<Rightarrow> string \<Rightarrow> mem_world \<Rightarrow> (error + string) \<times> mem_world" where
  "mem_MkdirTemp dir pat = unless_down (CMkdirTemp dir pat) (\<lambda>w.
     (Inr (mem_temp dir pat w), w\<lparr>mw_next := Suc (mw_next w)\<rparr>))"

definition mem_CreateTemp :: "string \<Rightarrow> string \<Rightarrow> mem_world \<Rightarrow> (error + string) \<times> mem_world" where
  "mem_CreateTemp dir pat = unless_down (CCreateTemp dir pat) (\<lambda>w.
     (Inr (mem_temp dir pat w),
      w\<lparr>mw_next := Suc (mw_next w), mw_files := (mem_temp dir pat w, '''') # mw_files w\<rparr>))"

definition mem_Write :: "string \<Rightarrow> string \<Rightarrow> mem_world \<Rightarrow> error option \<times> mem_world" where
  "mem_Write f d = unless_down_err (CWriteFile f d) (\<lambda>w.
     (None, w\<lparr>mw_files := AList.update f d (mw_files w)\<rparr>))"

definition mem_Remove :: "string \<Rightarrow> mem_world \<Rightarrow> error option \<times> mem_world" where
  "mem_Remove f = unless_down_err (CRemoveFile f) (\<lambda>w. (None, w\<lparr>mw_files := AList.delete f (mw_files w)\<rparr>))"

definition mem_RemoveAll :: "string \<Rightarrow> mem_world \<Rightarrow> error option \<times> mem_world" where
  "mem_RemoveAll d = unless_down_err (CRemoveAll d) (\<lambda>w.
     (None, w\<lparr>mw_files := filter (\<lambda>(f, _). \<not> strings_HasPrefix f (d @ ''/'')) (mw_files w)\<rparr>))"

definition mem_os :: "mem_world os_env" where
  "mem_os =
     \<lparr>os_Getenv = (\<lambda>k. if k = ''KUBERNETES_SERVICE_HOST'' then ''10.0.0.1'' else ''''),
      os_MkdirTemp = mem_MkdirTemp, os_RemoveAll = mem_RemoveAll, os_CreateTemp = mem_CreateTemp,
      os_Write = mem_Write, os_Close = (\<lambda>f. unless_down_err (CCloseFile f) (\<lambda>w. (None, w))),
      os_Remove = mem_Remove,
      resty_Get = (\<lambda>url out n t. unless_down (CHttpGet url out n t) (\<lambda>w. (Inr (mw_http w), w)))\<rparr>"

section \<open>The nelm library\<close>

definition mem_revision :: "mem_world \<Rightarrow> strmap \<Rightarrow> StoredRelease" where
  "mem_revision w labels =
     \<lparr>Stored_Revision = (case mw_stored w of None \<Rightarrow> 1 | Some s \<Rightarrow> Stored_Revision s + 1),
      Stored_Status = ''deployed'', Stored_StorageLabels = labels\<rparr>"

definition mem_nelm :: "mem_world nelm_lib" where
  "mem_nelm =
     \<lparr>nelm_DefaultResourceValidationCacheLifetime = 60 * time_Minute,
      nelm_ReleaseGet = (\<lambda>n ns opts. unless_down (CReleaseGet n ns opts) (\<lambda>w.
        (case mw_stored w of None \<Rightarrow> Inl (ExtError ReleaseNotFoundError ''release not found'')
         | Some s \<Rightarrow> Inr (Some s), w))),
      nelm_ReleasePlanInstall = (\<lambda>n ns opts w.
        if mw_fail w (CReleasePlanInstall n ns opts) then ((None, Some unavailable), w)
        else (mw_plan w, w)),
      nelm_ReleaseInstall = (\<lambda>n ns opts. unless_down_err (CReleaseInstall n ns opts) (\<lambda>w.
        (None, w\<lparr>mw_stored := Some (mem_revision w (RO_ReleaseLabels (Inst_Runtime opts)))\<rparr>))),
      nelm_ReleaseRollback = (\<lambda>n ns opts. unless_down_err (CReleaseRollback n ns opts) (\<lambda>w.
        (None, w\<lparr>mw_stored := Some (mem_revision w (Roll_ReleaseLabels opts))\<rparr>))),
      nelm_ReleaseUninstall = (\<lambda>n ns opts. unless_down_err (CReleaseUninstall n ns opts) (\<lambda>w.
        (None, w\<lparr>mw_stored := None\<rparr>))),
      nelm_NewKubeConfig = (\<lambda>o1 ns. unless_down (CNewKubeConfig o1 ns) (\<lambda>w. (Inr (Opaque ''config''), w))),
      nelm_NewClientFactory = (\<lambda>c. unless_down (CNewClientFactory c) (\<lambda>w. (Inr (Opaque ''factory''), w))),
      nelm_NewReleaseStorage = (\<lambda>ns d f c. unless_down (CNewReleaseStorage ns d f c) (\<lambda>w.
        (Inr (Opaque ''storage''), w))),
      nelm_UpdateLabels = (\<lambda>st n rev ls. unless_down_err (CUpdateLabels st n rev ls) (\<lambda>w.
        (None, w\<lparr>mw_stored := map_option (\<lambda>s. s\<lparr>Stored_StorageLabels := Stored_StorageLabels s ++ ls\<rparr>)
                  (mw_stored w)\<rparr>)))\<rparr>"

section \<open>Helper functions\<close>

text \<open>A condition replaces the one of its type, in place, or is appended.\<close>

fun mem_set_condition :: "Condition list \<Rightarrow> Condition \<Rightarrow> Condition list" where
  "mem_set_condition [] c = [c]"
| "mem_set_condition (d # ds) c =
     (if Cond_Type d = Cond_Type c
      then (if Cond_Status d = Cond_Status c
            then c\<lparr>Cond_LastTransitionTime := Cond_LastTransitionTime d\<rparr> else c) # ds
      else d # mem_set_condition ds c)"

definition mem_SetStatusCondition :: "mem_world \<Rightarrow> Condition list \<Rightarrow> Condition \<Rightarrow> Condition list" where
  "mem_SetStatusCondition w ds c =
     mem_set_condition ds
       (if Cond_LastTransitionTime c = '''' then c\<lparr>Cond_LastTransitionTime := mw_now w\<rparr> else c)"

primrec retry_n :: "nat \<Rightarrow> ('w, error + 'a) io \<Rightarrow> ('w, error + 'a) io" where
  "retry_n 0 m = m"
| "retry_n (Suc n) m = do {
     res \<leftarrow> m;
     case res of
       Inl e \<Rightarrow> if IsConflict e then retry_n n m else returnM (Inl e)
     | Inr a \<Rightarrow> returnM (Inr a)
   }"

definition cond_is :: "string \<Rightarrow> Condition list \<Rightarrow> bool" where
  "cond_is t cs = (\<exists>c \<in> set cs. Cond_Type c = t \<and> Cond_Status c = ''True'')"

definition mem_source_lib :: source_lib where
  "mem_source_lib =
     \<lparr>lib_ToUnstructured = (\<lambda>src. Inr (mem_object (Type_Kind (Source_Type src)) (Source_Meta src)
        (mem_spec (Source_Spec src)))),
      lib_json_Marshal = (\<lambda>j. Inr (json_text (json_field j ''url'')))\<rparr>"

definition mem_lib :: "mem_world k8s_lib" where
  "mem_lib =
     \<lparr>lib_source = mem_source_lib,
      lib_SetStatusCondition = mem_SetStatusCondition,
      lib_ContainsFinalizer = (\<lambda>fs f. f \<in> set fs),
      lib_AddFinalizer = (\<lambda>fs f. if f \<in> set fs then fs else fs @ [f]),
      lib_RemoveFinalizer = (\<lambda>fs f. filter (\<lambda>g. g \<noteq> f) fs),
      lib_SetControllerReference = (\<lambda>rel hc. Inr (hc\<lparr>HelmChart_Meta :=
        (HelmChart_Meta hc)\<lparr>SMeta_OwnerReferences := [Opaque (rel_Name rel)]\<rparr>\<rparr>)),
      lib_RetryOnConflict = retry_n 4,
      lib_GetAnnotations = mem_GetAnnotations,
      lib_SetAnnotations = mem_SetAnnotations,
      lib_GetResourceVersion = (\<lambda>u. json_text (json_field (json_field u ''metadata'') ''resourceVersion'')),
      lib_GetUID = (\<lambda>u. json_text (json_field (json_field u ''metadata'') ''uid'')),
      lib_NestedString = mem_nested as_JString,
      lib_NestedSlice = mem_nested as_JArray,
      lib_NestedStringSlice = mem_nested as_strings,
      lib_yaml_Marshal = (\<lambda>f. Inr (concat (map SP_Patch (PF_RenderPatches f @ PF_DiffPatches f)))),
      lib_IsReady = cond_is ''Ready'',
      lib_IsReconciling = cond_is ''Reconciling''\<rparr>"

section \<open>A configuration, a release and a world to run\<close>

definition mem_config :: OperatorConfig where
  "mem_config =
     \<lparr>Config_DefaultServiceAccountName = ''deployer'', Config_LeaderElect = False,
      Config_MaxConcurrentReconciles = 1, Config_MetricsBindAddress = ''0'',
      Config_HealthProbeBindAddress = '':8081'', Config_MetricsSecure = True,
      Config_MetricsCertDir = '''', Config_MetricsCertName = ''tls.crt'',
      Config_MetricsCertKey = ''tls.key'', Config_GracefulShutdownTimeout = 600 * time_Second,
      Config_WatchAllNamespaces = True, Config_WatchNamespace = '''',
      Config_DependencyWatchLabelSelector = (\<lambda>_. True),
      Config_SourceAPIGroup = mem_group, Config_SourceAPIVersion = mem_version,
      Config_HTTPRetry = 9, Config_HTTPTimeout = 30 * time_Second,
      Config_ReleaseStorageDriver = ''secret'', Config_ReleaseStorageSQLConnection = '''',
      Config_KubeQPSLimit = 50, Config_KubeBurstLimit = 100, Config_KubeRequestTimeout = 0,
      Config_NetworkParallelism = 30, Config_DenoBinaryPath = '''', Config_TempDir = ''/tmp'',
      Config_LogLevel = ''info''\<rparr>"

definition mem_reconciler :: "mem_world ReleaseReconciler" where
  "mem_reconciler =
     \<lparr>rr_Client = mem_client (\<lambda>field rel. []), rr_Config = mem_config, rr_EventRecorder = True,
      rr_Os = mem_os, rr_Nelm = mem_nelm, rr_Lib = mem_lib\<rparr>"

definition empty_world :: mem_world where
  "empty_world =
     \<lparr>mw_objects = [], mw_releases = [], mw_stored = None, mw_configmaps = [], mw_secrets = [],
      mw_files = [], mw_next = 0, mw_http = 200, mw_plan = (None, None), mw_fail = (\<lambda>_. False),
      mw_now = ''2026-01-01T00:00:00Z''\<rparr>"

definition start :: "'w \<Rightarrow> 'w sys" where
  "start w = \<lparr>world = w, calls = []\<rparr>"

definition empty_spec :: ReleaseSpec where
  "empty_spec =
     \<lparr>Spec_Chart = None, Spec_ChartRef = None, Spec_TargetNamespace = '''',
      Spec_Interval = 10 * time_Minute, Spec_Timeout = 5 * time_Minute, Spec_Suspend = False,
      Spec_Values = None, Spec_ValuesFrom = [], Spec_NoDefaultValues = False,
      Spec_SetRootContextJSON = [], Spec_SecretKeyFrom = None, Spec_SecretValuesFrom = [],
      Spec_ServiceAccountName = '''', Spec_NoDefaultSecretValues = False, Spec_Install = None,
      Spec_Rollback = None, Spec_Uninstall = None, Spec_ExtraAnnotations = Map.empty,
      Spec_ExtraLabels = Map.empty, Spec_RuntimeAnnotations = Map.empty,
      Spec_RuntimeLabels = Map.empty, Spec_DiffPatches = [], Spec_RenderPatches = [],
      Spec_AppVersion = '''', Spec_ReleaseInfoAnnotations = Map.empty,
      Spec_ReleaseLabels = Map.empty, Spec_Tracking = None, Spec_Provenance = None,
      Spec_ReleaseStorage = None, Spec_Validation = None, Spec_Typescript = None\<rparr>"

definition empty_status :: ReleaseStatus where
  "empty_status =
     \<lparr>Status_ObservedGeneration = 0, Status_Conditions = [], Status_Revision = 0,
      Status_RevisionStatus = '''', Status_LastAction = '''', Status_LastActionFailures = 0,
      Status_LastAttemptedArtifactRevision = '''', Status_LastAttemptedArtifactDigest = '''',
      Status_ChartSourcePhase = '''', Status_LastAppliedChartSource = None,
      Status_CandidateChartSource = None\<rparr>"

definition demo_release :: Release where
  "demo_release =
     \<lparr>Release_Meta = \<lparr>Meta_Name = ''app'', Meta_Namespace = ''prod'', Meta_Generation = 1,
        Meta_DeletionTimestamp = None, Meta_Finalizers = [ReleaseFinalizerName]\<rparr>,
      Release_Spec = empty_spec, Release_Status = empty_status\<rparr>"

definition demo_oci :: OCIRepositoryChartSource where
  "demo_oci =
     \<lparr>OCI_URL = ''oci://r/c'', OCI_Tag = ''1'', OCI_SemVer = '''', OCI_Digest = '''',
      OCI_SemverFilter = '''', OCI_CredentialsFrom = None, OCI_CertificateFrom = None,
      OCI_ProxySettingsFrom = None, OCI_ServiceAccountName = '''', OCI_Provider = '''',
      OCI_Insecure = False, OCI_Ignore = None, OCI_LayerSelector = None, OCI_Verify = None,
      OCI_Interval = 0, OCI_Timeout = None\<rparr>"

end
