(* ===== verification/Source_Refs.thy ===== *)
theory Source_Refs
  imports Reference_Env
begin

text \<open>
  Shared ownership of the source objects created for inline charts: releases with the same
  chart source in one namespace share one object, which carries the names of its users in an
  annotation. This theory models \<^verbatim>\<open>getChartSourceReleaseRefNamesSlice\<close>,
  \<^verbatim>\<open>ensureChartSourceRef\<close> and \<^verbatim>\<open>cleanupChartSourceRef\<close> of \<^verbatim>\<open>release_controller.go\<close>, states
  what the code relies on of the API client, and proves that the two operations implement
  adding to and removing from a list of user names with deletion at the end.
\<close>

section \<open>The operations\<close>

definition getChartSourceReleaseRefNamesSlice :: "'w k8s_lib \<Rightarrow> json \<Rightarrow> string list" where
  "getChartSourceReleaseRefNamesSlice L obj =
     (case lib_GetAnnotations L obj of
        None \<Rightarrow> []
      | Some annotations \<Rightarrow>
          (let val = (case map_of annotations SourceRefReleaseRefAnnotationName of
                        None \<Rightarrow> [] | Some v \<Rightarrow> v)
           in strings_Split val (CHR '','')))"

definition source_gvk :: "'w ReleaseReconciler \<Rightarrow> string \<Rightarrow> GroupVersionKind" where
  "source_gvk r kind = \<lparr>GVK_Group = api_group r, GVK_Version = api_version r, GVK_Kind = kind\<rparr>"

definition annotate_refs :: "'w k8s_lib \<Rightarrow> json \<Rightarrow> string list \<Rightarrow> json" where
  "annotate_refs L unstruct releaseNames =
     (let annotations = (case lib_GetAnnotations L unstruct of None \<Rightarrow> [] | Some a \<Rightarrow> a)
      in lib_SetAnnotations L unstruct
           (AList.update SourceRefReleaseRefAnnotationName (strings_Join releaseNames '','') annotations))"

definition ensure_attempt ::
  "'w ReleaseReconciler \<Rightarrow> Release \<Rightarrow> SourceObject \<Rightarrow> ('w, error + (json \<times> string list) option) io" where
  "ensure_attempt r rel chartSource =
     (let m = Source_Meta chartSource;
          kind = Type_Kind (Source_Type chartSource);
          gvk = source_gvk r kind;
          key = \<lparr>NN_Namespace = SMeta_Namespace m, NN_Name = SMeta_Name m\<rparr>
      in do {
        got \<leftarrow> perform (CGetObject gvk key) succeeded (client_GetObject (rr_Client r) gvk key);
        case got of
          Inl err \<Rightarrow>
            if IsNotFound err then
              let annotations = (case SMeta_Annotations m of None \<Rightarrow> [] | Some a \<Rightarrow> a);
                  chartSource' = chartSource\<lparr>Source_Meta := m\<lparr>SMeta_Annotations :=
                    Some (AList.update SourceRefReleaseRefAnnotationName (rel_Name rel) annotations)\<rparr>\<rparr>
              in do {
                e \<leftarrow> perform (CCreateSource chartSource') no_error
                       (client_CreateSource (rr_Client r) chartSource');
                returnM (case e of None \<Rightarrow> Inr None | Some err \<Rightarrow> Inl err)
              }
            else
              returnM (Inl (Wrapped (''get source '' @ SMeta_Namespace m @ ''/'' @ kind @ ''/'' @ SMeta_Name m) err))
        | Inr unstruct \<Rightarrow>
            let names = getChartSourceReleaseRefNamesSlice (rr_Lib r) unstruct;
                releaseNames = (if slices_Contains names (rel_Name rel) then names
                                else names @ [rel_Name rel]);
                unstruct' = annotate_refs (rr_Lib r) unstruct releaseNames
            in do {
              u \<leftarrow> perform (CUpdateObject unstruct') succeeded (client_UpdateObject (rr_Client r) unstruct');
              returnM (case u of Inl err \<Rightarrow> Inl err | Inr _ \<Rightarrow> Inr None)
            }
      })"

definition ensureChartSourceRef ::
  "'w ReleaseReconciler \<Rightarrow> Release \<Rightarrow> SourceObject \<Rightarrow> ('w, error option) io" where
  "ensureChartSourceRef r rel chartSource = do {
     res \<leftarrow> lib_RetryOnConflict (rr_Lib r) (ensure_attempt r rel chartSource);
     returnM (case res of Inl err \<Rightarrow> Some err | Inr _ \<Rightarrow> None)
   }"

definition cleanup_attempt ::
  "'w ReleaseReconciler \<Rightarrow> Release \<Rightarrow> ChartSourceReference \<Rightarrow>
   ('w, error + (json \<times> string list) option) io" where
  "cleanup_attempt r rel ref =
     (let gvk = source_gvk r (SourceRef_Kind ref);
          key = \<lparr>NN_Namespace = SourceRef_Namespace ref, NN_Name = SourceRef_Name ref\<rparr>
      in do {
        got \<leftarrow> perform (CGetObject gvk key) succeeded (client_GetObject (rr_Client r) gvk key);
        case got of
          Inl err \<Rightarrow> returnM (if IsNotFound err then Inr None else Inl err)
        | Inr unstruct \<Rightarrow>
            let names = getChartSourceReleaseRefNamesSlice (rr_Lib r) unstruct
            in if \<not> slices_Contains names (rel_Name rel) then returnM (Inr None)
               else
                 let releaseNames = (case slices_Index names (rel_Name rel) of
                                       Some index \<Rightarrow> slices_Delete1 names index
                                     | None \<Rightarrow> names);
                     unstruct' = annotate_refs (rr_Lib r) unstruct releaseNames
                 in do {
                   u \<leftarrow> perform (CUpdateObject unstruct') succeeded (client_UpdateObject (rr_Client r) unstruct');
                   returnM (case u of Inl err \<Rightarrow> Inl err
                            | Inr latestSource \<Rightarrow> Inr (Some (latestSource, releaseNames)))
                 }
      })"

definition cleanupChartSourceRef ::
  "'w ReleaseReconciler \<Rightarrow> Release \<Rightarrow> ChartSourceReference option \<Rightarrow> ('w, error option) io" where
  "cleanupChartSourceRef r rel chartSourceRef =
     (case chartSourceRef of
        None \<Rightarrow> returnM None
      | Some ref \<Rightarrow> do {
          res \<leftarrow> lib_RetryOnConflict (rr_Lib r) (cleanup_attempt r rel ref);
          case res of
            Inl err \<Rightarrow> returnM (Some err)
          | Inr None \<Rightarrow> returnM None
          | Inr (Some (latestSource, latestReleaseNames)) \<Rightarrow>
              if latestReleaseNames = [] then
                let gvk = source_gvk r (SourceRef_Kind ref);
                    key = \<lparr>NN_Namespace = SourceRef_Namespace ref, NN_Name = SourceRef_Name ref\<rparr>;
                    pre = Some (lib_GetResourceVersion (rr_Lib r) latestSource,
                                lib_GetUID (rr_Lib r) latestSource)
                in do {
                  e \<leftarrow> perform (CDeleteObject gvk key pre) no_error
                         (client_DeleteObject (rr_Client r) gvk key pre);
                  returnM (case e of None \<Rightarrow> None
                           | Some err \<Rightarrow> if IsNotFound err then None else Some err)
                }
              else returnM None
        })"

section \<open>What the code relies on\<close>

text \<open>
  \<^verbatim>\<open>retry.RetryOnConflict\<close> runs the function it is given, again each time it ends with a
  conflict, and returns the outcome of the last run.
\<close>

inductive attempts :: "('w, error + 'r) io \<Rightarrow> 'w sys \<Rightarrow> (error + 'r) \<times> 'w sys \<Rightarrow> bool" for m where
  final: "attempts m s (run_state m s)"
| again: "run_state m s = (Inl e, t) \<Longrightarrow> IsConflict e \<Longrightarrow> attempts m t x \<Longrightarrow> attempts m s x"

definition retry_contract :: "'w k8s_lib \<Rightarrow> bool" where
  "retry_contract L \<longleftrightarrow> (\<forall>m s. attempts m s (run_state (lib_RetryOnConflict L m) s))"

text \<open>
  The annotation accessors of an unstructured object: what was set is read back (a non-empty
  map is never dropped).
\<close>

definition annotation_contract :: "'w k8s_lib \<Rightarrow> bool" where
  "annotation_contract L \<longleftrightarrow>
     (\<forall>u a. a \<noteq> [] \<longrightarrow> lib_GetAnnotations L (lib_SetAnnotations L u a) = Some a)"

text \<open>
  The API server as a store of objects, seen by the calls this component makes: a read returns
  the stored object; a write that succeeds stores what was written, with its annotations, and
  nothing else; a call that fails changes nothing. \<open>okey\<close> is the key an unstructured object
  carries.
\<close>

definition source_key :: "'w ReleaseReconciler \<Rightarrow> SourceObject \<Rightarrow> obj_key" where
  "source_key r src =
     (source_gvk r (Type_Kind (Source_Type src)),
      \<lparr>NN_Namespace = SMeta_Namespace (Source_Meta src), NN_Name = SMeta_Name (Source_Meta src)\<rparr>)"

definition ref_key :: "'w ReleaseReconciler \<Rightarrow> ChartSourceReference \<Rightarrow> obj_key" where
  "ref_key r ref =
     (source_gvk r (SourceRef_Kind ref),
      \<lparr>NN_Namespace = SourceRef_Namespace ref, NN_Name = SourceRef_Name ref\<rparr>)"

definition get_contract :: "'w ReleaseReconciler \<Rightarrow> ('w \<Rightarrow> obj_key \<rightharpoonup> json) \<Rightarrow> bool" where
  "get_contract r store \<longleftrightarrow>
     (\<forall>gvk key w g w'. client_GetObject (rr_Client r) gvk key w = (g, w') \<longrightarrow>
        store w' = store w \<and>
        (case g of Inr u \<Rightarrow> store w (gvk, key) = Some u
         | Inl e \<Rightarrow> IsNotFound e \<longrightarrow> store w (gvk, key) = None))"

definition update_contract ::
  "'w ReleaseReconciler \<Rightarrow> ('w \<Rightarrow> obj_key \<rightharpoonup> json) \<Rightarrow> (json \<Rightarrow> obj_key) \<Rightarrow> bool" where
  "update_contract r store okey \<longleftrightarrow>
     (\<forall>w k u. store w k = Some u \<longrightarrow> okey u = k) \<and>
     (\<forall>u a. okey (lib_SetAnnotations (rr_Lib r) u a) = okey u) \<and>
     (\<forall>u w g w'. client_UpdateObject (rr_Client r) u w = (g, w') \<longrightarrow>
        (case g of
           Inr u' \<Rightarrow> store w' = (store w)(okey u \<mapsto> u') \<and>
             lib_GetAnnotations (rr_Lib r) u' = lib_GetAnnotations (rr_Lib r) u
         | Inl e \<Rightarrow> store w' = store w))"

definition create_contract :: "'w ReleaseReconciler \<Rightarrow> ('w \<Rightarrow> obj_key \<rightharpoonup> json) \<Rightarrow> bool" where
  "create_contract r store \<longleftrightarrow>
     (\<forall>src w e w'. client_CreateSource (rr_Client r) src w = (e, w') \<longrightarrow>
        (case e of
           None \<Rightarrow> \<exists>u. store w' = (store w)(source_key r src \<mapsto> u) \<and>
             (\<forall>a. SMeta_Annotations (Source_Meta src) = Some a \<longrightarrow> a \<noteq> [] \<longrightarrow>
                lib_GetAnnotations (rr_Lib r) u = Some a)
         | Some e \<Rightarrow> store w' = store w))"

text \<open>
  A deletion that succeeds removes the object. This is the answer of the API server for objects
  without finalizers; one that carries a finalizer (as the source controller of Flux adds) is only
  marked, and goes when the finalizer is removed. Theorems with this contract describe such an object
  as gone from the moment the deletion is accepted.
\<close>

definition delete_contract :: "'w ReleaseReconciler \<Rightarrow> ('w \<Rightarrow> obj_key \<rightharpoonup> json) \<Rightarrow> bool" where
  "delete_contract r store \<longleftrightarrow>
     (\<forall>gvk key pre w e w'. client_DeleteObject (rr_Client r) gvk key pre w = (e, w') \<longrightarrow>
        (case e of
           None \<Rightarrow> store w' = (store w)((gvk, key) := None)
         | Some e \<Rightarrow> store w' = store w \<and> (IsNotFound e \<longrightarrow> store w (gvk, key) = None)))"

definition store_contract ::
  "'w ReleaseReconciler \<Rightarrow> ('w \<Rightarrow> obj_key \<rightharpoonup> json) \<Rightarrow> (json \<Rightarrow> obj_key) \<Rightarrow> bool" where
  "store_contract r store okey \<longleftrightarrow>
     get_contract r store \<and> update_contract r store okey \<and> create_contract r store \<and>
     delete_contract r store \<and> retry_contract (rr_Lib r) \<and> annotation_contract (rr_Lib r)"

section \<open>Names in an annotation\<close>

text \<open>
  The interface between the operations above and the text of the annotation: a codec of lists
  of names. The laws say what the operations need of it; the lemmas are what they get.
\<close>

locale name_codec =
  fixes encode :: "'n list \<Rightarrow> 'c"
    and decode :: "'c \<Rightarrow> 'n list"
    and valid :: "'n \<Rightarrow> bool"
  assumes decode_encode: "ns \<noteq> [] \<Longrightarrow> \<forall>n \<in> set ns. valid n \<Longrightarrow> decode (encode ns) = ns"
    and decode_valid: "n \<in> set (decode c) \<Longrightarrow> valid n"
    and decode_nonempty: "decode c \<noteq> []"
begin

lemma decode_self: "decode (encode (decode c)) = decode c"
  by (rule decode_encode) (use decode_valid decode_nonempty in auto)

lemma decode_snoc: "valid n \<Longrightarrow> decode (encode (decode c @ [n])) = decode c @ [n]"
  by (rule decode_encode) (use decode_valid in auto)

lemma decode_remove:
  assumes "remove1 n (decode c) \<noteq> []"
  shows "decode (encode (remove1 n (decode c))) = remove1 n (decode c)"
  by (rule decode_encode) (use assms decode_valid in \<open>auto dest: notin_set_remove1\<close>)

lemma decode_single: "valid n \<Longrightarrow> decode (encode [n]) = [n]"
  by (rule decode_encode) auto

end

definition comma_free :: "string \<Rightarrow> bool" where
  "comma_free n \<longleftrightarrow> CHR '','' \<notin> set n"

interpretation refs: name_codec
  "\<lambda>ns. strings_Join ns '',''" "\<lambda>s. strings_Split s (CHR '','')" comma_free
proof
  show "strings_Split (strings_Join ns '','') CHR '','' = ns"
    if "ns \<noteq> []" and "\<forall>n\<in>set ns. comma_free n" for ns
    by (rule strings_Split_Join) (use that in \<open>auto simp: comma_free_def\<close>)
  show "comma_free n" if "n \<in> set (strings_Split c CHR '','')" for n c
    using that by (simp add: comma_free_def strings_Split_words)
  show "strings_Split c CHR '','' \<noteq> []" for c
    by simp
qed

section \<open>Retrying\<close>

lemma hoare_attempts:
  assumes "attempts m s x" and "P s" and "hoare P m Q"
    and "\<And>e t. Q (Inl e) t \<Longrightarrow> IsConflict e \<Longrightarrow> P t"
  shows "Q (fst x) (snd x)"
  using assms(1,2)
proof (induction rule: attempts.induct)
  case (final s)
  with assms(3) show ?case by (simp add: hoare_def)
next
  case (again s e t x)
  from again.hyps(1) again.prems assms(3) have "Q (Inl e) t"
    by (auto dest: hoareD)
  with again.hyps(2) assms(4) have "P t" by blast
  then show ?case by (rule again.IH)
qed

lemma hoare_retry:
  assumes "retry_contract L" and "hoare P m Q"
    and "\<And>e t. Q (Inl e) t \<Longrightarrow> IsConflict e \<Longrightarrow> P t"
  shows "hoare P (lib_RetryOnConflict L m) Q"
proof (rule hoareI)
  fix s a s'
  assume P: "P s" and run: "run_state (lib_RetryOnConflict L m) s = (a, s')"
  from assms(1) run have "attempts m s (a, s')"
    unfolding retry_contract_def by metis
  from hoare_attempts [OF this P assms(2,3)] show "Q a s'" by simp
qed

lemma attempts_calls:
  assumes "attempts m s x" and "emits P m"
  shows "\<exists>cs. calls (snd x) = calls s @ cs \<and> list_all P cs"
  using assms
proof (induction rule: attempts.induct)
  case (final s)
  then show ?case by (simp add: emits_def)
next
  case (again s e t x)
  then obtain cs where "calls t = calls s @ cs" "list_all P cs"
    unfolding emits_def by (metis snd_conv)
  moreover from again obtain ds where "calls (snd x) = calls t @ ds" "list_all P ds"
    by blast
  ultimately show ?case
    by (intro exI [of _ "cs @ ds"]) simp
qed

lemma emits_retry [emits_intro]:
  "retry_contract L \<Longrightarrow> emits P m \<Longrightarrow> emits P (lib_RetryOnConflict L m)"
  unfolding emits_def [of P "lib_RetryOnConflict L m"] retry_contract_def
  by (blast intro: attempts_calls)

section \<open>The abstract specification\<close>

text \<open>
  Abstractly, the component keeps for every source object the list of the releases that use
  it. A user is added at the end and only once; when the last user is removed the object
  disappears.
\<close>

type_synonym ref_state = "obj_key \<rightharpoonup> string list"

definition ref_add :: "obj_key \<Rightarrow> string \<Rightarrow> ref_state \<Rightarrow> ref_state" where
  "ref_add k n A =
     A(k \<mapsto> (case A k of None \<Rightarrow> [n] | Some ns \<Rightarrow> if n \<in> set ns then ns else ns @ [n]))"

definition ref_remove :: "obj_key \<Rightarrow> string \<Rightarrow> ref_state \<Rightarrow> ref_state" where
  "ref_remove k n A =
     (case A k of
        None \<Rightarrow> A
      | Some ns \<Rightarrow>
          if n \<notin> set ns then A
          else if remove1 n ns = [] then A(k := None)
          else A(k \<mapsto> remove1 n ns))"

definition refs_of :: "'w k8s_lib \<Rightarrow> (obj_key \<rightharpoonup> json) \<Rightarrow> ref_state" where
  "refs_of L st = (\<lambda>k. map_option (getChartSourceReleaseRefNamesSlice L) (st k))"

lemma refs_of_upd:
  "refs_of L (st(k \<mapsto> u)) = (refs_of L st)(k \<mapsto> getChartSourceReleaseRefNamesSlice L u)"
  by (auto simp: refs_of_def)

lemma refs_of_del: "refs_of L (st(k := None)) = (refs_of L st)(k := None)"
  by (auto simp: refs_of_def)

lemma names_cases:
  "getChartSourceReleaseRefNamesSlice L u = [] \<or>
   (\<exists>v. getChartSourceReleaseRefNamesSlice L u = strings_Split v (CHR '',''))"
  by (auto simp: getChartSourceReleaseRefNamesSlice_def Let_def
      simp del: strings_Split.simps split: option.splits)

lemma names_annotate_refs:
  assumes "annotation_contract L"
  shows "getChartSourceReleaseRefNamesSlice L (annotate_refs L u ns) =
    strings_Split (strings_Join ns '','') (CHR '','')"
proof -
  have "AList.update k v a \<noteq> []" for k v and a :: annotations
    by (cases a) auto
  with assms show ?thesis
    by (simp add: annotation_contract_def annotate_refs_def getChartSourceReleaseRefNamesSlice_def
        update_conv' Let_def)
qed

lemma names_add:
  assumes "annotation_contract L" and "comma_free n"
    and "names = getChartSourceReleaseRefNamesSlice L u"
  shows "getChartSourceReleaseRefNamesSlice L
      (annotate_refs L u (if n \<in> set names then names else names @ [n])) =
    (if n \<in> set names then names else names @ [n])"
  using names_cases [of L u] assms refs.decode_single [of n]
  by (auto simp: names_annotate_refs refs.decode_self refs.decode_snoc)

lemma names_remove:
  assumes "annotation_contract L" and "names = getChartSourceReleaseRefNamesSlice L u"
  shows "getChartSourceReleaseRefNamesSlice L (annotate_refs L u (remove1 n names)) =
    (if remove1 n names = [] then [[]] else remove1 n names)"
  using names_cases [of L u] assms
  by (auto simp: names_annotate_refs refs.decode_remove)

section \<open>Refinement\<close>

text \<open>The contracts as rules for the calls.\<close>

lemma get_contractD:
  assumes "get_contract r store" and "client_GetObject (rr_Client r) gvk key w = (g, w')"
  shows "store w' = store w \<and>
    (case g of Inr u \<Rightarrow> store w (gvk, key) = Some u | Inl e \<Rightarrow> IsNotFound e \<longrightarrow> store w (gvk, key) = None)"
  using assms unfolding get_contract_def by blast

lemma update_contractD:
  assumes "update_contract r store okey" and "client_UpdateObject (rr_Client r) u w = (g, w')"
  shows "case g of
      Inr u' \<Rightarrow> store w' = (store w)(okey u \<mapsto> u') \<and>
        lib_GetAnnotations (rr_Lib r) u' = lib_GetAnnotations (rr_Lib r) u
    | Inl e \<Rightarrow> store w' = store w"
  using assms unfolding update_contract_def by blast

lemma update_contract_key:
  assumes "update_contract r store okey" and "store w k = Some u"
  shows "okey (annotate_refs (rr_Lib r) u ns) = k"
proof -
  from assms have "okey u = k" unfolding update_contract_def by blast
  with assms(1) show ?thesis by (simp add: update_contract_def annotate_refs_def Let_def)
qed

lemma delete_contractD:
  assumes "delete_contract r store" and "client_DeleteObject (rr_Client r) gvk key pre w = (e, w')"
  shows "case e of None \<Rightarrow> store w' = (store w)((gvk, key) := None)
    | Some e \<Rightarrow> store w' = store w \<and> (IsNotFound e \<longrightarrow> store w (gvk, key) = None)"
  using assms unfolding delete_contract_def by blast

lemma hoare_GetObject:
  assumes "get_contract r store"
  shows "hoare (\<lambda>s. store (world s) = S)
    (perform (CGetObject gvk key) succeeded (client_GetObject (rr_Client r) gvk key))
    (\<lambda>g s. store (world s) = S \<and>
       (case g of Inr u \<Rightarrow> S (gvk, key) = Some u | Inl e \<Rightarrow> IsNotFound e \<longrightarrow> S (gvk, key) = None))"
  by (rule hoare_perform) (auto dest!: get_contractD [OF assms])

lemma hoare_UpdateObject:
  assumes "update_contract r store okey" and "S k = Some u"
  shows "hoare (\<lambda>s. store (world s) = S)
    (perform (CUpdateObject (annotate_refs (rr_Lib r) u ns)) succeeded
       (client_UpdateObject (rr_Client r) (annotate_refs (rr_Lib r) u ns)))
    (\<lambda>g s. case g of
       Inr u' \<Rightarrow> store (world s) = S(k \<mapsto> u') \<and>
         getChartSourceReleaseRefNamesSlice (rr_Lib r) u' =
           getChartSourceReleaseRefNamesSlice (rr_Lib r) (annotate_refs (rr_Lib r) u ns)
     | Inl e \<Rightarrow> store (world s) = S)"
proof (rule hoare_perform)
  fix s g w
  assume S: "store (world s) = S"
    and upd: "client_UpdateObject (rr_Client r) (annotate_refs (rr_Lib r) u ns) (world s) = (g, w)"
  have "okey (annotate_refs (rr_Lib r) u ns) = k"
    using assms S by (metis update_contract_key)
  with update_contractD [OF assms(1) upd] S show "case g of
       Inr u' \<Rightarrow> store (world \<lparr>world = w, calls = calls s @
           [(CUpdateObject (annotate_refs (rr_Lib r) u ns), succeeded g)]\<rparr>) = S(k \<mapsto> u') \<and>
         getChartSourceReleaseRefNamesSlice (rr_Lib r) u' =
           getChartSourceReleaseRefNamesSlice (rr_Lib r) (annotate_refs (rr_Lib r) u ns)
     | Inl e \<Rightarrow> store (world \<lparr>world = w, calls = calls s @
           [(CUpdateObject (annotate_refs (rr_Lib r) u ns), succeeded g)]\<rparr>) = S"
    by (auto simp: getChartSourceReleaseRefNamesSlice_def split: sum.splits)
qed

lemma hoare_CreateSource:
  assumes "create_contract r store" and "SMeta_Annotations (Source_Meta src) = Some a"
    and "map_of a SourceRefReleaseRefAnnotationName = Some n" and "comma_free n"
  shows "hoare (\<lambda>s. store (world s) = S)
    (perform (CCreateSource src) no_error (client_CreateSource (rr_Client r) src))
    (\<lambda>e s. case e of
       None \<Rightarrow> \<exists>u. store (world s) = S(source_key r src \<mapsto> u) \<and>
         getChartSourceReleaseRefNamesSlice (rr_Lib r) u = [n]
     | Some e \<Rightarrow> store (world s) = S)"
proof (rule hoare_perform)
  fix s e w
  assume "store (world s) = S" and "client_CreateSource (rr_Client r) src (world s) = (e, w)"
  moreover have "a \<noteq> []" using assms(3) by auto
  moreover have "strings_Split n CHR '','' = [n]"
    using assms(4) by (simp add: comma_free_def strings_Split_no_sep)
  ultimately show "case e of
       None \<Rightarrow> \<exists>u. store (world \<lparr>world = w, calls = calls s @ [(CCreateSource src, no_error e)]\<rparr>) =
           S(source_key r src \<mapsto> u) \<and> getChartSourceReleaseRefNamesSlice (rr_Lib r) u = [n]
     | Some e' \<Rightarrow> store (world \<lparr>world = w, calls = calls s @ [(CCreateSource src, no_error e)]\<rparr>) = S"
    using assms(1-3) unfolding create_contract_def
    by (fastforce simp: getChartSourceReleaseRefNamesSlice_def split: option.splits)
qed

lemma hoare_DeleteObject:
  assumes "delete_contract r store"
  shows "hoare (\<lambda>s. store (world s) = S)
    (perform (CDeleteObject gvk key pre) no_error (client_DeleteObject (rr_Client r) gvk key pre))
    (\<lambda>e s. case e of None \<Rightarrow> store (world s) = S((gvk, key) := None)
     | Some e \<Rightarrow> store (world s) = S \<and> (IsNotFound e \<longrightarrow> S (gvk, key) = None))"
  by (rule hoare_perform) (auto dest!: delete_contractD [OF assms] split: option.splits)

lemma refs_of_apply: "refs_of L st k = map_option (getChartSourceReleaseRefNamesSlice L) (st k)"
  by (simp add: refs_of_def)

lemma refs_add_new:
  assumes "S k = None" and "getChartSourceReleaseRefNamesSlice L u = [n]"
  shows "refs_of L (S(k \<mapsto> u)) = ref_add k n (refs_of L S)"
  using assms by (simp add: refs_of_upd ref_add_def refs_of_apply)

lemma refs_add_upd:
  assumes "S k = Some u" and "names = getChartSourceReleaseRefNamesSlice L u"
    and "getChartSourceReleaseRefNamesSlice L u' = (if n \<in> set names then names else names @ [n])"
  shows "refs_of L (S(k \<mapsto> u')) = ref_add k n (refs_of L S)"
  using assms by (simp add: refs_of_upd ref_add_def refs_of_apply)

lemma ensure_attempt_refines:
  assumes c: "store_contract r store okey" and n: "comma_free (rel_Name rel)"
  shows "hoare (\<lambda>s. store (world s) = S) (ensure_attempt r rel src)
    (\<lambda>res s. case res of
       Inl e \<Rightarrow> store (world s) = S
     | Inr _ \<Rightarrow> refs_of (rr_Lib r) (store (world s)) =
         ref_add (source_key r src) (rel_Name rel) (refs_of (rr_Lib r) S))"
    (is "hoare ?P _ ?Q")
proof -
  let ?L = "rr_Lib r" and ?k = "source_key r src"
  from c have gc: "get_contract r store" and uc: "update_contract r store okey"
    and cc: "create_contract r store" and ac: "annotation_contract ?L"
    by (auto simp: store_contract_def)
  have create: "hoare ?P (State_Monad.bind
        (perform (CCreateSource src') no_error (client_CreateSource (rr_Client r) src'))
        (\<lambda>e. returnM (case e of None \<Rightarrow> Inr None | Some err \<Rightarrow> Inl err))) ?Q"
    if "S ?k = None" and "source_key r src' = ?k"
      and "SMeta_Annotations (Source_Meta src') =
        Some (AList.update SourceRefReleaseRefAnnotationName (rel_Name rel) a)" for src' a
    by (rule hoare_bind [OF hoare_CreateSource [OF cc that(3) update_Some_unfold [THEN iffD2] n]],
        simp, rule hoare_return)
      (use that in \<open>auto simp: refs_add_new split: option.splits\<close>)
  have update: "hoare ?P (State_Monad.bind
        (perform (CUpdateObject (annotate_refs ?L u ns)) succeeded
          (client_UpdateObject (rr_Client r) (annotate_refs ?L u ns)))
        (\<lambda>g. returnM (case g of Inl err \<Rightarrow> Inl err | Inr _ \<Rightarrow> Inr None))) ?Q"
    if "S ?k = Some u" and "names = getChartSourceReleaseRefNamesSlice ?L u"
      and "ns = (if rel_Name rel \<in> set names then names else names @ [rel_Name rel])" for u names ns
    by (rule hoare_bind [OF hoare_UpdateObject [where S = S and k = ?k, OF uc that(1)]], rule hoare_return)
      (use that names_add [OF ac n that(2)] in \<open>auto simp: refs_add_upd [where S = S and k = ?k, OF that(1,2)] split: sum.splits\<close>)
  show ?thesis
    unfolding ensure_attempt_def Let_def
  proof (rule hoare_bind [OF hoare_GetObject [OF gc]], rule hoare_assume, goal_cases)
    case (1 g)
    note S = this [folded source_key_def]
    show ?case
    proof (cases g)
      case (Inl err)
      show ?thesis unfolding Inl sum.case
        by (rule hoare_if, rule create)
          (use S in \<open>auto simp: Inl source_key_def intro: hoare_return\<close>)
    next
      case (Inr u)
      show ?thesis unfolding Inr sum.case slices_Contains_def
        by (rule update [OF _ refl refl]) (use S in \<open>simp add: Inr\<close>)
    qed
  qed
qed

lemma remove1_single: "n \<in> set ns \<Longrightarrow> remove1 n ns = [] \<Longrightarrow> ns = [n]"
  by (cases ns) (auto split: if_splits)

lemma refs_remove_absent:
  assumes "S k = None \<or> (\<exists>u. S k = Some u \<and> n \<notin> set (getChartSourceReleaseRefNamesSlice L u))"
  shows "ref_remove k n (refs_of L S) = refs_of L S"
  using assms by (auto simp: ref_remove_def refs_of_apply)

text \<open>
  One attempt of the cleanup: nothing to do, or the object was rewritten without this user; the
  names that remain are returned.
\<close>

lemma cleanup_attempt_refines:
  assumes c: "store_contract r store okey"
  shows "hoare (\<lambda>s. store (world s) = S) (cleanup_attempt r rel ref)
    (\<lambda>res s. case res of
       Inl e \<Rightarrow> store (world s) = S
     | Inr None \<Rightarrow> store (world s) = S \<and>
         ref_remove (ref_key r ref) (rel_Name rel) (refs_of (rr_Lib r) S) = refs_of (rr_Lib r) S
     | Inr (Some (u', ns)) \<Rightarrow> store (world s) = S(ref_key r ref \<mapsto> u') \<and>
         (\<exists>u. S (ref_key r ref) = Some u \<and>
            rel_Name rel \<in> set (getChartSourceReleaseRefNamesSlice (rr_Lib r) u) \<and>
            ns = remove1 (rel_Name rel) (getChartSourceReleaseRefNamesSlice (rr_Lib r) u) \<and>
            getChartSourceReleaseRefNamesSlice (rr_Lib r) u' = (if ns = [] then [[]] else ns)))"
    (is "hoare ?P _ ?Q")
proof -
  let ?L = "rr_Lib r" and ?k = "ref_key r ref"
  from c have gc: "get_contract r store" and uc: "update_contract r store okey"
    and ac: "annotation_contract ?L"
    by (auto simp: store_contract_def)
  have update: "hoare ?P (State_Monad.bind
        (perform (CUpdateObject (annotate_refs ?L u ns)) succeeded
          (client_UpdateObject (rr_Client r) (annotate_refs ?L u ns)))
        (\<lambda>g. returnM (case g of Inl err \<Rightarrow> Inl err | Inr l \<Rightarrow> Inr (Some (l, ns))))) ?Q"
    if "S ?k = Some u" and "names = getChartSourceReleaseRefNamesSlice ?L u"
      and "rel_Name rel \<in> set names" and "ns = remove1 (rel_Name rel) names" for u names ns
    by (rule hoare_bind [OF hoare_UpdateObject [where S = S and k = ?k, OF uc that(1)]], rule hoare_return)
      (use that names_remove [OF ac that(2)] in \<open>auto split: sum.splits\<close>)
  have index: "(case slices_Index names n of Some i \<Rightarrow> slices_Delete1 names i | None \<Rightarrow> names) =
      remove1 n names" for n and names :: "string list"
    by (auto simp: slices_Delete_Index slices_Index_None remove1_idem split: option.split)
  show ?thesis
    unfolding cleanup_attempt_def Let_def
  proof (rule hoare_bind [OF hoare_GetObject [OF gc]], rule hoare_assume, goal_cases)
    case (1 g)
    note S = this [folded ref_key_def]
    show ?case
    proof (cases g)
      case (Inl err)
      with S show ?thesis
        by (auto intro!: hoare_return refs_remove_absent)
    next
      case (Inr u)
      show ?thesis unfolding Inr sum.case slices_Contains_def index
      proof (rule hoare_if, goal_cases)
        case 1
        with S show ?case by (auto simp: Inr intro!: hoare_return refs_remove_absent)
      next
        case 2
        with S show ?case by (intro update [OF _ refl _ refl]) (simp_all add: Inr)
      qed
    qed
  qed
qed

lemma hoare_ensureChartSourceRef:
  assumes "store_contract r store okey" and "comma_free (rel_Name rel)"
  shows "hoare (\<lambda>t. store (world t) = S) (ensureChartSourceRef r rel src)
    (\<lambda>e t. case e of
       None \<Rightarrow> refs_of (rr_Lib r) (store (world t)) =
         ref_add (source_key r src) (rel_Name rel) (refs_of (rr_Lib r) S)
     | Some err \<Rightarrow> store (world t) = S)"
proof -
  have retry: "retry_contract (rr_Lib r)"
    using assms(1) by (simp add: store_contract_def)
  show ?thesis
    unfolding ensureChartSourceRef_def
    by (rule hoare_bind [OF hoare_retry [OF retry ensure_attempt_refines [OF assms]]])
      (auto intro!: hoare_return split: sum.splits)
qed

lemma hoare_cleanupChartSourceRef:
  assumes "store_contract r store okey"
  shows "hoare (\<lambda>t. store (world t) = S) (cleanupChartSourceRef r rel (Some ref))
    (\<lambda>e t. case e of
      None \<Rightarrow> refs_of (rr_Lib r) (store (world t)) =
        ref_remove (ref_key r ref) (rel_Name rel) (refs_of (rr_Lib r) S)
    | Some err \<Rightarrow> store (world t) = S \<or>
        refs_of (rr_Lib r) S (ref_key r ref) = Some [rel_Name rel] \<and>
        refs_of (rr_Lib r) (store (world t)) = (refs_of (rr_Lib r) S)(ref_key r ref \<mapsto> [[]]))"
proof -
  have retry: "retry_contract (rr_Lib r)" and dc: "delete_contract r store"
    using assms by (simp_all add: store_contract_def)
  show ?thesis
    unfolding cleanupChartSourceRef_def option.case
  proof (rule hoare_bind [OF hoare_retry [OF retry cleanup_attempt_refines [OF assms]]], goal_cases)
    case (2 res)
    show ?case
    proof (cases res)
      case (Inl err)
      then show ?thesis by (auto intro: hoare_return)
    next
      case (Inr p)
      show ?thesis
      proof (cases p)
        case None
        with Inr show ?thesis by (auto intro: hoare_return)
      next
        case (Some q)
        obtain u' ns where q: "q = (u', ns)" by fastforce
        show ?thesis
          unfolding Inr Some q sum.case option.case prod.case Let_def ref_key_def
          by (rule hoare_if, rule hoare_assume)
            (auto intro!: hoare_return hoare_bind [OF hoare_DeleteObject [OF dc]] hoare_assume
              simp: ref_remove_def refs_of_upd refs_of_del refs_of_apply dest: remove1_single split: option.splits)
      qed
    qed
  qed (auto split: sum.splits)
qed

section \<open>The reference environment satisfies the contracts\<close>

lemma attempts_retry_n: "attempts m s (run_state (retry_n n m) s)"
proof (induction n arbitrary: s)
  case 0
  show ?case by (simp add: attempts.final)
next
  case (Suc n)
  obtain res t where m: "run_state m s = (res, t)" by fastforce
  then have fin: "attempts m s (res, t)" using attempts.final [of m s] by simp
  show ?case
  proof (cases res)
    case (Inl e)
    with m fin show ?thesis by (auto intro: attempts.again Suc.IH)
  next
    case (Inr a)
    with m fin show ?thesis by simp
  qed
qed

lemmas mem_defs =
  mem_reconciler_def mem_lib_def mem_client_def mem_config_def mem_os_def mem_nelm_def
  unless_down_def unless_down_err_def

lemma mem_api [simp]: "api_group mem_reconciler = mem_group" "api_version mem_reconciler = mem_version"
  by (simp_all add: mem_reconciler_def mem_config_def)

lemma mem_store_okey: "mem_store w k = Some u \<Longrightarrow> mem_okey u = k"
  by (auto simp: mem_store_def split: option.splits if_splits)

lemma mem_get_contract: "get_contract mem_reconciler mem_store"
  by (auto simp: get_contract_def mem_defs mem_GetObject_def split: if_splits option.splits)

lemma mem_update_contract: "update_contract mem_reconciler mem_store mem_okey"
  by (auto simp: update_contract_def mem_store_okey mem_defs mem_okey_SetAnnotations
      mem_UpdateObject_def mem_store_put split: if_splits option.splits)

lemma mem_create_contract: "create_contract mem_reconciler mem_store"
  by (auto simp: create_contract_def mem_defs mem_CreateSource_def mem_store_put mem_okey_object
      source_key_def source_gvk_def mem_annotations_object Let_def
      split: if_splits option.splits)

lemma mem_delete_contract: "delete_contract mem_reconciler mem_store"
  by (auto simp: delete_contract_def mem_defs mem_DeleteObject_def mem_store_drop
      split: if_splits option.splits)

lemma mem_store_contract: "store_contract mem_reconciler mem_store mem_okey"
  by (simp add: store_contract_def mem_get_contract mem_update_contract mem_create_contract
      mem_delete_contract retry_contract_def annotation_contract_def)
    (simp add: mem_reconciler_def mem_lib_def attempts_retry_n mem_Get_SetAnnotations)


text \<open>A release without a source object, and then a second one with the same chart, in the
  reference environment.\<close>

definition demo_source :: SourceObject where
  "demo_source = SetName (buildOCIRepository mem_group mem_version demo_release demo_oci) ''prod-inline-0''"

definition demo_other :: Release where
  "demo_other = demo_release\<lparr>Release_Meta := (Release_Meta demo_release)\<lparr>Meta_Name := ''web''\<rparr>\<rparr>"

definition demo_ref :: ChartSourceReference where
  "demo_ref = \<lparr>SourceRef_Group = mem_group, SourceRef_Version = mem_version,
     SourceRef_Kind = OCIRepositoryKind, SourceRef_Name = ''prod-inline-0'',
     SourceRef_Namespace = ''prod''\<rparr>"

definition demo_shared :: "mem_world sys" where
  "demo_shared = snd (run_state (ensureChartSourceRef mem_reconciler demo_other demo_source) (start empty_world))"

lemma mem_names:
  "rr_Lib mem_reconciler = mem_lib" "rel_Name demo_release = ''app''" "rel_Name demo_other = ''web''"
  by (simp_all add: mem_reconciler_def demo_release_def demo_other_def)

section \<open>Properties\<close>

text \<open>C9. A successful \<^verbatim>\<open>ensureChartSourceRef\<close> adds the release to the users of the source object, at
  the end and at most once, whether the object had to be created or not, and leaves every other
  object's users alone; a failed one leaves the store unchanged.\<close>

theorem ensureChartSourceRef_refines:
  assumes "store_contract r store okey" and "comma_free (rel_Name rel)"
    and "run_state (ensureChartSourceRef r rel src) s = (e, s')"
  shows "case e of
      None \<Rightarrow> refs_of (rr_Lib r) (store (world s')) =
        ref_add (source_key r src) (rel_Name rel) (refs_of (rr_Lib r) (store (world s)))
    | Some err \<Rightarrow> store (world s') = store (world s)"
  using hoareD [OF hoare_ensureChartSourceRef [OF assms(1,2)] refl assms(3)] .

theorem ensureChartSourceRef_refines_witness:
  "refs_of mem_lib (mem_store (world (snd (run_state
      (ensureChartSourceRef mem_reconciler demo_release demo_source) demo_shared)))) =
   ref_add (source_key mem_reconciler demo_source) ''app'' (refs_of mem_lib (mem_store (world demo_shared)))"
proof -
  let ?m = "run_state (ensureChartSourceRef mem_reconciler demo_release demo_source) demo_shared"
  have "fst ?m = None" by code_simp
  then have run: "?m = (None, snd ?m)" by (simp add: prod_eq_iff)
  have "comma_free (rel_Name demo_release)" by (simp add: comma_free_def demo_release_def)
  from ensureChartSourceRef_refines [OF mem_store_contract this run] show ?thesis
    unfolding mem_names option.case .
qed

text \<open>C10. A successful \<^verbatim>\<open>cleanupChartSourceRef\<close> removes the release from the users of the source
  object and deletes the object when no user is left; other objects are untouched. A failed one
  changes nothing, or the release was the only user and the object could not be deleted, and then
  the object carries the empty annotation.\<close>

theorem cleanupChartSourceRef_refines:
  assumes "store_contract r store okey"
    and "run_state (cleanupChartSourceRef r rel (Some ref)) s = (e, s')"
  shows "case e of
      None \<Rightarrow> refs_of (rr_Lib r) (store (world s')) =
        ref_remove (ref_key r ref) (rel_Name rel) (refs_of (rr_Lib r) (store (world s)))
    | Some err \<Rightarrow> store (world s') = store (world s) \<or>
        refs_of (rr_Lib r) (store (world s)) (ref_key r ref) = Some [rel_Name rel] \<and>
        refs_of (rr_Lib r) (store (world s')) =
          (refs_of (rr_Lib r) (store (world s)))(ref_key r ref \<mapsto> [[]])"
  using hoareD [OF hoare_cleanupChartSourceRef [OF assms(1)] refl assms(2)] .

theorem cleanupChartSourceRef_refines_witness:
  "refs_of mem_lib (mem_store (world (snd (run_state
      (cleanupChartSourceRef mem_reconciler demo_other (Some demo_ref)) demo_shared)))) =
   ref_remove (ref_key mem_reconciler demo_ref) ''web'' (refs_of mem_lib (mem_store (world demo_shared)))"
proof -
  let ?m = "run_state (cleanupChartSourceRef mem_reconciler demo_other (Some demo_ref)) demo_shared"
  have "fst ?m = None" by code_simp
  then have run: "?m = (None, snd ?m)" by (simp add: prod_eq_iff)
  from cleanupChartSourceRef_refines [OF mem_store_contract run] show ?thesis
    unfolding mem_names option.case .
qed

section \<open>An emptied source object is never deleted\<close>

text \<open>
  \<^verbatim>\<open>strings.Split\<close> of an empty annotation is a list with one empty name, not an empty list. An
  object whose annotation was emptied but which could not be deleted therefore keeps a user that
  no release can remove.
\<close>

datatype ref_op = EnsureRef Release SourceObject | CleanupRef Release ChartSourceReference

fun op_name :: "ref_op \<Rightarrow> string" where
  "op_name (EnsureRef rel src) = rel_Name rel"
| "op_name (CleanupRef rel ref) = rel_Name rel"

fun ref_op_prog :: "'w ReleaseReconciler \<Rightarrow> ref_op \<Rightarrow> ('w, error option) io" where
  "ref_op_prog r (EnsureRef rel src) = ensureChartSourceRef r rel src"
| "ref_op_prog r (CleanupRef rel ref) = cleanupChartSourceRef r rel (Some ref)"

primrec run_ref_ops :: "'w ReleaseReconciler \<Rightarrow> ref_op list \<Rightarrow> 'w sys \<Rightarrow> 'w sys" where
  "run_ref_ops r [] s = s"
| "run_ref_ops r (p # ps) s = run_ref_ops r ps (snd (run_state (ref_op_prog r p) s))"

definition has_blank_user :: "ref_state \<Rightarrow> obj_key \<Rightarrow> bool" where
  "has_blank_user A k = (case A k of None \<Rightarrow> False | Some ns \<Rightarrow> [] \<in> set ns)"

lemma has_blank_user_add: "has_blank_user A k \<Longrightarrow> has_blank_user (ref_add k' n A) k"
  by (auto simp: has_blank_user_def ref_add_def split: option.splits)

lemma has_blank_user_remove:
  assumes "has_blank_user A k" and "n \<noteq> []"
  shows "has_blank_user (ref_remove k' n A) k"
proof -
  have "[] \<in> set (remove1 n ns)" if "[] \<in> set ns" for ns :: "string list"
    using that assms(2) by (metis in_set_remove1)
  with assms(1) show ?thesis
    by (fastforce simp: has_blank_user_def ref_remove_def split: option.splits)
qed

lemma ref_op_keeps_blank_user:
  assumes c: "store_contract r store okey" and n: "comma_free (op_name p)" "op_name p \<noteq> []"
    and b: "has_blank_user (refs_of (rr_Lib r) (store (world s))) k"
  shows "has_blank_user (refs_of (rr_Lib r)
    (store (world (snd (run_state (ref_op_prog r p) s))))) k"
proof (cases p)
  case (EnsureRef rel src)
  obtain e t where "run_state (ensureChartSourceRef r rel src) s = (e, t)" by fastforce
  with hoareD [OF hoare_ensureChartSourceRef [OF c] refl this] n b EnsureRef show ?thesis
    by (auto simp: has_blank_user_add split: option.splits)
next
  case (CleanupRef rel ref)
  obtain e t where "run_state (cleanupChartSourceRef r rel (Some ref)) s = (e, t)" by fastforce
  with hoareD [OF hoare_cleanupChartSourceRef [OF c] refl this] n b CleanupRef show ?thesis
    by (auto simp: has_blank_user_remove split: option.splits)
      (simp add: has_blank_user_def)
qed

text \<open>C25. Once a source object carries the empty annotation (its last user was removed and the
  delete call failed), no sequence of operations of any releases, however they succeed or fail,
  deletes it.\<close>

theorem emptied_source_never_deleted:
  assumes "store_contract r store okey"
    and "\<forall>p \<in> set ps. comma_free (op_name p) \<and> op_name p \<noteq> []"
    and "has_blank_user (refs_of (rr_Lib r) (store (world s))) k"
  shows "store (world (run_ref_ops r ps s)) k \<noteq> None"
proof -
  have "has_blank_user (refs_of (rr_Lib r) (store (world (run_ref_ops r ps s)))) k"
    using assms(2,3)
    by (induction ps arbitrary: s) (simp_all add: ref_op_keeps_blank_user [OF assms(1)])
  then show ?thesis by (auto simp: has_blank_user_def refs_of_def split: option.splits)
qed

definition demo_failed_delete :: "mem_world sys" where
  "demo_failed_delete =
     (let s = snd (run_state (ensureChartSourceRef mem_reconciler demo_release demo_source) (start empty_world));
          down = s\<lparr>world := (world s)\<lparr>mw_fail := (\<lambda>c. case c of CDeleteObject _ _ _ \<Rightarrow> True | _ \<Rightarrow> False)\<rparr>\<rparr>;
          t = snd (run_state (cleanupChartSourceRef mem_reconciler demo_release (Some demo_ref)) down)
      in t\<lparr>world := (world t)\<lparr>mw_fail := (\<lambda>_. False)\<rparr>\<rparr>)"

theorem emptied_source_never_deleted_witness:
  "mem_store (world (run_ref_ops mem_reconciler
      [CleanupRef demo_release demo_ref, EnsureRef demo_release demo_source,
       CleanupRef demo_release demo_ref] demo_failed_delete))
     (ref_key mem_reconciler demo_ref) \<noteq> None"
proof (rule emptied_source_never_deleted [OF mem_store_contract])
  show "has_blank_user (refs_of (rr_Lib mem_reconciler) (mem_store (world demo_failed_delete)))
      (ref_key mem_reconciler demo_ref)"
    by code_simp
qed (simp add: comma_free_def demo_release_def)

text \<open>C32. The users of a source object are read back from its annotation as they were written, as long as
  there is one; the empty list is read back as a list with one empty name, the root of the
  leak of an emptied source.\<close>

theorem annotation_roundtrip:
  assumes "annotation_contract L"
  shows "(ns \<noteq> [] \<and> (\<forall>n \<in> set ns. comma_free n) \<longrightarrow>
      getChartSourceReleaseRefNamesSlice L (annotate_refs L u ns) = ns) \<and>
    getChartSourceReleaseRefNamesSlice L (annotate_refs L u []) = [[]]"
  by (simp add: names_annotate_refs [OF assms] refs.decode_encode)

theorem annotation_roundtrip_witness:
  "getChartSourceReleaseRefNamesSlice mem_lib (annotate_refs mem_lib JNull [''app'', ''web'']) = [''app'', ''web'']"
proof -
  have "annotation_contract mem_lib"
    using mem_store_contract by (simp add: store_contract_def mem_names)
  from annotation_roundtrip [OF this, of "[''app'', ''web'']"] show ?thesis
    by (simp add: comma_free_def)
qed

end
