(* ===== verification/Install_Options.thy ===== *)
theory Install_Options
  imports Reference_Env
begin

text \<open>
  The option builders of \<^verbatim>\<open>release_controller.go\<close>: from a Release, the operator configuration
  and the resolved values to the arguments of the four nelm actions, with the patches file they
  share. Reading environment variables is a pure parameter; writing the patches file is a
  program.
\<close>

section \<open>Ownership marker\<close>

definition ownershipMarkerKey :: string where
  "ownershipMarkerKey = ''nelm.werf.io/owned-by''"

definition ownershipMarkerValue :: string where
  "ownershipMarkerValue = ''nelm-operator''"

definition ownershipLabels :: "strmap \<Rightarrow> strmap" where
  "ownershipLabels userLabels =
     (let merged = (Map.empty :: strmap) ++ userLabels
      in merged(ownershipMarkerKey \<mapsto> ownershipMarkerValue))"

section \<open>Connection, tracking and validation\<close>

text \<open>\<^verbatim>\<open>net.JoinHostPort\<close>: a host with a colon is an IPv6 literal.\<close>

definition net_JoinHostPort :: "string \<Rightarrow> string \<Rightarrow> string" where
  "net_JoinHostPort host port =
     (if strings_ContainsChar host (CHR '':'') then ''['' @ host @ '']:'' @ port
      else host @ '':'' @ port)"

definition buildKubeConnectionOptions :: "'w ReleaseReconciler \<Rightarrow> Release \<Rightarrow> KubeConnectionOptions" where
  "buildKubeConnectionOptions r rel =
     (let cfg = rr_Config r;
          apiServerHost = os_Getenv (rr_Os r) ''KUBERNETES_SERVICE_HOST'';
          apiServerPort0 = os_Getenv (rr_Os r) ''KUBERNETES_SERVICE_PORT'';
          apiServerPort = (if apiServerPort0 = '''' then ''443'' else apiServerPort0);
          options =
            \<lparr>Kube_APIServerAddress = ''https://'' @ net_JoinHostPort apiServerHost apiServerPort,
             Kube_TLSCAPath = ''/var/run/secrets/kubernetes.io/serviceaccount/ca.crt'',
             Kube_BearerTokenPath = ''/var/run/secrets/kubernetes.io/serviceaccount/token'',
             Kube_QPSLimit = Config_KubeQPSLimit cfg,
             Kube_BurstLimit = Config_KubeBurstLimit cfg,
             Kube_RequestTimeout = Config_KubeRequestTimeout cfg,
             Kube_ImpersonateUser = ''''\<rparr>;
          serviceAccount0 = (if Config_DefaultServiceAccountName cfg \<noteq> ''''
                             then Config_DefaultServiceAccountName cfg else '''');
          serviceAccount = (if Spec_ServiceAccountName (Release_Spec rel) \<noteq> ''''
                            then Spec_ServiceAccountName (Release_Spec rel) else serviceAccount0)
      in if serviceAccount \<noteq> '''' then
           options\<lparr>Kube_ImpersonateUser :=
             ''system:serviceaccount:'' @ GetReleaseNamespace rel @ '':'' @ serviceAccount\<rparr>
         else options)"

definition buildTrackingOptions :: "Release \<Rightarrow> TrackingOptions" where
  "buildTrackingOptions rel =
     (let opts = \<lparr>TO_NoProgressTablePrint = True, TO_NoPodLogs = True, TO_TrackReadinessTimeout = 0,
                  TO_TrackCreationTimeout = 0, TO_TrackDeletionTimeout = 0, TO_NoFinalTracking = False\<rparr>
      in case Spec_Tracking (Release_Spec rel) of
           None \<Rightarrow> opts
         | Some t \<Rightarrow> opts
             \<lparr>TO_TrackReadinessTimeout := Tracking_ReadinessTimeout t,
              TO_TrackCreationTimeout := Tracking_CreationTimeout t,
              TO_TrackDeletionTimeout := Tracking_DeletionTimeout t,
              TO_NoPodLogs := \<not> Tracking_PodLogs t,
              TO_NoFinalTracking := \<not> Tracking_FinalTracking t\<rparr>)"

definition buildValidationOptions :: "'w ReleaseReconciler \<Rightarrow> Release \<Rightarrow> ResourceValidationOptions" where
  "buildValidationOptions r rel =
     (let opts = \<lparr>VO_NoResourceValidation = False, VO_NoValuesSchemaValidation = False,
                  VO_ValidationSkip = [], VO_ValidationExtraSchemas = [],
                  VO_ValidationSchemaCacheLifetime =
                    nelm_DefaultResourceValidationCacheLifetime (rr_Nelm r)\<rparr>
      in case Spec_Validation (Release_Spec rel) of
           None \<Rightarrow> opts
         | Some v \<Rightarrow> opts
             \<lparr>VO_NoResourceValidation := Validation_NoResourceValidation v,
              VO_NoValuesSchemaValidation := Validation_NoValuesSchemaValidation v,
              VO_ValidationSkip := Validation_Skip v,
              VO_ValidationExtraSchemas := Validation_ExtraSchemas v,
              VO_ValidationSchemaCacheLifetime := Validation_SchemaCacheLifetime v\<rparr>)"

section \<open>Patches\<close>

definition specPatch :: "Patch \<Rightarrow> SpecPatch" where
  "specPatch p =
     (let m = Patch_Match p
      in \<lparr>SP_Match = \<lparr>SM_Kinds = Match_Kinds m, SM_Names = Match_Names m,
            SM_Namespaces = Match_Namespaces m, SM_Groups = Match_Groups m,
            SM_Versions = Match_Versions m, SM_Charts = Match_Charts m,
            SM_Labels = Match_Labels m, SM_Annotations = Match_Annotations m\<rparr>,
          SP_Type = Patch_Type p, SP_Patch = Patch_Patch p\<rparr>)"

definition specPatches :: "Patch list \<Rightarrow> SpecPatch list" where
  "specPatches patches =
     (if patches = [] then [] else fold (\<lambda>p result. result @ [specPatch p]) patches [])"

text \<open>The empty path of the second result of the code is \<open>Inr ''''\<close>.\<close>

definition writePatchesFile ::
  "'w ReleaseReconciler \<Rightarrow> Patch list \<Rightarrow> Patch list \<Rightarrow> string \<Rightarrow> ('w, error + string) io" where
  "writePatchesFile r renderPatches diffPatches tempDir =
     (if renderPatches = [] \<and> diffPatches = [] then returnM (Inr '''')
      else
        let file = \<lparr>PF_RenderPatches = specPatches renderPatches, PF_DiffPatches = specPatches diffPatches\<rparr>
        in case lib_yaml_Marshal (rr_Lib r) file of
             Inl err \<Rightarrow> returnM (Inl (Wrapped ''marshal patches'' err))
           | Inr data \<Rightarrow> do {
               f \<leftarrow> perform (CCreateTemp tempDir ''patches-*.yaml'') succeeded
                      (os_CreateTemp (rr_Os r) tempDir ''patches-*.yaml'');
               case f of
                 Inl err \<Rightarrow> returnM (Inl (Wrapped ''create temp file'' err))
               | Inr name \<Rightarrow> do {
                   e \<leftarrow> perform (CWriteFile name data) no_error (os_Write (rr_Os r) name data);
                   _ \<leftarrow> perform (CCloseFile name) no_error (os_Close (rr_Os r) name);
                   returnM (case e of Some err \<Rightarrow> Inl (Wrapped ''write temp file'' err) | None \<Rightarrow> Inr name)
                 }
             })"

definition patchesFiles ::
  "'w ReleaseReconciler \<Rightarrow> Patch list \<Rightarrow> Patch list \<Rightarrow> string \<Rightarrow> ('w, error + string list) io" where
  "patchesFiles r renderPatches diffPatches tempDir = do {
     patchesFile \<leftarrow> writePatchesFile r renderPatches diffPatches tempDir;
     returnM (case patchesFile of
        Inl err \<Rightarrow> Inl (Wrapped ''write patches file'' err)
      | Inr path \<Rightarrow> if path = '''' then Inr [] else Inr [path])
   }"

section \<open>Runtime options of plan and install\<close>

definition buildRuntimeOptions ::
  "'w ReleaseReconciler \<Rightarrow> Release \<Rightarrow> string \<Rightarrow> ('w, error + ReleaseInstallRuntimeOptions) io" where
  "buildRuntimeOptions r rel tempDir =
     (let spec = Release_Spec rel;
          opts =
            \<lparr>RO_Validation = buildValidationOptions r rel,
             RO_ExtraAnnotations = Spec_ExtraAnnotations spec,
             RO_ExtraLabels = Spec_ExtraLabels spec,
             RO_ExtraRuntimeAnnotations = Spec_RuntimeAnnotations spec,
             RO_ExtraRuntimeLabels = Spec_RuntimeLabels spec,
             RO_ReleaseInfoAnnotations = Spec_ReleaseInfoAnnotations spec,
             RO_ReleaseLabels = ownershipLabels (Spec_ReleaseLabels spec),
             RO_ReleaseStorageDriver = Config_ReleaseStorageDriver (rr_Config r),
             RO_ReleaseStorageSQLConnection = Config_ReleaseStorageSQLConnection (rr_Config r),
             RO_ForceAdoption = True,
             RO_PatchesFiles = [], RO_ReleaseHistoryLimit = 0, RO_NoInstallStandaloneCRDs = False,
             RO_DefaultDeletePropagation = '''', RO_NoRemoveManualChanges = False,
             RO_DefaultPatchesDisable = False\<rparr>
      in do {
        files \<leftarrow> patchesFiles r (Spec_RenderPatches spec) (Spec_DiffPatches spec) tempDir;
        case files of
          Inl err \<Rightarrow> returnM (Inl err)
        | Inr fs \<Rightarrow>
            let opts1 = opts\<lparr>RO_PatchesFiles := fs\<rparr>;
                opts2 = (case Spec_ReleaseStorage spec of
                    None \<Rightarrow> opts1
                  | Some st \<Rightarrow> opts1\<lparr>RO_ReleaseHistoryLimit := Storage_HistoryLimit st\<rparr>);
                opts3 = (case Spec_Install spec of
                    None \<Rightarrow> opts2
                  | Some install \<Rightarrow> opts2
                      \<lparr>RO_NoInstallStandaloneCRDs := Install_NoInstallCRDs install,
                       RO_DefaultDeletePropagation := Install_DeletePropagation install,
                       RO_ForceAdoption := \<not> Install_NoForceAdoption install,
                       RO_NoRemoveManualChanges := Install_NoRemoveManualChanges install,
                       RO_DefaultPatchesDisable := Install_NoDefaultPatches install\<rparr>)
            in returnM (Inr opts3)
      })"

section \<open>Values\<close>

record ResolvedValues =
  RV_ValuesFiles :: "string list"
  RV_SecretValuesFiles :: "string list"
  RV_SecretKey :: string
  RV_ProvenanceKeyringPath :: string

definition buildValuesOptions :: "Release \<Rightarrow> ResolvedValues \<Rightarrow> ValuesOptions" where
  "buildValuesOptions rel resolvedValues =
     \<lparr>ValuesO_ValuesFiles = RV_ValuesFiles resolvedValues,
      ValuesO_RootSetJSON = Spec_SetRootContextJSON (Release_Spec rel),
      ValuesO_DefaultValuesDisable = Spec_NoDefaultValues (Release_Spec rel)\<rparr>"

definition buildSecretValuesOptions :: "Release \<Rightarrow> ResolvedValues \<Rightarrow> SecretValuesOptions" where
  "buildSecretValuesOptions rel resolvedValues =
     \<lparr>SecretO_SecretKey = RV_SecretKey resolvedValues,
      SecretO_SecretValuesFiles = RV_SecretValuesFiles resolvedValues,
      SecretO_DefaultSecretValuesDisable = Spec_NoDefaultSecretValues (Release_Spec rel)\<rparr>"

section \<open>The four actions\<close>

definition provenanceStrategy :: "Release \<Rightarrow> string" where
  "provenanceStrategy rel =
     (case Spec_Provenance (Release_Spec rel) of Some p \<Rightarrow> Provenance_Strategy p | None \<Rightarrow> '''')"

definition installTemplatesAllowDNS :: "Release \<Rightarrow> bool" where
  "installTemplatesAllowDNS rel =
     (case Spec_Install (Release_Spec rel) of Some i \<Rightarrow> Install_TemplatesAllowDNS i | None \<Rightarrow> False)"

definition typescriptIgnoreBundleJS :: "Release \<Rightarrow> bool" where
  "typescriptIgnoreBundleJS rel =
     (case Spec_Typescript (Release_Spec rel) of Some t \<Rightarrow> Typescript_IgnoreBundleJS t | None \<Rightarrow> False)"

definition buildPlanInstallOptions ::
  "'w ReleaseReconciler \<Rightarrow> Release \<Rightarrow> string \<Rightarrow> string \<Rightarrow> ResolvedValues \<Rightarrow>
   ('w, error + ReleasePlanInstallOptions) io" where
  "buildPlanInstallOptions r rel chartPath tempDir resolvedValues = do {
     runtimeOpts \<leftarrow> buildRuntimeOptions r rel tempDir;
     returnM (case runtimeOpts of
        Inl err \<Rightarrow> Inl err
      | Inr ro \<Rightarrow> Inr
          \<lparr>Plan_Kube = buildKubeConnectionOptions r rel,
           Plan_Runtime = ro,
           Plan_Values = buildValuesOptions rel resolvedValues,
           Plan_SecretValues = buildSecretValuesOptions rel resolvedValues,
           Plan_Chart = chartPath,
           Plan_ChartAppVersion = Spec_AppVersion (Release_Spec rel),
           Plan_ChartProvenanceKeyring = RV_ProvenanceKeyringPath resolvedValues,
           Plan_ChartProvenanceStrategy = provenanceStrategy rel,
           Plan_DenoBinaryPath = Config_DenoBinaryPath (rr_Config r),
           Plan_ErrorIfChangesPlanned = True,
           Plan_IgnoreBundleJS = typescriptIgnoreBundleJS rel,
           Plan_NetworkParallelism = Config_NetworkParallelism (rr_Config r),
           Plan_TemplatesAllowDNS = installTemplatesAllowDNS rel,
           Plan_TempDirPath = tempDir,
           Plan_Timeout = GetInstallTimeout rel\<rparr>)
   }"

definition buildInstallOptions ::
  "'w ReleaseReconciler \<Rightarrow> Release \<Rightarrow> string \<Rightarrow> string \<Rightarrow> ResolvedValues \<Rightarrow>
   ('w, error + ReleaseInstallOptions) io" where
  "buildInstallOptions r rel chartPath tempDir resolvedValues = do {
     runtimeOpts \<leftarrow> buildRuntimeOptions r rel tempDir;
     returnM (case runtimeOpts of
        Inl err \<Rightarrow> Inl err
      | Inr ro \<Rightarrow> Inr
          \<lparr>Inst_Kube = buildKubeConnectionOptions r rel,
           Inst_Runtime = ro,
           Inst_Tracking = buildTrackingOptions rel,
           Inst_Values = buildValuesOptions rel resolvedValues,
           Inst_SecretValues = buildSecretValuesOptions rel resolvedValues,
           Inst_Chart = chartPath,
           Inst_ChartAppVersion = Spec_AppVersion (Release_Spec rel),
           Inst_ChartProvenanceKeyring = RV_ProvenanceKeyringPath resolvedValues,
           Inst_ChartProvenanceStrategy = provenanceStrategy rel,
           Inst_DenoBinaryPath = Config_DenoBinaryPath (rr_Config r),
           Inst_IgnoreBundleJS = typescriptIgnoreBundleJS rel,
           Inst_NetworkParallelism = Config_NetworkParallelism (rr_Config r),
           Inst_TemplatesAllowDNS = installTemplatesAllowDNS rel,
           Inst_TempDirPath = tempDir,
           Inst_Timeout = GetInstallTimeout rel,
           Inst_LegacyPlanArtifact = None,
           Inst_PlanArtifactLifetime = 0\<rparr>)
   }"

definition buildRollbackOptions ::
  "'w ReleaseReconciler \<Rightarrow> Release \<Rightarrow> string \<Rightarrow> ('w, error + ReleaseRollbackOptions) io" where
  "buildRollbackOptions r rel tempDir =
     (let spec = Release_Spec rel
      in do {
        files \<leftarrow> patchesFiles r [] (Spec_DiffPatches spec) tempDir;
        case files of
          Inl err \<Rightarrow> returnM (Inl err)
        | Inr fs \<Rightarrow>
            let opts =
                  \<lparr>Roll_PatchesFiles = fs,
                   Roll_Kube = buildKubeConnectionOptions r rel,
                   Roll_Validation = buildValidationOptions r rel,
                   Roll_Tracking = buildTrackingOptions rel,
                   Roll_ReleaseStorageDriver = Config_ReleaseStorageDriver (rr_Config r),
                   Roll_ReleaseStorageSQLConnection = Config_ReleaseStorageSQLConnection (rr_Config r),
                   Roll_NetworkParallelism = Config_NetworkParallelism (rr_Config r),
                   Roll_TempDirPath = tempDir,
                   Roll_Timeout = GetRollbackTimeout rel,
                   Roll_ExtraRuntimeAnnotations = Spec_RuntimeAnnotations spec,
                   Roll_ExtraRuntimeLabels = Spec_RuntimeLabels spec,
                   Roll_ReleaseInfoAnnotations = Spec_ReleaseInfoAnnotations spec,
                   Roll_ReleaseLabels = ownershipLabels (Spec_ReleaseLabels spec),
                   Roll_ForceAdoption = True,
                   Roll_Revision = 0,
                   Roll_ReleaseHistoryLimit = 0,
                   Roll_DefaultDeletePropagation = '''',
                   Roll_NoRemoveManualChanges = False,
                   Roll_DefaultPatchesDisable = False\<rparr>;
                opts1 = (case Spec_ReleaseStorage spec of
                    None \<Rightarrow> opts
                  | Some st \<Rightarrow> opts\<lparr>Roll_ReleaseHistoryLimit := Storage_HistoryLimit st\<rparr>);
                opts2 = (case Spec_Rollback spec of
                    None \<Rightarrow> opts1
                  | Some rb \<Rightarrow> opts1
                      \<lparr>Roll_DefaultDeletePropagation := Rollback_DeletePropagation rb,
                       Roll_ForceAdoption := \<not> Rollback_NoForceAdoption rb,
                       Roll_NoRemoveManualChanges := Rollback_NoRemoveManualChanges rb,
                       Roll_DefaultPatchesDisable := Rollback_NoDefaultPatches rb\<rparr>)
            in returnM (Inr opts2)
      })"

definition buildUninstallOptions ::
  "'w ReleaseReconciler \<Rightarrow> Release \<Rightarrow> string \<Rightarrow> ('w, error + ReleaseUninstallOptions) io" where
  "buildUninstallOptions r rel tempDir =
     (let spec = Release_Spec rel
      in do {
        files \<leftarrow> patchesFiles r [] (Spec_DiffPatches spec) tempDir;
        case files of
          Inl err \<Rightarrow> returnM (Inl err)
        | Inr fs \<Rightarrow>
            let opts =
                  \<lparr>Un_PatchesFiles = fs,
                   Un_Kube = buildKubeConnectionOptions r rel,
                   Un_Tracking = buildTrackingOptions rel,
                   Un_ReleaseStorageDriver = Config_ReleaseStorageDriver (rr_Config r),
                   Un_ReleaseStorageSQLConnection = Config_ReleaseStorageSQLConnection (rr_Config r),
                   Un_NetworkParallelism = Config_NetworkParallelism (rr_Config r),
                   Un_TempDirPath = tempDir,
                   Un_Timeout = GetUninstallTimeout rel,
                   Un_ReleaseHistoryLimit = 0,
                   Un_DeleteReleaseNamespace = False,
                   Un_DefaultDeletePropagation = '''',
                   Un_NoRemoveManualChanges = False,
                   Un_DefaultPatchesDisable = False\<rparr>;
                opts1 = (case Spec_ReleaseStorage spec of
                    None \<Rightarrow> opts
                  | Some st \<Rightarrow> opts\<lparr>Un_ReleaseHistoryLimit := Storage_HistoryLimit st\<rparr>);
                opts2 = (case Spec_Uninstall spec of
                    None \<Rightarrow> opts1
                  | Some un \<Rightarrow> opts1
                      \<lparr>Un_DeleteReleaseNamespace := Uninstall_DeleteNamespace un,
                       Un_DefaultDeletePropagation := Uninstall_DeletePropagation un,
                       Un_NoRemoveManualChanges := Uninstall_NoRemoveManualChanges un,
                       Un_DefaultPatchesDisable := Uninstall_NoDefaultPatches un\<rparr>)
            in returnM (Inr opts2)
      })"

section \<open>The patches file\<close>

lemma fold_snoc: "fold (\<lambda>p acc. acc @ [f p]) ps acc = acc @ map f ps"
  by (induction ps arbitrary: acc) auto

lemma specPatches_map: "specPatches ps = map specPatch ps"
  by (simp add: specPatches_def fold_snoc)

text \<open>The calls that writing the patches file can make.\<close>

fun patches_call :: "'w ReleaseReconciler \<Rightarrow> Patch list \<Rightarrow> Patch list \<Rightarrow> string \<Rightarrow> call \<times> bool \<Rightarrow> bool" where
  "patches_call r render diff dir (CCreateTemp d pat, b) = (d = dir \<and> pat = ''patches-*.yaml'')"
| "patches_call r render diff dir (CWriteFile f data, b) =
     (lib_yaml_Marshal (rr_Lib r)
        \<lparr>PF_RenderPatches = map specPatch render, PF_DiffPatches = map specPatch diff\<rparr> = Inr data)"
| "patches_call r render diff dir (CCloseFile f, b) = True"
| "patches_call r render diff dir _ = False"

lemma emits_writePatchesFile:
  "emits (patches_call r render diff dir) (writePatchesFile r render diff dir)"
  unfolding writePatchesFile_def
  by (intro emits_intro) (simp_all add: specPatches_map)

lemma emits_patchesFiles:
  "emits (patches_call r render diff dir) (patchesFiles r render diff dir)"
  unfolding patchesFiles_def
  by (intro emits_intro emits_writePatchesFile)

lemma patchesFiles_none: "patchesFiles r [] [] dir = returnM (Inr [])"
  by (simp add: patchesFiles_def writePatchesFile_def)

lemma patchesFiles_length:
  "run_state (patchesFiles r render diff dir) s = (Inr fs, t) \<Longrightarrow> length fs \<le> 1"
  by (auto simp: patchesFiles_def wp split_beta split: sum.splits if_splits)

text \<open>
  What the four builders of action options share: they write the patches file, fail when that
  fails, with the same error, and otherwise do nothing else and pass its path on.
\<close>

locale options_builder =
  fixes r :: "'w ReleaseReconciler"
    and render :: "Patch list"
    and diff :: "Patch list"
    and dir :: string
    and build :: "('w, error + 'o) io"
    and files :: "'o \<Rightarrow> string list"
  assumes build_error: "run_state (patchesFiles r render diff dir) s = (Inl e, t) \<Longrightarrow>
      run_state build s = (Inl e, t)"
    and build_ok: "run_state (patchesFiles r render diff dir) s = (Inr fs, t) \<Longrightarrow>
      \<exists>opts. run_state build s = (Inr opts, t) \<and> files opts = fs"
begin

lemma build_state: "snd (run_state build s) = snd (run_state (patchesFiles r render diff dir) s)"
proof (cases "run_state (patchesFiles r render diff dir) s")
  case (Pair a t)
  then show ?thesis by (cases a) (auto dest: build_error build_ok)
qed

lemma emits_build: "emits (patches_call r render diff dir) build"
  using emits_patchesFiles [of r render diff dir] unfolding emits_def build_state .

lemma build_total: "render = [] \<Longrightarrow> diff = [] \<Longrightarrow> \<exists>opts. run_state build s = (Inr opts, s) \<and> files opts = []"
  by (rule build_ok) (simp add: patchesFiles_none)

lemma build_files: "run_state build s = (Inr opts, t) \<Longrightarrow>
    run_state (patchesFiles r render diff dir) s = (Inr (files opts), t)"
  by (cases "run_state (patchesFiles r render diff dir) s"; cases "fst (run_state (patchesFiles r render diff dir) s)")
    (auto dest: build_error build_ok)

lemma build_files_length: "run_state build s = (Inr opts, t) \<Longrightarrow> length (files opts) \<le> 1"
  by (drule build_files) (rule patchesFiles_length)

end

interpretation runtime: options_builder r "Spec_RenderPatches (Release_Spec rel)"
    "Spec_DiffPatches (Release_Spec rel)" dir "buildRuntimeOptions r rel dir" RO_PatchesFiles for r rel dir
  by unfold_locales (auto simp: buildRuntimeOptions_def Let_def split: option.splits)

interpretation plan: options_builder r "Spec_RenderPatches (Release_Spec rel)"
    "Spec_DiffPatches (Release_Spec rel)" dir "buildPlanInstallOptions r rel chart dir rv"
    "RO_PatchesFiles \<circ> Plan_Runtime" for r rel chart dir rv
  by unfold_locales (auto simp: buildPlanInstallOptions_def dest!: runtime.build_error runtime.build_ok)

interpretation install: options_builder r "Spec_RenderPatches (Release_Spec rel)"
    "Spec_DiffPatches (Release_Spec rel)" dir "buildInstallOptions r rel chart dir rv"
    "RO_PatchesFiles \<circ> Inst_Runtime" for r rel chart dir rv
  by unfold_locales (auto simp: buildInstallOptions_def dest!: runtime.build_error runtime.build_ok)

interpretation rollback: options_builder r "[]" "Spec_DiffPatches (Release_Spec rel)" dir
    "buildRollbackOptions r rel dir" Roll_PatchesFiles for r rel dir
  by unfold_locales (auto simp: buildRollbackOptions_def Let_def split: option.splits)

interpretation uninstall: options_builder r "[]" "Spec_DiffPatches (Release_Spec rel)" dir
    "buildUninstallOptions r rel dir" Un_PatchesFiles for r rel dir
  by unfold_locales (auto simp: buildUninstallOptions_def Let_def split: option.splits)

section \<open>The fields of the options\<close>

lemma buildRuntimeOptions_fields:
  assumes "run_state (buildRuntimeOptions r rel dir) s = (Inr ro, t)"
    and "run_state (buildRuntimeOptions r rel dir') s' = (Inr ro', t')"
  shows "ro'\<lparr>RO_PatchesFiles := fs\<rparr> = ro\<lparr>RO_PatchesFiles := fs\<rparr>"
  using assms
  by (auto simp: buildRuntimeOptions_def Let_def split_beta split: sum.splits option.splits)

lemma buildRuntimeOptions_labels:
  "run_state (buildRuntimeOptions r rel dir) s = (Inr ro, t) \<Longrightarrow>
   RO_ReleaseLabels ro = ownershipLabels (Spec_ReleaseLabels (Release_Spec rel))"
  by (auto simp: buildRuntimeOptions_def Let_def split_beta split: sum.splits option.splits)

lemma buildPlanInstallOptions_Inr:
  "run_state (buildPlanInstallOptions r rel chart dir rv) s = (Inr p, t) \<Longrightarrow>
   run_state (buildRuntimeOptions r rel dir) s = (Inr (Plan_Runtime p), t)"
  by (auto simp: buildPlanInstallOptions_def split_beta prod_eq_iff split: sum.splits)

lemma buildInstallOptions_Inr:
  "run_state (buildInstallOptions r rel chart dir rv) s = (Inr i, t) \<Longrightarrow>
   run_state (buildRuntimeOptions r rel dir) s = (Inr (Inst_Runtime i), t)"
  by (auto simp: buildInstallOptions_def split_beta prod_eq_iff split: sum.splits)

section \<open>Plan and installation agree\<close>

text \<open>
  \<open>same_deployment p i\<close>: the options of an installation ask for the deployment that the options
  of a plan describe; only the path of the patches file, which is written twice with the same
  content, may differ.
\<close>

definition same_deployment :: "ReleasePlanInstallOptions \<Rightarrow> ReleaseInstallOptions \<Rightarrow> bool" where
  "same_deployment p i \<longleftrightarrow>
     Inst_Kube i = Plan_Kube p \<and>
     (Inst_Runtime i)\<lparr>RO_PatchesFiles := []\<rparr> = (Plan_Runtime p)\<lparr>RO_PatchesFiles := []\<rparr> \<and>
     Inst_Values i = Plan_Values p \<and> Inst_SecretValues i = Plan_SecretValues p \<and>
     Inst_Chart i = Plan_Chart p \<and> Inst_ChartAppVersion i = Plan_ChartAppVersion p \<and>
     Inst_ChartProvenanceKeyring i = Plan_ChartProvenanceKeyring p \<and>
     Inst_ChartProvenanceStrategy i = Plan_ChartProvenanceStrategy p \<and>
     Inst_DenoBinaryPath i = Plan_DenoBinaryPath p \<and> Inst_IgnoreBundleJS i = Plan_IgnoreBundleJS p \<and>
     Inst_NetworkParallelism i = Plan_NetworkParallelism p \<and>
     Inst_TemplatesAllowDNS i = Plan_TemplatesAllowDNS p \<and>
     Inst_TempDirPath i = Plan_TempDirPath p \<and> Inst_Timeout i = Plan_Timeout p"

text \<open>\<open>built m x\<close>: some run of the builder \<open>m\<close> succeeds with \<open>x\<close>.\<close>

definition built :: "('w, error + 'o) io \<Rightarrow> 'o \<Rightarrow> bool" where
  "built m x \<longleftrightarrow> (\<exists>s t. run_state m s = (Inr x, t))"

lemma runs_built: "emits P m \<Longrightarrow> runs m (\<lambda>res cs. list_all P cs \<and> (\<forall>x. res = Inr x \<longrightarrow> built m x))"
  unfolding emits_def runs_def built_def by (metis prod.collapse)

lemma built_same_deployment:
  assumes "built (buildPlanInstallOptions r rel chart dir rv) p"
    and "built (buildInstallOptions r rel chart dir rv) i"
  shows "same_deployment p i"
proof -
  from assms obtain s t s' t'
    where p: "run_state (buildPlanInstallOptions r rel chart dir rv) s = (Inr p, t)"
      and i: "run_state (buildInstallOptions r rel chart dir rv) s' = (Inr i, t')"
    unfolding built_def by blast
  have "(Inst_Runtime i)\<lparr>RO_PatchesFiles := []\<rparr> = (Plan_Runtime p)\<lparr>RO_PatchesFiles := []\<rparr>"
    by (rule buildRuntimeOptions_fields [OF buildPlanInstallOptions_Inr [OF p] buildInstallOptions_Inr [OF i]])
  with p i show ?thesis
    by (auto simp: same_deployment_def buildPlanInstallOptions_def buildInstallOptions_def split_beta
        split: sum.splits)
qed

section \<open>Fields of the options, once built\<close>

lemma built_plan_kube:
  "built (buildPlanInstallOptions r rel chart dir rv) p \<Longrightarrow> Plan_Kube p = buildKubeConnectionOptions r rel"
  unfolding built_def by (elim exE) (auto simp: buildPlanInstallOptions_def split_beta split: sum.splits)

lemma built_install_kube:
  "built (buildInstallOptions r rel chart dir rv) i \<Longrightarrow> Inst_Kube i = buildKubeConnectionOptions r rel"
  unfolding built_def by (elim exE) (auto simp: buildInstallOptions_def split_beta split: sum.splits)

lemma built_install_labels:
  "built (buildInstallOptions r rel chart dir rv) i \<Longrightarrow>
   RO_ReleaseLabels (Inst_Runtime i) = ownershipLabels (Spec_ReleaseLabels (Release_Spec rel))"
  unfolding built_def by (blast dest: buildInstallOptions_Inr buildRuntimeOptions_labels)

lemma built_rollback:
  "built (buildRollbackOptions r rel dir) b \<Longrightarrow>
   Roll_Kube b = buildKubeConnectionOptions r rel \<and>
   Roll_ReleaseLabels b = ownershipLabels (Spec_ReleaseLabels (Release_Spec rel)) \<and> Roll_Revision b = 0"
  unfolding built_def by (elim exE) (auto simp: buildRollbackOptions_def Let_def split_beta split: sum.splits option.splits)

lemma built_uninstall:
  "built (buildUninstallOptions r rel dir) u \<Longrightarrow> Un_Kube u = buildKubeConnectionOptions r rel"
  unfolding built_def by (elim exE) (auto simp: buildUninstallOptions_def Let_def split_beta split: sum.splits option.splits)

end
