(* ===== verification/Status_Handlers.thy ===== *)
theory Status_Handlers
  imports Install_Options
begin

text \<open>
  The part of \<^verbatim>\<open>release_controller.go\<close> that reads the release storage and reports outcomes:
  reading the stored release, detecting foreign changes, stamping the ownership marker,
  projecting the storage into the status, events, and the success and failure handlers with
  retries, backoff and automatic rollback.

  The handlers mutate the Release they are given; here they return it. A call that succeeds in
  writing the Release replaces it by the server's answer, as the client does.
\<close>

section \<open>Outcomes of a reconciliation\<close>

record Result =
  Res_Requeue :: bool
  Res_RequeueAfter :: duration

abbreviation no_result :: Result where
  "no_result \<equiv> \<lparr>Res_Requeue = False, Res_RequeueAfter = 0\<rparr>"

abbreviation requeue :: Result where
  "requeue \<equiv> \<lparr>Res_Requeue = True, Res_RequeueAfter = 0\<rparr>"

abbreviation requeue_after :: "duration \<Rightarrow> Result" where
  "requeue_after d \<equiv> \<lparr>Res_Requeue = False, Res_RequeueAfter = d\<rparr>"

datatype outcome = Returned Result "error option" | Panicked string

definition StatusUpdate :: "'w ReleaseReconciler \<Rightarrow> Release \<Rightarrow> ('w, error + Release) io" where
  "StatusUpdate r rel = perform (CStatusUpdate rel) succeeded (client_StatusUpdate (rr_Client r) rel)"

section \<open>Release storage\<close>

definition getRelease ::
  "'w ReleaseReconciler \<Rightarrow> Release \<Rightarrow> string \<Rightarrow> string \<Rightarrow> ('w, error + StoredRelease option) io" where
  "getRelease r rel releaseName releaseNamespace =
     (let opts = \<lparr>GetO_Kube = buildKubeConnectionOptions r rel, GetO_OutputNoPrint = True,
                  GetO_ReleaseStorageDriver = Config_ReleaseStorageDriver (rr_Config r),
                  GetO_ReleaseStorageSQLConnection = Config_ReleaseStorageSQLConnection (rr_Config r),
                  GetO_Revision = 0\<rparr>
      in do {
        result \<leftarrow> perform (CReleaseGet releaseName releaseNamespace opts) succeeded
                    (nelm_ReleaseGet (rr_Nelm r) releaseName releaseNamespace opts);
        returnM (case result of
           Inl err \<Rightarrow> if err_class_of err = ReleaseNotFoundError then Inr None else Inl err
         | Inr rls \<Rightarrow> Inr rls)
      })"

definition detectForeignChange :: "int \<Rightarrow> StoredRelease option \<Rightarrow> bool" where
  "detectForeignChange recordedRevision rls =
     (if recordedRevision = 0 then False
      else case rls of
        None \<Rightarrow> True
      | Some st \<Rightarrow>
          if Stored_Revision st > recordedRevision then True
          else map_index (Stored_StorageLabels st) ownershipMarkerKey \<noteq> ownershipMarkerValue)"

definition stampOwnershipMarker ::
  "'w ReleaseReconciler \<Rightarrow> Release \<Rightarrow> string \<Rightarrow> string \<Rightarrow> int \<Rightarrow> ('w, error option) io" where
  "stampOwnershipMarker r rel releaseName releaseNamespace revision =
     (let kopts = buildKubeConnectionOptions r rel;
          driver = Config_ReleaseStorageDriver (rr_Config r);
          sql = Config_ReleaseStorageSQLConnection (rr_Config r);
          marker = [ownershipMarkerKey \<mapsto> ownershipMarkerValue]
      in do {
        kubeConfig \<leftarrow> perform (CNewKubeConfig kopts releaseNamespace) succeeded
                        (nelm_NewKubeConfig (rr_Nelm r) kopts releaseNamespace);
        case kubeConfig of
          Inl err \<Rightarrow> returnM (Some (Wrapped ''construct kube config'' err))
        | Inr kc \<Rightarrow> do {
        clientFactory \<leftarrow> perform (CNewClientFactory kc) succeeded (nelm_NewClientFactory (rr_Nelm r) kc);
        case clientFactory of
          Inl err \<Rightarrow> returnM (Some (Wrapped ''construct kube client factory'' err))
        | Inr cf \<Rightarrow> do {
        releaseStorage \<leftarrow> perform (CNewReleaseStorage releaseNamespace driver cf sql) succeeded
                            (nelm_NewReleaseStorage (rr_Nelm r) releaseNamespace driver cf sql);
        case releaseStorage of
          Inl err \<Rightarrow> returnM (Some (Wrapped ''construct release storage'' err))
        | Inr st \<Rightarrow> do {
        e \<leftarrow> perform (CUpdateLabels st releaseName revision marker) no_error
               (nelm_UpdateLabels (rr_Nelm r) st releaseName revision marker);
        returnM (map_option (Wrapped ''update release labels'') e)
        }}}})"

definition projectStatusFromStorage ::
  "'w ReleaseReconciler \<Rightarrow> Release \<Rightarrow> string \<Rightarrow> string \<Rightarrow> StoredRelease option \<Rightarrow> bool \<Rightarrow>
   ('w, Release) io" where
  "projectStatusFromStorage r rel releaseName releaseNamespace captured refetch =
     (let project = (\<lambda>current. case current of
            None \<Rightarrow> with_status (\<lambda>s. s\<lparr>Status_Revision := 0, Status_RevisionStatus := ''''\<rparr>) rel
          | Some st \<Rightarrow> with_status (\<lambda>s. s\<lparr>Status_Revision := Stored_Revision st,
                                          Status_RevisionStatus := Stored_Status st\<rparr>) rel)
      in if refetch then do {
           current \<leftarrow> getRelease r rel releaseName releaseNamespace;
           returnM (case current of Inl err \<Rightarrow> rel | Inr c \<Rightarrow> project c)
         }
         else returnM (project captured))"

text \<open>Events go to the recorder's own queue; only the call is observed.\<close>

definition emitEvent ::
  "'w ReleaseReconciler \<Rightarrow> Release \<Rightarrow> string \<Rightarrow> string \<Rightarrow> string \<Rightarrow> ('w, unit) io" where
  "emitEvent r rel eventtype reason message =
     (if \<not> rr_EventRecorder r then returnM ()
      else perform (CEvent rel eventtype reason message) (\<lambda>_. True) (\<lambda>w. ((), w)))"

section \<open>Conditions\<close>

definition condition :: "Release \<Rightarrow> string \<Rightarrow> string \<Rightarrow> string \<Rightarrow> string \<Rightarrow> Condition" where
  "condition rel type status reason message =
     \<lparr>Cond_Type = type, Cond_Status = status, Cond_ObservedGeneration = rel_Generation rel,
      Cond_LastTransitionTime = '''', Cond_Reason = reason, Cond_Message = message\<rparr>"

definition setCondition :: "'w ReleaseReconciler \<Rightarrow> Condition \<Rightarrow> Release \<Rightarrow> ('w, Release) io" where
  "setCondition r cond rel = do {
     cs \<leftarrow> observe (\<lambda>w. lib_SetStatusCondition (rr_Lib r) w (Status_Conditions (Release_Status rel)) cond);
     returnM (with_status (\<lambda>s. s\<lparr>Status_Conditions := cs\<rparr>) rel)
   }"

section \<open>Success\<close>

definition handleSuccess ::
  "'w ReleaseReconciler \<Rightarrow> Release \<Rightarrow> string \<Rightarrow> string \<Rightarrow> StoredRelease option \<Rightarrow> bool \<Rightarrow>
   ('w, outcome) io" where
  "handleSuccess r rel0 releaseName releaseNamespace captured refetch = do {
     rel1 \<leftarrow> projectStatusFromStorage r rel0 releaseName releaseNamespace captured refetch;
     let rel2 = with_status (\<lambda>s. s\<lparr>Status_LastActionFailures := 0,
                                   Status_ObservedGeneration := rel_Generation rel1\<rparr>) rel1;
     rel3 \<leftarrow> setCondition r (condition rel2 ''Ready'' ''True'' ''InstallSucceeded''
               (''Release install complete, revision '' @ fmt_d (Status_Revision (Release_Status rel2)))) rel2;
     rel4 \<leftarrow> setCondition r (condition rel3 ''Reconciling'' ''False'' ''Succeeded'' '''') rel3;
     rel5 \<leftarrow> setCondition r (condition rel4 ''Stalled'' ''False'' ''Succeeded'' '''') rel4;
     u \<leftarrow> StatusUpdate r rel5;
     returnM (case u of
        Inl err \<Rightarrow> Returned no_result (Some (Wrapped ''update success status'' err))
      | Inr rel \<Rightarrow> Returned (requeue_after (Spec_Interval (Release_Spec rel))) None)
   }"

section \<open>Rollback\<close>

definition attemptRollback :: "'w ReleaseReconciler \<Rightarrow> Release \<Rightarrow> ('w, Release) io" where
  "attemptRollback r rel =
     (let tmp = Config_TempDir (rr_Config r)
      in do {
        d \<leftarrow> perform (CMkdirTemp tmp ''nelm-rollback-*'') succeeded (os_MkdirTemp (rr_Os r) tmp ''nelm-rollback-*'');
        case d of
          Inl err \<Rightarrow> returnM rel
        | Inr tempDir \<Rightarrow> do {
            rollbackOpts \<leftarrow> buildRollbackOptions r rel tempDir;
            rel' \<leftarrow> (case rollbackOpts of
                Inl err \<Rightarrow> returnM rel
              | Inr opts \<Rightarrow> do {
                  e \<leftarrow> perform (CReleaseRollback (rel_Name rel) (GetReleaseNamespace rel) opts) no_error
                         (nelm_ReleaseRollback (rr_Nelm r) (rel_Name rel) (GetReleaseNamespace rel) opts);
                  case e of
                    Some err \<Rightarrow> returnM rel
                  | None \<Rightarrow>
                      projectStatusFromStorage r
                        (with_status (\<lambda>s. s\<lparr>Status_LastAction := ''rollback''\<rparr>) rel)
                        (rel_Name rel) (GetReleaseNamespace rel) None True
                });
            _ \<leftarrow> perform (CRemoveAll tempDir) no_error (os_RemoveAll (rr_Os r) tempDir);
            returnM rel'
          }
      })"

section \<open>Failure\<close>

text \<open>
  The backoff, with the two multiplications and the shift on \<^verbatim>\<open>time.Duration\<close>, a signed 64-bit
  integer. A negative shift count panics.
\<close>

definition backoff :: "int \<Rightarrow> duration option" where
  "backoff failures =
     (if failures < 0 then None
      else Some (min (wrap64 (wrap64 (shl64 1 (nat failures) * 15) * time_Second)) (5 * time_Minute)))"

definition max_retries :: "Release \<Rightarrow> int" where
  "max_retries rel =
     (case Spec_Install (Release_Spec rel) of Some i \<Rightarrow> Install_Retries i | None \<Rightarrow> 0)"

definition auto_rollback :: "Release \<Rightarrow> bool" where
  "auto_rollback rel =
     (case Spec_Install (Release_Spec rel) of Some i \<Rightarrow> Install_AutoRollback i | None \<Rightarrow> False)"

definition handleFailure ::
  "'w ReleaseReconciler \<Rightarrow> Release \<Rightarrow> bool \<Rightarrow> error \<Rightarrow> StoredRelease option \<Rightarrow> bool \<Rightarrow>
   ('w, outcome) io" where
  "handleFailure r rel0 installAttempted reconcileErr captured refetch = do {
     rel1 \<leftarrow> projectStatusFromStorage r rel0 (rel_Name rel0) (GetReleaseNamespace rel0) captured refetch;
     let rel2 = with_status (\<lambda>s. s\<lparr>Status_LastActionFailures := wrap64 (Status_LastActionFailures s + 1),
                                   Status_ObservedGeneration := rel_Generation rel1\<rparr>) rel1;
     let maxRetries = max_retries rel2;
     if Status_LastActionFailures (Release_Status rel2) > maxRetries then do {
       rel3 \<leftarrow> (if installAttempted \<and> auto_rollback rel2 then attemptRollback r rel2 else returnM rel2);
       rel4 \<leftarrow> setCondition r (condition rel3 ''Stalled'' ''True'' ''RetriesExhausted''
                 (Error_text reconcileErr)) rel3;
       rel5 \<leftarrow> setCondition r (condition rel4 ''Ready'' ''False'' ''InstallFailed''
                 (Error_text reconcileErr)) rel4;
       rel6 \<leftarrow> setCondition r (condition rel5 ''Reconciling'' ''False'' ''RetriesExhausted'' '''') rel5;
       u \<leftarrow> StatusUpdate r rel6;
       returnM (case u of
          Inl err \<Rightarrow> Returned no_result (Some (Wrapped ''update stalled status'' err))
        | Inr _ \<Rightarrow> Returned no_result None)
     }
     else do {
       rel3 \<leftarrow> setCondition r (condition rel2 ''Ready'' ''False'' ''InstallFailed''
                 (Error_text reconcileErr)) rel2;
       rel4 \<leftarrow> setCondition r (condition rel3 ''Reconciling'' ''True'' ''RetryPending''
                 (''Retry '' @ fmt_d (Status_LastActionFailures (Release_Status rel3)) @ '' of '' @
                  fmt_d maxRetries)) rel3;
       rel5 \<leftarrow> setCondition r (condition rel4 ''Stalled'' ''False'' ''RetryPending'' '''') rel4;
       u \<leftarrow> StatusUpdate r rel5;
       returnM (case u of
          Inl err \<Rightarrow> Returned no_result (Some (Wrapped ''update failure status'' err))
        | Inr rel \<Rightarrow>
            (case backoff (Status_LastActionFailures (Release_Status rel)) of
               None \<Rightarrow> Panicked ''negative shift amount''
             | Some d \<Rightarrow> Returned (requeue_after d) None))
     }
   }"

section \<open>Kinds of calls of each operation\<close>

lemma patches_call_kind: "patches_call r render diff dir c \<Longrightarrow> in_kinds {KTempFile} c"
  by (cases "(r, render, diff, dir, c)" rule: patches_call.cases) auto

lemma kinds_getRelease: "emits (in_kinds {KStorageGet}) (getRelease r rel n ns)"
  unfolding getRelease_def by (intro emits_intro) simp

lemma kinds_projectStatus:
  "emits (in_kinds {KStorageGet}) (projectStatusFromStorage r rel n ns captured refetch)"
  unfolding projectStatusFromStorage_def by (intro emits_intro kinds_getRelease)

lemma kinds_stampOwnershipMarker:
  "emits (in_kinds {KStorageConnect, KLabels}) (stampOwnershipMarker r rel n ns revision)"
  unfolding stampOwnershipMarker_def by (intro emits_intro) simp_all

lemma kinds_emitEvent: "emits (in_kinds {KEvent}) (emitEvent r rel t reason m)"
  unfolding emitEvent_def by (intro emits_intro) simp

lemma kinds_setCondition: "emits (in_kinds {}) (setCondition r c rel)"
  unfolding setCondition_def by (intro emits_intro)

lemma kinds_StatusUpdate: "emits (in_kinds {KStatusUpdate}) (StatusUpdate r rel)"
  unfolding StatusUpdate_def by (intro emits_intro) simp

lemma kinds_buildRollbackOptions: "emits (in_kinds {KTempFile}) (buildRollbackOptions r rel dir)"
  by (rule emits_mono [OF rollback.emits_build patches_call_kind])

definition rollback_kinds :: "call_kind set" where
  "rollback_kinds = {KMkdirTemp, KTempFile, KRollback, KStorageGet, KRemoveAll}"

lemma kinds_attemptRollback: "emits (in_kinds rollback_kinds) (attemptRollback r rel)"
  unfolding attemptRollback_def
  by (intro emits_intro emits_kinds_mono [OF kinds_buildRollbackOptions]
      emits_kinds_mono [OF kinds_projectStatus])
    (simp_all add: rollback_kinds_def)

lemma kinds_handleSuccess:
  "emits (in_kinds {KStorageGet, KStatusUpdate}) (handleSuccess r rel n ns captured refetch)"
  unfolding handleSuccess_def
  by (intro emits_intro emits_kinds_mono [OF kinds_projectStatus]
      emits_kinds_mono [OF kinds_setCondition] emits_kinds_mono [OF kinds_StatusUpdate]) simp_all

lemma kinds_handleFailure:
  "emits (in_kinds (insert KStatusUpdate (if attempted then rollback_kinds else {KStorageGet})))
     (handleFailure r rel attempted e captured refetch)"
  unfolding handleFailure_def
  by (intro emits_intro emits_kinds_mono [OF kinds_projectStatus]
      emits_kinds_mono [OF kinds_attemptRollback]
      emits_kinds_mono [OF kinds_setCondition] emits_kinds_mono [OF kinds_StatusUpdate])
    (auto simp: rollback_kinds_def)

section \<open>What the code relies on\<close>

text \<open>
  \<^verbatim>\<open>meta.SetStatusCondition\<close> makes the given condition the one of its type and leaves the
  conditions of other types alone; the transition time is its own business.
\<close>

definition cond_view :: "Condition \<Rightarrow> string \<times> int \<times> string \<times> string" where
  "cond_view c = (Cond_Status c, Cond_ObservedGeneration c, Cond_Reason c, Cond_Message c)"

definition cond_of :: "string \<Rightarrow> Condition list \<Rightarrow> (string \<times> int \<times> string \<times> string) option" where
  "cond_of t cs = map_option cond_view (find (\<lambda>c. Cond_Type c = t) cs)"

definition condition_contract :: "'w k8s_lib \<Rightarrow> bool" where
  "condition_contract L \<longleftrightarrow>
     (\<forall>w cs c t. cond_of t (lib_SetStatusCondition L w cs c) =
        (if t = Cond_Type c then Some (cond_view c) else cond_of t cs))"

abbreviation rel_cond :: "string \<Rightarrow> Release \<Rightarrow> (string \<times> int \<times> string \<times> string) option" where
  "rel_cond t rel \<equiv> cond_of t (Status_Conditions (Release_Status rel))"

text \<open>
  A status update that succeeds answers with the object it stored: the status that was sent, on
  the metadata and specification the server has. Only the chart reference may differ from the
  object in memory, whose namespace the controller fills in.
\<close>

definition status_echo :: "Release \<Rightarrow> Release \<Rightarrow> bool" where
  "status_echo rel rel' \<longleftrightarrow>
     Release_Status rel' = Release_Status rel \<and> Release_Meta rel' = Release_Meta rel \<and>
     Release_Spec rel' = (Release_Spec rel)\<lparr>Spec_ChartRef := Spec_ChartRef (Release_Spec rel')\<rparr>"

definition status_contract :: "'w ReleaseReconciler \<Rightarrow> bool" where
  "status_contract r \<longleftrightarrow>
     (\<forall>rel w rel' w'. client_StatusUpdate (rr_Client r) rel w = (Inr rel', w') \<longrightarrow> status_echo rel rel')"

lemma mem_condition_contract: "condition_contract mem_lib"
proof -
  have "cond_of t (mem_set_condition cs c) = (if t = Cond_Type c then Some (cond_view c) else cond_of t cs)"
    for t cs c
    by (induction cs c rule: mem_set_condition.induct) (auto simp: cond_of_def cond_view_def)
  then show ?thesis
    by (simp add: condition_contract_def mem_lib_def mem_SetStatusCondition_def cond_view_def)
qed

lemma mem_status_contract: "status_contract mem_reconciler"
  by (auto simp: status_contract_def status_echo_def mem_reconciler_def mem_client_def
      mem_StatusUpdate_def unless_down_def split: if_splits)

section \<open>Results of the handlers\<close>

lemma runs_setCondition:
  assumes "condition_contract (rr_Lib r)"
    and "\<And>ds. (\<And>t. cond_of t ds = (if t = Cond_Type c then Some (cond_view c) else rel_cond t rel)) \<Longrightarrow>
      Q (with_status (\<lambda>s. s\<lparr>Status_Conditions := ds\<rparr>) rel) []"
  shows "runs (setCondition r c rel) Q"
  unfolding setCondition_def
  by (intro runs_intro) (use assms in \<open>simp add: condition_contract_def\<close>)

text \<open>
  \<open>storage_only rel rel'\<close>: nothing but the fields taken from the release storage, and the last
  action, differ.
\<close>

definition status_core :: "ReleaseStatus \<Rightarrow> ReleaseStatus" where
  "status_core s = s\<lparr>Status_Revision := 0, Status_RevisionStatus := [], Status_LastAction := []\<rparr>"

definition storage_only :: "Release \<Rightarrow> Release \<Rightarrow> bool" where
  "storage_only rel rel' \<longleftrightarrow>
     Release_Meta rel' = Release_Meta rel \<and> Release_Spec rel' = Release_Spec rel \<and>
     status_core (Release_Status rel') = status_core (Release_Status rel)"

lemma storage_only_project:
  assumes "storage_only rel rel1"
  shows "storage_only rel (with_status (\<lambda>s. s\<lparr>Status_Revision := revision, Status_RevisionStatus := st\<rparr>) rel1)"
    and "storage_only rel (with_status (\<lambda>s. s\<lparr>Status_LastAction := act\<rparr>) rel1)"
  using assms by (simp_all add: storage_only_def status_core_def)

lemma storage_only_refl [simp]: "storage_only rel rel"
  by (simp add: storage_only_def)

lemma storage_only_trans: "storage_only a b \<Longrightarrow> storage_only b c \<Longrightarrow> storage_only a c"
  by (simp add: storage_only_def)

lemma status_core_eqD:
  assumes "status_core s = status_core t"
  shows "Status_ObservedGeneration s = Status_ObservedGeneration t"
    and "Status_Conditions s = Status_Conditions t"
    and "Status_LastActionFailures s = Status_LastActionFailures t"
    and "Status_ChartSourcePhase s = Status_ChartSourcePhase t"
    and "Status_LastAppliedChartSource s = Status_LastAppliedChartSource t"
    and "Status_CandidateChartSource s = Status_CandidateChartSource t"
  using assms by (cases s; cases t; simp add: status_core_def)+

lemma storage_onlyD:
  assumes "storage_only rel rel'"
  shows "Release_Meta rel' = Release_Meta rel" and "Release_Spec rel' = Release_Spec rel"
    and "Status_ObservedGeneration (Release_Status rel') = Status_ObservedGeneration (Release_Status rel)"
    and "Status_Conditions (Release_Status rel') = Status_Conditions (Release_Status rel)"
    and "Status_LastActionFailures (Release_Status rel') = Status_LastActionFailures (Release_Status rel)"
    and "Status_ChartSourcePhase (Release_Status rel') = Status_ChartSourcePhase (Release_Status rel)"
    and "Status_LastAppliedChartSource (Release_Status rel') = Status_LastAppliedChartSource (Release_Status rel)"
    and "Status_CandidateChartSource (Release_Status rel') = Status_CandidateChartSource (Release_Status rel)"
  using assms by (auto simp: storage_only_def dest: status_core_eqD)

lemma runs_projectStatus:
  assumes "\<And>rel' cs. list_all (in_kinds {KStorageGet}) cs \<Longrightarrow> storage_only rel rel' \<Longrightarrow> Q rel' cs"
  shows "runs (projectStatusFromStorage r rel n ns captured refetch) Q"
proof -
  have "runs (projectStatusFromStorage r rel n ns captured refetch) (\<lambda>rel' cs. storage_only rel rel')"
    unfolding projectStatusFromStorage_def Let_def
    by (intro runs_intro runs_emits [OF kinds_getRelease])
      (auto intro: storage_only_project(1) [OF storage_only_refl] split: sum.splits option.splits)
  from runs_conj [OF this kinds_projectStatus [unfolded emits_runs]] assms show ?thesis
    by (auto elim!: runs_mono)
qed

lemma runs_attemptRollback:
  assumes "\<And>rel' cs. list_all (in_kinds rollback_kinds) cs \<Longrightarrow> storage_only rel rel' \<Longrightarrow> Q rel' cs"
  shows "runs (attemptRollback r rel) Q"
proof -
  have "runs (attemptRollback r rel) (\<lambda>rel' cs. storage_only rel rel')"
    unfolding attemptRollback_def
    by (intro runs_intro runs_emits [OF kinds_buildRollbackOptions] runs_projectStatus)
      (auto intro: storage_only_trans [OF storage_only_project(2) [OF storage_only_refl]])
  from runs_conj [OF this kinds_attemptRollback [unfolded emits_runs]] assms show ?thesis
    by (auto elim!: runs_mono)
qed

section \<open>The report of a failure\<close>

text \<open>The status a failure of \<open>rel\<close> with error \<open>e\<close> has to be reported with.\<close>

definition failures_after :: "Release \<Rightarrow> int" where
  "failures_after rel = wrap64 (Status_LastActionFailures (Release_Status rel) + 1)"

definition retries_exhausted :: "Release \<Rightarrow> bool" where
  "retries_exhausted rel \<longleftrightarrow> failures_after rel > max_retries rel"

definition same_chart_state :: "Release \<Rightarrow> Release \<Rightarrow> bool" where
  "same_chart_state rel rel' \<longleftrightarrow>
     Status_ChartSourcePhase (Release_Status rel') = Status_ChartSourcePhase (Release_Status rel) \<and>
     Status_LastAppliedChartSource (Release_Status rel') = Status_LastAppliedChartSource (Release_Status rel) \<and>
     Status_CandidateChartSource (Release_Status rel') = Status_CandidateChartSource (Release_Status rel)"

definition failure_report :: "Release \<Rightarrow> error \<Rightarrow> Release \<Rightarrow> bool" where
  "failure_report rel e rel' \<longleftrightarrow>
     Release_Meta rel' = Release_Meta rel \<and> Release_Spec rel' = Release_Spec rel \<and>
     same_chart_state rel rel' \<and>
     Status_LastActionFailures (Release_Status rel') = failures_after rel \<and>
     Status_ObservedGeneration (Release_Status rel') = rel_Generation rel \<and>
     rel_cond ''Ready'' rel' = Some (''False'', rel_Generation rel, ''InstallFailed'', Error_text e) \<and>
     (if retries_exhausted rel then
        rel_cond ''Stalled'' rel' = Some (''True'', rel_Generation rel, ''RetriesExhausted'', Error_text e) \<and>
        rel_cond ''Reconciling'' rel' = Some (''False'', rel_Generation rel, ''RetriesExhausted'', '''')
      else
        rel_cond ''Stalled'' rel' = Some (''False'', rel_Generation rel, ''RetryPending'', '''') \<and>
        rel_cond ''Reconciling'' rel' = Some (''True'', rel_Generation rel, ''RetryPending'',
          ''Retry '' @ fmt_d (failures_after rel) @ '' of '' @ fmt_d (max_retries rel)))"

text \<open>What the controller answers, given whether and how the server accepted the report.\<close>

definition failure_outcome :: "Release \<Rightarrow> bool \<Rightarrow> outcome \<Rightarrow> bool" where
  "failure_outcome rel accepted out \<longleftrightarrow>
     (if \<not> accepted then (\<exists>e. out = Returned no_result (Some e))
      else if retries_exhausted rel then out = Returned no_result None
      else case backoff (failures_after rel) of
             None \<Rightarrow> out = Panicked ''negative shift amount''
           | Some d \<Rightarrow> out = Returned (requeue_after d) None)"

lemma max_retries_storage: "storage_only rel rel' \<Longrightarrow> max_retries rel' = max_retries rel"
  by (simp add: max_retries_def storage_onlyD)

lemma auto_rollback_storage: "storage_only rel rel' \<Longrightarrow> auto_rollback rel' = auto_rollback rel"
  by (simp add: auto_rollback_def storage_onlyD)

lemma status_contractD:
  "status_contract r \<Longrightarrow> client_StatusUpdate (rr_Client r) rel w = (Inr rel', w') \<Longrightarrow> status_echo rel rel'"
  unfolding status_contract_def by blast

lemmas report_defs =
  failure_report_def retries_exhausted_def failures_after_def same_chart_state_def condition_def
  cond_view_def max_retries_def storage_onlyD

lemma runs_StatusUpdate_report:
  assumes "status_contract r"
    and "\<And>e. Q (Inl e) [(CStatusUpdate rel, False)]"
    and "\<And>rel'. status_echo rel rel' \<Longrightarrow> Q (Inr rel') [(CStatusUpdate rel, True)]"
  shows "runs (StatusUpdate r rel) Q"
  unfolding StatusUpdate_def
proof (rule runs_perform)
  fix a w w'
  assume "client_StatusUpdate (rr_Client r) rel w = (a, w')"
  with assms show "Q a [(CStatusUpdate rel, succeeded a)]"
    by (cases a) (auto dest: status_contractD)
qed

lemma failure_report_storage:
  assumes "storage_only (with_status (\<lambda>s. s\<lparr>Status_LastActionFailures := failures_after rel,
      Status_ObservedGeneration := rel_Generation rel\<rparr>) rel) rel3"
    and "cond_of ''Ready'' ds = Some (''False'', rel_Generation rel, ''InstallFailed'', Error_text e)"
    and "cond_of ''Stalled'' ds = Some (if retries_exhausted rel
      then (''True'', rel_Generation rel, ''RetriesExhausted'', Error_text e)
      else (''False'', rel_Generation rel, ''RetryPending'', ''''))"
    and "cond_of ''Reconciling'' ds = Some (if retries_exhausted rel
      then (''False'', rel_Generation rel, ''RetriesExhausted'', '''')
      else (''True'', rel_Generation rel, ''RetryPending'',
        ''Retry '' @ fmt_d (failures_after rel) @ '' of '' @ fmt_d (max_retries rel)))"
  shows "failure_report rel e (with_status (\<lambda>s. s\<lparr>Status_Conditions := ds\<rparr>) rel3)"
  using assms by (simp add: failure_report_def same_chart_state_def storage_onlyD)

text \<open>The three conditions of a report are set one after the other.\<close>

lemma runs_conditions3:
  assumes c: "condition_contract (rr_Lib r)"
    and "\<And>ds. (\<And>t. cond_of t ds =
        (if t = Cond_Type cc then Some (cond_view cc) else if t = Cond_Type cb then Some (cond_view cb)
         else if t = Cond_Type ca then Some (cond_view ca) else rel_cond t rel)) \<Longrightarrow>
      runs (f (with_status (\<lambda>s. s\<lparr>Status_Conditions := ds\<rparr>) rel)) Q"
    and "\<And>ds. gb (with_status (\<lambda>s. s\<lparr>Status_Conditions := ds\<rparr>) rel) = cb"
    and "\<And>ds. gc (with_status (\<lambda>s. s\<lparr>Status_Conditions := ds\<rparr>) rel) = cc"
  shows "runs (do {
      rel1 \<leftarrow> setCondition r ca rel;
      rel2 \<leftarrow> setCondition r (gb rel1) rel1;
      rel3 \<leftarrow> setCondition r (gc rel2) rel2;
      f rel3 }) Q"
proof (intro runs_bind runs_setCondition [OF c], unfold append_Nil, goal_cases)
  case (1 d1 d2 d3)
  have upd: "with_status (\<lambda>s. s\<lparr>Status_Conditions := x\<rparr>) (with_status (\<lambda>s. s\<lparr>Status_Conditions := y\<rparr>) rel) =
      with_status (\<lambda>s. s\<lparr>Status_Conditions := x\<rparr>) rel" for x y
    by simp
  from 1 show ?case
    unfolding upd assms(3,4) by (intro assms(2)) (simp add: upd assms(3,4))
qed

lemma storage_only_counters:
  assumes "storage_only a b"
  shows "storage_only
      (with_status (\<lambda>s. s\<lparr>Status_LastActionFailures := n, Status_ObservedGeneration := g\<rparr>) a)
      (with_status (\<lambda>s. s\<lparr>Status_LastActionFailures := n, Status_ObservedGeneration := g\<rparr>) b)"
proof -
  have core: "status_core (s\<lparr>Status_LastActionFailures := n, Status_ObservedGeneration := g\<rparr>) =
      (status_core s)\<lparr>Status_LastActionFailures := n, Status_ObservedGeneration := g\<rparr>" for s
    by (simp add: status_core_def)
  from assms show ?thesis by (simp add: storage_only_def core)
qed

lemma condition_with_status [simp]: "condition (with_status f rel) = condition rel"
  by (intro ext) (simp add: condition_def)

lemma cond_view_condition:
  "cond_view (condition rel t st reason msg) = (st, rel_Generation rel, reason, msg)"
  "Cond_Type (condition rel t st reason msg) = t"
  by (simp_all add: cond_view_def condition_def)

definition failure_trace :: "Release \<Rightarrow> bool \<Rightarrow> error \<Rightarrow> outcome \<Rightarrow> (call \<times> bool) list \<Rightarrow> bool" where
  "failure_trace rel attempted e out cs \<longleftrightarrow>
     (\<exists>pre rel' ok.
        cs = pre @ [(CStatusUpdate rel', ok)] \<and>
        list_all (in_kinds (if attempted \<and> auto_rollback rel \<and> retries_exhausted rel then rollback_kinds
                            else {KStorageGet})) pre \<and>
        failure_report rel e rel' \<and> failure_outcome rel ok out)"

lemma runs_failure_report:
  assumes s: "status_contract r" and "failure_report rel e rel'"
    and "list_all (in_kinds (if attempted \<and> auto_rollback rel \<and> retries_exhausted rel then rollback_kinds
      else {KStorageGet})) pre"
    and "\<And>err. failure_outcome rel False (out (Inl err))"
    and "\<And>rel''. status_echo rel' rel'' \<Longrightarrow> failure_outcome rel True (out (Inr rel''))"
  shows "runs (do { u \<leftarrow> StatusUpdate r rel'; returnM (out u) })
    (\<lambda>o1 ds. failure_trace rel attempted e o1 (pre @ ds))"
  unfolding failure_trace_def
  by (intro runs_bind runs_return runs_StatusUpdate_report [OF s]) (use assms in auto)

lemma handleFailure_runs:
  assumes c: "condition_contract (rr_Lib r)" and s: "status_contract r"
  shows "runs (handleFailure r rel attempted e captured refetch) (failure_trace rel attempted e)"
  unfolding handleFailure_def
proof (rule runs_bind, rule runs_projectStatus, unfold Let_def, goal_cases)
  case (1 rel1 cs)
  note cs = 1(1)
  let ?rel2 = "with_status (\<lambda>s. s\<lparr>Status_LastActionFailures := failures_after rel,
      Status_ObservedGeneration := rel_Generation rel\<rparr>) rel"
  have rel2: "storage_only ?rel2 (with_status (\<lambda>s. s\<lparr>Status_LastActionFailures :=
      wrap64 (Status_LastActionFailures s + 1), Status_ObservedGeneration := rel_Generation rel1\<rparr>) rel1)"
    (is "storage_only _ ?rel2'")
  proof -
    have "?rel2' = with_status (\<lambda>s. s\<lparr>Status_LastActionFailures := failures_after rel,
        Status_ObservedGeneration := rel_Generation rel\<rparr>) rel1"
      using storage_onlyD [OF 1(2)] by (cases rel1) (simp add: failures_after_def)
    with storage_only_counters [OF 1(2)] show ?thesis by metis
  qed
  have exhausted: "Status_LastActionFailures (Release_Status ?rel2') > max_retries ?rel2' \<longleftrightarrow> retries_exhausted rel"
    using storage_onlyD [OF rel2] by (simp add: retries_exhausted_def max_retries_def)
  have auto: "auto_rollback ?rel2' = auto_rollback rel"
    using storage_onlyD [OF rel2] by (simp add: auto_rollback_def)
  show ?case
    unfolding exhausted auto
  proof (rule runs_if, goal_cases)
    case 1
    let ?K = "if attempted \<and> auto_rollback rel then rollback_kinds else {KStorageGet}"
    note ex = 1
    have "runs (if attempted \<and> auto_rollback rel then attemptRollback r ?rel2' else returnM ?rel2')
        (\<lambda>rel3 ds. list_all (in_kinds ?K) ds \<and> storage_only ?rel2 rel3)"
      by (rule runs_if, rule runs_attemptRollback)
        (auto intro: runs_return storage_only_trans [OF rel2] rel2)
    then show ?case
    proof (rule runs_bind [OF runs_mono], elim conjE, goal_cases)
      case (1 rel3 ds)
      note D = storage_onlyD [OF 1(3)]
      show ?case
        by (rule runs_conditions3 [OF c,
              where cb = "condition rel3 ''Ready'' ''False'' ''InstallFailed'' (Error_text e)"
                and cc = "condition rel3 ''Reconciling'' ''False'' ''RetriesExhausted'' ''''"],
            unfold append.assoc [symmetric], rule runs_failure_report [OF s failure_report_storage [OF 1(3)]])
          (use ex D 1 cs in \<open>auto simp: cond_view_condition failure_outcome_def in_kinds_def rollback_kinds_def
             elim: list.pred_mono_strong\<close>)
    qed
  next
    case 2
    note D = storage_onlyD [OF rel2]
    show ?case
      by (rule runs_conditions3 [OF c,
            where cb = "condition ?rel2' ''Reconciling'' ''True'' ''RetryPending''
                (''Retry '' @ fmt_d (failures_after rel) @ '' of '' @ fmt_d (max_retries rel))"
              and cc = "condition ?rel2' ''Stalled'' ''False'' ''RetryPending'' ''''"],
          rule runs_failure_report [OF s failure_report_storage [OF rel2]])
        (use 2 D cs in \<open>auto simp: cond_view_condition failure_outcome_def max_retries_def status_echo_def
           split: option.splits\<close>)
  qed
qed

section \<open>Backoff\<close>

lemma backoff_small:
  assumes "0 \<le> n" and "n \<le> 29"
  shows "backoff n = Some (min (15 * time_Second * 2 ^ nat n) (5 * time_Minute))"
proof -
  have "(2 :: int) ^ nat n \<le> 2 ^ 29"
    using assms by (intro power_increasing) auto
  then obtain p :: int where p: "2 ^ nat n = p" "0 < p" "p \<le> 536870912" by simp
  then have "shl64 1 (nat n) = p" by (simp add: shl64_def)
  with p assms(1) show ?thesis
    by (simp add: backoff_def time_Second_def)
qed

lemma backoff_range:
  assumes "1 \<le> n" and "n \<le> 29"
  obtains d where "backoff n = Some d" and "30 * time_Second \<le> d" and "d \<le> 5 * time_Minute"
proof
  show "backoff n = Some (min (15 * time_Second * 2 ^ nat n) (5 * time_Minute))"
    using assms by (simp add: backoff_small)
  have "(2 :: int) ^ 1 \<le> 2 ^ nat n"
    using assms by (intro power_increasing) auto
  then show "30 * time_Second \<le> min (15 * time_Second * 2 ^ nat n) (5 * time_Minute)"
    by (simp add: time_Second_def time_Minute_def)
qed simp

lemma backoff_overflow: "backoff 30 = Some (- 2340616713709551616)"
  by code_simp

section \<open>The report of a success\<close>

definition success_report :: "Release \<Rightarrow> Release \<Rightarrow> bool" where
  "success_report rel rel' \<longleftrightarrow>
     Release_Meta rel' = Release_Meta rel \<and> Release_Spec rel' = Release_Spec rel \<and>
     same_chart_state rel rel' \<and>
     Status_LastActionFailures (Release_Status rel') = 0 \<and>
     Status_ObservedGeneration (Release_Status rel') = rel_Generation rel \<and>
     rel_cond ''Ready'' rel' = Some (''True'', rel_Generation rel, ''InstallSucceeded'',
       ''Release install complete, revision '' @ fmt_d (Status_Revision (Release_Status rel'))) \<and>
     rel_cond ''Reconciling'' rel' = Some (''False'', rel_Generation rel, ''Succeeded'', '''') \<and>
     rel_cond ''Stalled'' rel' = Some (''False'', rel_Generation rel, ''Succeeded'', '''')"

definition success_trace :: "Release \<Rightarrow> outcome \<Rightarrow> (call \<times> bool) list \<Rightarrow> bool" where
  "success_trace rel out cs \<longleftrightarrow>
     (\<exists>pre rel' ok.
        cs = pre @ [(CStatusUpdate rel', ok)] \<and> list_all (in_kinds {KStorageGet}) pre \<and>
        success_report rel rel' \<and>
        (if ok then out = Returned (requeue_after (Spec_Interval (Release_Spec rel))) None
         else \<exists>e. out = Returned no_result (Some e)))"

lemma status_echo_interval:
  "status_echo rel rel' \<Longrightarrow> Spec_Interval (Release_Spec rel') = Spec_Interval (Release_Spec rel)"
  unfolding status_echo_def by (metis ReleaseSpec.select_convs(4) ReleaseSpec.surjective ReleaseSpec.update_convs(2))

lemma runs_success_report:
  assumes s: "status_contract r" and "success_report rel rel'"
    and "list_all (in_kinds {KStorageGet}) pre"
    and "Spec_Interval (Release_Spec rel') = Spec_Interval (Release_Spec rel)"
  shows "runs (do { u \<leftarrow> StatusUpdate r rel';
      returnM (case u of
        Inl err \<Rightarrow> Returned no_result (Some (Wrapped ''update success status'' err))
      | Inr rel \<Rightarrow> Returned (requeue_after (Spec_Interval (Release_Spec rel))) None) })
    (\<lambda>o1 ds. success_trace rel o1 (pre @ ds))"
  unfolding success_trace_def
  by (intro runs_bind runs_return runs_StatusUpdate_report [OF s])
    (use assms in \<open>auto simp: status_echo_interval\<close>)

lemma handleSuccess_runs:
  assumes c: "condition_contract (rr_Lib r)" and s: "status_contract r"
  shows "runs (handleSuccess r rel n ns captured refetch) (success_trace rel)"
  unfolding handleSuccess_def
proof (rule runs_bind, rule runs_projectStatus, unfold Let_def, goal_cases)
  case (1 rel1 cs)
  let ?rel2 = "with_status (\<lambda>s. s\<lparr>Status_LastActionFailures := 0, Status_ObservedGeneration := rel_Generation rel1\<rparr>) rel1"
  note D = storage_onlyD [OF 1(2)]
  show ?case
    by (rule runs_conditions3 [OF c,
          where cb = "condition ?rel2 ''Reconciling'' ''False'' ''Succeeded'' ''''"
            and cc = "condition ?rel2 ''Stalled'' ''False'' ''Succeeded'' ''''"],
        rule runs_success_report [OF s])
      (use D 1(1) in \<open>auto simp: success_report_def same_chart_state_def cond_view_condition\<close>)
qed

text \<open>A release that retries forty times, after some failures.\<close>

definition demo_install :: InstallConfig where
  "demo_install =
     \<lparr>Install_Timeout = None, Install_AutoRollback = True, Install_NoInstallCRDs = False,
      Install_DeletePropagation = '''', Install_NoForceAdoption = False,
      Install_NoRemoveManualChanges = False, Install_NoDefaultPatches = False,
      Install_TemplatesAllowDNS = False, Install_Retries = 40\<rparr>"

definition demo_failing :: "int \<Rightarrow> Release" where
  "demo_failing n = demo_release
     \<lparr>Release_Spec := empty_spec\<lparr>Spec_Install := Some demo_install\<rparr>,
      Release_Status := empty_status\<lparr>Status_LastActionFailures := n, Status_Revision := 3\<rparr>\<rparr>"

lemma mem_contracts: "condition_contract (rr_Lib mem_reconciler)" "status_contract mem_reconciler"
  by (simp_all add: mem_reconciler_def mem_condition_contract mem_status_contract [unfolded mem_reconciler_def])

section \<open>Properties\<close>

text \<open>C8. Every failure is reported by one status update, the last call the failure handler makes:
  the failure counter goes up by one, the generation is observed, \<^verbatim>\<open>Ready\<close> is false with the
  error as message, and exactly one of \<^verbatim>\<open>Stalled\<close> (retries exhausted) and \<^verbatim>\<open>Reconciling\<close> (retry
  pending) is true; the chart source state is kept. The handler asks for another run after the
  backoff only while retries are left, and touches the release (the rollback calls) only after a
  failed installation with automatic rollback enabled and the retries exhausted.\<close>

theorem handleFailure_reports:
  assumes "condition_contract (rr_Lib r)" and "status_contract r"
  shows "failure_trace rel attempted e
    (fst (run_state (handleFailure r rel attempted e captured refetch) s))
    (trace (handleFailure r rel attempted e captured refetch) s)"
  by (rule runs_trace [OF handleFailure_runs [OF assms]])

theorem handleFailure_reports_witness:
  "failure_trace (demo_failing 40) True unavailable
     (fst (run_state (handleFailure mem_reconciler (demo_failing 40) True unavailable None True) (start empty_world)))
     (trace (handleFailure mem_reconciler (demo_failing 40) True unavailable None True) (start empty_world)) \<and>
   fst (run_state (handleFailure mem_reconciler (demo_failing 40) True unavailable None True) (start empty_world)) =
     Returned no_result None \<and>
   KRollback \<in> set (map (kind_of \<circ> fst)
     (trace (handleFailure mem_reconciler (demo_failing 40) True unavailable None True) (start empty_world)))"
proof (intro conjI)
  show "fst (run_state (handleFailure mem_reconciler (demo_failing 40) True unavailable None True) (start empty_world)) =
     Returned no_result None"
    by code_simp
  show "KRollback \<in> set (map (kind_of \<circ> fst)
     (trace (handleFailure mem_reconciler (demo_failing 40) True unavailable None True) (start empty_world)))"
    by code_simp
qed (rule handleFailure_reports [OF mem_contracts])

text \<open>C20. Every success is reported by one status update, the last call of the success handler:
  \<^verbatim>\<open>Ready\<close> becomes true with the revision that is in the status, \<^verbatim>\<open>Reconciling\<close> and \<^verbatim>\<open>Stalled\<close>
  become false, the failure counter is reset, the generation is observed, and the next run is
  asked for after the interval of the specification. The handler never deploys anything.\<close>

theorem handleSuccess_reports:
  assumes "condition_contract (rr_Lib r)" and "status_contract r"
  shows "success_trace rel
    (fst (run_state (handleSuccess r rel n ns captured refetch) s))
    (trace (handleSuccess r rel n ns captured refetch) s)"
  by (rule runs_trace [OF handleSuccess_runs [OF assms]])

theorem handleSuccess_reports_witness:
  "success_trace (demo_failing 2)
     (fst (run_state (handleSuccess mem_reconciler (demo_failing 2) ''app'' ''prod'' None False) (start empty_world)))
     (trace (handleSuccess mem_reconciler (demo_failing 2) ''app'' ''prod'' None False) (start empty_world)) \<and>
   fst (run_state (handleSuccess mem_reconciler (demo_failing 2) ''app'' ''prod'' None False) (start empty_world)) =
     Returned (requeue_after (10 * time_Minute)) None"
proof (intro conjI)
  show "fst (run_state (handleSuccess mem_reconciler (demo_failing 2) ''app'' ''prod'' None False) (start empty_world)) =
     Returned (requeue_after (10 * time_Minute)) None"
    by code_simp
qed (rule handleSuccess_reports [OF mem_contracts])

text \<open>C23. The delay before a retry, for the first 29 failures in a row, is 15 seconds doubled per
  failure and capped at five minutes, computed without overflow; so it is at least 30 seconds.\<close>

theorem backoff_bounds:
  assumes "1 \<le> n" and "n \<le> 29"
  shows "\<exists>d. backoff n = Some d \<and> d = min (15 * time_Second * 2 ^ nat n) (5 * time_Minute) \<and>
    30 * time_Second \<le> d \<and> d \<le> 5 * time_Minute"
proof -
  obtain d where d: "backoff n = Some d" "30 * time_Second \<le> d" "d \<le> 5 * time_Minute"
    using assms by (rule backoff_range)
  with backoff_small [of n] assms show ?thesis by simp
qed

theorem backoff_bounds_witness: "backoff 5 = Some (5 * time_Minute) \<and> backoff 2 = Some (60 * time_Second)"
  using backoff_bounds [of 5] backoff_bounds [of 2] by (simp add: time_Second_def time_Minute_def)

text \<open>C24. From the 30th failure in a row the shift of the backoff overflows: at 30 the handler
  reports a pending retry and asks for a run after a negative delay, which a controller does not
  schedule.\<close>

theorem backoff_overflow_loses_retry:
  assumes "condition_contract (rr_Lib r)" and "status_contract r"
    and "Status_LastActionFailures (Release_Status rel) = 29" and "max_retries rel \<ge> 30"
  shows "\<exists>rel' ok.
    last (trace (handleFailure r rel attempted e captured refetch) s) = (CStatusUpdate rel', ok) \<and>
    fst (the (rel_cond ''Reconciling'' rel')) = ''True'' \<and>
    (ok \<longrightarrow> (\<exists>d < 0. fst (run_state (handleFailure r rel attempted e captured refetch) s) =
        Returned (requeue_after d) None))"
proof -
  have n: "failures_after rel = 30" "\<not> retries_exhausted rel"
    using assms(3,4) by (simp_all add: failures_after_def retries_exhausted_def)
  from runs_trace [OF handleFailure_runs [OF assms(1,2), of rel attempted e captured refetch], of s]
  obtain pre rel' ok
    where t: "trace (handleFailure r rel attempted e captured refetch) s = pre @ [(CStatusUpdate rel', ok)]"
      and rep: "failure_report rel e rel'"
      and out: "failure_outcome rel ok (fst (run_state (handleFailure r rel attempted e captured refetch) s))"
    unfolding failure_trace_def by blast
  have "fst (the (rel_cond ''Reconciling'' rel')) = ''True''"
    using rep n(2) by (simp add: failure_report_def)
  moreover have "\<exists>d < 0. fst (run_state (handleFailure r rel attempted e captured refetch) s) =
      Returned (requeue_after d) None" if ok
    using out n that by (auto simp: failure_outcome_def backoff_overflow)
  ultimately show ?thesis by (intro exI [of _ rel'] exI [of _ ok]) (simp add: t)
qed

theorem backoff_overflow_loses_retry_witness:
  "\<exists>rel' ok.
    last (trace (handleFailure mem_reconciler (demo_failing 29) False unavailable None False) (start empty_world)) =
      (CStatusUpdate rel', ok) \<and>
    fst (the (rel_cond ''Reconciling'' rel')) = ''True'' \<and>
    (ok \<longrightarrow> (\<exists>d < 0. fst (run_state
      (handleFailure mem_reconciler (demo_failing 29) False unavailable None False) (start empty_world)) =
        Returned (requeue_after d) None))"
  by (rule backoff_overflow_loses_retry [OF mem_contracts])
    (simp_all add: demo_failing_def demo_install_def max_retries_def)

text \<open>C22. What the operator installs is recognised as its own: a stored revision that carries the
  labels an installation or a rollback was given is a foreign change exactly when a revision was
  recorded and the stored one is newer; so a revision not newer than the recorded one never is,
  whatever labels the user configured. Once a revision was recorded, a stored release without the
  marker is a foreign change whatever its revision, a newer one whatever its labels, and so is a
  storage that no longer holds the release. The labels the user configured are kept.\<close>

theorem own_revision_is_not_foreign:
  "(detectForeignChange recorded
      (Some \<lparr>Stored_Revision = revision, Stored_Status = st,
             Stored_StorageLabels = ownershipLabels userLabels\<rparr>) \<longleftrightarrow>
      recorded \<noteq> 0 \<and> revision > recorded) \<and>
   (\<forall>k. k \<noteq> ownershipMarkerKey \<longrightarrow> ownershipLabels userLabels k = userLabels k) \<and>
   (recorded \<noteq> 0 \<longrightarrow> revision > recorded \<or> labels ownershipMarkerKey \<noteq> Some ownershipMarkerValue \<longrightarrow>
      detectForeignChange recorded
        (Some \<lparr>Stored_Revision = revision, Stored_Status = st, Stored_StorageLabels = labels\<rparr>)) \<and>
   (detectForeignChange recorded None \<longleftrightarrow> recorded \<noteq> 0)"
  by (auto simp: detectForeignChange_def ownershipLabels_def map_index_def ownershipMarkerValue_def
      split: option.splits)

theorem own_revision_is_not_foreign_witness:
  "\<not> detectForeignChange 3 (Some \<lparr>Stored_Revision = 2, Stored_Status = ''deployed'',
      Stored_StorageLabels = ownershipLabels [ownershipMarkerKey \<mapsto> ''somebody'']\<rparr>) \<and>
   ownershipLabels [ownershipMarkerKey \<mapsto> ''somebody''] ''team'' = None \<and>
   detectForeignChange 3 (Some \<lparr>Stored_Revision = 2, Stored_Status = ''deployed'',
      Stored_StorageLabels = Map.empty\<rparr>) \<and> detectForeignChange 3 None"
  using own_revision_is_not_foreign
      [of 3 2 "''deployed''" "[ownershipMarkerKey \<mapsto> ''somebody'']" Map.empty]
  by (simp add: ownershipMarkerKey_def)

text \<open>C28. A failure reported without a reading of the storage (the storage could not be read, the
  temporary directory could not be made, the chart source could not be prepared) records revision
  0, although nothing is known to have changed; the next reconciliation then sees no foreign
  change whatever the storage holds.\<close>

theorem failure_without_reading_forgets_revision:
  "runs (handleFailure r rel False e None False) (\<lambda>out cs. \<exists>pre rel' ok.
     cs = pre @ [(CStatusUpdate rel', ok)] \<and> Status_Revision (Release_Status rel') = 0 \<and>
     \<not> detectForeignChange (Status_Revision (Release_Status rel')) stored)"
  unfolding handleFailure_def projectStatusFromStorage_def setCondition_def StatusUpdate_def Let_def
  by (intro runs_intro) (auto simp: detectForeignChange_def)

end
