(* ===== verification/Source_Resolve.thy ===== *)
theory Source_Resolve
  imports Status_Handlers
begin

text \<open>
  Resolving a chart reference (\<^verbatim>\<open>ResolveChartRef\<close> and its helpers in \<^verbatim>\<open>internal/source/source.go\<close>):
  the source object is read, its readiness is checked, and its artifact is downloaded into the
  temporary directory. The accessors of unstructured content are parameters; \<^verbatim>\<open>nil\<close> slices and
  empty slices are not distinguished.
\<close>

record ChartResult =
  CR_ChartPath :: string
  CR_Digest :: string
  CR_Revision :: string
  CR_ValuesFiles :: "string list"

text \<open>\<^verbatim>\<open>s, _, _ := unstructured.NestedString(...)\<close>: absence and errors read as the empty string.\<close>

definition nested_or_empty :: "'w k8s_lib \<Rightarrow> json \<Rightarrow> string list \<Rightarrow> string" where
  "nested_or_empty L obj path =
     (case lib_NestedString L obj path of Inl _ \<Rightarrow> '''' | Inr None \<Rightarrow> '''' | Inr (Some s) \<Rightarrow> s)"

fun is_JObject :: "json \<Rightarrow> bool" where
  "is_JObject (JObject kvs) = True"
| "is_JObject _ = False"

fun ready_loop :: "'w k8s_lib \<Rightarrow> json list \<Rightarrow> bool \<times> string" where
  "ready_loop L [] = (False, ''Ready condition not found'')"
| "ready_loop L (c # cs) =
     (if \<not> is_JObject c then ready_loop L cs
      else if nested_or_empty L c [''type''] \<noteq> ''Ready'' then ready_loop L cs
      else (nested_or_empty L c [''status''] = ''True'', nested_or_empty L c [''message'']))"

definition checkReadyCondition :: "'w k8s_lib \<Rightarrow> json \<Rightarrow> error + bool \<times> string" where
  "checkReadyCondition L obj =
     (case lib_NestedSlice L obj [''status'', ''conditions''] of
        Inl err \<Rightarrow> Inl (Wrapped ''read conditions'' err)
      | Inr None \<Rightarrow> Inr (False, ''no conditions found'')
      | Inr (Some conditions) \<Rightarrow> Inr (ready_loop L conditions))"

text \<open>\<^verbatim>\<open>resp.IsError()\<close>: a status code above 399.\<close>

definition resp_IsError :: "int \<Rightarrow> bool" where
  "resp_IsError status = (status > 399)"

definition downloadArtifact ::
  "'w ReleaseReconciler \<Rightarrow> string \<Rightarrow> string \<Rightarrow> int \<Rightarrow> duration \<Rightarrow> ('w, error + string) io" where
  "downloadArtifact r artifactURL tempDir maxRetries timeout = do {
     f \<leftarrow> perform (CCreateTemp tempDir ''chart-*.tgz'') succeeded (os_CreateTemp (rr_Os r) tempDir ''chart-*.tgz'');
     case f of
       Inl err \<Rightarrow> returnM (Inl (Wrapped ''create chart temp file'' err))
     | Inr chartPath \<Rightarrow> do {
         resp \<leftarrow> perform (CHttpGet artifactURL chartPath maxRetries timeout) succeeded
                   (resty_Get (rr_Os r) artifactURL chartPath maxRetries timeout);
         res \<leftarrow> (case resp of
             Inl err \<Rightarrow> do {
               _ \<leftarrow> perform (CRemoveFile chartPath) no_error (os_Remove (rr_Os r) chartPath);
               returnM (Inl (Wrapped ''download artifact'' err))
             }
           | Inr status \<Rightarrow>
               if resp_IsError status
               then returnM (Inl (NewError (''download artifact: unexpected status '' @ fmt_d status)))
               else returnM (Inr chartPath));
         _ \<leftarrow> perform (CCloseFile chartPath) no_error (os_Close (rr_Os r) chartPath);
         returnM res
       }
   }"

definition extractArtifact ::
  "'w ReleaseReconciler \<Rightarrow> json \<Rightarrow> string \<Rightarrow> int \<Rightarrow> duration \<Rightarrow> ('w, error + ChartResult) io" where
  "extractArtifact r obj tempDir httpRetry httpTimeout =
     (let L = rr_Lib r
      in case checkReadyCondition L obj of
           Inl err \<Rightarrow> returnM (Inl (Wrapped ''check source readiness'' err))
         | Inr (ready, msg) \<Rightarrow>
             if \<not> ready then returnM (Inl (SourceNotReadyError msg))
             else
               case lib_NestedString L obj [''status'', ''artifact'', ''url''] of
                 Inl err \<Rightarrow> returnM (Inl (Wrapped ''read .status.artifact.url'' err))
               | Inr found \<Rightarrow>
                   if found = None \<or> found = Some ''''
                   then returnM (Inl (NewError ''source object has no .status.artifact.url''))
                   else
                     let artifactURL = the found;
                         revision = nested_or_empty L obj [''status'', ''artifact'', ''revision''];
                         digest = nested_or_empty L obj [''status'', ''artifact'', ''digest'']
                     in case lib_NestedStringSlice L obj [''spec'', ''valuesFiles''] of
                          Inl err \<Rightarrow> returnM (Inl (Wrapped ''read .spec.valuesFiles'' err))
                        | Inr files \<Rightarrow> do {
                            chartPath \<leftarrow> downloadArtifact r artifactURL tempDir httpRetry httpTimeout;
                            returnM (case chartPath of
                               Inl err \<Rightarrow> Inl (Wrapped ''download chart artifact'' err)
                             | Inr path \<Rightarrow> Inr
                                 \<lparr>CR_ChartPath = path, CR_Digest = digest, CR_Revision = revision,
                                  CR_ValuesFiles = (case files of None \<Rightarrow> [] | Some fs \<Rightarrow> fs)\<rparr>)
                          })"

definition ResolveChartRef ::
  "'w ReleaseReconciler \<Rightarrow> string \<Rightarrow> string \<Rightarrow> ChartSourceRef \<Rightarrow> string \<Rightarrow> int \<Rightarrow> duration \<Rightarrow>
   ('w, error + ChartResult) io" where
  "ResolveChartRef r sourceAPIGroup sourceAPIVersion chartRef tempDir httpRetry httpTimeout =
     (let gvk = \<lparr>GVK_Group = sourceAPIGroup, GVK_Version = sourceAPIVersion, GVK_Kind = ChartRef_Kind chartRef\<rparr>;
          key = \<lparr>NN_Namespace = ChartRef_Namespace chartRef, NN_Name = ChartRef_Name chartRef\<rparr>
      in do {
        obj \<leftarrow> perform (CGetObject gvk key) succeeded (client_GetObject (rr_Client r) gvk key);
        case obj of
          Inl err \<Rightarrow> returnM (Inl (Wrapped
            (''get chart ref '' @ ChartRef_Kind chartRef @ ''/'' @ ChartRef_Name chartRef) err))
        | Inr u \<Rightarrow> extractArtifact r u tempDir httpRetry httpTimeout
      })"

section \<open>Readiness\<close>

text \<open>The loop over the conditions is a search for the first condition of type \<^verbatim>\<open>Ready\<close>.\<close>

definition is_Ready_condition :: "'w k8s_lib \<Rightarrow> json \<Rightarrow> bool" where
  "is_Ready_condition L c \<longleftrightarrow> is_JObject c \<and> nested_or_empty L c [''type''] = ''Ready''"

lemma ready_loop_find:
  "ready_loop L cs =
     (case find (is_Ready_condition L) cs of
        None \<Rightarrow> (False, ''Ready condition not found'')
      | Some c \<Rightarrow> (nested_or_empty L c [''status''] = ''True'', nested_or_empty L c [''message'']))"
  by (induction cs) (auto simp: is_Ready_condition_def)

definition source_ready :: "'w k8s_lib \<Rightarrow> json \<Rightarrow> bool" where
  "source_ready L obj \<longleftrightarrow>
     (\<exists>cs c. lib_NestedSlice L obj [''status'', ''conditions''] = Inr (Some cs) \<and>
        find (is_Ready_condition L) cs = Some c \<and> nested_or_empty L c [''status''] = ''True'')"

lemma checkReadyCondition_ready:
  "(\<exists>msg. checkReadyCondition L obj = Inr (True, msg)) \<longleftrightarrow> source_ready L obj"
  by (auto simp: checkReadyCondition_def ready_loop_find source_ready_def split: sum.splits option.splits)

section \<open>Calls\<close>

definition download_kinds :: "call_kind set" where
  "download_kinds = {KTempFile, KHttp}"

lemma kinds_downloadArtifact: "emits (in_kinds download_kinds) (downloadArtifact r url dir n t)"
  unfolding downloadArtifact_def by (intro emits_intro) (simp_all add: download_kinds_def)

lemma kinds_extractArtifact: "emits (in_kinds download_kinds) (extractArtifact r obj dir n t)"
  unfolding extractArtifact_def by (intro emits_intro kinds_downloadArtifact)

lemma kinds_ResolveChartRef:
  "emits (in_kinds (insert KObjectGet download_kinds)) (ResolveChartRef r g v ref dir n t)"
  unfolding ResolveChartRef_def
  by (intro emits_intro emits_kinds_mono [OF kinds_extractArtifact]) auto

lemma not_ready_no_calls:
  "\<not> source_ready (rr_Lib r) obj \<Longrightarrow> \<exists>e. extractArtifact r obj dir n t = returnM (Inl e)"
  using checkReadyCondition_ready [of "rr_Lib r" obj]
  by (auto simp: extractArtifact_def Let_def split: sum.splits)

text \<open>Files are only made in the temporary directory.\<close>

fun temp_in :: "string \<Rightarrow> call \<times> bool \<Rightarrow> bool" where
  "temp_in dir (CCreateTemp d pat, b) = (d = dir)"
| "temp_in dir _ = True"

lemma temp_in_downloadArtifact: "emits (temp_in dir) (downloadArtifact r url dir n t)"
  unfolding downloadArtifact_def by (intro emits_intro) simp_all

lemma temp_in_ResolveChartRef: "emits (temp_in dir) (ResolveChartRef r g v ref dir n t)"
  unfolding ResolveChartRef_def extractArtifact_def
  by (intro emits_intro temp_in_downloadArtifact) simp_all

section \<open>Properties\<close>

definition chart_of :: "'w k8s_lib \<Rightarrow> json \<Rightarrow> string \<Rightarrow> ChartResult \<Rightarrow> bool" where
  "chart_of L obj url res \<longleftrightarrow>
     lib_NestedString L obj [''status'', ''artifact'', ''url''] = Inr (Some url) \<and> url \<noteq> [] \<and>
     CR_Revision res = nested_or_empty L obj [''status'', ''artifact'', ''revision''] \<and>
     CR_Digest res = nested_or_empty L obj [''status'', ''artifact'', ''digest'']"

lemma runs_downloadArtifact:
  "runs (downloadArtifact r url dir n t)
     (\<lambda>res cs. case res of Inr p \<Rightarrow> (CHttpGet url p n t, True) \<in> set cs | Inl e \<Rightarrow> True)"
  unfolding downloadArtifact_def by (intro runs_intro) auto

text \<open>C21. A chart is resolved only from a source object whose first \<^verbatim>\<open>Ready\<close> condition is true and
  whose artifact has a URL; for an object that is not ready \<^verbatim>\<open>extractArtifact\<close> returns an error
  and makes no call at all. A resolved chart carries the revision and the digest of that object,
  and its path is the file the artifact was downloaded to.\<close>

theorem extractArtifact_requires_ready:
  "runs (extractArtifact r obj dir n t) (\<lambda>res cs. case res of
      Inr c \<Rightarrow> source_ready (rr_Lib r) obj \<and>
        (\<exists>url. chart_of (rr_Lib r) obj url c \<and> (CHttpGet url (CR_ChartPath c) n t, True) \<in> set cs)
    | Inl e \<Rightarrow> source_ready (rr_Lib r) obj \<or> cs = [])"
proof (cases "source_ready (rr_Lib r) obj")
  case False
  then obtain e where "extractArtifact r obj dir n t = returnM (Inl e)"
    using not_ready_no_calls by blast
  then show ?thesis by (simp add: runs_return)
next
  case True
  show ?thesis
    unfolding extractArtifact_def Let_def
    by (intro runs_intro runs_mono [OF runs_downloadArtifact])
      (auto simp: True chart_of_def split: sum.splits)
qed

end
