(* ===== verification/Values_Resolve.thy ===== *)
theory Values_Resolve
  imports Source_Resolve
begin

text \<open>
  Resolving the values of a release (\<^verbatim>\<open>internal/values/values.go\<close>): inline values, values and
  secret values from ConfigMaps and Secrets, the secret key and the provenance keyring are
  fetched and written into the temporary directory.
\<close>

section \<open>Operations\<close>

text \<open>\<^verbatim>\<open>%q\<close>: quoted, with the escapes of ASCII text.\<close>

definition quote_char :: "char \<Rightarrow> string" where
  "quote_char c =
     (let escaped = (\<lambda>e. [CHR 0x5C, e])
      in if c = CHR 0x5C then escaped (CHR 0x5C) else if c = CHR 0x22 then escaped (CHR 0x22)
         else if c = CHR 0x07 then escaped (CHR ''a'') else if c = CHR 0x08 then escaped (CHR ''b'')
         else if c = CHR 0x0C then escaped (CHR ''f'') else if c = CHR 0x0A then escaped (CHR ''n'')
         else if c = CHR 0x0D then escaped (CHR ''r'') else if c = CHR 0x09 then escaped (CHR ''t'')
         else if c = CHR 0x0B then escaped (CHR ''v'')
         else if of_char c < (0x20 :: nat) \<or> of_char c = (0x7F :: nat)
           then escaped (CHR ''x'') @
             [''0123456789abcdef'' ! (of_char c div 16), ''0123456789abcdef'' ! (of_char c mod 16)]
         else [c])"

definition fmt_q :: "string \<Rightarrow> string" where
  "fmt_q s = [CHR 0x22] @ concat (map quote_char s) @ [CHR 0x22]"

definition writeToTempFile ::
  "'w ReleaseReconciler \<Rightarrow> string \<Rightarrow> string \<Rightarrow> string \<Rightarrow> ('w, error + string) io" where
  "writeToTempFile r data tempDir pattern = do {
     f \<leftarrow> perform (CCreateTemp tempDir pattern) succeeded (os_CreateTemp (rr_Os r) tempDir pattern);
     case f of
       Inl err \<Rightarrow> returnM (Inl (Wrapped (''create temp file '' @ pattern) err))
     | Inr name \<Rightarrow> do {
         w \<leftarrow> perform (CWriteFile name data) no_error (os_Write (rr_Os r) name data);
         case w of
           Some err \<Rightarrow> do {
             _ \<leftarrow> perform (CCloseFile name) no_error (os_Close (rr_Os r) name);
             returnM (Inl (Wrapped (''write temp file '' @ pattern) err))
           }
         | None \<Rightarrow> do {
             c \<leftarrow> perform (CCloseFile name) no_error (os_Close (rr_Os r) name);
             returnM (case c of
                Some err \<Rightarrow> Inl (Wrapped (''close temp file '' @ pattern) err)
              | None \<Rightarrow> Inr name)
           }
       }
   }"

definition data_key :: "string \<Rightarrow> string \<Rightarrow> string" where
  "data_key key fallback = (if key = '''' then fallback else key)"

definition fetchConfigMapData ::
  "'w ReleaseReconciler \<Rightarrow> string \<Rightarrow> string \<Rightarrow> string \<Rightarrow> ('w, error + string) io" where
  "fetchConfigMapData r namespace name key0 =
     (let n = \<lparr>NN_Namespace = namespace, NN_Name = name\<rparr>
      in do {
        cm \<leftarrow> perform (CGetConfigMap n) succeeded (client_GetConfigMap (rr_Client r) n);
        returnM (case cm of
           Inl err \<Rightarrow> Inl err
         | Inr dat \<Rightarrow>
             let key = data_key key0 ''values.yaml''
             in case dat key of
                  None \<Rightarrow> Inl (NewError (''key '' @ fmt_q key @ '' not found in ConfigMap '' @
                                         namespace @ ''/'' @ name))
                | Some d \<Rightarrow> Inr d)
      })"

definition fetchSecretData ::
  "'w ReleaseReconciler \<Rightarrow> string \<Rightarrow> string \<Rightarrow> string \<Rightarrow> ('w, error + string) io" where
  "fetchSecretData r namespace name key0 =
     (let n = \<lparr>NN_Namespace = namespace, NN_Name = name\<rparr>
      in do {
        secret \<leftarrow> perform (CGetSecret n) succeeded (client_GetSecret (rr_Client r) n);
        returnM (case secret of
           Inl err \<Rightarrow> Inl err
         | Inr dat \<Rightarrow>
             let key = data_key key0 ''values.yaml''
             in case dat key of
                  None \<Rightarrow> Inl (NewError (''key '' @ fmt_q key @ '' not found in Secret '' @
                                         namespace @ ''/'' @ name))
                | Some d \<Rightarrow> Inr d)
      })"

definition fetchReference ::
  "'w ReleaseReconciler \<Rightarrow> string \<Rightarrow> ValuesReference \<Rightarrow> ('w, error + string) io" where
  "fetchReference r namespace ref =
     (if Values_Kind ref = ''ConfigMap'' then
        fetchConfigMapData r namespace (Values_Name ref) (Values_DataKey ref)
      else if Values_Kind ref = ''Secret'' then
        fetchSecretData r namespace (Values_Name ref) (Values_DataKey ref)
      else returnM (Inl (NewError (''unsupported kind '' @ fmt_q (Values_Kind ref)))))"

definition fetchSecretKey ::
  "'w ReleaseReconciler \<Rightarrow> string \<Rightarrow> SecretKeyReference \<Rightarrow> ('w, error + string) io" where
  "fetchSecretKey r namespace ref =
     (let key = data_key (SecretKey_DataKey ref) ''key''
      in fetchSecretData r namespace (SecretKey_Name ref) key)"

text \<open>
  The two loops over references: \<open>field\<close> is the name of the field in error messages and \<open>prefix\<close>
  the start of the file name pattern.
\<close>

primrec resolve_refs ::
  "'w ReleaseReconciler \<Rightarrow> string \<Rightarrow> string \<Rightarrow> string \<Rightarrow> string \<Rightarrow> nat \<Rightarrow> ValuesReference list \<Rightarrow>
   string list \<Rightarrow> ('w, error + string list) io" where
  "resolve_refs r namespace tempDir field prefix i [] files = returnM (Inr files)"
| "resolve_refs r namespace tempDir field prefix i (ref # refs) files = do {
     data \<leftarrow> fetchReference r namespace ref;
     case data of
       Inl err \<Rightarrow>
         if Values_Optional ref
         then resolve_refs r namespace tempDir field prefix (Suc i) refs files
         else returnM (Inl (Wrapped (''resolve '' @ field @ ''['' @ fmt_nat i @ ''] '' @
                Values_Kind ref @ ''/'' @ Values_Name ref) err))
     | Inr d \<Rightarrow> do {
         path \<leftarrow> writeToTempFile r d tempDir (prefix @ fmt_nat i @ ''-*.yaml'');
         case path of
           Inl err \<Rightarrow> returnM (Inl (Wrapped (''write '' @ field @ ''['' @ fmt_nat i @ '']'') err))
         | Inr p \<Rightarrow> resolve_refs r namespace tempDir field prefix (Suc i) refs (files @ [p])
       }
   }"

text \<open>The inline values, the secret key and the keyring, each when it is configured.\<close>

definition resolve_inline ::
  "'w ReleaseReconciler \<Rightarrow> Release \<Rightarrow> string \<Rightarrow> string list \<Rightarrow> ('w, error + string list) io" where
  "resolve_inline r rel tempDir files =
     (case Spec_Values (Release_Spec rel) of
        None \<Rightarrow> returnM (Inr files)
      | Some raw \<Rightarrow> do {
          path \<leftarrow> writeToTempFile r raw tempDir ''inline-values-*.yaml'';
          returnM (case path of
             Inl err \<Rightarrow> Inl (Wrapped ''write inline values'' err)
           | Inr p \<Rightarrow> Inr (files @ [p]))
        })"

definition resolve_secret_key :: "'w ReleaseReconciler \<Rightarrow> Release \<Rightarrow> ('w, error + string) io" where
  "resolve_secret_key r rel =
     (case Spec_SecretKeyFrom (Release_Spec rel) of
        None \<Rightarrow> returnM (Inr '''')
      | Some ref \<Rightarrow> do {
          key \<leftarrow> fetchSecretKey r (rel_Namespace rel) ref;
          returnM (wrap_result ''resolve secretKeyFrom'' key)
        })"

definition keyring_ref :: "Release \<Rightarrow> SecretKeyReference option" where
  "keyring_ref rel =
     (case Spec_Provenance (Release_Spec rel) of None \<Rightarrow> None | Some p \<Rightarrow> Provenance_KeyringFrom p)"

definition resolve_keyring :: "'w ReleaseReconciler \<Rightarrow> Release \<Rightarrow> string \<Rightarrow> ('w, error + string) io" where
  "resolve_keyring r rel tempDir =
     (case keyring_ref rel of
        None \<Rightarrow> returnM (Inr '''')
      | Some ref \<Rightarrow> do {
          data \<leftarrow> fetchSecretData r (rel_Namespace rel) (SecretKey_Name ref)
                    (data_key (SecretKey_DataKey ref) ''key'');
          case data of
            Inl err \<Rightarrow> returnM (Inl (Wrapped ''resolve provenance keyring'' err))
          | Inr d \<Rightarrow> do {
              path \<leftarrow> writeToTempFile r d tempDir ''provenance-keyring-*'';
              returnM (wrap_result ''write provenance keyring'' path)
            }
        })"

definition Resolve ::
  "'w ReleaseReconciler \<Rightarrow> Release \<Rightarrow> string list \<Rightarrow> string \<Rightarrow> ('w, error + ResolvedValues) io" where
  "Resolve r rel chartValuesFiles tempDir = do {
     inline \<leftarrow> resolve_inline r rel tempDir chartValuesFiles;
     case inline of
       Inl err \<Rightarrow> returnM (Inl err)
     | Inr files0 \<Rightarrow> do {
     vals \<leftarrow> resolve_refs r (rel_Namespace rel) tempDir ''valuesFrom'' ''values-from-'' 0
               (Spec_ValuesFrom (Release_Spec rel)) files0;
     case vals of
       Inl err \<Rightarrow> returnM (Inl err)
     | Inr files \<Rightarrow> do {
     key \<leftarrow> resolve_secret_key r rel;
     case key of
       Inl err \<Rightarrow> returnM (Inl err)
     | Inr secretKey \<Rightarrow> do {
     secs \<leftarrow> resolve_refs r (rel_Namespace rel) tempDir ''secretValuesFrom'' ''secret-values-'' 0
               (Spec_SecretValuesFrom (Release_Spec rel)) [];
     case secs of
       Inl err \<Rightarrow> returnM (Inl err)
     | Inr secretFiles \<Rightarrow> do {
     keyring \<leftarrow> resolve_keyring r rel tempDir;
     returnM (case keyring of
        Inl err \<Rightarrow> Inl err
      | Inr keyringPath \<Rightarrow> Inr
          \<lparr>RV_ValuesFiles = files, RV_SecretValuesFiles = secretFiles, RV_SecretKey = secretKey,
           RV_ProvenanceKeyringPath = keyringPath\<rparr>)
     }}}}}"

section \<open>What is written\<close>

fun write_of :: "call \<times> bool \<Rightarrow> (string \<times> string) list" where
  "write_of (CWriteFile p d, True) = [(p, d)]"
| "write_of _ = []"

text \<open>The files that a list of calls writes, with their contents, in order.\<close>

definition written :: "(call \<times> bool) list \<Rightarrow> (string \<times> string) list" where
  "written cs = concat (map write_of cs)"

lemma written_simps [simp]:
  "written [] = []" "written (c # cs) = write_of c @ written cs" "written (cs @ ds) = written cs @ written ds"
  by (simp_all add: written_def)

text \<open>The API server answered a read of the reference with an object that holds these data.\<close>

definition fetched :: "'w ReleaseReconciler \<Rightarrow> string \<Rightarrow> ValuesReference \<Rightarrow> string \<Rightarrow> bool" where
  "fetched r namespace ref d \<longleftrightarrow>
     (\<exists>w m. (Values_Kind ref = ''ConfigMap'' \<and>
          fst (client_GetConfigMap (rr_Client r) \<lparr>NN_Namespace = namespace, NN_Name = Values_Name ref\<rparr> w) = Inr m \<or>
         Values_Kind ref = ''Secret'' \<and>
          fst (client_GetSecret (rr_Client r) \<lparr>NN_Namespace = namespace, NN_Name = Values_Name ref\<rparr> w) = Inr m) \<and>
        m (data_key (Values_DataKey ref) ''values.yaml'') = Some d)"

text \<open>
  \<open>selects r namespace refs ds\<close>: \<open>ds\<close> are data of the references, in their order, where only
  optional references are left out.
\<close>

fun selects :: "'w ReleaseReconciler \<Rightarrow> string \<Rightarrow> ValuesReference list \<Rightarrow> string list \<Rightarrow> bool" where
  "selects r namespace [] ds = (ds = [])"
| "selects r namespace (ref # refs) ds =
     ((Values_Optional ref \<and> selects r namespace refs ds) \<or>
      (\<exists>d ds'. ds = d # ds' \<and> fetched r namespace ref d \<and> selects r namespace refs ds'))"

lemma runs_writeToTempFile:
  "runs (writeToTempFile r d dir pat)
     (\<lambda>res cs. case res of Inr p \<Rightarrow> written cs = [(p, d)] | Inl e \<Rightarrow> True)"
  unfolding writeToTempFile_def by (intro runs_intro) (auto split: option.splits)

lemma runs_fetchConfigMapData:
  "runs (fetchConfigMapData r ns n k) (\<lambda>res cs. written cs = [] \<and> (case res of
      Inr d \<Rightarrow> \<exists>w m. fst (client_GetConfigMap (rr_Client r) \<lparr>NN_Namespace = ns, NN_Name = n\<rparr> w) = Inr m \<and>
        m (data_key k ''values.yaml'') = Some d
    | Inl e \<Rightarrow> True))"
  unfolding fetchConfigMapData_def Let_def
  by (intro runs_intro) (auto split: sum.splits option.splits, metis fst_conv)

lemma runs_fetchSecretData:
  "runs (fetchSecretData r ns n k) (\<lambda>res cs. written cs = [] \<and> (case res of
      Inr d \<Rightarrow> \<exists>w m. fst (client_GetSecret (rr_Client r) \<lparr>NN_Namespace = ns, NN_Name = n\<rparr> w) = Inr m \<and>
        m (data_key k ''values.yaml'') = Some d
    | Inl e \<Rightarrow> True))"
  unfolding fetchSecretData_def Let_def
  by (intro runs_intro) (auto split: sum.splits option.splits, metis fst_conv)

lemma runs_fetchReference:
  "runs (fetchReference r ns ref)
     (\<lambda>res cs. written cs = [] \<and> (case res of Inr d \<Rightarrow> fetched r ns ref d | Inl e \<Rightarrow> True))"
  unfolding fetchReference_def
  by (intro runs_intro runs_mono [OF runs_fetchConfigMapData] runs_mono [OF runs_fetchSecretData])
    (auto simp: fetched_def split: sum.splits)

lemma runs_resolve_refs:
  "runs (resolve_refs r ns dir field prefix i refs files) (\<lambda>res cs. case res of
      Inr files' \<Rightarrow> files' = files @ map fst (written cs) \<and> selects r ns refs (map snd (written cs))
    | Inl e \<Rightarrow> True)"
proof (induction refs arbitrary: i files)
  case Nil
  show ?case by (simp add: runs_return)
next
  case (Cons ref refs)
  show ?case
    unfolding resolve_refs.simps
    by (intro runs_bind runs_mono [OF runs_fetchReference] runs_case_sum runs_if
        runs_mono [OF runs_writeToTempFile] runs_mono [OF Cons.IH] runs_return)
      (auto split: sum.splits)
qed

text \<open>The same for a secret key; its default data key is \<^verbatim>\<open>key\<close>.\<close>

definition key_fetched :: "'w ReleaseReconciler \<Rightarrow> string \<Rightarrow> SecretKeyReference \<Rightarrow> string \<Rightarrow> bool" where
  "key_fetched r namespace ref d \<longleftrightarrow>
     (\<exists>w m. fst (client_GetSecret (rr_Client r) \<lparr>NN_Namespace = namespace, NN_Name = SecretKey_Name ref\<rparr> w) = Inr m \<and>
        m (data_key (SecretKey_DataKey ref) ''key'') = Some d)"

lemma data_key_twice: "data_key (data_key k ''key'') v = data_key k ''key''"
  by (simp add: data_key_def)

text \<open>
  What a successful resolution returns, given the files written: the values files are those of
  the chart, then the inline values, then the references; then come the secret values and the
  keyring.
\<close>

definition values_resolved ::
  "'w ReleaseReconciler \<Rightarrow> Release \<Rightarrow> string list \<Rightarrow> ResolvedValues \<Rightarrow> (string \<times> string) list \<Rightarrow> bool" where
  "values_resolved r rel chartFiles rv ws \<longleftrightarrow>
     (\<exists>inline vals secrets keyring.
        ws = inline @ vals @ secrets @ keyring \<and>
        RV_ValuesFiles rv = chartFiles @ map fst (inline @ vals) \<and>
        RV_SecretValuesFiles rv = map fst secrets \<and>
        map snd inline = (case Spec_Values (Release_Spec rel) of None \<Rightarrow> [] | Some raw \<Rightarrow> [raw]) \<and>
        selects r (rel_Namespace rel) (Spec_ValuesFrom (Release_Spec rel)) (map snd vals) \<and>
        selects r (rel_Namespace rel) (Spec_SecretValuesFrom (Release_Spec rel)) (map snd secrets) \<and>
        (case keyring_ref rel of
           None \<Rightarrow> keyring = [] \<and> RV_ProvenanceKeyringPath rv = []
         | Some ref \<Rightarrow> \<exists>d. key_fetched r (rel_Namespace rel) ref d \<and>
             keyring = [(RV_ProvenanceKeyringPath rv, d)])) \<and>
     (case Spec_SecretKeyFrom (Release_Spec rel) of
        None \<Rightarrow> RV_SecretKey rv = []
      | Some ref \<Rightarrow> key_fetched r (rel_Namespace rel) ref (RV_SecretKey rv))"

lemma runs_resolve_inline:
  "runs (resolve_inline r rel dir files) (\<lambda>res cs. case res of
      Inr files' \<Rightarrow> files' = files @ map fst (written cs) \<and>
        map snd (written cs) = (case Spec_Values (Release_Spec rel) of None \<Rightarrow> [] | Some raw \<Rightarrow> [raw])
    | Inl e \<Rightarrow> True)"
  unfolding resolve_inline_def
  by (intro runs_intro runs_mono [OF runs_writeToTempFile]) (auto split: sum.splits)

lemma runs_resolve_secret_key:
  "runs (resolve_secret_key r rel) (\<lambda>res cs. written cs = [] \<and> (case res of
      Inr k \<Rightarrow> (case Spec_SecretKeyFrom (Release_Spec rel) of
          None \<Rightarrow> k = []
        | Some ref \<Rightarrow> key_fetched r (rel_Namespace rel) ref k)
    | Inl e \<Rightarrow> True))"
  unfolding resolve_secret_key_def fetchSecretKey_def
  by (intro runs_intro runs_mono [OF runs_fetchSecretData])
    (auto simp: key_fetched_def data_key_twice wrap_result_def split: sum.splits)

lemma runs_resolve_keyring:
  "runs (resolve_keyring r rel dir) (\<lambda>res cs. case res of
      Inr p \<Rightarrow> (case keyring_ref rel of
          None \<Rightarrow> written cs = [] \<and> p = []
        | Some ref \<Rightarrow> \<exists>d. key_fetched r (rel_Namespace rel) ref d \<and> written cs = [(p, d)])
    | Inl e \<Rightarrow> True)"
  unfolding resolve_keyring_def
  by (intro runs_intro runs_mono [OF runs_fetchSecretData] runs_mono [OF runs_writeToTempFile])
    (auto simp: wrap_result_def key_fetched_def data_key_twice split: sum.splits)

lemma values_resolvedI:
  assumes "ws = inline @ vals @ secrets @ keyring"
    and "RV_ValuesFiles rv = chartFiles @ map fst (inline @ vals)"
    and "RV_SecretValuesFiles rv = map fst secrets"
    and "map snd inline = (case Spec_Values (Release_Spec rel) of None \<Rightarrow> [] | Some raw \<Rightarrow> [raw])"
    and "selects r (rel_Namespace rel) (Spec_ValuesFrom (Release_Spec rel)) (map snd vals)"
    and "selects r (rel_Namespace rel) (Spec_SecretValuesFrom (Release_Spec rel)) (map snd secrets)"
    and "case keyring_ref rel of
        None \<Rightarrow> keyring = [] \<and> RV_ProvenanceKeyringPath rv = []
      | Some ref \<Rightarrow> \<exists>d. key_fetched r (rel_Namespace rel) ref d \<and> keyring = [(RV_ProvenanceKeyringPath rv, d)]"
    and "case Spec_SecretKeyFrom (Release_Spec rel) of
        None \<Rightarrow> RV_SecretKey rv = []
      | Some ref \<Rightarrow> key_fetched r (rel_Namespace rel) ref (RV_SecretKey rv)"
  shows "values_resolved r rel chartFiles rv ws"
  using assms unfolding values_resolved_def by blast

lemma runs_Resolve:
  "runs (Resolve r rel chartFiles dir) (\<lambda>res cs. case res of
      Inr rv \<Rightarrow> values_resolved r rel chartFiles rv (written cs) | Inl e \<Rightarrow> True)"
  unfolding Resolve_def
proof (intro runs_bind runs_mono [OF runs_resolve_inline] runs_case_sum runs_return
    runs_mono [OF runs_resolve_refs] runs_mono [OF runs_resolve_secret_key]
    runs_mono [OF runs_resolve_keyring], goal_cases)
  case (5 a0 c0 files0 a1 c1 files a2 c2 key a3 c3 secretFiles a4 c4)
  show ?case
  proof (cases a4)
    case (Inr p)
    show ?thesis unfolding Inr sum.case
      by (rule values_resolvedI [of _ "written c0" "written c1" "written c3" "written c4"])
        (use 5 Inr in \<open>auto split: option.splits\<close>)
  qed simp
qed auto

section \<open>Calls\<close>

lemma temp_in_writeToTempFile: "emits (temp_in dir) (writeToTempFile r d dir pat)"
  unfolding writeToTempFile_def by (intro emits_intro) simp_all

definition values_kinds :: "call_kind set" where
  "values_kinds = {KTempFile, KConfigGet}"

lemma kinds_writeToTempFile: "emits (in_kinds values_kinds) (writeToTempFile r d dir pat)"
  unfolding writeToTempFile_def by (intro emits_intro) (simp_all add: values_kinds_def)

text \<open>The ConfigMaps and Secrets a call reads satisfy the two predicates.\<close>

fun reads_only :: "(NamespacedName \<Rightarrow> bool) \<Rightarrow> (NamespacedName \<Rightarrow> bool) \<Rightarrow> call \<times> bool \<Rightarrow> bool" where
  "reads_only cm sec (CGetConfigMap n, b) = cm n"
| "reads_only cm sec (CGetSecret n, b) = sec n"
| "reads_only cm sec _ = True"

text \<open>
  A predicate on calls that holds of every file call in the directory and of the reads of the
  configuration holds of every call the resolution makes.
\<close>

locale values_calls =
  fixes P :: "call \<times> bool \<Rightarrow> bool"
    and r :: "'w ReleaseReconciler"
    and rel :: Release
    and dir :: string
  assumes files: "\<And>pat b. P (CCreateTemp dir pat, b)" "\<And>f d b. P (CWriteFile f d, b)"
      "\<And>f b. P (CCloseFile f, b)"
    and ref_reads: "ref \<in> set (Spec_ValuesFrom (Release_Spec rel)) \<union> set (Spec_SecretValuesFrom (Release_Spec rel)) \<Longrightarrow>
      (Values_Kind ref = ''ConfigMap'' \<longrightarrow>
         P (CGetConfigMap \<lparr>NN_Namespace = rel_Namespace rel, NN_Name = Values_Name ref\<rparr>, b)) \<and>
      (Values_Kind ref = ''Secret'' \<longrightarrow>
         P (CGetSecret \<lparr>NN_Namespace = rel_Namespace rel, NN_Name = Values_Name ref\<rparr>, b))"
    and key_reads: "Spec_SecretKeyFrom (Release_Spec rel) = Some key \<or> keyring_ref rel = Some key \<Longrightarrow>
      P (CGetSecret \<lparr>NN_Namespace = rel_Namespace rel, NN_Name = SecretKey_Name key\<rparr>, b)"
begin

lemma emits_write: "emits P (writeToTempFile r d dir pat)"
  unfolding writeToTempFile_def by (intro emits_intro files)

lemma emits_secret:
  "(\<And>b. P (CGetSecret \<lparr>NN_Namespace = ns, NN_Name = n\<rparr>, b)) \<Longrightarrow> emits P (fetchSecretData r ns n k)"
  unfolding fetchSecretData_def by (intro emits_intro)

lemma emits_refs:
  "set refs \<subseteq> set (Spec_ValuesFrom (Release_Spec rel)) \<union> set (Spec_SecretValuesFrom (Release_Spec rel)) \<Longrightarrow>
   emits P (resolve_refs r (rel_Namespace rel) dir field prefix i refs fs)"
proof (induction refs arbitrary: i fs)
  case Nil
  show ?case by (simp add: emits_return)
next
  case (Cons ref refs)
  then have ref: "emits P (fetchReference r (rel_Namespace rel) ref)"
    unfolding fetchReference_def fetchConfigMapData_def
    by (intro emits_intro emits_secret) (use ref_reads in auto)
  show ?case
    unfolding resolve_refs.simps
    by (intro emits_intro ref emits_write Cons.IH) (use Cons.prems in auto)
qed

lemma emits_Resolve: "emits P (Resolve r rel chartFiles dir)"
  unfolding Resolve_def resolve_inline_def resolve_secret_key_def resolve_keyring_def fetchSecretKey_def Let_def
  by (intro emits_intro emits_refs emits_write emits_secret) (use key_reads in auto)

end

interpretation values_temp: values_calls "temp_in dir" r rel dir for r rel dir
  by unfold_locales simp_all

interpretation values_kind: values_calls "in_kinds values_kinds" r rel dir for r rel dir
  by unfold_locales (auto simp: values_kinds_def)

section \<open>Properties\<close>

text \<open>C19. When the values of a release are resolved, the values files are, in this order, the files
  of the chart, the inline values and one file per reference of \<^verbatim>\<open>valuesFrom\<close> in the order of the
  list, with exactly the data the API server returned for it; only optional references may be
  missing. The secret values follow the same rule, the secret key is the one the referenced
  Secret holds, and the keyring is written last. Nothing else is written.\<close>

theorem Resolve_values:
  "case fst (run_state (Resolve r rel chartFiles dir) s) of
     Inr rv \<Rightarrow> values_resolved r rel chartFiles rv (written (trace (Resolve r rel chartFiles dir) s))
   | Inl e \<Rightarrow> True"
  by (rule runs_trace [OF runs_Resolve])

end
