(* ===== verification/Chart_Phase.thy ===== *)
theory Chart_Phase
  imports Source_Refs Values_Resolve
begin

text \<open>
  The chart source phase machine of \<^verbatim>\<open>release_controller.go\<close> (\<^verbatim>\<open>resolveChartRef\<close> with
  \<^verbatim>\<open>ensureHelmChart\<close> and \<^verbatim>\<open>cleanupHelmChart\<close>). For a release with an inline chart it moves from
  the source object in use to the one the specification asks for, one status update at a time:
  \<^verbatim>\<open>Pending\<close> (register as a user of the new object), \<^verbatim>\<open>Disconnecting\<close> (leave the old one),
  \<^verbatim>\<open>Ready\<close>. The abstract machine is the function \<open>phase_step\<close>.
\<close>

section \<open>The companion HelmChart\<close>

definition companion_chart :: "'w ReleaseReconciler \<Rightarrow> Release \<Rightarrow> string \<Rightarrow> ReleaseChart \<Rightarrow> HelmChart option" where
  "companion_chart r rel sourceName chart =
     (case Chart_Git chart of
        Some git \<Rightarrow> Some (BuildHelmChartForGitRepositorySource (api_group r) (api_version r) rel sourceName git)
      | None \<Rightarrow>
     (case Chart_Repo chart of
        Some repo \<Rightarrow> Some (BuildHelmChartForHelmRepositorySource (api_group r) (api_version r) rel sourceName repo)
      | None \<Rightarrow>
     (case Chart_Bucket chart of
        Some bucket \<Rightarrow> Some (BuildHelmChartForBucketSource (api_group r) (api_version r) rel sourceName bucket)
      | None \<Rightarrow> None)))"

definition ensureHelmChart ::
  "'w ReleaseReconciler \<Rightarrow> Release \<Rightarrow> string \<Rightarrow> ('w, error + ChartSourceRef) io" where
  "ensureHelmChart r rel sourceName =
     (let apiVersion = api_group r @ ''/'' @ api_version r
      in case Spec_Chart (Release_Spec rel) of
           None \<Rightarrow> returnM (Inl (NewError ''spec.chart is not set''))
         | Some chart \<Rightarrow>
             (case companion_chart r rel sourceName chart of
                None \<Rightarrow>
                  (case Chart_OCI chart of
                     Some _ \<Rightarrow> returnM (Inr
                       \<lparr>ChartRef_APIVersion = apiVersion, ChartRef_Kind = OCIRepositoryKind,
                        ChartRef_Name = sourceName, ChartRef_Namespace = rel_Namespace rel\<rparr>)
                   | None \<Rightarrow> returnM (Inl (NewError
                       ''no chart source configured: exactly one of git, repo, oci or bucket must be set'')))
              | Some obj0 \<Rightarrow>
                  (case lib_SetControllerReference (rr_Lib r) rel obj0 of
                     Inl err \<Rightarrow> returnM (Inl (Wrapped ''set helm chart controller reference'' err))
                   | Inr obj \<Rightarrow> do {
                       p \<leftarrow> perform (CApplyHelmChart obj) succeeded (client_ApplyHelmChart (rr_Client r) obj);
                       returnM (case p of
                          Inl err \<Rightarrow> Inl (Wrapped (''apply helm chart '' @ Type_Kind (HelmChart_Type obj) @ '' '' @
                            SMeta_Namespace (HelmChart_Meta obj) @ ''/'' @ SMeta_Name (HelmChart_Meta obj)) err)
                        | Inr obj' \<Rightarrow> Inr
                            \<lparr>ChartRef_APIVersion = apiVersion, ChartRef_Kind = HelmChartKind,
                             ChartRef_Name = SMeta_Name (HelmChart_Meta obj'),
                             ChartRef_Namespace = rel_Namespace rel\<rparr>)
                     })))"

definition cleanupHelmChart :: "'w ReleaseReconciler \<Rightarrow> Release \<Rightarrow> ('w, error option) io" where
  "cleanupHelmChart r rel =
     (let gvk = source_gvk r HelmChartKind;
          helmChartName = GetHelmChartHashedName (rel_Namespace rel) (rel_Name rel);
          key = \<lparr>NN_Namespace = rel_Namespace rel, NN_Name = helmChartName\<rparr>
      in do {
        e \<leftarrow> perform (CDeleteObject gvk key None) no_error (client_DeleteObject (rr_Client r) gvk key None);
        returnM (case e of
           None \<Rightarrow> None
         | Some err \<Rightarrow> if IsNotFound err then None
                       else Some (Wrapped (''delete HelmChart '' @ rel_Namespace rel @ ''/'' @ helmChartName) err))
      })"

section \<open>The phase machine\<close>

text \<open>
  The result is the outcome to return when the machine advanced (\<^verbatim>\<open>done\<close>), or the reference to
  deploy from together with the release, whose chart reference may have been completed.
\<close>

type_synonym resolved = "outcome + ChartSourceRef \<times> Release"

definition fail_resolve :: "'w ReleaseReconciler \<Rightarrow> Release \<Rightarrow> error \<Rightarrow> ('w, resolved) io" where
  "fail_resolve r rel err = do {
     res \<leftarrow> handleFailure r rel False err None False;
     returnM (Inl res)
   }"

definition advance :: "'w ReleaseReconciler \<Rightarrow> Release \<Rightarrow> ('w, resolved) io" where
  "advance r rel = do {
     u \<leftarrow> StatusUpdate r rel;
     returnM (Inl (case u of
        Inl err \<Rightarrow> Returned no_result (Some err)
      | Inr _ \<Rightarrow> Returned requeue None))
   }"

definition resolve_without_chart :: "'w ReleaseReconciler \<Rightarrow> Release \<Rightarrow> ('w, resolved) io" where
  "resolve_without_chart r rel =
     (let st = Release_Status rel
      in if Status_LastAppliedChartSource st \<noteq> None \<or> Status_CandidateChartSource st \<noteq> None then do {
           e1 \<leftarrow> cleanupChartSourceRef r rel (Status_LastAppliedChartSource st);
           case e1 of
             Some err \<Rightarrow> fail_resolve r rel (Wrapped ''cleanup former spec.chart source'' err)
           | None \<Rightarrow> do {
           e2 \<leftarrow> cleanupChartSourceRef r rel (Status_CandidateChartSource st);
           case e2 of
             Some err \<Rightarrow> fail_resolve r rel (Wrapped ''cleanup former spec.chart source'' err)
           | None \<Rightarrow> do {
           u \<leftarrow> StatusUpdate r (with_status (\<lambda>s. s\<lparr>Status_LastAppliedChartSource := None,
                  Status_ChartSourcePhase := '''', Status_CandidateChartSource := None\<rparr>) rel);
           case u of
             Inl err \<Rightarrow> returnM (Inl (Returned no_result (Some err)))
           | Inr rel' \<Rightarrow> do {
           e3 \<leftarrow> cleanupHelmChart r rel';
           case e3 of
             Some err \<Rightarrow> fail_resolve r rel' (Wrapped ''cleanup former spec.chart HelmChart'' err)
           | None \<Rightarrow> returnM (Inl (Returned requeue None))
           }}}}
         else
           (case Spec_ChartRef (Release_Spec rel) of
              None \<Rightarrow> returnM (Inl (Panicked ''invalid memory address or nil pointer dereference''))
            | Some chartRef \<Rightarrow>
                let chartRef' = (if ChartRef_Namespace chartRef = ''''
                                 then chartRef\<lparr>ChartRef_Namespace := rel_Namespace rel\<rparr> else chartRef)
                in returnM (Inr (chartRef',
                     rel\<lparr>Release_Spec := (Release_Spec rel)\<lparr>Spec_ChartRef := Some chartRef'\<rparr>\<rparr>))))"

definition expected_ref :: "'w ReleaseReconciler \<Rightarrow> SourceObject \<Rightarrow> ChartSourceReference" where
  "expected_ref r src =
     \<lparr>SourceRef_Group = api_group r, SourceRef_Version = api_version r,
      SourceRef_Kind = Type_Kind (Source_Type src),
      SourceRef_Name = SMeta_Name (Source_Meta src),
      SourceRef_Namespace = SMeta_Namespace (Source_Meta src)\<rparr>"

definition resolve_ready :: "'w ReleaseReconciler \<Rightarrow> Release \<Rightarrow> SourceObject \<Rightarrow> ('w, resolved) io" where
  "resolve_ready r rel expectedChartSource = do {
     chartRef \<leftarrow> ensureHelmChart r rel (SMeta_Name (Source_Meta expectedChartSource));
     case chartRef of
       Inl err \<Rightarrow> fail_resolve r rel (Wrapped ''ensure chart source HelmChart'' err)
     | Inr ref \<Rightarrow> returnM (Inr (ref, rel))
   }"

definition resolveChartRef :: "'w ReleaseReconciler \<Rightarrow> Release \<Rightarrow> ('w, resolved) io" where
  "resolveChartRef r rel =
     (case Spec_Chart (Release_Spec rel) of
        None \<Rightarrow> resolve_without_chart r rel
      | Some chart \<Rightarrow>
          (case BuildChartSourceFromRelease (lib_source (rr_Lib r)) (api_group r) (api_version r) rel chart of
             Inl err \<Rightarrow> fail_resolve r rel (Wrapped ''build source from spec.chart'' err)
           | Inr expectedChartSource \<Rightarrow>
               let expected = expected_ref r expectedChartSource;
                   st = Release_Status rel;
                   phase = Status_ChartSourcePhase st
               in if phase = '''' \<or> phase = ChartSourcePhaseReady then
                    if Status_LastAppliedChartSource st \<noteq> Some expected then
                      advance r (with_status (\<lambda>s. s\<lparr>Status_ChartSourcePhase := ChartSourcePhasePending,
                        Status_CandidateChartSource := Some expected\<rparr>) rel)
                    else resolve_ready r rel expectedChartSource
                  else if phase = ChartSourcePhasePending then
                    if Status_CandidateChartSource st \<noteq> Some expected then
                      advance r (with_status (\<lambda>s. s\<lparr>Status_CandidateChartSource := Some expected\<rparr>) rel)
                    else do {
                      e \<leftarrow> ensureChartSourceRef r rel expectedChartSource;
                      case e of
                        Some err \<Rightarrow> fail_resolve r rel (Wrapped ''ensure spec.chart source'' err)
                      | None \<Rightarrow> advance r
                          (with_status (\<lambda>s. s\<lparr>Status_ChartSourcePhase := ChartSourcePhaseDisconnecting\<rparr>) rel)
                    }
                  else if phase = ChartSourcePhaseDisconnecting then
                    let connected = with_status (\<lambda>s. s\<lparr>
                          Status_LastAppliedChartSource := Status_CandidateChartSource s,
                          Status_ChartSourcePhase := ChartSourcePhaseReady\<rparr>) rel
                    in if Status_LastAppliedChartSource st \<noteq> None \<and>
                          Status_LastAppliedChartSource st \<noteq> Status_CandidateChartSource st then do {
                         e \<leftarrow> cleanupChartSourceRef r rel (Status_LastAppliedChartSource st);
                         case e of
                           Some err \<Rightarrow> fail_resolve r rel (Wrapped ''cleanup last applied chart source'' err)
                         | None \<Rightarrow> advance r connected
                       }
                       else advance r connected
                  else resolve_ready r rel expectedChartSource))"

section \<open>The abstract machine\<close>

type_synonym chart_state =
  "string \<times> ChartSourceReference option \<times> ChartSourceReference option"

text \<open>The phase, the source in use and the candidate, as the status of a release holds them.\<close>

definition chart_state :: "Release \<Rightarrow> chart_state" where
  "chart_state rel =
     (Status_ChartSourcePhase (Release_Status rel), Status_LastAppliedChartSource (Release_Status rel),
      Status_CandidateChartSource (Release_Status rel))"

text \<open>
  The step the machine takes when every call succeeds; \<open>None\<close> when it has settled. \<open>E\<close> is the
  source the specification asks for.
\<close>

fun phase_step :: "ChartSourceReference \<Rightarrow> chart_state \<Rightarrow> chart_state option" where
  "phase_step E (p, l, c) =
     (if p = '''' \<or> p = ChartSourcePhaseReady then
        if l \<noteq> Some E then Some (ChartSourcePhasePending, l, Some E) else None
      else if p = ChartSourcePhasePending then
        if c \<noteq> Some E then Some (ChartSourcePhasePending, l, Some E)
        else Some (ChartSourcePhaseDisconnecting, l, c)
      else if p = ChartSourcePhaseDisconnecting then Some (ChartSourcePhaseReady, c, c)
      else None)"

text \<open>
  The state the API server holds after a list of calls: that of the last status update it
  accepted.
\<close>

fun accepted_state :: "chart_state \<Rightarrow> (call \<times> bool) list \<Rightarrow> chart_state" where
  "accepted_state \<sigma> [] = \<sigma>"
| "accepted_state \<sigma> ((CStatusUpdate rel, True) # cs) = accepted_state (chart_state rel) cs"
| "accepted_state \<sigma> (c # cs) = accepted_state \<sigma> cs"

lemma accepted_state_append: "accepted_state \<sigma> (xs @ ys) = accepted_state (accepted_state \<sigma> xs) ys"
  by (induction \<sigma> xs rule: accepted_state.induct) simp_all

lemma accepted_state_other:
  "list_all (in_kinds K) cs \<Longrightarrow> KStatusUpdate \<notin> K \<Longrightarrow> accepted_state \<sigma> cs = \<sigma>"
  by (induction \<sigma> cs rule: accepted_state.induct) auto

text \<open>References made under the current configuration; they name different objects when they differ.\<close>

definition canonical :: "'w ReleaseReconciler \<Rightarrow> ChartSourceReference \<Rightarrow> bool" where
  "canonical r ref \<longleftrightarrow> SourceRef_Group ref = api_group r \<and> SourceRef_Version ref = api_version r"

lemma canonical_expected [simp]: "canonical r (expected_ref r src)"
  by (simp add: canonical_def expected_ref_def)

lemma canonical_key_inject: "canonical r a \<Longrightarrow> canonical r b \<Longrightarrow> ref_key r a = ref_key r b \<longleftrightarrow> a = b"
  by (cases a; cases b) (auto simp: canonical_def ref_key_def source_gvk_def)

text \<open>
  One pass of the controller over a release with an inline chart, named \<open>n\<close> (passes without one are
  steps of \<open>history\<close> below): the state the server holds and the users
  of the source objects, before and after. The specification may ask for another source in every
  pass, and any call may fail, so that users may be changed and the status not.
\<close>

inductive pass :: "'w ReleaseReconciler \<Rightarrow> string \<Rightarrow> chart_state \<times> ref_state \<Rightarrow> chart_state \<times> ref_state \<Rightarrow> bool"
  for r n where
  idle: "pass r n (\<sigma>, A) (\<sigma>, A)"
| propose: "p = '''' \<or> p = ChartSourcePhaseReady \<Longrightarrow> l \<noteq> Some E \<Longrightarrow> canonical r E \<Longrightarrow>
    pass r n ((p, l, c), A) ((ChartSourcePhasePending, l, Some E), A)"
| repropose: "c \<noteq> Some E \<Longrightarrow> canonical r E \<Longrightarrow>
    pass r n ((ChartSourcePhasePending, l, c), A) ((ChartSourcePhasePending, l, Some E), A)"
| connect: "p' = ChartSourcePhasePending \<or> p' = ChartSourcePhaseDisconnecting \<Longrightarrow> canonical r E \<Longrightarrow>
    pass r n ((ChartSourcePhasePending, l, Some E), A) ((p', l, Some E), ref_add (ref_key r E) n A)"
| disconnect: "Some L \<noteq> c \<Longrightarrow>
    \<sigma>' = (ChartSourcePhaseDisconnecting, Some L, c) \<or> \<sigma>' = (ChartSourcePhaseReady, c, c) \<Longrightarrow>
    pass r n ((ChartSourcePhaseDisconnecting, Some L, c), A) (\<sigma>', ref_remove (ref_key r L) n A)"
| disconnect_failed: "Some L \<noteq> c \<Longrightarrow> A (ref_key r L) = Some [n] \<Longrightarrow>
    pass r n ((ChartSourcePhaseDisconnecting, Some L, c), A)
      ((ChartSourcePhaseDisconnecting, Some L, c), A(ref_key r L \<mapsto> [[]]))"
| settle: "l = None \<or> l = c \<Longrightarrow>
    pass r n ((ChartSourcePhaseDisconnecting, l, c), A) ((ChartSourcePhaseReady, c, c), A)"

definition registered :: "string \<Rightarrow> ref_state \<Rightarrow> obj_key \<Rightarrow> bool" where
  "registered n A k \<longleftrightarrow> (case A k of None \<Rightarrow> False | Some ns \<Rightarrow> n \<in> set ns)"

lemma registered_add: "registered n A k \<Longrightarrow> registered n (ref_add k' m A) k"
  by (auto simp: registered_def ref_add_def split: option.splits)

lemma registered_added: "registered n (ref_add k n A) k"
  by (auto simp: registered_def ref_add_def split: option.splits)

lemma registered_remove:
  assumes "registered n A k" and "m \<noteq> n \<or> k' \<noteq> k"
  shows "registered n (ref_remove k' m A) k"
proof (cases "k' = k")
  case True
  with assms obtain ns where "A k = Some ns" "n \<in> set ns" "m \<noteq> n"
    by (auto simp: registered_def split: option.splits)
  moreover from this have "n \<in> set (remove1 m ns)" by (metis in_set_remove1)
  ultimately show ?thesis
    using True by (auto simp: registered_def ref_remove_def dest: remove1_single)
next
  case False
  with assms show ?thesis by (auto simp: registered_def ref_remove_def split: option.splits)
qed

text \<open>
  The invariant: outside of the disconnecting phase the release is registered with the source in
  use, and in it with the candidate.
\<close>

fun phase_inv :: "'w ReleaseReconciler \<Rightarrow> string \<Rightarrow> chart_state \<times> ref_state \<Rightarrow> bool" where
  "phase_inv r n ((p, l, c), A) \<longleftrightarrow>
     pred_option (canonical r) l \<and> pred_option (canonical r) c \<and>
     (if p = ChartSourcePhaseDisconnecting then pred_option (\<lambda>C. registered n A (ref_key r C)) c
      else pred_option (\<lambda>L. registered n A (ref_key r L)) l)"

lemma phase_inv_pass: "pass r n x y \<Longrightarrow> phase_inv r n x \<Longrightarrow> phase_inv r n y"
proof (induction rule: pass.induct)
  case (connect p' E l A)
  then show ?case
    by (auto simp: registered_add registered_added phase_defs option.pred_set split: option.splits)
next
  case (disconnect L c \<sigma>' A)
  then show ?case
    by (auto simp: phase_defs option.pred_set canonical_key_inject intro!: registered_remove)
next
  case (disconnect_failed L c A)
  then show ?case
    by (cases c) (auto simp: phase_defs canonical_key_inject registered_def)
qed (auto simp: phase_defs)

section \<open>The code follows the machine\<close>

text \<open>
  Status updates do not touch other objects, and applying a HelmChart touches HelmCharts only.
\<close>

definition frame_contract :: "'w ReleaseReconciler \<Rightarrow> ('w \<Rightarrow> obj_key \<rightharpoonup> json) \<Rightarrow> bool" where
  "frame_contract r store \<longleftrightarrow>
     (\<forall>rel w. store (snd (client_StatusUpdate (rr_Client r) rel w)) = store w) \<and>
     (\<forall>hc w k. GVK_Kind (fst k) \<noteq> HelmChartKind \<longrightarrow>
        store (snd (client_ApplyHelmChart (rr_Client r) hc w)) k = store w k)"

definition source_users :: "'w ReleaseReconciler \<Rightarrow> ('w \<Rightarrow> obj_key \<rightharpoonup> json) \<Rightarrow> 'w \<Rightarrow> ref_state" where
  "source_users r store w = (\<lambda>k. if GVK_Kind (fst k) = HelmChartKind then None
                                 else refs_of (rr_Lib r) (store w) k)"

text \<open>\<open>keeps f m\<close>: running \<open>m\<close> does not change what \<open>f\<close> sees of the world.\<close>

definition keeps :: "('w \<Rightarrow> 'v) \<Rightarrow> ('w, 'a) io \<Rightarrow> bool" where
  "keeps f m \<longleftrightarrow> (\<forall>s. f (world (snd (run_state m s))) = f (world s))"

lemma keeps_return: "keeps f (returnM a)"
  by (simp add: keeps_def)

lemma keeps_observe: "keeps f (observe g)"
  by (simp add: keeps_def wp)

lemma keeps_bind: "keeps f m \<Longrightarrow> (\<And>a. keeps f (g a)) \<Longrightarrow> keeps f (State_Monad.bind m g)"
  by (simp add: keeps_def split_beta)

lemma keeps_perform: "(\<And>w. f (snd (g w)) = f w) \<Longrightarrow> keeps f (perform c ok g)"
  by (simp add: keeps_def wp)

lemma keeps_if: "keeps f m \<Longrightarrow> keeps f m' \<Longrightarrow> keeps f (if b then m else m')"
  by simp

lemma keeps_case_sum: "(\<And>e. keeps f (m e)) \<Longrightarrow> (\<And>a. keeps f (m' a)) \<Longrightarrow>
    keeps f (case x of Inl e \<Rightarrow> m e | Inr a \<Rightarrow> m' a)"
  by (cases x) simp_all

lemma keeps_case_option: "keeps f m \<Longrightarrow> (\<And>a. keeps f (m' a)) \<Longrightarrow>
    keeps f (case x of None \<Rightarrow> m | Some a \<Rightarrow> m' a)"
  by (cases x) simp_all

lemma keeps_let: "keeps f (m a) \<Longrightarrow> keeps f (let x = a in m x)"
  by simp

lemmas keeps_intro = keeps_return keeps_observe keeps_bind keeps_perform keeps_if keeps_case_sum
  keeps_case_option keeps_let

lemma source_users_cong:
  "(\<And>k. GVK_Kind (fst k) \<noteq> HelmChartKind \<Longrightarrow> store w k = store w' k) \<Longrightarrow>
   source_users r store w = source_users r store w'"
  by (auto simp: source_users_def refs_of_def)

lemma keeps_StatusUpdate: "frame_contract r store \<Longrightarrow> keeps store (StatusUpdate r rel)"
  unfolding StatusUpdate_def by (rule keeps_perform) (simp add: frame_contract_def)

lemma keeps_fail_resolve: "frame_contract r store \<Longrightarrow> keeps store (fail_resolve r rel e)"
  unfolding fail_resolve_def handleFailure_def projectStatusFromStorage_def setCondition_def if_False
    simp_thms
  by (intro keeps_intro keeps_StatusUpdate)

lemma keeps_store_users: "keeps store m \<Longrightarrow> keeps (source_users r store) m"
  by (auto simp: keeps_def intro!: source_users_cong)

lemma keeps_ensureHelmChart:
  "frame_contract r store \<Longrightarrow> keeps (source_users r store) (ensureHelmChart r rel n)"
  unfolding ensureHelmChart_def
  by (intro keeps_intro source_users_cong) (unfold frame_contract_def, blast)

section \<open>Calls\<close>

lemma kinds_fail_resolve: "emits (in_kinds {KStorageGet, KStatusUpdate}) (fail_resolve r rel e)"
  using kinds_handleFailure [of False r rel e None False]
  unfolding fail_resolve_def by (intro emits_intro) (auto elim: emits_kinds_mono)

lemma kinds_advance: "emits (in_kinds {KStatusUpdate}) (advance r rel)"
  unfolding advance_def by (intro emits_intro kinds_StatusUpdate)

lemma kinds_ensureHelmChart: "emits (in_kinds {KHelmChartApply}) (ensureHelmChart r rel n)"
  unfolding ensureHelmChart_def by (intro emits_intro) simp

lemma kinds_cleanupHelmChart: "emits (in_kinds {KObjectDelete}) (cleanupHelmChart r rel)"
  unfolding cleanupHelmChart_def by (intro emits_intro) simp

lemma kinds_ensureChartSourceRef:
  "retry_contract (rr_Lib r) \<Longrightarrow>
   emits (in_kinds {KObjectGet, KSourceCreate, KObjectUpdate}) (ensureChartSourceRef r rel src)"
  unfolding ensureChartSourceRef_def ensure_attempt_def by (intro emits_intro) simp_all

lemma kinds_cleanupChartSourceRef:
  "retry_contract (rr_Lib r) \<Longrightarrow>
   emits (in_kinds {KObjectGet, KObjectUpdate, KObjectDelete}) (cleanupChartSourceRef r rel ref)"
  unfolding cleanupChartSourceRef_def cleanup_attempt_def by (intro emits_intro) simp_all

lemma runs_advance:
  assumes "\<And>err. Q (Inl (Returned no_result (Some err))) [(CStatusUpdate rel, False)]"
    and "Q (Inl (Returned requeue None)) [(CStatusUpdate rel, True)]"
  shows "runs (advance r rel) Q"
  unfolding advance_def StatusUpdate_def
  by (intro runs_intro) (use assms in \<open>auto split: sum.splits\<close>)

text \<open>A failure report keeps the chart source state.\<close>

lemma runs_fail_resolve:
  assumes "condition_contract (rr_Lib r)" and "status_contract r"
  shows "runs (fail_resolve r rel e) (\<lambda>res cs. accepted_state (chart_state rel) cs = chart_state rel)"
  unfolding fail_resolve_def
proof (intro runs_bind runs_return runs_mono [OF handleFailure_runs [OF assms]], goal_cases)
  case (1 out cs)
  then obtain pre rel' ok where "cs = pre @ [(CStatusUpdate rel', ok)]"
    and "list_all (in_kinds {KStorageGet}) pre" and "same_chart_state rel rel'"
    unfolding failure_trace_def failure_report_def by auto
  then show ?case
    by (cases ok) (auto simp: accepted_state_append accepted_state_other same_chart_state_def chart_state_def)
qed

section \<open>Simulation\<close>

definition simulates :: "'w ReleaseReconciler \<Rightarrow> ('w \<Rightarrow> obj_key \<rightharpoonup> json) \<Rightarrow> Release \<Rightarrow> ('w, 'a) io \<Rightarrow> bool" where
  "simulates r store rel m \<longleftrightarrow>
     (\<forall>s. pass r (rel_Name rel) (chart_state rel, source_users r store (world s))
        (accepted_state (chart_state rel) (trace m s), source_users r store (world (snd (run_state m s)))))"

text \<open>What the operations of this theory rely on, together.\<close>

definition api_contract ::
  "'w ReleaseReconciler \<Rightarrow> ('w \<Rightarrow> obj_key \<rightharpoonup> json) \<Rightarrow> (json \<Rightarrow> obj_key) \<Rightarrow> bool" where
  "api_contract r store okey \<longleftrightarrow>
     store_contract r store okey \<and> frame_contract r store \<and> condition_contract (rr_Lib r) \<and>
     status_contract r"

lemma api_contractD:
  assumes "api_contract r store okey"
  shows "store_contract r store okey" and "frame_contract r store"
    and "condition_contract (rr_Lib r)" and "status_contract r" and "retry_contract (rr_Lib r)"
  using assms by (simp_all add: api_contract_def store_contract_def)

lemma simulates_idle:
  assumes "keeps (source_users r store) m"
    and "runs m (\<lambda>a cs. accepted_state (chart_state rel) cs = chart_state rel)"
  shows "simulates r store rel m"
  using assms(1) runs_trace [OF assms(2)] by (auto simp: simulates_def keeps_def intro: pass.idle)

lemma simulates_fail:
  assumes "api_contract r store okey"
  shows "simulates r store rel (fail_resolve r rel e)"
  by (rule simulates_idle, rule keeps_store_users)
    (use api_contractD [OF assms] in \<open>auto intro: keeps_fail_resolve runs_fail_resolve\<close>)

lemma keeps_resolve_ready:
  assumes "api_contract r store okey"
  shows "keeps (source_users r store) (resolve_ready r rel src)"
  unfolding resolve_ready_def
  by (intro keeps_intro keeps_ensureHelmChart keeps_store_users keeps_fail_resolve api_contractD [OF assms])

lemma simulates_ready:
  assumes "api_contract r store okey"
  shows "simulates r store rel (resolve_ready r rel src)"
proof (rule simulates_idle [OF keeps_resolve_ready [OF assms]])
  note D = api_contractD [OF assms]
  show "runs (resolve_ready r rel src) (\<lambda>a cs. accepted_state (chart_state rel) cs = chart_state rel)"
    unfolding resolve_ready_def
    by (intro runs_bind runs_emits [OF kinds_ensureHelmChart] runs_case_sum runs_return
        runs_mono [OF runs_fail_resolve [OF D(3,4)]])
      (auto simp: accepted_state_append accepted_state_other)
qed

lemma advance_run:
  assumes "api_contract r store okey"
  shows "source_users r store (world (snd (run_state (advance r rel') s))) = source_users r store (world s)"
    and "accepted_state \<sigma> (trace (advance r rel') s) = \<sigma> \<or>
      accepted_state \<sigma> (trace (advance r rel') s) = chart_state rel'"
proof -
  have "keeps (source_users r store) (advance r rel')"
    unfolding advance_def
    by (intro keeps_intro keeps_store_users keeps_StatusUpdate api_contractD [OF assms(1)])
  then show "source_users r store (world (snd (run_state (advance r rel') s))) = source_users r store (world s)"
    by (simp add: keeps_def)
  have "runs (advance r rel') (\<lambda>a cs. \<exists>ok. cs = [(CStatusUpdate rel', ok)])"
    by (rule runs_advance) auto
  then have "\<exists>ok. trace (advance r rel') s = [(CStatusUpdate rel', ok)]"
    by (rule runs_trace)
  then obtain ok where "trace (advance r rel') s = [(CStatusUpdate rel', ok)]" ..
  then show "accepted_state \<sigma> (trace (advance r rel') s) = \<sigma> \<or>
      accepted_state \<sigma> (trace (advance r rel') s) = chart_state rel'"
    by (cases ok) simp_all
qed

lemma fail_run:
  assumes "api_contract r store okey"
  shows "source_users r store (world (snd (run_state (fail_resolve r rel e) s))) = source_users r store (world s)"
    and "accepted_state (chart_state rel) (trace (fail_resolve r rel e) s) = chart_state rel"
proof -
  note D = api_contractD [OF assms]
  show "source_users r store (world (snd (run_state (fail_resolve r rel e) s))) = source_users r store (world s)"
    using keeps_store_users [OF keeps_fail_resolve [OF D(2)]] by (simp add: keeps_def)
  show "accepted_state (chart_state rel) (trace (fail_resolve r rel e) s) = chart_state rel"
    by (rule runs_trace [OF runs_fail_resolve [OF D(3,4)]])
qed

lemma simulates_advance:
  assumes "api_contract r store okey" and "\<And>A. pass r (rel_Name rel) (chart_state rel, A) (chart_state rel', A)"
  shows "simulates r store rel (advance r rel')"
  unfolding simulates_def advance_run(1) [OF assms(1)]
  using advance_run(2) [OF assms(1), of "chart_state rel" rel'] assms(2) by (metis pass.idle)

lemma simulates_bind:
  assumes "emits (in_kinds K) m" and "KStatusUpdate \<notin> K" and "\<And>a. emits (\<lambda>_. True) (f a)"
    and "\<And>s a t. run_state m s = (a, t) \<Longrightarrow>
      pass r (rel_Name rel) (chart_state rel, source_users r store (world s))
        (accepted_state (chart_state rel) (trace (f a) t), source_users r store (world (snd (run_state (f a) t))))"
  shows "simulates r store rel (State_Monad.bind m f)"
  unfolding simulates_def
proof
  fix s
  obtain a t where m: "run_state m s = (a, t)" by fastforce
  have "trace (State_Monad.bind m f) s = trace m s @ trace (f a) t"
    using assms(1,3) m by (rule trace_bind)
  moreover have "accepted_state (chart_state rel) (trace m s) = chart_state rel"
    using emits_trace [OF assms(1)] assms(2) by (rule accepted_state_other)
  ultimately show "pass r (rel_Name rel) (chart_state rel, source_users r store (world s))
      (accepted_state (chart_state rel) (trace (State_Monad.bind m f) s),
       source_users r store (world (snd (run_state (State_Monad.bind m f) s))))"
    using assms(4) [OF m] m by (simp add: accepted_state_append)
qed

lemma emits_True_fail: "emits (\<lambda>_. True) (fail_resolve r rel e)" "emits (\<lambda>_. True) (advance r rel)"
  by (rule emits_mono [OF kinds_fail_resolve], simp) (rule emits_mono [OF kinds_advance], simp)

lemma simulates_op:
  assumes c: "api_contract r store okey" and "emits (in_kinds K) m" and "KStatusUpdate \<notin> K"
    and ok: "\<And>s t \<sigma>'. run_state m s = (None, t) \<Longrightarrow> \<sigma>' = chart_state rel \<or> \<sigma>' = chart_state rel' \<Longrightarrow>
      pass r (rel_Name rel) (chart_state rel, source_users r store (world s)) (\<sigma>', source_users r store (world t))"
    and err: "\<And>s e t. run_state m s = (Some e, t) \<Longrightarrow>
      pass r (rel_Name rel) (chart_state rel, source_users r store (world s))
        (chart_state rel, source_users r store (world t))"
  shows "simulates r store rel (State_Monad.bind m (\<lambda>e. case e of
    Some err \<Rightarrow> fail_resolve r rel (g err) | None \<Rightarrow> advance r rel'))"
proof (rule simulates_bind [OF assms(2,3)])
  show "emits (\<lambda>_. True) (case a of Some err \<Rightarrow> fail_resolve r rel (g err) | None \<Rightarrow> advance r rel')" for a
    by (intro emits_intro emits_True_fail)
next
  fix s a t
  assume m: "run_state m s = (a, t)"
  show "pass r (rel_Name rel) (chart_state rel, source_users r store (world s))
      (accepted_state (chart_state rel)
         (trace (case a of Some err \<Rightarrow> fail_resolve r rel (g err) | None \<Rightarrow> advance r rel') t),
       source_users r store (world (snd (run_state
         (case a of Some err \<Rightarrow> fail_resolve r rel (g err) | None \<Rightarrow> advance r rel') t))))"
  proof (cases a)
    case None
    then show ?thesis
      using ok [OF m [unfolded None]] advance_run [OF c, where rel' = rel' and s = t] by simp
  next
    case (Some e)
    then show ?thesis
      using err [OF m [unfolded Some]] fail_run [OF c, where rel = rel and s = t] by simp
  qed
qed

text \<open>The two operations on users, in terms of the restricted view.\<close>

lemma source_users_add:
  assumes "refs_of (rr_Lib r) (store w') = ref_add k n (refs_of (rr_Lib r) (store w))"
    and "GVK_Kind (fst k) \<noteq> HelmChartKind"
  shows "source_users r store w' = ref_add k n (source_users r store w)"
  unfolding source_users_def assms(1) by (rule ext) (use assms(2) in \<open>auto simp: ref_add_def\<close>)

lemma source_users_remove:
  assumes "refs_of (rr_Lib r) (store w') = ref_remove k n (refs_of (rr_Lib r) (store w))"
  shows "source_users r store w' = ref_remove k n (source_users r store w)"
  unfolding source_users_def assms by (rule ext) (auto simp: ref_remove_def split: option.splits)

lemma source_users_emptied:
  assumes "refs_of (rr_Lib r) (store w') = (refs_of (rr_Lib r) (store w))(k \<mapsto> [[]])"
    and "refs_of (rr_Lib r) (store w) k = Some [n]"
  shows "source_users r store w' = source_users r store w \<or>
    source_users r store w k = Some [n] \<and> source_users r store w' = (source_users r store w)(k \<mapsto> [[]])"
proof (cases "GVK_Kind (fst k) = HelmChartKind")
  case True
  then have "source_users r store w' = source_users r store w"
    unfolding source_users_def assms(1) by (intro ext) auto
  then show ?thesis ..
next
  case False
  then have "source_users r store w' = (source_users r store w)(k \<mapsto> [[]])"
    unfolding source_users_def assms(1) by (intro ext) auto
  with False assms(2) show ?thesis by (simp add: source_users_def)
qed

lemma ensure_users:
  assumes "api_contract r store okey" and "comma_free (rel_Name rel)"
    and "GVK_Kind (fst (source_key r src)) \<noteq> HelmChartKind"
    and "run_state (ensureChartSourceRef r rel src) s = (e, t)"
  shows "source_users r store (world t) =
    (case e of None \<Rightarrow> ref_add (source_key r src) (rel_Name rel) (source_users r store (world s))
     | Some _ \<Rightarrow> source_users r store (world s))"
  using hoareD [OF hoare_ensureChartSourceRef [OF api_contractD(1) [OF assms(1)] assms(2)] refl assms(4)] assms(3)
  by (auto split: option.splits intro: source_users_add source_users_cong)

lemma cleanup_users:
  assumes "api_contract r store okey"
    and "run_state (cleanupChartSourceRef r rel (Some ref)) s = (e, t)"
  shows "case e of
      None \<Rightarrow> source_users r store (world t) =
        ref_remove (ref_key r ref) (rel_Name rel) (source_users r store (world s))
    | Some _ \<Rightarrow> source_users r store (world t) = source_users r store (world s) \<or>
        source_users r store (world s) (ref_key r ref) = Some [rel_Name rel] \<and>
        source_users r store (world t) = (source_users r store (world s))(ref_key r ref \<mapsto> [[]])"
  using hoareD [OF hoare_cleanupChartSourceRef [OF api_contractD(1) [OF assms(1)]] refl assms(2)]
  by (auto split: option.splits intro: source_users_remove source_users_cong dest: source_users_emptied)

lemma built_kind:
  assumes "BuildChartSourceFromRelease L g v rel chart = Inr src"
  shows "Type_Kind (Source_Type src) \<noteq> HelmChartKind"
  using assms
  by (auto simp: BuildChartSourceFromRelease_def set_hashed_name_def SetName_def kind_defs Let_def
      buildGitRepository_def buildHelmRepository_def buildBucket_def buildOCIRepository_def
      split: option.splits sum.splits)

lemma source_key_expected: "source_key r src = ref_key r (expected_ref r src)"
  by (simp add: source_key_def ref_key_def expected_ref_def)

lemma simulates_if:
  "(b \<Longrightarrow> simulates r store rel m) \<Longrightarrow> (\<not> b \<Longrightarrow> simulates r store rel m') \<Longrightarrow>
   simulates r store rel (if b then m else m')"
  by simp

lemma resolveChartRef_simulates:
  assumes c: "api_contract r store okey" and n: "comma_free (rel_Name rel)"
    and chart: "Spec_Chart (Release_Spec rel) = Some chart"
  shows "simulates r store rel (resolveChartRef r rel)"
proof -
  let ?st = "Release_Status rel"
  let ?p = "Status_ChartSourcePhase ?st" and ?l = "Status_LastAppliedChartSource ?st"
    and ?c = "Status_CandidateChartSource ?st"
  have \<sigma>: "chart_state rel = (?p, ?l, ?c)" by (simp add: chart_state_def)
  note D = api_contractD [OF c]
  show ?thesis
  proof (cases "BuildChartSourceFromRelease (lib_source (rr_Lib r)) (api_group r) (api_version r) rel chart")
    case (Inl err)
    then show ?thesis by (simp add: resolveChartRef_def chart simulates_fail [OF c])
  next
    case (Inr src)
    let ?E = "expected_ref r src"
    have kind: "GVK_Kind (fst (source_key r src)) \<noteq> HelmChartKind"
      using built_kind [OF Inr] by (simp add: source_key_def source_gvk_def)
    have propose: "simulates r store rel (advance r (with_status (\<lambda>s. s\<lparr>Status_ChartSourcePhase :=
        ChartSourcePhasePending, Status_CandidateChartSource := Some ?E\<rparr>) rel))"
      if "?p = '''' \<or> ?p = ChartSourcePhaseReady" "?l \<noteq> Some ?E"
      by (rule simulates_advance [OF c]) (use that in \<open>auto simp: chart_state_def intro: pass.propose\<close>)
    have repropose: "simulates r store rel (advance r (with_status (\<lambda>s. s\<lparr>
        Status_CandidateChartSource := Some ?E\<rparr>) rel))"
      if "?p = ChartSourcePhasePending" "?c \<noteq> Some ?E"
      by (rule simulates_advance [OF c]) (use that in \<open>auto simp: chart_state_def intro: pass.repropose\<close>)
    have connect: "simulates r store rel (State_Monad.bind (ensureChartSourceRef r rel src) (\<lambda>e. case e of
        Some err \<Rightarrow> fail_resolve r rel (g err)
      | None \<Rightarrow> advance r (with_status (\<lambda>s. s\<lparr>Status_ChartSourcePhase := ChartSourcePhaseDisconnecting\<rparr>) rel)))"
      if "?p = ChartSourcePhasePending" "?c = Some ?E" for g
      by (rule simulates_op [OF c kinds_ensureChartSourceRef [OF D(5)]])
        (use that in \<open>auto simp: chart_state_def ensure_users [OF c n kind] source_key_expected
           intro: pass.connect pass.idle\<close>)
    have disconnect: "simulates r store rel (State_Monad.bind (cleanupChartSourceRef r rel ?l) (\<lambda>e. case e of
        Some err \<Rightarrow> fail_resolve r rel (g err)
      | None \<Rightarrow> advance r (with_status (\<lambda>s. s\<lparr>Status_LastAppliedChartSource := Status_CandidateChartSource s,
          Status_ChartSourcePhase := ChartSourcePhaseReady\<rparr>) rel)))"
      if "?p = ChartSourcePhaseDisconnecting" "?l \<noteq> None" "?l \<noteq> ?c" for g
    proof -
      from that(2) obtain L where L: "?l = Some L" by auto
      show ?thesis unfolding L
      proof (rule simulates_op [OF c kinds_cleanupChartSourceRef [OF D(5)]], goal_cases)
        case (2 s t \<sigma>')
        with cleanup_users [OF c 2(1)] that L show ?case
          by (auto simp: chart_state_def intro: pass.disconnect)
      next
        case (3 s e t)
        with cleanup_users [OF c 3] that L show ?case
          by (auto simp: chart_state_def intro: pass.idle) (rule pass.disconnect_failed)
      qed simp
    qed
    have settle: "simulates r store rel (advance r (with_status (\<lambda>s. s\<lparr>
        Status_LastAppliedChartSource := Status_CandidateChartSource s,
        Status_ChartSourcePhase := ChartSourcePhaseReady\<rparr>) rel))"
      if "?p = ChartSourcePhaseDisconnecting" "?l = None \<or> ?l = ?c"
      by (rule simulates_advance [OF c]) (use that in \<open>auto simp: chart_state_def intro: pass.settle\<close>)
    show ?thesis
      unfolding resolveChartRef_def chart option.case Inr sum.case Let_def
      by (intro simulates_if propose repropose connect disconnect settle simulates_ready [OF c]) blast+
  qed
qed

section \<open>Progress\<close>

text \<open>
  A pass that asks to be run again at once has taken the step of the machine; a pass that
  resolves the chart finds the machine settled.
\<close>

definition progressed :: "chart_state \<Rightarrow> chart_state option \<Rightarrow> resolved \<Rightarrow> (call \<times> bool) list \<Rightarrow> bool" where
  "progressed \<sigma> step res cs \<longleftrightarrow>
     (res = Inl (Returned requeue None) \<longrightarrow> step = Some (accepted_state \<sigma> cs)) \<and>
     ((\<exists>x. res = Inr x) \<longrightarrow> step = None)"

lemma runs_fail_progressed:
  assumes "condition_contract (rr_Lib r)" and "status_contract r"
  shows "runs (fail_resolve r rel e) (progressed \<sigma> step)"
  unfolding fail_resolve_def
proof (intro runs_bind runs_return runs_mono [OF handleFailure_runs [OF assms]], goal_cases)
  case (1 out cs)
  then show ?case
    by (auto simp: failure_trace_def failure_outcome_def progressed_def split: if_splits option.splits)
qed

lemma runs_ready_progressed:
  assumes "condition_contract (rr_Lib r)" and "status_contract r"
  shows "runs (resolve_ready r rel src) (progressed \<sigma> None)"
  unfolding resolve_ready_def
  by (intro runs_bind runs_emits [OF kinds_ensureHelmChart] runs_case_sum runs_return
      runs_mono [OF runs_fail_progressed [OF assms]])
    (auto simp: progressed_def)

lemma runs_advance_progressed:
  "chart_state rel' = \<sigma>' \<Longrightarrow> runs (advance r rel') (progressed \<sigma> (Some \<sigma>'))"
  by (rule runs_advance) (auto simp: progressed_def)

lemma runs_op_progressed:
  assumes "condition_contract (rr_Lib r)" and "status_contract r"
    and "emits (in_kinds K) m" and "KStatusUpdate \<notin> K" and "chart_state rel' = \<sigma>'"
  shows "runs (State_Monad.bind m (\<lambda>e. case e of
      Some err \<Rightarrow> fail_resolve r rel (g err) | None \<Rightarrow> advance r rel')) (progressed \<sigma> (Some \<sigma>'))"
proof (intro runs_bind runs_emits [OF assms(3)] runs_case_option, goal_cases)
  case (1 e cs)
  show ?case
    by (rule runs_advance)
      (use assms(5) in \<open>auto simp: progressed_def accepted_state_append\<close>)
next
  case (2 e cs err)
  have "accepted_state \<sigma> (cs @ ds) = accepted_state \<sigma> ds" for ds
    using accepted_state_other [OF 2(1) assms(4)] by (simp add: accepted_state_append)
  then show ?case
    by (intro runs_mono [OF runs_fail_progressed [OF assms(1,2), of rel "g err" \<sigma> "Some \<sigma>'"]])
      (simp add: progressed_def)
qed

lemma resolveChartRef_progressed:
  assumes c: "api_contract r store okey" and chart: "Spec_Chart (Release_Spec rel) = Some chart"
    and src: "BuildChartSourceFromRelease (lib_source (rr_Lib r)) (api_group r) (api_version r) rel chart = Inr src"
  shows "runs (resolveChartRef r rel)
    (progressed (chart_state rel) (phase_step (expected_ref r src) (chart_state rel)))"
proof -
  note D = api_contractD [OF c]
  have \<sigma>: "chart_state rel = (Status_ChartSourcePhase (Release_Status rel),
      Status_LastAppliedChartSource (Release_Status rel), Status_CandidateChartSource (Release_Status rel))"
    by (simp add: chart_state_def)
  show ?thesis
    unfolding resolveChartRef_def chart option.case src sum.case Let_def \<sigma> phase_step.simps
    by (intro runs_if; simp only: if_True if_False simp_thms not_not;
        (rule runs_op_progressed [OF D(3,4) kinds_ensureChartSourceRef [OF D(5)]]
         | rule runs_op_progressed [OF D(3,4) kinds_cleanupChartSourceRef [OF D(5)]]
         | rule runs_advance_progressed | rule runs_ready_progressed [OF D(3,4)]))
      (simp_all add: chart_state_def)
qed

section \<open>Leaving the inline chart\<close>

definition opt_remove :: "'w ReleaseReconciler \<Rightarrow> string \<Rightarrow> ChartSourceReference option \<Rightarrow> ref_state \<Rightarrow> ref_state" where
  "opt_remove r n ref A = (case ref of None \<Rightarrow> A | Some x \<Rightarrow> ref_remove (ref_key r x) n A)"

lemma hoare_cleanup_users:
  assumes "api_contract r store okey"
  shows "hoare (\<lambda>t. source_users r store (world t) = A) (cleanupChartSourceRef r rel ref)
    (\<lambda>e t. e = None \<longrightarrow> source_users r store (world t) = opt_remove r (rel_Name rel) ref A)"
proof (cases ref)
  case None
  then show ?thesis by (auto simp: cleanupChartSourceRef_def opt_remove_def intro: hoare_return)
next
  case (Some x)
  show ?thesis unfolding Some
    by (rule hoareI) (auto simp: opt_remove_def dest!: cleanup_users [OF assms])
qed

lemma hoare_keeps: "keeps f m \<Longrightarrow> hoare (\<lambda>t. f (world t) = A) m (\<lambda>_ t. f (world t) = A)"
  by (simp add: keeps_def hoare_def)

lemma hoare_runs: "runs m Q \<Longrightarrow> (\<And>a cs. Q a cs \<Longrightarrow> R a) \<Longrightarrow> hoare P m (\<lambda>a _. R a)"
  unfolding hoare_def runs_def by blast

lemma keeps_cleanupHelmChart:
  assumes "api_contract r store okey"
  shows "keeps (source_users r store) (cleanupHelmChart r rel)"
proof -
  have "delete_contract r store"
    using api_contractD(1) [OF assms] by (simp add: store_contract_def)
  then have "store (snd (client_DeleteObject (rr_Client r) (source_gvk r HelmChartKind) key None w)) k = store w k"
    if "GVK_Kind (fst k) \<noteq> HelmChartKind" for key w k
    using that delete_contractD [of r store "source_gvk r HelmChartKind" key None w]
    by (cases "client_DeleteObject (rr_Client r) (source_gvk r HelmChartKind) key None w")
      (fastforce simp: source_gvk_def split: option.splits)
  then show ?thesis
    unfolding cleanupHelmChart_def by (intro keeps_intro source_users_cong) simp
qed

lemma fail_not_requeued:
  assumes "api_contract r store okey"
  shows "hoare P (fail_resolve r rel e) (\<lambda>res _. res \<noteq> Inl (Returned requeue None))"
  by (rule hoare_runs [OF runs_fail_progressed [where step = None]])
    (use api_contractD [OF assms] in \<open>auto simp: progressed_def\<close>)

lemma hoare_detach:
  assumes c: "api_contract r store okey"
    and "Status_LastAppliedChartSource (Release_Status rel) \<noteq> None \<or>
      Status_CandidateChartSource (Release_Status rel) \<noteq> None"
  shows "hoare (\<lambda>t. source_users r store (world t) = A) (resolve_without_chart r rel)
    (\<lambda>res t. res = Inl (Returned requeue None) \<longrightarrow> source_users r store (world t) =
       opt_remove r (rel_Name rel) (Status_CandidateChartSource (Release_Status rel))
         (opt_remove r (rel_Name rel) (Status_LastAppliedChartSource (Release_Status rel)) A))"
    (is "hoare _ _ ?Q")
proof -
  have fail: "hoare P (fail_resolve r rel' e) ?Q" for P rel' e
    by (rule hoare_weaken [OF fail_not_requeued [OF c]]) auto
  have update: "hoare (\<lambda>t. source_users r store (world t) = B) (StatusUpdate r rel')
      (\<lambda>_ t. source_users r store (world t) = B)" for B rel'
    by (rule hoare_keeps [OF keeps_store_users [OF keeps_StatusUpdate [OF api_contractD(2) [OF c]]]])
  have chart: "hoare (\<lambda>t. source_users r store (world t) = B) (cleanupHelmChart r rel')
      (\<lambda>_ t. source_users r store (world t) = B)" for B rel'
    by (rule hoare_keeps [OF keeps_cleanupHelmChart [OF c]])
  show ?thesis
    unfolding resolve_without_chart_def Let_def
    apply (subst if_P [OF assms(2)])
    apply (rule hoare_bind [OF hoare_cleanup_users [OF c]])
    subgoal for e1
      apply (cases e1; simp add: fail)
      apply (rule hoare_bind [OF hoare_cleanup_users [OF c]])
      subgoal for e2
        apply (cases e2; simp add: fail)
        apply (rule hoare_bind [OF update])
        subgoal for u
          by (cases u) (auto intro!: hoare_return hoare_bind [OF chart] fail split: option.split)
        done
      done
    done
qed

section \<open>Steps\<close>

text \<open>A pass leaves the state as it is or takes the step of the machine, whichever calls fail.\<close>

definition moved :: "chart_state \<Rightarrow> chart_state option \<Rightarrow> (call \<times> bool) list \<Rightarrow> bool" where
  "moved \<sigma> step cs \<longleftrightarrow> accepted_state \<sigma> cs = \<sigma> \<or> step = Some (accepted_state \<sigma> cs)"

lemma runs_fail_moved:
  assumes "api_contract r store okey"
  shows "runs (fail_resolve r rel e) (\<lambda>_. moved (chart_state rel) step)"
  by (rule runs_mono [OF runs_fail_resolve [OF api_contractD(3,4) [OF assms]]]) (simp add: moved_def)

lemma runs_ready_moved:
  assumes "api_contract r store okey"
  shows "runs (resolve_ready r rel src) (\<lambda>_. moved (chart_state rel) step)"
  unfolding resolve_ready_def
  by (intro runs_bind runs_emits [OF kinds_ensureHelmChart] runs_case_sum runs_return
      runs_mono [OF runs_fail_moved [OF assms]])
    (auto simp: moved_def accepted_state_append accepted_state_other)

lemma runs_advance_moved: "chart_state rel' = \<sigma>' \<Longrightarrow> runs (advance r rel') (\<lambda>_. moved \<sigma> (Some \<sigma>'))"
  by (rule runs_advance) (auto simp: moved_def)

lemma runs_op_moved:
  assumes "api_contract r store okey"
    and "emits (in_kinds K) m" and "KStatusUpdate \<notin> K" and "chart_state rel' = \<sigma>'"
  shows "runs (State_Monad.bind m (\<lambda>e. case e of
      Some err \<Rightarrow> fail_resolve r rel (g err) | None \<Rightarrow> advance r rel')) (\<lambda>_. moved (chart_state rel) (Some \<sigma>'))"
proof (intro runs_bind runs_emits [OF assms(2)] runs_case_option, goal_cases)
  case (1 e cs)
  have "moved (chart_state rel) step (cs @ ds) = moved (chart_state rel) step ds" for step ds
    using accepted_state_other [OF 1(1) assms(3)] by (simp add: moved_def accepted_state_append)
  then show ?case
    using runs_advance_moved [OF assms(4), of r "chart_state rel"] by simp
next
  case (2 e cs err)
  have "moved (chart_state rel) step (cs @ ds) = moved (chart_state rel) step ds" for step ds
    using accepted_state_other [OF 2(1) assms(3)] by (simp add: moved_def accepted_state_append)
  then show ?case
    using runs_fail_moved [OF assms(1), of rel "g err"] by simp
qed

lemma resolveChartRef_moved:
  assumes c: "api_contract r store okey" and chart: "Spec_Chart (Release_Spec rel) = Some chart"
    and src: "BuildChartSourceFromRelease (lib_source (rr_Lib r)) (api_group r) (api_version r) rel chart = Inr src"
  shows "runs (resolveChartRef r rel)
    (\<lambda>_. moved (chart_state rel) (phase_step (expected_ref r src) (chart_state rel)))"
proof -
  note D = api_contractD [OF c]
  have step: "phase_step (expected_ref r src) (chart_state rel) =
      phase_step (expected_ref r src) (Status_ChartSourcePhase (Release_Status rel),
        Status_LastAppliedChartSource (Release_Status rel), Status_CandidateChartSource (Release_Status rel))"
    by (simp add: chart_state_def)
  show ?thesis
    unfolding resolveChartRef_def chart option.case src sum.case Let_def step phase_step.simps
    by (intro runs_if; simp only: if_True if_False simp_thms not_not;
        (rule runs_op_moved [OF c kinds_ensureChartSourceRef [OF D(5)]]
         | rule runs_op_moved [OF c kinds_cleanupChartSourceRef [OF D(5)]]
         | rule runs_advance_moved | rule runs_ready_moved [OF c]))
      (simp_all add: chart_state_def)
qed

section \<open>Convergence\<close>

definition known_phase :: "string \<Rightarrow> bool" where
  "known_phase p \<longleftrightarrow> p \<in> {'''', ChartSourcePhaseReady, ChartSourcePhasePending, ChartSourcePhaseDisconnecting}"

text \<open>The number of steps the machine is away from being settled on \<open>E\<close>.\<close>

fun phase_rank :: "ChartSourceReference \<Rightarrow> chart_state \<Rightarrow> nat" where
  "phase_rank E (p, l, c) =
     (if p = ChartSourcePhasePending then if c = Some E then 2 else 3
      else if p = ChartSourcePhaseDisconnecting then if c = Some E then 1 else 4
      else if l = Some E then 0 else 3)"

lemma phase_rank_bound: "phase_rank E \<sigma> \<le> 4"
  by (cases \<sigma>) simp

lemma phase_step_rank:
  "phase_step E \<sigma> = Some \<sigma>' \<Longrightarrow> phase_rank E \<sigma>' < phase_rank E \<sigma>"
  by (cases \<sigma>) (auto simp: phase_defs split: if_splits)

lemma phase_step_known: "phase_step E \<sigma> = Some \<sigma>' \<Longrightarrow> known_phase (fst \<sigma>')"
  by (cases \<sigma>) (auto simp: known_phase_def split: if_splits)

lemma phase_step_settled:
  "phase_step E \<sigma> = None \<Longrightarrow> known_phase (fst \<sigma>) \<Longrightarrow>
   fst \<sigma> \<in> {'''', ChartSourcePhaseReady} \<and> fst (snd \<sigma>) = Some E"
  by (cases \<sigma>) (auto simp: known_phase_def split: if_splits)

text \<open>A decidable form of the test for a pass that advanced.\<close>

fun asked_requeue :: "resolved \<Rightarrow> bool" where
  "asked_requeue (Inl (Returned res e)) = (res = requeue \<and> e = None)"
| "asked_requeue _ = False"

lemma asked_requeue_iff: "res = Inl (Returned requeue None) \<longleftrightarrow> asked_requeue res"
  by (cases res rule: asked_requeue.cases) auto

definition with_chart_state :: "chart_state \<Rightarrow> Release \<Rightarrow> Release" where
  "with_chart_state \<sigma> rel = with_status (\<lambda>s. s\<lparr>Status_ChartSourcePhase := fst \<sigma>,
     Status_LastAppliedChartSource := fst (snd \<sigma>), Status_CandidateChartSource := snd (snd \<sigma>)\<rparr>) rel"

text \<open>
  The passes over a release whose specification does not change: as long as a pass asks to be run
  again at once, the next one finds the state the API server accepted, in a world that \<open>env\<close> has
  changed meanwhile. The result is that of the last pass, with the state it left.
\<close>

primrec drive :: "'w ReleaseReconciler \<Rightarrow> ('w sys \<Rightarrow> 'w sys) \<Rightarrow> nat \<Rightarrow> Release \<Rightarrow> 'w sys \<Rightarrow> resolved \<times> chart_state" where
  "drive r env 0 rel s = (Inl (Returned requeue None), chart_state rel)"
| "drive r env (Suc k) rel s =
     (case run_state (resolveChartRef r rel) s of (res, t) \<Rightarrow>
        let \<sigma>' = accepted_state (chart_state rel) (trace (resolveChartRef r rel) s)
        in if asked_requeue res then drive r env k (with_chart_state \<sigma>' rel) (env t)
           else (res, \<sigma>'))"

lemma with_chart_state_simps [simp]:
  "chart_state (with_chart_state \<sigma> rel) = \<sigma>" "Release_Spec (with_chart_state \<sigma> rel) = Release_Spec rel"
  "Release_Meta (with_chart_state \<sigma> rel) = Release_Meta rel"
  by (simp_all add: with_chart_state_def chart_state_def)

lemma build_ignores_status:
  "Release_Spec rel' = Release_Spec rel \<Longrightarrow> Release_Meta rel' = Release_Meta rel \<Longrightarrow>
   BuildChartSourceFromRelease L g v rel' chart = BuildChartSourceFromRelease L g v rel chart"
  by (simp add: BuildChartSourceFromRelease_def buildGitRepository_def buildHelmRepository_def
      buildBucket_def buildOCIRepository_def inline_meta_def split: option.split)

lemma drive_settles:
  assumes "api_contract r store okey" and "Spec_Chart (Release_Spec rel) = Some chart"
    and "BuildChartSourceFromRelease (lib_source (rr_Lib r)) (api_group r) (api_version r) rel chart = Inr src"
    and "known_phase (fst (chart_state rel))" and "phase_rank (expected_ref r src) (chart_state rel) < k"
    and "drive r env k rel s = (res, \<sigma>')"
  shows "\<not> asked_requeue res \<and>
    ((\<exists>x. res = Inr x) \<longrightarrow> fst \<sigma>' \<in> {'''', ChartSourcePhaseReady} \<and> fst (snd \<sigma>') = Some (expected_ref r src))"
  using assms(2-)
proof (induction k arbitrary: rel s)
  case (Suc k)
  let ?E = "expected_ref r src"
  let ?\<tau> = "accepted_state (chart_state rel) (trace (resolveChartRef r rel) s)"
  obtain a t where run: "run_state (resolveChartRef r rel) s = (a, t)" by fastforce
  have prog: "progressed (chart_state rel) (phase_step ?E (chart_state rel)) a (trace (resolveChartRef r rel) s)"
    using runs_trace [OF resolveChartRef_progressed [OF assms(1) Suc.prems(1,2)], of s] run by simp
  have mov: "moved (chart_state rel) (phase_step ?E (chart_state rel)) (trace (resolveChartRef r rel) s)"
    by (rule runs_trace [OF resolveChartRef_moved [OF assms(1) Suc.prems(1,2)]])
  show ?case
  proof (cases "asked_requeue a")
    case True
    then have step: "phase_step ?E (chart_state rel) = Some ?\<tau>"
      using prog by (simp add: progressed_def asked_requeue_iff)
    show ?thesis
    proof (rule Suc.IH)
      show "BuildChartSourceFromRelease (lib_source (rr_Lib r)) (api_group r) (api_version r)
          (with_chart_state ?\<tau> rel) chart = Inr src"
        using Suc.prems(2) by (simp add: build_ignores_status [of "with_chart_state ?\<tau> rel" rel])
      show "drive r env k (with_chart_state ?\<tau> rel) (env t) = (res, \<sigma>')"
        using Suc.prems(5) run True by (simp add: Let_def)
      show "phase_rank ?E (chart_state (with_chart_state ?\<tau> rel)) < k"
        using phase_step_rank [OF step] Suc.prems(4) by simp
    qed (use Suc.prems phase_step_known [OF step] in simp_all)
  next
    case False
    then have "res = a" "\<sigma>' = ?\<tau>"
      using Suc.prems(5) run by (simp_all add: Let_def)
    moreover have "phase_step ?E (chart_state rel) = None" "?\<tau> = chart_state rel" if "\<exists>x. a = Inr x"
      using prog mov that by (auto simp: progressed_def moved_def)
    ultimately show ?thesis
      using False phase_step_settled [OF _ Suc.prems(3), of ?E] by auto
  qed
qed simp

section \<open>Histories of a release\<close>

text \<open>The references of a release are made under the current configuration, in its namespace.\<close>

definition own_ref :: "'w ReleaseReconciler \<Rightarrow> string \<Rightarrow> ChartSourceReference \<Rightarrow> bool" where
  "own_ref r ns ref \<longleftrightarrow> canonical r ref \<and> SourceRef_Namespace ref = ns"

lemma own_ref_built:
  assumes "BuildChartSourceFromRelease L g v rel chart = Inr src"
  shows "own_ref r (rel_Namespace rel) (expected_ref r src)"
proof -
  have "SMeta_Namespace (Source_Meta src) = rel_Namespace rel"
    using assms
    by (auto simp: BuildChartSourceFromRelease_def set_hashed_name_def SetName_def Let_def inline_meta_def
        buildGitRepository_def buildHelmRepository_def buildBucket_def buildOCIRepository_def
        split: option.splits sum.splits)
  then show ?thesis by (simp add: own_ref_def expected_ref_def canonical_def)
qed

fun has_sources :: "chart_state \<Rightarrow> bool" where
  "has_sources (p, l, c) \<longleftrightarrow> l \<noteq> None \<or> c \<noteq> None"

text \<open>The pass in which the release has registered with its candidate.\<close>

definition connects :: "chart_state \<Rightarrow> chart_state \<Rightarrow> bool" where
  "connects \<sigma> \<sigma>' \<longleftrightarrow> fst \<sigma> = ChartSourcePhasePending \<and> fst \<sigma>' = ChartSourcePhaseDisconnecting"

text \<open>
  The histories of a release from its creation until its deletion is requested, as runs of the
  code: each pass of \<^verbatim>\<open>resolveChartRef\<close> finds the state the API server accepted last. The
  specification may change before every pass, with or without an inline chart, any call may fail,
  and between the passes other releases register with and leave source objects and the rest of the
  world changes freely. The flag says that a pass without an inline chart has removed the release
  from its sources, in full or in part, and could not record it; the next such pass that is
  accepted clears it, and so does the next registration.
\<close>

inductive history ::
  "'w ReleaseReconciler \<Rightarrow> ('w \<Rightarrow> obj_key \<rightharpoonup> json) \<Rightarrow> string \<Rightarrow> string \<Rightarrow> bool \<Rightarrow> chart_state \<Rightarrow> 'w sys \<Rightarrow> bool"
  for r store ns n where
  created: "history r store ns n False ('''', None, None) s"
| resolved: "history r store ns n torn (chart_state rel) s \<Longrightarrow>
    rel_Namespace rel = ns \<Longrightarrow> rel_Name rel = n \<Longrightarrow> Spec_Chart (Release_Spec rel) = Some chart \<Longrightarrow>
    \<sigma>' = accepted_state (chart_state rel) (trace (resolveChartRef r rel) s) \<Longrightarrow>
    history r store ns n (torn \<and> \<not> connects (chart_state rel) \<sigma>') \<sigma>' (snd (run_state (resolveChartRef r rel) s))"
| detached: "history r store ns n torn (chart_state rel) s \<Longrightarrow>
    rel_Namespace rel = ns \<Longrightarrow> rel_Name rel = n \<Longrightarrow> Spec_Chart (Release_Spec rel) = None \<Longrightarrow>
    \<sigma>' = accepted_state (chart_state rel) (trace (resolveChartRef r rel) s) \<Longrightarrow>
    t = snd (run_state (resolveChartRef r rel) s) \<Longrightarrow>
    history r store ns n (has_sources \<sigma>' \<and>
      (torn \<or> source_users r store (world t) \<noteq> source_users r store (world s))) \<sigma>' t"
| other_ensured: "history r store ns n torn \<sigma> s \<Longrightarrow> comma_free (rel_Name other) \<Longrightarrow>
    BuildChartSourceFromRelease (lib_source (rr_Lib r)) (api_group r) (api_version r) other chart = Inr src \<Longrightarrow>
    history r store ns n torn \<sigma> (snd (run_state (ensureChartSourceRef r other src) s))"
| other_cleaned: "history r store ns n torn \<sigma> s \<Longrightarrow>
    (rel_Namespace other, rel_Name other) \<noteq> (ns, n) \<Longrightarrow>
    pred_option (\<lambda>L. SourceRef_Namespace L = rel_Namespace other) ref \<Longrightarrow>
    history r store ns n torn \<sigma> (snd (run_state (cleanupChartSourceRef r other ref) s))"
| elsewhere: "history r store ns n torn \<sigma> s \<Longrightarrow>
    source_users r store (world t) = source_users r store (world s) \<Longrightarrow> history r store ns n torn \<sigma> t"

text \<open>What holds along every history.\<close>

definition history_inv ::
  "'w ReleaseReconciler \<Rightarrow> string \<Rightarrow> string \<Rightarrow> bool \<Rightarrow> chart_state \<Rightarrow> ref_state \<Rightarrow> bool" where
  "history_inv r ns n torn \<sigma> A \<longleftrightarrow>
     known_phase (fst \<sigma>) \<and> pred_option (own_ref r ns) (fst (snd \<sigma>)) \<and>
     pred_option (own_ref r ns) (snd (snd \<sigma>)) \<and> (\<not> torn \<longrightarrow> phase_inv r n (\<sigma>, A))"

lemma phase_inv_users:
  assumes "phase_inv r n (\<sigma>, A)" and "\<And>k. registered n A k \<Longrightarrow> snd k \<in> K \<Longrightarrow> registered n B k"
    and "pred_option (\<lambda>L. snd (ref_key r L) \<in> K) (fst (snd \<sigma>))"
    and "pred_option (\<lambda>L. snd (ref_key r L) \<in> K) (snd (snd \<sigma>))"
  shows "phase_inv r n (\<sigma>, B)"
  using assms by (cases \<sigma>) (auto simp: pred_option_def split: if_splits)

lemma history_inv_users:
  assumes "history_inv r ns n torn \<sigma> A"
    and "\<And>k. registered n A k \<Longrightarrow> NN_Namespace (snd k) = ns \<Longrightarrow> registered n B k"
  shows "history_inv r ns n torn \<sigma> B"
  using assms phase_inv_users [of r n \<sigma> A "{k. NN_Namespace k = ns}" B]
  by (auto simp: history_inv_def own_ref_def ref_key_def option.pred_set)

lemma registered_cleaned:
  assumes "api_contract r store okey"
    and "(rel_Namespace other, rel_Name other) \<noteq> (ns, n)"
    and "pred_option (\<lambda>L. SourceRef_Namespace L = rel_Namespace other) ref"
    and "registered n (source_users r store (world s)) k" and "NN_Namespace (snd k) = ns"
  shows "registered n (source_users r store (world (snd (run_state (cleanupChartSourceRef r other ref) s)))) k"
proof (cases ref)
  case None
  then show ?thesis using assms(4) by (simp add: cleanupChartSourceRef_def)
next
  case (Some L)
  obtain e t where run: "run_state (cleanupChartSourceRef r other (Some L)) s = (e, t)" by fastforce
  have "NN_Namespace (snd (ref_key r L)) = rel_Namespace other"
    using assms(3) Some by (simp add: ref_key_def)
  with assms(2,5) have "rel_Name other \<noteq> n \<or> ref_key r L \<noteq> k" by auto
  with cleanup_users [OF assms(1) run] assms(4) show ?thesis
    unfolding Some run by (auto split: option.splits intro: registered_remove) (auto simp: registered_def)
qed

lemma registered_ensured:
  assumes "api_contract r store okey" and "comma_free (rel_Name other)"
    and "BuildChartSourceFromRelease (lib_source (rr_Lib r)) (api_group r) (api_version r) other chart = Inr src"
    and "registered n (source_users r store (world s)) k"
  shows "registered n (source_users r store (world (snd (run_state (ensureChartSourceRef r other src) s)))) k"
proof -
  obtain e t where run: "run_state (ensureChartSourceRef r other src) s = (e, t)" by fastforce
  have "GVK_Kind (fst (source_key r src)) \<noteq> HelmChartKind"
    using built_kind [OF assms(3)] by (simp add: source_key_def source_gvk_def)
  from ensure_users [OF assms(1,2) this run] assms(4) show ?thesis
    unfolding run by (auto split: option.splits intro: registered_add)
qed

lemma phase_step_refs:
  assumes "phase_step E \<sigma> = Some \<sigma>'" and "pred_option P (fst (snd \<sigma>))" and "pred_option P (snd (snd \<sigma>))" and "P E"
  shows "pred_option P (fst (snd \<sigma>')) \<and> pred_option P (snd (snd \<sigma>'))"
  using assms by (cases \<sigma>) (auto split: if_splits)

lemma pass_connects:
  assumes "pass r n (\<sigma>, A) (\<sigma>', B)" and "connects \<sigma> \<sigma>'"
  shows "\<exists>E. canonical r E \<and> snd (snd \<sigma>') = Some E \<and> registered n B (ref_key r E)"
  using assms by cases (auto simp: connects_def phase_defs registered_added)

lemma history_inv_resolved:
  assumes c: "api_contract r store okey" and n: "comma_free (rel_Name rel)"
    and chart: "Spec_Chart (Release_Spec rel) = Some chart"
    and inv: "history_inv r (rel_Namespace rel) (rel_Name rel) torn (chart_state rel) (source_users r store (world s))"
    and \<sigma>': "\<sigma>' = accepted_state (chart_state rel) (trace (resolveChartRef r rel) s)"
  shows "history_inv r (rel_Namespace rel) (rel_Name rel) (torn \<and> \<not> connects (chart_state rel) \<sigma>') \<sigma>'
    (source_users r store (world (snd (run_state (resolveChartRef r rel) s))))"
proof -
  let ?B = "source_users r store (world (snd (run_state (resolveChartRef r rel) s)))"
  have pass: "pass r (rel_Name rel) (chart_state rel, source_users r store (world s)) (\<sigma>', ?B)"
    using resolveChartRef_simulates [OF c n chart] \<sigma>' by (simp add: simulates_def)
  have "\<sigma>' = chart_state rel \<or> (\<exists>E. own_ref r (rel_Namespace rel) E \<and> phase_step E (chart_state rel) = Some \<sigma>')"
  proof (cases "BuildChartSourceFromRelease (lib_source (rr_Lib r)) (api_group r) (api_version r) rel chart")
    case (Inl err)
    then show ?thesis
      using fail_run(2) [OF c, of rel] \<sigma>' by (simp add: resolveChartRef_def chart)
  next
    case (Inr src)
    have "moved (chart_state rel) (phase_step (expected_ref r src) (chart_state rel)) (trace (resolveChartRef r rel) s)"
      by (rule runs_trace [OF resolveChartRef_moved [OF c chart Inr]])
    with \<sigma>' own_ref_built [OF Inr, of r] show ?thesis unfolding moved_def by blast
  qed
  then have own: "known_phase (fst \<sigma>') \<and> pred_option (own_ref r (rel_Namespace rel)) (fst (snd \<sigma>')) \<and>
      pred_option (own_ref r (rel_Namespace rel)) (snd (snd \<sigma>'))"
    using inv phase_step_refs phase_step_known unfolding history_inv_def by metis
  have "phase_inv r (rel_Name rel) (\<sigma>', ?B)" if "\<not> torn"
    using phase_inv_pass [OF pass] inv that by (simp add: history_inv_def)
  moreover have "phase_inv r (rel_Name rel) (\<sigma>', ?B)" if "connects (chart_state rel) \<sigma>'"
    using pass_connects [OF pass that] own that
    by (cases \<sigma>') (auto simp: connects_def own_ref_def option.pred_set)
  ultimately show ?thesis using own by (auto simp: history_inv_def)
qed

text \<open>Without an inline chart a pass keeps the state, or empties it.\<close>

lemma runs_quiet_bind:
  assumes "emits (in_kinds K) m" and "KStatusUpdate \<notin> K"
    and "\<And>a. runs (f a) (\<lambda>_ cs. accepted_state \<sigma> cs \<in> S)"
  shows "runs (State_Monad.bind m f) (\<lambda>_ cs. accepted_state \<sigma> cs \<in> S)"
proof (intro runs_bind runs_emits [OF assms(1)], goal_cases)
  case (1 a cs)
  then show ?case
    using assms(3) [of a] accepted_state_other [OF 1 assms(2)] by (simp add: accepted_state_append)
qed

lemma detach_state:
  assumes c: "api_contract r store okey"
  shows "runs (resolve_without_chart r rel)
    (\<lambda>_ cs. accepted_state (chart_state rel) cs \<in> {chart_state rel, ('''', None, None)})"
proof -
  note D = api_contractD [OF c]
  let ?S = "{chart_state rel, ('''', None, None)}"
  have fail: "runs (fail_resolve r rel' e) (\<lambda>_ cs. accepted_state \<sigma> cs \<in> ?S)"
    if "chart_state rel' = \<sigma>" and "\<sigma> \<in> ?S" for rel' e \<sigma>
    by (rule runs_mono [OF runs_fail_resolve [OF D(3,4)]]) (use that in auto)
  have update: "runs (do { u \<leftarrow> StatusUpdate r rel1; case u of
        Inl err \<Rightarrow> returnM (Inl (Returned no_result (Some err)))
      | Inr rel' \<Rightarrow> do { e3 \<leftarrow> cleanupHelmChart r rel'; case e3 of
          Some err \<Rightarrow> fail_resolve r rel' (g err)
        | None \<Rightarrow> returnM (Inl (Returned requeue None)) } })
      (\<lambda>_ cs. accepted_state (chart_state rel) cs \<in> ?S)"
    if cleared: "chart_state rel1 = ('''', None, None)" for rel1 g
  proof (rule runs_bind, rule runs_StatusUpdate_report [OF D(4)], goal_cases)
    case (2 rel')
    then have "chart_state rel' = ('''', None, None)"
      using cleared by (simp add: status_echo_def chart_state_def)
    then have "runs (do { e3 \<leftarrow> cleanupHelmChart r rel'; case e3 of
          Some err \<Rightarrow> fail_resolve r rel' (g err)
        | None \<Rightarrow> returnM (Inl (Returned requeue None)) })
      (\<lambda>_ cs. accepted_state ('''', None, None) cs \<in> ?S)"
      by (intro runs_quiet_bind [OF kinds_cleanupHelmChart] runs_case_option runs_return fail) auto
    then show ?case using cleared by simp
  qed (auto intro: runs_return)
  show ?thesis
    unfolding resolve_without_chart_def Let_def
    by (intro runs_if runs_quiet_bind [OF kinds_cleanupChartSourceRef [OF D(5)]] runs_case_option
        runs_return update fail)
      (auto simp: chart_state_def)
qed

lemma history_inv_detached:
  assumes c: "api_contract r store okey" and chart: "Spec_Chart (Release_Spec rel) = None"
    and inv: "history_inv r ns n torn (chart_state rel) A"
    and \<sigma>': "\<sigma>' = accepted_state (chart_state rel) (trace (resolveChartRef r rel) s)"
  shows "history_inv r ns n (has_sources \<sigma>' \<and> (torn \<or> B \<noteq> A)) \<sigma>' B"
proof -
  have "\<sigma>' \<in> {chart_state rel, ('''', None, None)}"
    using runs_trace [OF detach_state [OF c, of rel], of s] \<sigma>' by (simp add: resolveChartRef_def chart)
  moreover have "phase_inv r n (\<sigma>', B)" if "\<not> has_sources \<sigma>'"
    using that by (cases \<sigma>') simp
  ultimately show ?thesis
    using inv by (auto simp: history_inv_def known_phase_def)
qed

lemma history_invariant:
  assumes "api_contract r store okey" and "comma_free n" and "history r store ns n torn \<sigma> s"
  shows "history_inv r ns n torn \<sigma> (source_users r store (world s))"
  using assms(3)
proof induction
  case (created s)
  show ?case by (simp add: history_inv_def known_phase_def)
next
  case (resolved torn rel s chart \<sigma>')
  then show ?case using history_inv_resolved [OF assms(1), of rel chart torn s] assms(2) by simp
next
  case (detached torn rel s \<sigma>' t)
  then show ?case using history_inv_detached [OF assms(1)] by simp
next
  case (other_ensured torn \<sigma> s other chart src)
  then show ?case by (blast intro: history_inv_users registered_ensured [OF assms(1)])
next
  case (other_cleaned torn \<sigma> s other ref)
  then show ?case by (blast intro: history_inv_users registered_cleaned [OF assms(1)])
next
  case (elsewhere torn \<sigma> s t)
  then show ?case by simp
qed

inductive_cases pass_disconnecting: "pass r n ((ChartSourcePhaseDisconnecting, Some L, c), A) (\<sigma>', B)"

section \<open>The reference environment\<close>

lemma mem_frame_contract: "frame_contract mem_reconciler mem_store"
proof -
  have upd: "mem_store (mem_put_release rel w) = mem_store w" for rel w
    by (rule ext) (simp add: mem_store_def mem_put_release_def)
  show ?thesis
    by (auto simp: frame_contract_def mem_reconciler_def mem_client_def mem_StatusUpdate_def
        mem_ApplyHelmChart_def unless_down_def upd mem_store_put mem_okey_object Let_def split: option.splits)
qed

lemma mem_api_contract: "api_contract mem_reconciler mem_store mem_okey"
  unfolding api_contract_def
  using mem_store_contract mem_frame_contract mem_contracts by blast

definition demo_chart :: ReleaseChart where
  "demo_chart = \<lparr>Chart_Bucket = None, Chart_Git = None, Chart_OCI = Some demo_oci, Chart_Repo = None\<rparr>"

definition demo_inline :: "chart_state \<Rightarrow> Release" where
  "demo_inline \<sigma> = demo_release
     \<lparr>Release_Spec := empty_spec\<lparr>Spec_Chart := Some demo_chart\<rparr>,
      Release_Status := empty_status\<lparr>Status_ChartSourcePhase := fst \<sigma>,
        Status_LastAppliedChartSource := fst (snd \<sigma>), Status_CandidateChartSource := snd (snd \<sigma>)\<rparr>\<rparr>"

lemma demo_inline_simps [simp]:
  "Spec_Chart (Release_Spec (demo_inline \<sigma>)) = Some demo_chart" "rel_Name (demo_inline \<sigma>) = ''app''"
  "chart_state (demo_inline \<sigma>) = \<sigma>" "comma_free ''app''"
  by (simp_all add: demo_inline_def demo_release_def chart_state_def comma_free_def)

lemma demo_inline_built:
  "\<exists>src. BuildChartSourceFromRelease (lib_source (rr_Lib mem_reconciler)) (api_group mem_reconciler)
     (api_version mem_reconciler) (demo_inline \<sigma>) demo_chart = Inr src"
  by (simp add: mem_names mem_lib_def BuildChartSourceFromRelease_def demo_chart_def set_hashed_name_def
      GetObjectHashedName_def mem_source_lib_def)

lemma phase_distinct:
  "ChartSourcePhaseDisconnecting \<noteq> []" "ChartSourcePhaseDisconnecting \<noteq> ChartSourcePhaseReady"
  "ChartSourcePhaseDisconnecting \<noteq> ChartSourcePhasePending"
  "ChartSourcePhasePending \<noteq> []" "ChartSourcePhasePending \<noteq> ChartSourcePhaseReady"
  by (simp_all add: phase_defs)

text \<open>The source the inline chart asks for, and the world after the release has registered with it.\<close>

definition demo_expected :: ChartSourceReference where
  "demo_expected =
     (case BuildChartSourceFromRelease (lib_source (rr_Lib mem_reconciler)) (api_group mem_reconciler)
        (api_version mem_reconciler) (demo_inline ('''', None, None)) demo_chart of
        Inl _ \<Rightarrow> demo_ref
      | Inr src \<Rightarrow> expected_ref mem_reconciler src)"

definition demo_connected :: "mem_world sys" where
  "demo_connected = snd (run_state (resolveChartRef mem_reconciler
     (demo_inline (ChartSourcePhasePending, None, Some demo_expected))) (start empty_world))"

lemma demo_built:
  assumes "BuildChartSourceFromRelease (lib_source (rr_Lib mem_reconciler)) (api_group mem_reconciler)
     (api_version mem_reconciler) (demo_inline \<sigma>) demo_chart = Inr src"
  shows "expected_ref mem_reconciler src = demo_expected"
proof -
  have "BuildChartSourceFromRelease L g v (demo_inline ('''', None, None)) demo_chart =
      BuildChartSourceFromRelease L g v (demo_inline \<sigma>) demo_chart" for L g v
    by (rule build_ignores_status) (simp_all add: demo_inline_def)
  with assms show ?thesis by (simp add: demo_expected_def)
qed

lemma demo_namespace [simp]: "rel_Namespace (demo_inline \<sigma>) = ''prod''"
  by (simp add: demo_inline_def demo_release_def)

text \<open>A pass over the demo release that asks to be run again takes the step of the machine.\<close>

lemma demo_step:
  assumes "history mem_reconciler mem_store ''prod'' ''app'' False \<sigma> s"
    and "asked_requeue (fst (run_state (resolveChartRef mem_reconciler (demo_inline \<sigma>)) s))"
    and "phase_step demo_expected \<sigma> = Some \<sigma>'"
  shows "history mem_reconciler mem_store ''prod'' ''app'' False \<sigma>'
    (snd (run_state (resolveChartRef mem_reconciler (demo_inline \<sigma>)) s))"
proof -
  obtain src where src: "BuildChartSourceFromRelease (lib_source (rr_Lib mem_reconciler)) (api_group mem_reconciler)
     (api_version mem_reconciler) (demo_inline \<sigma>) demo_chart = Inr src"
    using demo_inline_built by blast
  have "\<sigma>' = accepted_state \<sigma> (trace (resolveChartRef mem_reconciler (demo_inline \<sigma>)) s)"
    using runs_trace [OF resolveChartRef_progressed [OF mem_api_contract _ src], of s] assms(2,3) demo_built [OF src]
    by (simp add: progressed_def asked_requeue_iff)
  then show ?thesis
    using history.resolved [of mem_reconciler mem_store "''prod''" "''app''" False "demo_inline \<sigma>" s demo_chart] assms(1)
    by simp
qed

lemma demo_inline_source:
  "\<exists>h. BuildChartSourceFromRelease (lib_source (rr_Lib mem_reconciler)) (api_group mem_reconciler)
     (api_version mem_reconciler) (demo_inline \<sigma>) demo_chart =
     Inr (SetName (buildOCIRepository mem_group mem_version (demo_inline \<sigma>) demo_oci) h)"
  by (simp add: mem_names mem_lib_def BuildChartSourceFromRelease_def demo_chart_def set_hashed_name_def
      GetObjectHashedName_def mem_source_lib_def) (rule exI, rule refl)

definition up :: "mem_world sys \<Rightarrow> bool" where
  "up s \<longleftrightarrow> (\<forall>c. \<not> mw_fail (world s) c)"

lemma demo_advance:
  assumes "up s"
  shows "asked_requeue (fst (run_state (advance mem_reconciler rel) s))"
    and "up (snd (run_state (advance mem_reconciler rel) s))"
  using assms by (simp_all add: up_def advance_def StatusUpdate_def wp mem_reconciler_def mem_client_def
      mem_StatusUpdate_def unless_down_def mem_put_release_def)

lemma demo_ensured:
  "fst (run_state (ensureChartSourceRef mem_reconciler (demo_inline \<sigma>)
     (SetName (buildOCIRepository mem_group mem_version (demo_inline \<sigma>) demo_oci) h)) (start empty_world)) = None"
  "up (snd (run_state (ensureChartSourceRef mem_reconciler (demo_inline \<sigma>)
     (SetName (buildOCIRepository mem_group mem_version (demo_inline \<sigma>) demo_oci) h)) (start empty_world)))"
  unfolding up_def by (code_simp, intro allI, code_simp)

lemma demo_connects:
  defines "\<sigma> \<equiv> (ChartSourcePhasePending, None, Some demo_expected)"
  shows "asked_requeue (fst (run_state (resolveChartRef mem_reconciler (demo_inline \<sigma>)) (start empty_world)))"
    and "up demo_connected"
proof -
  obtain h where src: "BuildChartSourceFromRelease (lib_source (rr_Lib mem_reconciler)) (api_group mem_reconciler)
     (api_version mem_reconciler) (demo_inline \<sigma>) demo_chart =
     Inr (SetName (buildOCIRepository mem_group mem_version (demo_inline \<sigma>) demo_oci) h)" (is "_ = Inr ?src")
    using demo_inline_source by blast
  have st: "Status_ChartSourcePhase (Release_Status (demo_inline \<sigma>)) = ChartSourcePhasePending"
    "Status_CandidateChartSource (Release_Status (demo_inline \<sigma>)) = Some (expected_ref mem_reconciler ?src)"
    using demo_built [OF src] by (simp_all add: demo_inline_def \<sigma>_def)
  have run: "resolveChartRef mem_reconciler (demo_inline \<sigma>) = do {
      e \<leftarrow> ensureChartSourceRef mem_reconciler (demo_inline \<sigma>) ?src;
      case e of
        Some err \<Rightarrow> fail_resolve mem_reconciler (demo_inline \<sigma>) (Wrapped ''ensure spec.chart source'' err)
      | None \<Rightarrow> advance mem_reconciler
          (with_status (\<lambda>s. s\<lparr>Status_ChartSourcePhase := ChartSourcePhaseDisconnecting\<rparr>) (demo_inline \<sigma>))
    }"
    using src st by (simp add: resolveChartRef_def phase_distinct)
  show "asked_requeue (fst (run_state (resolveChartRef mem_reconciler (demo_inline \<sigma>)) (start empty_world)))"
    unfolding run using demo_ensured [of \<sigma> h] by (simp add: split_beta demo_advance)
  show "up demo_connected"
    unfolding demo_connected_def \<sigma>_def [symmetric] run using demo_ensured [of \<sigma> h]
    by (simp add: split_beta demo_advance)
qed

lemma demo_settles:
  assumes "up s"
  shows "asked_requeue (fst (run_state (resolveChartRef mem_reconciler
      (demo_inline (ChartSourcePhaseDisconnecting, None, c))) s))"
proof -
  let ?rel = "demo_inline (ChartSourcePhaseDisconnecting, None, c)"
  obtain src where "BuildChartSourceFromRelease (lib_source (rr_Lib mem_reconciler)) (api_group mem_reconciler)
     (api_version mem_reconciler) (demo_inline (ChartSourcePhaseDisconnecting, None, c)) demo_chart = Inr src"
    using demo_inline_built by blast
  moreover have "Status_ChartSourcePhase (Release_Status ?rel) = ChartSourcePhaseDisconnecting"
    "Status_LastAppliedChartSource (Release_Status ?rel) = None"
    by (simp_all add: demo_inline_def)
  ultimately show ?thesis
    using demo_advance [OF assms] by (simp add: resolveChartRef_def phase_distinct)
qed

lemma demo_history:
  "history mem_reconciler mem_store ''prod'' ''app'' False
     (ChartSourcePhaseReady, Some demo_expected, Some demo_expected) demo_connected"
proof -
  let ?p1 = "(ChartSourcePhasePending, None, Some demo_expected)"
  let ?p2 = "(ChartSourcePhaseDisconnecting, None, Some demo_expected)"
  let ?start = "start empty_world" and ?go = "\<lambda>\<sigma> s. run_state (resolveChartRef mem_reconciler (demo_inline \<sigma>)) s"
  have users: "source_users mem_reconciler mem_store (world (snd (?go \<sigma> s))) = source_users mem_reconciler mem_store (world s)"
    if "\<sigma> = ('''', None, None) \<or> \<sigma> = ?p2" for \<sigma> s
  proof -
    have "pass mem_reconciler ''app'' (\<sigma>, source_users mem_reconciler mem_store (world s))
       (accepted_state \<sigma> (trace (resolveChartRef mem_reconciler (demo_inline \<sigma>)) s),
        source_users mem_reconciler mem_store (world (snd (?go \<sigma> s))))"
      using resolveChartRef_simulates [OF mem_api_contract, of "demo_inline \<sigma>" demo_chart]
      by (simp add: simulates_def)
    then show ?thesis using that by cases (auto simp: phase_defs)
  qed
  have "history mem_reconciler mem_store ''prod'' ''app'' False ?p1 (snd (?go ('''', None, None) ?start))"
    by (rule demo_step [OF history.created]) (code_simp, simp)
  then have "history mem_reconciler mem_store ''prod'' ''app'' False ?p1 ?start"
    by (rule history.elsewhere) (simp add: users)
  then have "history mem_reconciler mem_store ''prod'' ''app'' False ?p2 demo_connected"
    unfolding demo_connected_def
    by (rule demo_step) (simp_all add: demo_connects, simp add: phase_defs)
  then have "history mem_reconciler mem_store ''prod'' ''app'' False
      (ChartSourcePhaseReady, Some demo_expected, Some demo_expected) (snd (?go ?p2 demo_connected))"
    by (rule demo_step) (simp_all add: demo_settles demo_connects, simp add: phase_defs)
  then show ?thesis
    by (rule history.elsewhere) (simp add: users)
qed

section \<open>Properties\<close>

text \<open>C1. One pass of \<^verbatim>\<open>resolveChartRef\<close> over a release with an inline chart is a step of the phase
  machine, whichever calls fail: the state the API server holds afterwards and the users of the
  source objects are related to those before by \<open>pass\<close>. In particular the release becomes a user
  of the candidate before the status says so, and leaves the old source only in the disconnecting
  phase.\<close>

theorem resolveChartRef_is_a_pass:
  assumes "api_contract r store okey" and "comma_free (rel_Name rel)"
    and "Spec_Chart (Release_Spec rel) = Some chart"
  shows "pass r (rel_Name rel) (chart_state rel, source_users r store (world s))
    (accepted_state (chart_state rel) (trace (resolveChartRef r rel) s),
     source_users r store (world (snd (run_state (resolveChartRef r rel) s))))"
  using resolveChartRef_simulates [OF assms] by (simp add: simulates_def)

theorem resolveChartRef_is_a_pass_witness:
  "pass mem_reconciler ''app'' (('''', None, None), source_users mem_reconciler mem_store empty_world)
     (accepted_state ('''', None, None)
        (trace (resolveChartRef mem_reconciler (demo_inline ('''', None, None))) (start empty_world)),
      source_users mem_reconciler mem_store (world (snd (run_state
        (resolveChartRef mem_reconciler (demo_inline ('''', None, None))) (start empty_world)))))"
  using resolveChartRef_is_a_pass [OF mem_api_contract, of "demo_inline ('''', None, None)" demo_chart "start empty_world"]
  by (simp add: start_def)



text \<open>
  The exception is real: the pass without an inline chart removes the release from its source and
  its status update is rejected, so the state still says \<^verbatim>\<open>Ready\<close>; when the specification gets
  its inline chart back before the next pass, that pass deploys from the source at once and does
  not register again, although the object may be deleted by any other release that leaves it.
\<close>

lemma interrupted_detach_loses_registration:
  assumes "api_contract r store okey"
    and "Spec_Chart (Release_Spec rel) = None"
    and "chart_state rel = (ChartSourcePhaseReady, Some L, Some L)"
    and "run_state (cleanupChartSourceRef r rel (Some L)) s = (None, s1)"
    and "run_state (cleanupChartSourceRef r rel (Some L)) s1 = (None, s2)"
    and "\<And>rel1. \<exists>err. client_StatusUpdate (rr_Client r) rel1 (world s2) = (Inl err, world s2)"
    and "\<And>ns. source_users r store (world s) (ref_key r L) = Some ns \<Longrightarrow> distinct ns"
    and "chart_state rel' = chart_state rel" and "rel_Name rel' = rel_Name rel"
    and "Spec_Chart (Release_Spec rel') = Some chart"
    and "BuildChartSourceFromRelease (lib_source (rr_Lib r)) (api_group r) (api_version r) rel' chart = Inr src"
    and "expected_ref r src = L"
  shows "accepted_state (chart_state rel) (trace (resolveChartRef r rel) s) = chart_state rel'"
    and "resolveChartRef r rel' = resolve_ready r rel' src"
    and "\<not> registered (rel_Name rel') (source_users r store (world (snd (run_state (resolveChartRef r rel')
        (snd (run_state (resolveChartRef r rel) s)))))) (source_key r src)"
proof -
  have st: "Status_LastAppliedChartSource (Release_Status rel) = Some L" "Status_CandidateChartSource (Release_Status rel) = Some L"
    "Status_LastAppliedChartSource (Release_Status rel') = Some L"
    "Status_ChartSourcePhase (Release_Status rel') = ChartSourcePhaseReady"
    using assms(3,8) by (simp_all add: chart_state_def)
  define rel1 where "rel1 = with_status (\<lambda>s. s\<lparr>Status_LastAppliedChartSource := None,
      Status_ChartSourcePhase := [], Status_CandidateChartSource := None\<rparr>) rel"
  obtain err where err: "client_StatusUpdate (rr_Client r) rel1 (world s2) = (Inl err, world s2)"
    using assms(6) by blast
  have run: "run_state (resolveChartRef r rel) s =
      (Inl (Returned no_result (Some err)), s2\<lparr>calls := calls s2 @ [(CStatusUpdate rel1, False)]\<rparr>)"
    using err by (simp add: resolveChartRef_def resolve_without_chart_def assms(2,4,5) st rel1_def [symmetric]
        StatusUpdate_def wp)
  note kinds = kinds_cleanupChartSourceRef [OF api_contractD(5) [OF assms(1)], of rel "Some L"]
  obtain cs where cs: "calls s1 = calls s @ cs" "list_all (in_kinds {KObjectGet, KObjectUpdate, KObjectDelete}) cs"
    using kinds assms(4) unfolding emits_def by (metis snd_conv)
  obtain ds where ds: "calls s2 = calls s1 @ ds" "list_all (in_kinds {KObjectGet, KObjectUpdate, KObjectDelete}) ds"
    using kinds assms(5) unfolding emits_def by (metis snd_conv)
  show "accepted_state (chart_state rel) (trace (resolveChartRef r rel) s) = chart_state rel'"
    using cs ds assms(8) by (simp add: trace_def run accepted_state_append accepted_state_other)
  show ready: "resolveChartRef r rel' = resolve_ready r rel' src"
    using assms(10-12) st by (simp add: resolveChartRef_def phase_defs)
  have keep: "source_users r store (world (snd (run_state (resolve_ready r rel' src) t))) = source_users r store (world t)" for t
    using keeps_resolve_ready [OF assms(1)] by (simp add: keeps_def)
  have "source_users r store (world s2) = ref_remove (ref_key r L) (rel_Name rel)
      (ref_remove (ref_key r L) (rel_Name rel) (source_users r store (world s)))"
    using cleanup_users [OF assms(1,4)] cleanup_users [OF assms(1,5)] by simp
  moreover have "\<not> registered n (ref_remove k n (ref_remove k n A)) k" if "\<And>ns. A k = Some ns \<Longrightarrow> distinct ns" for n k A
    using that by (auto simp: registered_def ref_remove_def distinct_remove1_removeAll split: option.splits if_splits)
  ultimately show "\<not> registered (rel_Name rel') (source_users r store (world (snd (run_state (resolveChartRef r rel')
      (snd (run_state (resolveChartRef r rel) s)))))) (source_key r src)"
    using assms(7,9,12) by (simp add: run ready keep source_key_expected)
qed

text \<open>C11. A pass that asks to be run again at once has taken exactly the step of the machine, and a
  pass that returns a chart reference finds it settled on the source the specification asks for.\<close>

theorem resolveChartRef_progress:
  assumes "api_contract r store okey" and "Spec_Chart (Release_Spec rel) = Some chart"
    and "BuildChartSourceFromRelease (lib_source (rr_Lib r)) (api_group r) (api_version r) rel chart = Inr src"
  shows "progressed (chart_state rel) (phase_step (expected_ref r src) (chart_state rel))
    (fst (run_state (resolveChartRef r rel) s)) (trace (resolveChartRef r rel) s)"
  by (rule runs_trace [OF resolveChartRef_progressed [OF assms]])

theorem resolveChartRef_progress_witness:
  "\<exists>src. progressed ('''', None, None) (phase_step (expected_ref mem_reconciler src) ('''', None, None))
     (fst (run_state (resolveChartRef mem_reconciler (demo_inline ('''', None, None))) (start empty_world)))
     (trace (resolveChartRef mem_reconciler (demo_inline ('''', None, None))) (start empty_world))"
proof -
  obtain src where "BuildChartSourceFromRelease (lib_source (rr_Lib mem_reconciler)) (api_group mem_reconciler)
     (api_version mem_reconciler) (demo_inline ('''', None, None)) demo_chart = Inr src"
    using demo_inline_built by blast
  from resolveChartRef_progress [OF mem_api_contract _ this] show ?thesis
    by (intro exI [of _ src]) simp
qed



lemma resolveChartRef_disconnecting:
  assumes "Spec_Chart (Release_Spec rel) = Some chart"
    and "BuildChartSourceFromRelease (lib_source (rr_Lib r)) (api_group r) (api_version r) rel chart = Inr src"
    and "chart_state rel = (ChartSourcePhaseDisconnecting, Some L, c)" and "Some L \<noteq> c"
  shows "resolveChartRef r rel = do {
    e \<leftarrow> cleanupChartSourceRef r rel (Some L);
    case e of
      Some err \<Rightarrow> fail_resolve r rel (Wrapped ''cleanup last applied chart source'' err)
    | None \<Rightarrow> advance r (with_status (\<lambda>s. s\<lparr>Status_LastAppliedChartSource := Status_CandidateChartSource s,
        Status_ChartSourcePhase := ChartSourcePhaseReady\<rparr>) rel)
  }"
  using assms by (simp add: resolveChartRef_def chart_state_def phase_distinct)

text \<open>The status still names the source under the API version the operator was started with before.\<close>

definition demo_old_ref :: ChartSourceReference where
  "demo_old_ref = demo_ref\<lparr>SourceRef_Version := ''v1beta2''\<rparr>"

definition demo_alone :: "mem_world sys" where
  "demo_alone = snd (run_state (ensureChartSourceRef mem_reconciler demo_release demo_source) (start empty_world))"

definition demo_disconnecting :: Release where
  "demo_disconnecting = demo_inline (ChartSourcePhaseDisconnecting, Some demo_old_ref, Some demo_ref)"

text \<open>C26. References that differ only in their API group or version name the same object, since the
  controller reads and writes objects under its current configuration. When the operator is
  started with another group or version and the machine is in the disconnecting phase with two
  such references, a pass that succeeds removes the release from the users of the very object it
  has registered with and settles on it: the release is no longer one of its users if it was
  listed once, the other users stay, and when it was the only user the object is deleted.\<close>

theorem version_change_drops_source:
  assumes "api_contract r store okey" and "comma_free (rel_Name rel)"
    and "Spec_Chart (Release_Spec rel) = Some chart"
    and "BuildChartSourceFromRelease (lib_source (rr_Lib r)) (api_group r) (api_version r) rel chart = Inr src"
    and "chart_state rel = (ChartSourcePhaseDisconnecting, Some L, Some C)"
    and "L \<noteq> C" and "ref_key r L = ref_key r C"
    and "fst (run_state (resolveChartRef r rel) s) = Inl (Returned requeue None)"
  shows "accepted_state (chart_state rel) (trace (resolveChartRef r rel) s) = (ChartSourcePhaseReady, Some C, Some C) \<and>
    (let users = source_users r store (world s);
         users' = source_users r store (world (snd (run_state (resolveChartRef r rel) s)))
     in (\<forall>k. k \<noteq> ref_key r C \<longrightarrow> users' k = users k) \<and>
        (users (ref_key r C) = Some [rel_Name rel] \<longrightarrow> users' (ref_key r C) = None) \<and>
        (\<forall>ns. users (ref_key r C) = Some ns \<longrightarrow> ns \<noteq> [rel_Name rel] \<longrightarrow>
           users' (ref_key r C) = Some (remove1 (rel_Name rel) ns)) \<and>
        (\<forall>ns. users (ref_key r C) = Some ns \<longrightarrow> distinct ns \<longrightarrow>
           \<not> registered (rel_Name rel) users' (ref_key r C)))"
proof -
  let ?\<sigma>' = "accepted_state (chart_state rel) (trace (resolveChartRef r rel) s)"
  let ?B = "source_users r store (world (snd (run_state (resolveChartRef r rel) s)))"
  have \<sigma>': "?\<sigma>' = (ChartSourcePhaseReady, Some C, Some C)"
    using runs_trace [OF resolveChartRef_progressed [OF assms(1,3,4)], of s] assms(5,8)
    by (simp add: progressed_def phase_defs)
  moreover have "pass r (rel_Name rel) ((ChartSourcePhaseDisconnecting, Some L, Some C), source_users r store (world s))
      (?\<sigma>', ?B)"
    using resolveChartRef_simulates [OF assms(1-3)] assms(5) by (simp add: simulates_def)
  ultimately have "?B = ref_remove (ref_key r C) (rel_Name rel) (source_users r store (world s))"
    using assms(6,7) by (auto simp: phase_defs elim!: pass_disconnecting [unfolded phase_defs])
  with \<sigma>' show ?thesis
    by (auto simp: Let_def ref_remove_def registered_def distinct_remove1_removeAll remove1_idem
        split: option.splits if_splits dest: remove1_single)
qed

theorem version_change_drops_source_witness:
  "source_users mem_reconciler mem_store (world (snd (run_state (resolveChartRef mem_reconciler demo_disconnecting) demo_alone)))
     (ref_key mem_reconciler demo_ref) = None"
proof -
  obtain src where src: "BuildChartSourceFromRelease (lib_source (rr_Lib mem_reconciler)) (api_group mem_reconciler)
     (api_version mem_reconciler) demo_disconnecting demo_chart = Inr src"
    unfolding demo_disconnecting_def using demo_inline_built by blast
  have st: "chart_state demo_disconnecting = (ChartSourcePhaseDisconnecting, Some demo_old_ref, Some demo_ref)"
    "Spec_Chart (Release_Spec demo_disconnecting) = Some demo_chart" "rel_Name demo_disconnecting = ''app''"
    by (simp_all add: demo_disconnecting_def)
  have refs: "demo_old_ref \<noteq> demo_ref" "ref_key mem_reconciler demo_old_ref = ref_key mem_reconciler demo_ref"
    by (simp_all add: demo_old_ref_def demo_ref_def ref_key_def mem_version_def)
  have users: "source_users mem_reconciler mem_store (world demo_alone) (ref_key mem_reconciler demo_ref) = Some [''app'']"
    by code_simp
  have run: "fst (run_state (resolveChartRef mem_reconciler demo_disconnecting) demo_alone) = Inl (Returned requeue None)"
    unfolding asked_requeue_iff
    by (subst resolveChartRef_disconnecting [OF st(2) src st(1)]) (simp add: refs, code_simp)
  show ?thesis
    using version_change_drops_source [OF mem_api_contract _ st(2) src st(1) refs run] users st(3)
    by (simp add: Let_def)
qed

text \<open>C27. When the specification no longer has an inline chart, a pass that asks to be run again has
  removed the release from the users of the source in use and of the candidate, and deleted each
  of them that had no other user.\<close>

theorem leaving_inline_chart_releases_sources:
  assumes "api_contract r store okey" and "Spec_Chart (Release_Spec rel) = None"
    and "chart_state rel = (p, l, c)" and "l \<noteq> None \<or> c \<noteq> None"
    and "fst (run_state (resolveChartRef r rel) s) = Inl (Returned requeue None)"
  shows "source_users r store (world (snd (run_state (resolveChartRef r rel) s))) =
    opt_remove r (rel_Name rel) c (opt_remove r (rel_Name rel) l (source_users r store (world s)))"
proof -
  have "Status_LastAppliedChartSource (Release_Status rel) = l" "Status_CandidateChartSource (Release_Status rel) = c"
    using assms(3) by (simp_all add: chart_state_def)
  with assms(4) hoare_detach [OF assms(1), of rel "source_users r store (world s)"] assms(2,5)
  show ?thesis by (simp add: hoare_def resolveChartRef_def)
qed

definition demo_leaving :: Release where
  "demo_leaving = (demo_inline (ChartSourcePhaseReady, Some demo_ref, Some demo_ref))\<lparr>Release_Spec := empty_spec\<rparr>"

theorem leaving_inline_chart_releases_sources_witness:
  "source_users mem_reconciler mem_store (world (snd (run_state (resolveChartRef mem_reconciler demo_leaving) demo_alone))) =
     opt_remove mem_reconciler ''app'' (Some demo_ref) (opt_remove mem_reconciler ''app'' (Some demo_ref)
       (source_users mem_reconciler mem_store (world demo_alone)))"
proof -
  have st: "chart_state demo_leaving = (ChartSourcePhaseReady, Some demo_ref, Some demo_ref)"
    "Spec_Chart (Release_Spec demo_leaving) = None" "rel_Name demo_leaving = ''app''"
    by (simp_all add: demo_leaving_def demo_inline_def chart_state_def empty_spec_def demo_release_def)
  let ?cleanup = "run_state (cleanupChartSourceRef mem_reconciler demo_leaving (Some demo_ref))"
  let ?rel = "with_status (\<lambda>s. s\<lparr>Status_LastAppliedChartSource := None,
      Status_ChartSourcePhase := [], Status_CandidateChartSource := None\<rparr>) demo_leaving"
  let ?t = "snd (?cleanup (snd (?cleanup demo_alone)))"
  have clean: "fst (?cleanup demo_alone) = None" "fst (?cleanup (snd (?cleanup demo_alone))) = None"
    by code_simp+
  have up: "\<not> mw_fail (world ?t) c" for c
    by code_simp
  have upd: "fst (run_state (StatusUpdate mem_reconciler ?rel) ?t) = Inr ?rel"
    "\<not> mw_fail (world (snd (run_state (StatusUpdate mem_reconciler ?rel) ?t))) c" for c
    using up by (simp_all add: StatusUpdate_def wp mem_reconciler_def mem_client_def mem_StatusUpdate_def
        unless_down_def mem_put_release_def)
  have helm: "fst (run_state (cleanupHelmChart mem_reconciler rel') u) = None" if "\<And>c. \<not> mw_fail (world u) c" for rel' u
    using that error_classes(3) by (auto simp: cleanupHelmChart_def Let_def wp mem_reconciler_def mem_client_def
        mem_DeleteObject_def unless_down_err_def split: option.split)
  have "Status_LastAppliedChartSource (Release_Status demo_leaving) = Some demo_ref"
    "Status_CandidateChartSource (Release_Status demo_leaving) = Some demo_ref"
    using st(1) by (simp_all add: chart_state_def)
  then have "fst (run_state (resolveChartRef mem_reconciler demo_leaving) demo_alone) = Inl (Returned requeue None)"
    by (simp add: resolveChartRef_def resolve_without_chart_def st(2) clean upd helm split_beta)
  from leaving_inline_chart_releases_sources [OF mem_api_contract st(2,1) _ this] st(3) show ?thesis
    by simp
qed

end
