(* ===== verification/Reconcile.thy ===== *)
theory Reconcile
  imports Chart_Phase
begin

text \<open>
  The reconciler itself: \<^verbatim>\<open>Reconcile\<close>, \<^verbatim>\<open>reconcileInstall\<close> and \<^verbatim>\<open>reconcileDelete\<close> of
  \<^verbatim>\<open>release_controller.go\<close>, composed of the components of the other theories in the order of the
  code. A deferred removal of a temporary directory runs after the rest of the function, on every
  path. The theorems are about the order of the calls: what is never done, and what is done only
  after something else.
\<close>

section \<open>Installation\<close>

definition reasonForeignChangeAdopted :: string where
  "reasonForeignChangeAdopted = ''ForeignChangeAdopted''"

definition reasonForeignChangeReconciled :: string where
  "reasonForeignChangeReconciled = ''ForeignChangeReconciled''"

definition reasonForeignUninstallRepaired :: string where
  "reasonForeignUninstallRepaired = ''ForeignUninstallRepaired''"

text \<open>The branch in which the plan reports no changes.\<close>

definition install_up_to_date ::
  "'w ReleaseReconciler \<Rightarrow> Release \<Rightarrow> StoredRelease option \<Rightarrow> bool \<Rightarrow> ('w, outcome) io" where
  "install_up_to_date r rel preRel foreignChange =
     (let releaseName = rel_Name rel;
          releaseNamespace = GetReleaseNamespace rel
      in do {
        stamped \<leftarrow> (case preRel of
            Some st \<Rightarrow>
              if map_index (Stored_StorageLabels st) ownershipMarkerKey \<noteq> ownershipMarkerValue
              then stampOwnershipMarker r rel releaseName releaseNamespace (Stored_Revision st)
              else returnM None
          | None \<Rightarrow> returnM None);
        case stamped of
          Some err \<Rightarrow> handleFailure r rel False (Wrapped ''stamp ownership marker'' err) preRel False
        | None \<Rightarrow> do {
            _ \<leftarrow> (case preRel of
                Some st \<Rightarrow>
                  if foreignChange
                  then emitEvent r rel ''Normal'' reasonForeignChangeAdopted
                         (''Adopted foreign release revision '' @ fmt_d (Stored_Revision st) @
                          '' matching desired state'')
                  else returnM ()
              | None \<Rightarrow> returnM ());
            handleSuccess r rel releaseName releaseNamespace preRel False
          }
      })"

text \<open>The branch in which the plan reports changes.\<close>

definition install_changes ::
  "'w ReleaseReconciler \<Rightarrow> Release \<Rightarrow> ChartResult \<Rightarrow> string \<Rightarrow> ResolvedValues \<Rightarrow> opaque option \<Rightarrow>
   StoredRelease option \<Rightarrow> bool \<Rightarrow> ('w, outcome) io" where
  "install_changes r rel chartResult tempDir resolvedValues planArtifact preRel foreignChange =
     (let releaseName = rel_Name rel;
          releaseNamespace = GetReleaseNamespace rel
      in do {
        installOpts0 \<leftarrow> buildInstallOptions r rel (CR_ChartPath chartResult) tempDir resolvedValues;
        case installOpts0 of
          Inl err \<Rightarrow> handleFailure r rel False (Wrapped ''build install options'' err) preRel False
        | Inr opts0 \<Rightarrow>
            let opts = opts0\<lparr>Inst_LegacyPlanArtifact := planArtifact,
                             Inst_PlanArtifactLifetime := 10 * time_Minute\<rparr>
            in do {
              e \<leftarrow> perform (CReleaseInstall releaseName releaseNamespace opts) no_error
                     (nelm_ReleaseInstall (rr_Nelm r) releaseName releaseNamespace opts);
              case e of
                Some err \<Rightarrow> handleFailure r rel True (Wrapped ''install release'' err) None True
              | None \<Rightarrow> do {
                  _ \<leftarrow> (if foreignChange then
                          (case preRel of
                             Some _ \<Rightarrow> emitEvent r rel ''Warning'' reasonForeignChangeReconciled
                               ''Reconciled foreign release change back to desired state''
                           | None \<Rightarrow> emitEvent r rel ''Warning'' reasonForeignUninstallRepaired
                               ''Reinstalled release after foreign uninstall'')
                        else returnM ());
                  handleSuccess r (with_status (\<lambda>s. s\<lparr>Status_LastAction := ''install''\<rparr>) rel)
                    releaseName releaseNamespace None True
                }
            }
      })"

definition planned_changes :: "error \<Rightarrow> bool" where
  "planned_changes e \<longleftrightarrow>
     err_class_of e = ErrResourceChangesPlanned \<or> err_class_of e = ErrReleaseInstallPlanned"

text \<open>Everything after the failure counter was reset for a new generation.\<close>

definition install_release ::
  "'w ReleaseReconciler \<Rightarrow> Release \<Rightarrow> ChartResult \<Rightarrow> string \<Rightarrow> StoredRelease option \<Rightarrow> bool \<Rightarrow>
   ('w, outcome) io" where
  "install_release r rel chartResult tempDir preRel foreignChange =
     (let releaseName = rel_Name rel;
          releaseNamespace = GetReleaseNamespace rel
      in do {
        values \<leftarrow> Resolve r rel (CR_ValuesFiles chartResult) tempDir;
        case values of
          Inl err \<Rightarrow> handleFailure r rel False (Wrapped ''resolve values'' err) preRel False
        | Inr resolvedValues \<Rightarrow> do {
            planOpts \<leftarrow> buildPlanInstallOptions r rel (CR_ChartPath chartResult) tempDir resolvedValues;
            case planOpts of
              Inl err \<Rightarrow> handleFailure r rel False (Wrapped ''build plan install options'' err) preRel False
            | Inr opts \<Rightarrow> do {
                (planArtifact, planErr) \<leftarrow>
                  perform (CReleasePlanInstall releaseName releaseNamespace opts) (\<lambda>res. snd res = None)
                    (nelm_ReleasePlanInstall (rr_Nelm r) releaseName releaseNamespace opts);
                case planErr of
                  None \<Rightarrow> install_up_to_date r rel preRel foreignChange
                | Some err \<Rightarrow>
                    if \<not> planned_changes err
                    then handleFailure r rel False (Wrapped ''plan install'' err) preRel False
                    else install_changes r rel chartResult tempDir resolvedValues planArtifact preRel foreignChange
              }
          }
      })"

definition reconcileInstall ::
  "'w ReleaseReconciler \<Rightarrow> Release \<Rightarrow> ChartResult \<Rightarrow> string \<Rightarrow> StoredRelease option \<Rightarrow> bool \<Rightarrow>
   ('w, outcome) io" where
  "reconcileInstall r rel0 chartResult tempDir preRel foreignChange =
     (let rel = (if Status_ObservedGeneration (Release_Status rel0) \<noteq> rel_Generation rel0
                 then with_status (\<lambda>s. s\<lparr>Status_LastActionFailures := 0\<rparr>) rel0 else rel0)
      in install_release r rel chartResult tempDir preRel foreignChange)"

section \<open>Deletion\<close>

definition RemoveAll :: "'w ReleaseReconciler \<Rightarrow> string \<Rightarrow> ('w, error option) io" where
  "RemoveAll r dir = perform (CRemoveAll dir) no_error (os_RemoveAll (rr_Os r) dir)"

definition MkdirTemp :: "'w ReleaseReconciler \<Rightarrow> string \<Rightarrow> ('w, error + string) io" where
  "MkdirTemp r pattern =
     (let tmp = Config_TempDir (rr_Config r)
      in perform (CMkdirTemp tmp pattern) succeeded (os_MkdirTemp (rr_Os r) tmp pattern))"

definition PatchFinalizers :: "'w ReleaseReconciler \<Rightarrow> Release \<Rightarrow> string list \<Rightarrow> ('w, error + Release) io" where
  "PatchFinalizers r rel fs =
     (let rel' = rel\<lparr>Release_Meta := (Release_Meta rel)\<lparr>Meta_Finalizers := fs\<rparr>\<rparr>
      in perform (CPatchRelease rel' rel) succeeded (client_PatchRelease (rr_Client r) rel' rel))"

definition fail_with :: "string \<Rightarrow> error \<Rightarrow> outcome" where
  "fail_with msg err = Returned no_result (Some (Wrapped msg err))"

text \<open>After the uninstallation: the status, the source object and the finalizer.\<close>

definition finish_delete :: "'w ReleaseReconciler \<Rightarrow> Release \<Rightarrow> ('w, outcome) io" where
  "finish_delete r rel = do {
     u \<leftarrow> StatusUpdate r (with_status (\<lambda>s. s\<lparr>Status_LastAction := ''uninstall''\<rparr>) rel);
     case u of
       Inl err \<Rightarrow> returnM (fail_with ''update uninstall status'' err)
     | Inr rel' \<Rightarrow> do {
         e \<leftarrow> (if Status_LastAppliedChartSource (Release_Status rel') \<noteq> None
               then cleanupChartSourceRef r rel' (Status_LastAppliedChartSource (Release_Status rel'))
               else returnM None);
         case e of
           Some err \<Rightarrow> returnM (fail_with ''delete inline source ref on delete reconcile'' err)
         | None \<Rightarrow> do {
             p \<leftarrow> PatchFinalizers r rel'
                    (lib_RemoveFinalizer (rr_Lib r) (Meta_Finalizers (Release_Meta rel')) ReleaseFinalizerName);
             returnM (case p of
                Inl err \<Rightarrow> fail_with ''remove finalizer'' err
              | Inr _ \<Rightarrow> Returned no_result None)
           }
       }
   }"

text \<open>What runs between the creation and the removal of the temporary directory.\<close>

definition uninstall_release :: "'w ReleaseReconciler \<Rightarrow> Release \<Rightarrow> string \<Rightarrow> ('w, outcome) io" where
  "uninstall_release r rel tempDir = do {
     uninstallOpts \<leftarrow> buildUninstallOptions r rel tempDir;
     case uninstallOpts of
       Inl err \<Rightarrow> returnM (fail_with ''build uninstall options'' err)
     | Inr opts \<Rightarrow> do {
         e \<leftarrow> perform (CReleaseUninstall (rel_Name rel) (GetReleaseNamespace rel) opts) no_error
                (nelm_ReleaseUninstall (rr_Nelm r) (rel_Name rel) (GetReleaseNamespace rel) opts);
         case e of
           Some err \<Rightarrow> returnM (fail_with ''uninstall release'' err)
         | None \<Rightarrow> finish_delete r rel
       }
   }"

definition reconcileDelete :: "'w ReleaseReconciler \<Rightarrow> Release \<Rightarrow> ('w, outcome) io" where
  "reconcileDelete r rel0 =
     (if \<not> lib_ContainsFinalizer (rr_Lib r) (Meta_Finalizers (Release_Meta rel0)) ReleaseFinalizerName
      then returnM (Returned no_result None)
      else do {
        rel1 \<leftarrow> setCondition r (condition rel0 ''Reconciling'' ''True'' ''Uninstalling'' ''Uninstalling release'') rel0;
        u \<leftarrow> StatusUpdate r (with_status (\<lambda>s. s\<lparr>Status_ObservedGeneration := rel_Generation rel1\<rparr>) rel1);
        case u of
          Inl err \<Rightarrow> returnM (fail_with ''update uninstalling status'' err)
        | Inr rel \<Rightarrow> do {
            d \<leftarrow> MkdirTemp r ''nelm-uninstall-*'';
            case d of
              Inl err \<Rightarrow> returnM (fail_with ''create temp dir'' err)
            | Inr tempDir \<Rightarrow> do {
                out \<leftarrow> uninstall_release r rel tempDir;
                _ \<leftarrow> RemoveAll r tempDir;
                returnM out
              }
          }
      })"

section \<open>The reconciler\<close>

text \<open>What runs between the creation and the removal of the temporary directory.\<close>

definition reconcile_chart ::
  "'w ReleaseReconciler \<Rightarrow> Release \<Rightarrow> ChartSourceRef \<Rightarrow> string \<Rightarrow> StoredRelease option \<Rightarrow> bool \<Rightarrow>
   ('w, outcome) io" where
  "reconcile_chart r rel chartRef tempDir preRel foreignChange = do {
     chart \<leftarrow> ResolveChartRef r (api_group r) (api_version r) chartRef tempDir
                (Config_HTTPRetry (rr_Config r)) (Config_HTTPTimeout (rr_Config r));
     case chart of
       Inl err \<Rightarrow>
         (case as_SourceNotReady err of
            Some msg \<Rightarrow> do {
              rel' \<leftarrow> projectStatusFromStorage r rel (rel_Name rel) (GetReleaseNamespace rel) preRel False;
              u \<leftarrow> StatusUpdate r rel';
              returnM (case u of
                 Inl err \<Rightarrow> fail_with ''update source-not-ready status'' err
               | Inr _ \<Rightarrow> Returned no_result None)
            }
          | None \<Rightarrow> handleFailure r rel False (Wrapped ''resolve chart source'' err) preRel False)
     | Inr chartResult \<Rightarrow>
         reconcileInstall r
           (with_status (\<lambda>s. s\<lparr>Status_LastAttemptedArtifactDigest := CR_Digest chartResult,
                               Status_LastAttemptedArtifactRevision := CR_Revision chartResult\<rparr>) rel)
           chartResult tempDir preRel foreignChange
   }"

text \<open>The reconciliation once the chart reference is known.\<close>

definition reconcile_resolved ::
  "'w ReleaseReconciler \<Rightarrow> Release \<Rightarrow> ChartSourceRef \<Rightarrow> ('w, outcome) io" where
  "reconcile_resolved r rel chartRef = do {
     pre \<leftarrow> getRelease r rel (rel_Name rel) (GetReleaseNamespace rel);
     case pre of
       Inl err \<Rightarrow> handleFailure r rel False (Wrapped ''read release state'' err) None False
     | Inr preRel \<Rightarrow>
         let foreignChange = detectForeignChange (Status_Revision (Release_Status rel)) preRel
         in do {
           d \<leftarrow> MkdirTemp r ''nelm-reconcile-*'';
           case d of
             Inl err \<Rightarrow> handleFailure r rel False (Wrapped ''create temp directory'' err) None False
           | Inr tempDir \<Rightarrow> do {
               out \<leftarrow> reconcile_chart r rel chartRef tempDir preRel foreignChange;
               _ \<leftarrow> RemoveAll r tempDir;
               returnM out
             }
         }
   }"

definition reconcile_live :: "'w ReleaseReconciler \<Rightarrow> Release \<Rightarrow> ('w, outcome) io" where
  "reconcile_live r rel0 = do {
     resolved \<leftarrow> resolveChartRef r rel0;
     case resolved of
       Inl out \<Rightarrow> returnM out
     | Inr (chartRef, rel) \<Rightarrow> reconcile_resolved r rel chartRef
   }"

definition Reconcile :: "'w ReleaseReconciler \<Rightarrow> NamespacedName \<Rightarrow> ('w, outcome) io" where
  "Reconcile r req = do {
     got \<leftarrow> perform (CGetRelease req) succeeded (client_GetRelease (rr_Client r) req);
     case got of
       Inl err \<Rightarrow> returnM (Returned no_result (if IsNotFound err then None else Some err))
     | Inr rel \<Rightarrow>
         if Meta_DeletionTimestamp (Release_Meta rel) \<noteq> None then reconcileDelete r rel
         else if Spec_Suspend (Release_Spec rel) then returnM (Returned no_result None)
         else if \<not> lib_ContainsFinalizer (rr_Lib r) (Meta_Finalizers (Release_Meta rel)) ReleaseFinalizerName then do {
           p \<leftarrow> PatchFinalizers r rel
                  (lib_AddFinalizer (rr_Lib r) (Meta_Finalizers (Release_Meta rel)) ReleaseFinalizerName);
           returnM (case p of
              Inl err \<Rightarrow> fail_with ''add finalizer'' err
            | Inr _ \<Rightarrow> Returned requeue None)
         }
         else reconcile_live r rel
   }"

section \<open>Kinds of calls\<close>

lemma kinds_RemoveAll: "emits (in_kinds {KRemoveAll}) (RemoveAll r d)"
  unfolding RemoveAll_def by (intro emits_intro) simp

lemma kinds_MkdirTemp: "emits (in_kinds {KMkdirTemp}) (MkdirTemp r pat)"
  unfolding MkdirTemp_def by (intro emits_intro) simp

lemma kinds_PatchFinalizers: "emits (in_kinds {KReleasePatch}) (PatchFinalizers r rel fs)"
  unfolding PatchFinalizers_def by (intro emits_intro) simp

lemma kinds_buildPlanInstallOptions:
  "emits (in_kinds {KTempFile}) (buildPlanInstallOptions r rel chart dir rv)"
  by (rule emits_mono [OF plan.emits_build patches_call_kind])

lemma kinds_buildInstallOptions:
  "emits (in_kinds {KTempFile}) (buildInstallOptions r rel chart dir rv)"
  by (rule emits_mono [OF install.emits_build patches_call_kind])

lemma kinds_buildUninstallOptions: "emits (in_kinds {KTempFile}) (buildUninstallOptions r rel dir)"
  by (rule emits_mono [OF uninstall.emits_build patches_call_kind])

definition report_kinds :: "call_kind set" where
  "report_kinds = {KStorageGet, KStatusUpdate}"

definition install_kinds :: "call_kind set" where
  "install_kinds = {KTempFile, KConfigGet, KPlan, KInstall, KStorageConnect, KLabels, KEvent} \<union>
     report_kinds \<union> rollback_kinds"

lemmas kind_sets = report_kinds_def install_kinds_def rollback_kinds_def values_kinds_def download_kinds_def

lemma kinds_handleFailure_report: "emits (in_kinds report_kinds) (handleFailure r rel False e captured refetch)"
  using kinds_handleFailure [of False] by (rule emits_kinds_mono) (auto simp: kind_sets)

lemma kinds_handleFailure_rollback:
  "emits (in_kinds (insert KStatusUpdate rollback_kinds)) (handleFailure r rel True e captured refetch)"
  using kinds_handleFailure [of True] by simp

lemma kinds_up_to_date:
  "emits (in_kinds (report_kinds \<union> {KStorageConnect, KLabels, KEvent})) (install_up_to_date r rel preRel foreign)"
  unfolding install_up_to_date_def
  by (intro emits_intro emits_kinds_mono [OF kinds_stampOwnershipMarker] emits_kinds_mono [OF kinds_emitEvent]
      emits_kinds_mono [OF kinds_handleFailure_report] emits_kinds_mono [OF kinds_handleSuccess])
    (auto simp: kind_sets)

lemma kinds_changes: "emits (in_kinds install_kinds) (install_changes r rel cr dir rv art preRel foreign)"
  unfolding install_changes_def
  by (intro emits_intro emits_kinds_mono [OF kinds_buildInstallOptions] emits_kinds_mono [OF kinds_emitEvent]
      emits_kinds_mono [OF kinds_handleFailure_report] emits_kinds_mono [OF kinds_handleFailure_rollback]
      emits_kinds_mono [OF kinds_handleSuccess])
    (auto simp: kind_sets)

lemma kinds_reconcileInstall: "emits (in_kinds install_kinds) (reconcileInstall r rel cr dir preRel foreign)"
  unfolding reconcileInstall_def install_release_def
  by (intro emits_intro emits_kinds_mono [OF values_kind.emits_Resolve] emits_kinds_mono [OF kinds_buildPlanInstallOptions]
      emits_kinds_mono [OF kinds_handleFailure_report] emits_kinds_mono [OF kinds_up_to_date] kinds_changes)
    (auto simp: kind_sets)

definition chart_kinds :: "call_kind set" where
  "chart_kinds = {KObjectGet, KSourceCreate, KObjectUpdate, KObjectDelete, KHelmChartApply} \<union> report_kinds"

lemma kinds_resolveChartRef:
  assumes "retry_contract (rr_Lib r)"
  shows "emits (in_kinds chart_kinds) (resolveChartRef r rel)"
  unfolding resolveChartRef_def resolve_without_chart_def resolve_ready_def
  by (intro emits_intro emits_kinds_mono [OF kinds_fail_resolve] emits_kinds_mono [OF kinds_advance]
      emits_kinds_mono [OF kinds_ensureHelmChart] emits_kinds_mono [OF kinds_cleanupHelmChart]
      emits_kinds_mono [OF kinds_StatusUpdate]
      emits_kinds_mono [OF kinds_ensureChartSourceRef [OF assms]]
      emits_kinds_mono [OF kinds_cleanupChartSourceRef [OF assms]])
    (auto simp: chart_kinds_def kind_sets)

definition live_kinds :: "call_kind set" where
  "live_kinds = chart_kinds \<union> install_kinds \<union> {KHttp, KMkdirTemp, KRemoveAll}"

lemma kinds_reconcile_chart:
  "emits (in_kinds (install_kinds \<union> insert KObjectGet download_kinds)) (reconcile_chart r rel ref dir preRel foreign)"
  unfolding reconcile_chart_def
  by (intro emits_intro emits_kinds_mono [OF kinds_ResolveChartRef] emits_kinds_mono [OF kinds_projectStatus]
      emits_kinds_mono [OF kinds_StatusUpdate] emits_kinds_mono [OF kinds_handleFailure_report]
      emits_kinds_mono [OF kinds_reconcileInstall])
    (auto simp: kind_sets)

lemma kinds_reconcile_live:
  assumes "retry_contract (rr_Lib r)"
  shows "emits (in_kinds live_kinds) (reconcile_live r rel)"
  unfolding reconcile_live_def reconcile_resolved_def
  by (intro emits_intro emits_kinds_mono [OF kinds_resolveChartRef [OF assms]] emits_kinds_mono [OF kinds_getRelease]
      emits_kinds_mono [OF kinds_handleFailure_report] emits_kinds_mono [OF kinds_MkdirTemp]
      emits_kinds_mono [OF kinds_reconcile_chart] emits_kinds_mono [OF kinds_RemoveAll])
    (auto simp: live_kinds_def chart_kinds_def kind_sets)

section \<open>Installation only as planned\<close>

text \<open>
  \<open>planned r X cs\<close>: every installation among the calls \<open>cs\<close>, made after the calls \<open>X\<close>, comes after
  a plan of the same deployment of the same release, and applies an artifact such a plan returns
  together with the error that announces changes.
\<close>

definition plan_artifact ::
  "'w ReleaseReconciler \<Rightarrow> string \<Rightarrow> string \<Rightarrow> ReleasePlanInstallOptions \<Rightarrow> opaque option \<Rightarrow> bool" where
  "plan_artifact r n ns p art \<longleftrightarrow>
     (\<exists>w err. fst (nelm_ReleasePlanInstall (rr_Nelm r) n ns p w) = (art, Some err) \<and> planned_changes err)"

lemma plan_artifact_returned:
  "nelm_ReleasePlanInstall (rr_Nelm r) n ns p w = ((art, Some err), w') \<Longrightarrow> planned_changes err \<Longrightarrow>
   plan_artifact r n ns p art"
  unfolding plan_artifact_def by (intro exI [of _ w] exI [of _ err]) simp

fun install_ok :: "'w ReleaseReconciler \<Rightarrow> (call \<times> bool) set \<Rightarrow> call \<times> bool \<Rightarrow> bool" where
  "install_ok r X (CReleaseInstall n ns i, b) =
     (\<exists>p. (CReleasePlanInstall n ns p, False) \<in> X \<and> same_deployment p i \<and>
        plan_artifact r n ns p (Inst_LegacyPlanArtifact i))"
| "install_ok r X _ = True"

fun planned :: "'w ReleaseReconciler \<Rightarrow> (call \<times> bool) set \<Rightarrow> (call \<times> bool) list \<Rightarrow> bool" where
  "planned r X [] = True"
| "planned r X (c # cs) = (install_ok r X c \<and> planned r (insert c X) cs)"

lemma planned_append: "planned r X (xs @ ys) \<longleftrightarrow> planned r X xs \<and> planned r (X \<union> set xs) ys"
  by (induction xs arbitrary: X) auto

lemma planned_mono: "planned r X cs \<Longrightarrow> X \<subseteq> Y \<Longrightarrow> planned r Y cs"
proof (induction cs arbitrary: X Y)
  case (Cons c cs)
  have "install_ok r Y c"
    using Cons.prems by (cases "(r, X, c)" rule: install_ok.cases) auto
  with Cons show ?case by (auto intro: Cons.IH [of "insert c X"])
qed simp

lemma install_ok_kinds: "in_kinds K c \<Longrightarrow> KInstall \<notin> K \<Longrightarrow> install_ok r X c"
  by (cases "(r, X, c)" rule: install_ok.cases) auto

lemma planned_kinds: "list_all (in_kinds K) cs \<Longrightarrow> KInstall \<notin> K \<Longrightarrow> planned r X cs"
  by (induction cs arbitrary: X) (auto intro: install_ok_kinds)

lemma same_deployment_artifact [simp]:
  "same_deployment p (i\<lparr>Inst_LegacyPlanArtifact := a, Inst_PlanArtifactLifetime := l\<rparr>) = same_deployment p i"
  by (simp add: same_deployment_def)

lemma runs_kinds_planned:
  "emits (in_kinds K) m \<Longrightarrow> KInstall \<notin> K \<Longrightarrow> runs m (\<lambda>a cs. planned r X cs)"
  by (erule runs_emits) (rule planned_kinds)

lemma planned_install_changes:
  assumes "(CReleasePlanInstall (rel_Name rel) (GetReleaseNamespace rel) p, False) \<in> X"
    and "built (buildPlanInstallOptions r rel (CR_ChartPath cr) dir rv) p"
    and "plan_artifact r (rel_Name rel) (GetReleaseNamespace rel) p art"
  shows "runs (install_changes r rel cr dir rv art preRel foreign) (\<lambda>out cs. planned r X cs)"
  unfolding install_changes_def Let_def
  apply (rule runs_bind, rule runs_mono [OF runs_built [OF kinds_buildInstallOptions]])
  subgoal for res cs
    apply (rule runs_case_sum)
    subgoal
      by (rule runs_emits [OF kinds_handleFailure_report])
        (auto simp: planned_append kind_sets intro: planned_kinds)
    subgoal for i
      apply (intro runs_bind runs_perform runs_case_option runs_if runs_return
          runs_emits [OF kinds_handleFailure_rollback] runs_emits [OF kinds_emitEvent]
          runs_emits [OF kinds_handleSuccess])
      using assms built_same_deployment [OF assms(2), of i]
      by (auto simp: planned_append kind_sets intro: planned_kinds)
    done
  done

lemma planned_install_release:
  "runs (install_release r rel cr dir preRel foreign) (\<lambda>out cs. planned r X cs)"
  unfolding install_release_def Let_def
  apply (rule runs_bind, rule runs_emits [OF values_kind.emits_Resolve], rule runs_case_sum)
  subgoal
    by (rule runs_emits [OF kinds_handleFailure_report])
      (auto simp: planned_append kind_sets intro: planned_kinds)
  apply (rule runs_bind, rule runs_mono [OF runs_built [OF kinds_buildPlanInstallOptions]], rule runs_case_sum)
  subgoal
    by (rule runs_emits [OF kinds_handleFailure_report])
      (auto simp: planned_append kind_sets intro: planned_kinds)
  apply (rule runs_bind, rule runs_perform, rule runs_case_prod, rule runs_case_option, goal_cases)
  subgoal
    by (rule runs_emits [OF kinds_up_to_date])
      (auto simp: planned_append kind_sets intro: planned_kinds)
  subgoal
    apply (rule runs_if)
    subgoal
      by (rule runs_emits [OF kinds_handleFailure_report])
        (auto simp: planned_append kind_sets intro: planned_kinds)
    subgoal
      by (rule runs_mono [OF planned_install_changes])
        (auto simp: planned_append kind_sets intro: planned_kinds plan_artifact_returned elim: planned_mono)
    done
  done

lemma planned_reconcileInstall:
  "runs (reconcileInstall r rel cr dir preRel foreign) (\<lambda>out cs. planned r X cs)"
  unfolding reconcileInstall_def Let_def by (rule planned_install_release)

lemma planned_reconcile_chart:
  "runs (reconcile_chart r rel ref dir preRel foreign) (\<lambda>out cs. planned r X cs)"
  unfolding reconcile_chart_def
  by (intro runs_bind runs_case_sum runs_case_option runs_return
      runs_emits [OF kinds_ResolveChartRef] runs_emits [OF kinds_projectStatus]
      runs_emits [OF kinds_StatusUpdate] runs_emits [OF kinds_handleFailure_report]
      runs_mono [OF planned_reconcileInstall])
    (auto simp: planned_append kind_sets intro: planned_kinds elim: planned_mono)

lemma planned_reconcile_live:
  assumes "retry_contract (rr_Lib r)"
  shows "runs (reconcile_live r rel) (\<lambda>out cs. planned r X cs)"
  unfolding reconcile_live_def reconcile_resolved_def Let_def
  by (intro runs_bind runs_case_sum runs_case_prod runs_return
      runs_emits [OF kinds_resolveChartRef [OF assms]] runs_emits [OF kinds_getRelease]
      runs_emits [OF kinds_handleFailure_report] runs_emits [OF kinds_MkdirTemp]
      runs_mono [OF planned_reconcile_chart] runs_emits [OF kinds_RemoveAll])
    (auto simp: planned_append chart_kinds_def kind_sets intro: planned_kinds elim: planned_mono)

section \<open>Deletion\<close>

definition delete_kinds :: "call_kind set" where
  "delete_kinds = {KStatusUpdate, KMkdirTemp, KTempFile, KUninstall, KObjectGet, KObjectUpdate,
     KObjectDelete, KReleasePatch, KRemoveAll}"

lemma kinds_finish_delete:
  assumes "retry_contract (rr_Lib r)"
  shows "emits (in_kinds delete_kinds) (finish_delete r rel)"
  unfolding finish_delete_def
  by (intro emits_intro emits_kinds_mono [OF kinds_StatusUpdate]
      emits_kinds_mono [OF kinds_cleanupChartSourceRef [OF assms]]
      emits_kinds_mono [OF kinds_PatchFinalizers])
    (auto simp: delete_kinds_def)

lemma kinds_reconcileDelete:
  assumes "retry_contract (rr_Lib r)"
  shows "emits (in_kinds delete_kinds) (reconcileDelete r rel)"
  unfolding reconcileDelete_def uninstall_release_def
  by (intro emits_intro emits_kinds_mono [OF kinds_setCondition] emits_kinds_mono [OF kinds_StatusUpdate]
      emits_kinds_mono [OF kinds_MkdirTemp] emits_kinds_mono [OF kinds_buildUninstallOptions]
      kinds_finish_delete [OF assms] emits_kinds_mono [OF kinds_RemoveAll])
    (auto simp: delete_kinds_def)

text \<open>
  The calls that matter for the order of a deletion: the patches of the Release, the one that
  removes the operator's finalizer and changes nothing else, the uninstallation that succeeded, and
  the accepted status update that records it.
\<close>

definition release_patch :: "call \<times> bool \<Rightarrow> bool" where
  "release_patch c \<longleftrightarrow> kind_of (fst c) = KReleasePatch"

definition without_finalizer :: "'w k8s_lib \<Rightarrow> Release \<Rightarrow> Release" where
  "without_finalizer L rel = rel\<lparr>Release_Meta := (Release_Meta rel)\<lparr>Meta_Finalizers :=
     lib_RemoveFinalizer L (Meta_Finalizers (Release_Meta rel)) ReleaseFinalizerName\<rparr>\<rparr>"

fun finalizer_patch :: "'w k8s_lib \<Rightarrow> call \<times> bool \<Rightarrow> bool" where
  "finalizer_patch L (CPatchRelease new old, b) \<longleftrightarrow> new = without_finalizer L old"
| "finalizer_patch L _ \<longleftrightarrow> False"

definition uninstalled :: "call \<times> bool \<Rightarrow> bool" where
  "uninstalled c \<longleftrightarrow> kind_of (fst c) = KUninstall \<and> snd c"

fun uninstall_recorded :: "call \<times> bool \<Rightarrow> bool" where
  "uninstall_recorded (CStatusUpdate rel, b) = (b \<and> Status_LastAction (Release_Status rel) = ''uninstall'')"
| "uninstall_recorded _ = False"

text \<open>
  Every patch of the Release removes the finalizer, after the uninstallation and after its record;
  the deletion ends well when such a patch was accepted, and only then.
\<close>

definition delete_trace :: "'w k8s_lib \<Rightarrow> bool \<Rightarrow> outcome \<Rightarrow> (call \<times> bool) list \<Rightarrow> bool" where
  "delete_trace L finalizer out cs \<longleftrightarrow>
     guarded release_patch uninstalled cs \<and> guarded release_patch uninstall_recorded cs \<and>
     list_all (\<lambda>c. release_patch c \<longrightarrow> finalizer_patch L c) cs \<and>
     (if \<not> finalizer then cs = [] \<and> out = Returned no_result None
      else out = Returned no_result None \<longleftrightarrow> (\<exists>c \<in> set cs. finalizer_patch L c \<and> snd c))"

lemma finalizer_patch_kind: "finalizer_patch L c \<Longrightarrow> release_patch c"
  by (cases "(L, c)" rule: finalizer_patch.cases) (simp_all add: release_patch_def)

lemma release_patch_simps [simp]:
  "release_patch (CPatchRelease a b, ok)" "\<not> release_patch (CStatusUpdate rel, ok)"
  "\<not> release_patch (CReleaseUninstall n ns opts, ok)" "\<not> release_patch (CRemoveAll d, ok)"
  "\<not> release_patch (CMkdirTemp d pat, ok)"
  by (simp_all add: release_patch_def)

lemma no_patch_kinds:
  assumes "list_all (in_kinds K) cs" and "KReleasePatch \<notin> K"
  shows "guarded release_patch B cs" and "list_all (\<lambda>c. release_patch c \<longrightarrow> P c) cs"
    and "c \<in> set cs \<Longrightarrow> \<not> finalizer_patch L c"
proof -
  have "list_all (\<lambda>c. \<not> release_patch c) cs"
    using assms by (fastforce simp: list_all_iff in_kinds_def release_patch_def)
  then show "guarded release_patch B cs" and "list_all (\<lambda>c. release_patch c \<longrightarrow> P c) cs"
    and "c \<in> set cs \<Longrightarrow> \<not> finalizer_patch L c"
    by (auto simp: list_all_iff dest: finalizer_patch_kind intro: guarded_none)
qed

lemma uninstalled_simps [simp]: "uninstalled (CReleaseUninstall n ns opts, ok) = ok"
  by (simp add: uninstalled_def)

lemma runs_finish_delete:
  assumes "retry_contract (rr_Lib r)"
  shows "runs (finish_delete r rel) (\<lambda>out cs. guarded release_patch uninstall_recorded cs \<and>
    list_all (\<lambda>c. release_patch c \<longrightarrow> finalizer_patch (rr_Lib r) c) cs \<and>
    (out = Returned no_result None \<longleftrightarrow> (\<exists>c \<in> set cs. finalizer_patch (rr_Lib r) c \<and> snd c)))"
  unfolding finish_delete_def StatusUpdate_def PatchFinalizers_def Let_def
  by (intro runs_intro runs_emits [OF kinds_cleanupChartSourceRef [OF assms]])
    (auto simp: fail_with_def guarded_append without_finalizer_def split: sum.splits
      dest: no_patch_kinds(3) intro: no_patch_kinds(1,2))

lemma runs_reconcileDelete:
  assumes "retry_contract (rr_Lib r)"
  shows "runs (reconcileDelete r rel)
    (delete_trace (rr_Lib r) (lib_ContainsFinalizer (rr_Lib r) (Meta_Finalizers (Release_Meta rel)) ReleaseFinalizerName))"
  unfolding reconcileDelete_def uninstall_release_def setCondition_def StatusUpdate_def MkdirTemp_def RemoveAll_def delete_trace_def Let_def
  by (intro runs_intro runs_emits [OF kinds_buildUninstallOptions] runs_mono [OF runs_finish_delete [OF assms]])
    (auto simp: fail_with_def guarded_append dest: no_patch_kinds(3) intro: no_patch_kinds(1,2))

section \<open>Temporary directories\<close>

text \<open>The directories in which a list of calls makes a file and which it does not remove afterwards.\<close>

definition removed :: "string \<Rightarrow> (call \<times> bool) list \<Rightarrow> bool" where
  "removed d cs \<longleftrightarrow> (\<exists>b. (CRemoveAll d, b) \<in> set cs)"

fun leftover :: "(call \<times> bool) list \<Rightarrow> string set" where
  "leftover [] = {}"
| "leftover ((CCreateTemp d pat, b) # cs) = (if removed d cs then {} else {d}) \<union> leftover cs"
| "leftover (c # cs) = leftover cs"

lemma leftover_append: "leftover (xs @ ys) = {d \<in> leftover xs. \<not> removed d ys} \<union> leftover ys"
  by (induction xs rule: leftover.induct) (auto simp: removed_def)

lemma leftover_kinds: "list_all (in_kinds K) cs \<Longrightarrow> KTempFile \<notin> K \<Longrightarrow> leftover cs = {}"
  by (induction cs rule: leftover.induct) auto

lemma leftover_temp_in: "list_all (temp_in dir) cs \<Longrightarrow> leftover cs \<subseteq> {dir}"
  by (induction cs rule: leftover.induct) auto

definition clean :: "string set \<Rightarrow> ('w, 'a) io \<Rightarrow> bool" where
  "clean D m \<longleftrightarrow> runs m (\<lambda>a cs. leftover cs \<subseteq> D)"

lemma clean_return: "clean D (returnM a)"
  by (simp add: clean_def runs_return)

lemma clean_observe: "clean D (observe f)"
  by (simp add: clean_def runs_observe)

lemma clean_bind: "clean D m \<Longrightarrow> (\<And>a. clean D (f a)) \<Longrightarrow> clean D (State_Monad.bind m f)"
  unfolding clean_def
  by (rule runs_bind, erule runs_mono, rule runs_mono, assumption) (auto simp: leftover_append)

lemma clean_if: "clean D m \<Longrightarrow> clean D m' \<Longrightarrow> clean D (if b then m else m')"
  by simp

lemma clean_case_sum: "(\<And>e. clean D (m e)) \<Longrightarrow> (\<And>a. clean D (m' a)) \<Longrightarrow>
    clean D (case x of Inl e \<Rightarrow> m e | Inr a \<Rightarrow> m' a)"
  by (cases x) simp_all

lemma clean_case_option: "clean D m \<Longrightarrow> (\<And>a. clean D (m' a)) \<Longrightarrow>
    clean D (case x of None \<Rightarrow> m | Some a \<Rightarrow> m' a)"
  by (cases x) simp_all

lemma clean_case_prod: "(\<And>a b. clean D (m a b)) \<Longrightarrow> clean D (case x of (a, b) \<Rightarrow> m a b)"
  by (cases x) simp

lemma clean_let: "clean D (m a) \<Longrightarrow> clean D (let x = a in m x)"
  by simp

lemma clean_kinds: "emits (in_kinds K) m \<Longrightarrow> KTempFile \<notin> K \<Longrightarrow> clean D m"
  unfolding clean_def by (erule runs_emits) (simp add: leftover_kinds)

lemma clean_temp_in: "emits (temp_in dir) m \<Longrightarrow> dir \<in> D \<Longrightarrow> clean D m"
  unfolding clean_def by (erule runs_emits) (blast dest: leftover_temp_in)

lemma clean_perform: "kind_of c \<noteq> KTempFile \<Longrightarrow> clean D (perform c ok f)"
  by (rule clean_kinds [where K = "{kind_of c}"]) (auto intro: emits_perform)

lemma clean_patches: "emits (patches_call r render diff dir) m \<Longrightarrow> dir \<in> D \<Longrightarrow> clean D m"
proof (erule clean_temp_in [OF emits_mono])
  show "temp_in dir c" if "patches_call r render diff dir c" for c
    using that by (cases "(r, render, diff, dir, c)" rule: patches_call.cases) auto
qed

text \<open>What runs in a directory that is removed at the end leaves nothing behind.\<close>

lemma clean_removed:
  assumes "clean {dir} m" and "\<And>a. f a = returnM (g a)"
  shows "clean {} (do { a \<leftarrow> m; _ \<leftarrow> perform (CRemoveAll dir) no_error h; f a })"
  using assms(1) unfolding clean_def assms(2)
  by (intro runs_bind) (erule runs_mono, intro runs_intro, auto simp: leftover_append removed_def)

lemmas clean_intro = clean_return clean_observe clean_bind clean_if clean_case_sum clean_case_option
  clean_case_prod clean_let clean_perform

lemma clean_mono: "clean D m \<Longrightarrow> D \<subseteq> D' \<Longrightarrow> clean D' m"
  unfolding clean_def by (erule runs_mono) blast

lemma clean_attemptRollback: "clean {} (attemptRollback r rel)"
proof -
  have body: "clean {dir} (do {
      opts \<leftarrow> buildRollbackOptions r rel dir;
      case opts of
        Inl err \<Rightarrow> returnM rel
      | Inr opts \<Rightarrow> do {
          e \<leftarrow> perform (CReleaseRollback (rel_Name rel) (GetReleaseNamespace rel) opts) no_error
                 (nelm_ReleaseRollback (rr_Nelm r) (rel_Name rel) (GetReleaseNamespace rel) opts);
          case e of
            Some err \<Rightarrow> returnM rel
          | None \<Rightarrow> projectStatusFromStorage r (with_status (\<lambda>s. s\<lparr>Status_LastAction := ''rollback''\<rparr>) rel)
              (rel_Name rel) (GetReleaseNamespace rel) None True } })" for dir
    by (intro clean_intro clean_patches [OF rollback.emits_build] clean_kinds [OF kinds_projectStatus]) simp_all
  show ?thesis
    unfolding attemptRollback_def Let_def
    by (rule clean_bind, rule clean_perform, simp, rule clean_case_sum, rule clean_return,
        rule clean_removed [OF body, unfolded State_Monad.bind_assoc], rule refl)
qed

lemma clean_handleFailure: "clean {} (handleFailure r rel attempted e captured refetch)"
  unfolding handleFailure_def setCondition_def
  by (intro clean_intro clean_kinds [OF kinds_projectStatus] clean_kinds [OF kinds_StatusUpdate]
      clean_attemptRollback) simp_all

lemmas clean_failure = clean_mono [OF clean_handleFailure empty_subsetI]

lemma clean_handleSuccess: "clean D (handleSuccess r rel n ns captured refetch)"
  by (rule clean_kinds [OF kinds_handleSuccess]) simp

lemma clean_reconcileInstall: "clean {dir} (reconcileInstall r rel cr dir preRel foreign)"
  unfolding reconcileInstall_def install_release_def install_changes_def
  by (intro clean_intro clean_failure clean_handleSuccess clean_temp_in [OF values_temp.emits_Resolve]
      clean_patches [OF plan.emits_build] clean_patches [OF install.emits_build]
      clean_kinds [OF kinds_up_to_date] clean_kinds [OF kinds_emitEvent])
    (simp_all add: kind_sets)

lemma clean_reconcile_chart: "clean {dir} (reconcile_chart r rel ref dir preRel foreign)"
  unfolding reconcile_chart_def
  by (intro clean_intro clean_temp_in [OF temp_in_ResolveChartRef] clean_failure clean_reconcileInstall
      clean_kinds [OF kinds_projectStatus] clean_kinds [OF kinds_StatusUpdate])
    simp_all

lemma clean_reconcile_live:
  assumes "retry_contract (rr_Lib r)"
  shows "clean {} (reconcile_live r rel)"
  unfolding reconcile_live_def reconcile_resolved_def Let_def
  by (rule clean_bind, rule clean_kinds [OF kinds_resolveChartRef [OF assms]],
      simp add: chart_kinds_def kind_sets, rule clean_case_sum, rule clean_return, rule clean_case_prod,
      rule clean_bind, rule clean_kinds [OF kinds_getRelease], simp, rule clean_case_sum, rule clean_handleFailure,
      rule clean_bind, rule clean_kinds [OF kinds_MkdirTemp], simp, rule clean_case_sum, rule clean_handleFailure,
      unfold RemoveAll_def, rule clean_removed [OF clean_reconcile_chart], rule refl)

lemma clean_finish_delete:
  assumes "retry_contract (rr_Lib r)"
  shows "clean D (finish_delete r rel)"
  unfolding finish_delete_def
  by (intro clean_intro clean_kinds [OF kinds_StatusUpdate] clean_kinds [OF kinds_PatchFinalizers]
      clean_kinds [OF kinds_cleanupChartSourceRef [OF assms]]) simp_all

lemma clean_uninstall_release:
  assumes "retry_contract (rr_Lib r)"
  shows "clean {dir} (uninstall_release r rel dir)"
  unfolding uninstall_release_def
  by (intro clean_intro clean_patches [OF uninstall.emits_build] clean_finish_delete [OF assms]) simp_all

lemma clean_reconcileDelete:
  assumes "retry_contract (rr_Lib r)"
  shows "clean {} (reconcileDelete r rel)"
  unfolding reconcileDelete_def
  by (rule clean_if, rule clean_return, rule clean_bind, rule clean_kinds [OF kinds_setCondition], simp,
      rule clean_bind, rule clean_kinds [OF kinds_StatusUpdate], simp, rule clean_case_sum, rule clean_return,
      rule clean_bind, rule clean_kinds [OF kinds_MkdirTemp], simp, rule clean_case_sum, rule clean_return,
      unfold RemoveAll_def, rule clean_removed [OF clean_uninstall_release [OF assms]], rule refl)

section \<open>Identity and ownership of nelm calls\<close>

text \<open>The connection options, the release labels and the release a call hands to nelm.\<close>

fun kube_of :: "call \<Rightarrow> KubeConnectionOptions option" where
  "kube_of (CReleaseGet n ns opts) = Some (GetO_Kube opts)"
| "kube_of (CReleasePlanInstall n ns opts) = Some (Plan_Kube opts)"
| "kube_of (CReleaseInstall n ns opts) = Some (Inst_Kube opts)"
| "kube_of (CReleaseRollback n ns opts) = Some (Roll_Kube opts)"
| "kube_of (CReleaseUninstall n ns opts) = Some (Un_Kube opts)"
| "kube_of (CNewKubeConfig k ns) = Some k"
| "kube_of _ = None"

fun labels_of :: "call \<Rightarrow> strmap option" where
  "labels_of (CReleaseInstall n ns opts) = Some (RO_ReleaseLabels (Inst_Runtime opts))"
| "labels_of (CReleaseRollback n ns opts) = Some (Roll_ReleaseLabels opts)"
| "labels_of (CUpdateLabels st n revision ls) = Some ls"
| "labels_of _ = None"

fun release_of :: "call \<Rightarrow> string option" where
  "release_of (CReleaseGet n ns opts) = Some n"
| "release_of (CReleasePlanInstall n ns opts) = Some n"
| "release_of (CReleaseInstall n ns opts) = Some n"
| "release_of (CReleaseRollback n ns opts) = Some n"
| "release_of (CReleaseUninstall n ns opts) = Some n"
| "release_of (CUpdateLabels st n revision ls) = Some n"
| "release_of _ = None"

fun namespace_of :: "call \<Rightarrow> string option" where
  "namespace_of (CReleaseGet n ns opts) = Some ns"
| "namespace_of (CReleasePlanInstall n ns opts) = Some ns"
| "namespace_of (CReleaseInstall n ns opts) = Some ns"
| "namespace_of (CReleaseRollback n ns opts) = Some ns"
| "namespace_of (CReleaseUninstall n ns opts) = Some ns"
| "namespace_of (CNewKubeConfig k ns) = Some ns"
| "namespace_of (CNewReleaseStorage ns driver cf sql) = Some ns"
| "namespace_of _ = None"

text \<open>
  \<open>attributed r rel c\<close>: as far as the call \<open>c\<close> goes to nelm, it is made with the identity of \<open>rel\<close>, for
  its release and namespace, and stores nothing without the ownership marker.
\<close>

definition attributed :: "'w ReleaseReconciler \<Rightarrow> Release \<Rightarrow> call \<times> bool \<Rightarrow> bool" where
  "attributed r rel c \<longleftrightarrow>
     pred_option (\<lambda>k. k = buildKubeConnectionOptions r rel) (kube_of (fst c)) \<and>
     pred_option (\<lambda>n. n = rel_Name rel) (release_of (fst c)) \<and>
     pred_option (\<lambda>ns. ns = GetReleaseNamespace rel) (namespace_of (fst c)) \<and>
     pred_option (\<lambda>ls. ls ownershipMarkerKey = Some ownershipMarkerValue) (labels_of (fst c))"

definition same_identity :: "Release \<Rightarrow> Release \<Rightarrow> bool" where
  "same_identity rel0 rel \<longleftrightarrow> rel_Name rel = rel_Name rel0 \<and>
     GetReleaseNamespace rel = GetReleaseNamespace rel0 \<and>
     Spec_ServiceAccountName (Release_Spec rel) = Spec_ServiceAccountName (Release_Spec rel0)"

lemma same_identity_kube:
  "same_identity rel0 rel \<Longrightarrow> buildKubeConnectionOptions r rel = buildKubeConnectionOptions r rel0"
  unfolding same_identity_def buildKubeConnectionOptions_def Let_def by (elim conjE) (simp only:)

lemma GetReleaseNamespace_meta_spec:
  "Release_Meta rel' = Release_Meta rel \<Longrightarrow>
   Spec_TargetNamespace (Release_Spec rel') = Spec_TargetNamespace (Release_Spec rel) \<Longrightarrow>
   GetReleaseNamespace rel' = GetReleaseNamespace rel"
  by (simp add: GetReleaseNamespace_def)

lemma same_identity_meta_spec:
  "same_identity rel0 rel \<Longrightarrow> Release_Meta rel' = Release_Meta rel \<Longrightarrow>
   Spec_TargetNamespace (Release_Spec rel') = Spec_TargetNamespace (Release_Spec rel) \<Longrightarrow>
   Spec_ServiceAccountName (Release_Spec rel') = Spec_ServiceAccountName (Release_Spec rel) \<Longrightarrow>
   same_identity rel0 rel'"
  by (simp add: same_identity_def GetReleaseNamespace_meta_spec [of rel' rel])

lemma same_identity_status [simp]: "same_identity rel0 (with_status f rel) = same_identity rel0 rel"
  by (simp add: same_identity_def GetReleaseNamespace_meta_spec [of "with_status f rel" rel])

lemma same_identity_refl [simp]: "same_identity rel rel"
  by (simp add: same_identity_def)

lemma same_identity_storage: "storage_only rel rel' \<Longrightarrow> same_identity rel0 rel \<Longrightarrow> same_identity rel0 rel'"
  by (erule same_identity_meta_spec) (simp_all add: storage_onlyD)

lemma same_identity_echo: "status_echo rel rel' \<Longrightarrow> same_identity rel0 rel \<Longrightarrow> same_identity rel0 rel'"
proof (erule same_identity_meta_spec)
  assume echo: "status_echo rel rel'"
  then have *: "Release_Spec rel' = (Release_Spec rel)\<lparr>Spec_ChartRef := Spec_ChartRef (Release_Spec rel')\<rparr>"
    by (simp add: status_echo_def)
  show "Spec_TargetNamespace (Release_Spec rel') = Spec_TargetNamespace (Release_Spec rel)"
    by (subst *) simp
  show "Spec_ServiceAccountName (Release_Spec rel') = Spec_ServiceAccountName (Release_Spec rel)"
    by (subst *) simp
qed (simp add: status_echo_def)

lemma signed_simp: "same_identity rel0 rel \<Longrightarrow> attributed r rel0 (c, b) \<longleftrightarrow>
    pred_option (\<lambda>k. k = buildKubeConnectionOptions r rel) (kube_of c) \<and>
    pred_option (\<lambda>n. n = rel_Name rel) (release_of c) \<and>
    pred_option (\<lambda>ns. ns = GetReleaseNamespace rel) (namespace_of c) \<and>
    pred_option (\<lambda>ls. ls ownershipMarkerKey = Some ownershipMarkerValue) (labels_of c)"
  by (simp add: attributed_def same_identity_kube) (simp add: same_identity_def)

lemma ownershipLabels_marker [simp]: "ownershipLabels ls ownershipMarkerKey = Some ownershipMarkerValue"
  by (simp add: ownershipLabels_def)

definition unsigned_kinds :: "call_kind set" where
  "unsigned_kinds = - {KStorageGet, KPlan, KInstall, KRollback, KUninstall, KStorageConnect, KLabels}"

lemma signed_kinds: "emits (in_kinds K) m \<Longrightarrow> K \<subseteq> unsigned_kinds \<Longrightarrow> emits (attributed r rel0) m"
proof (erule emits_mono)
  fix c
  assume "K \<subseteq> unsigned_kinds" and "in_kinds K c"
  then show "attributed r rel0 c"
    by (cases "fst c") (auto simp: attributed_def in_kinds_def unsigned_kinds_def)
qed

lemma emits_bind_post:
  assumes "emits P m" and "runs m (\<lambda>a cs. R a)" and "\<And>a. R a \<Longrightarrow> emits P (f a)"
  shows "emits P (State_Monad.bind m f)"
  unfolding emits_runs
  by (rule runs_bind, rule runs_mono [OF runs_conj [OF assms(1) [unfolded emits_runs] assms(2)]], elim conjE,
      rule runs_mono, erule assms(3) [unfolded emits_runs]) simp

lemma emits_bind_built:
  assumes "emits P m" and "\<And>res. (\<And>x. res = Inr x \<Longrightarrow> built m x) \<Longrightarrow> emits P (f res)"
  shows "emits P (State_Monad.bind m f)"
  by (rule emits_bind_post [OF assms(1) _ assms(2), where R = "\<lambda>res. \<forall>x. res = Inr x \<longrightarrow> built m x"],
      rule runs_mono [OF runs_built [OF assms(1)]]) auto

lemma signed_getRelease:
  "same_identity rel0 rel \<Longrightarrow> emits (attributed r rel0) (getRelease r rel (rel_Name rel) (GetReleaseNamespace rel))"
  unfolding getRelease_def by (intro emits_intro) (simp add: signed_simp)

lemma signed_projectStatus:
  assumes "same_identity rel0 rel" and "n = rel_Name rel" and "ns = GetReleaseNamespace rel"
  shows "emits (attributed r rel0) (projectStatusFromStorage r rel n ns captured refetch)"
  unfolding projectStatusFromStorage_def assms(2,3) by (intro emits_intro signed_getRelease assms(1))

lemma signed_stampOwnershipMarker:
  "same_identity rel0 rel \<Longrightarrow>
   emits (attributed r rel0) (stampOwnershipMarker r rel (rel_Name rel) (GetReleaseNamespace rel) revision)"
  unfolding stampOwnershipMarker_def by (intro emits_intro) (auto simp: signed_simp)

lemma signed_StatusUpdate: "emits (attributed r rel0) (StatusUpdate r rel)"
  by (rule signed_kinds [OF kinds_StatusUpdate]) (simp add: unsigned_kinds_def)

lemma signed_attemptRollback: "same_identity rel0 rel \<Longrightarrow> emits (attributed r rel0) (attemptRollback r rel)"
  unfolding attemptRollback_def Let_def
  by (rule emits_bind, rule signed_kinds [where K = "{KMkdirTemp}"], rule emits_perform, simp,
      simp add: unsigned_kinds_def, rule emits_case_sum, rule emits_return,
      rule emits_bind_built, rule signed_kinds [OF kinds_buildRollbackOptions], simp add: unsigned_kinds_def)
    (intro emits_intro signed_projectStatus; auto simp: signed_simp GetReleaseNamespace_def dest!: built_rollback)

lemma signed_handleFailure:
  assumes "same_identity rel0 rel"
  shows "emits (attributed r rel0) (handleFailure r rel attempted e captured refetch)"
  unfolding handleFailure_def setCondition_def Let_def
  by (rule emits_bind_post [where R = "storage_only rel"], rule signed_projectStatus [OF assms refl refl],
      rule runs_projectStatus, assumption)
    (intro emits_intro signed_attemptRollback signed_StatusUpdate; simp add: same_identity_storage [OF _ assms])

lemma signed_handleSuccess:
  assumes "same_identity rel0 rel" and "n = rel_Name rel" and "ns = GetReleaseNamespace rel"
  shows "emits (attributed r rel0) (handleSuccess r rel n ns captured refetch)"
  unfolding handleSuccess_def setCondition_def
  by (intro emits_intro signed_projectStatus [OF assms] signed_StatusUpdate)

lemma signed_emitEvent: "emits (attributed r rel0) (emitEvent r rel t reason m)"
  by (rule signed_kinds [OF kinds_emitEvent]) (simp add: unsigned_kinds_def)

lemma signed_up_to_date:
  assumes "same_identity rel0 rel"
  shows "emits (attributed r rel0) (install_up_to_date r rel preRel foreign)"
  unfolding install_up_to_date_def Let_def
  by (intro emits_intro signed_stampOwnershipMarker signed_emitEvent signed_handleFailure signed_handleSuccess
      assms refl)

lemma signed_changes:
  assumes "same_identity rel0 rel"
  shows "emits (attributed r rel0) (install_changes r rel cr dir rv art preRel foreign)"
  unfolding install_changes_def Let_def
  by (rule emits_bind_built, rule signed_kinds [OF kinds_buildInstallOptions], simp add: unsigned_kinds_def)
    (intro emits_intro signed_handleFailure signed_emitEvent signed_handleSuccess assms;
      use assms in \<open>auto simp: signed_simp [OF assms] GetReleaseNamespace_def built_install_kube built_install_labels\<close>)

lemma signed_install_release:
  assumes "same_identity rel0 rel"
  shows "emits (attributed r rel0) (install_release r rel cr dir preRel foreign)"
  unfolding install_release_def Let_def
  by (rule emits_bind, rule signed_kinds [OF values_kind.emits_Resolve], simp add: unsigned_kinds_def values_kinds_def,
      rule emits_case_sum, rule signed_handleFailure [OF assms], rule emits_bind_built,
      rule signed_kinds [OF kinds_buildPlanInstallOptions], simp add: unsigned_kinds_def)
    (intro emits_intro signed_handleFailure signed_up_to_date signed_changes assms;
      auto simp: signed_simp [OF assms] built_plan_kube)

lemma signed_reconcileInstall:
  "same_identity rel0 rel \<Longrightarrow> emits (attributed r rel0) (reconcileInstall r rel cr dir preRel foreign)"
  unfolding reconcileInstall_def Let_def by (rule signed_install_release) simp

lemma signed_reconcile_chart:
  assumes "same_identity rel0 rel"
  shows "emits (attributed r rel0) (reconcile_chart r rel ref dir preRel foreign)"
  unfolding reconcile_chart_def
  by (intro emits_intro signed_projectStatus [OF assms refl refl] signed_StatusUpdate
      signed_handleFailure [OF assms] signed_reconcileInstall signed_kinds [OF kinds_ResolveChartRef])
    (use assms in \<open>simp_all add: unsigned_kinds_def kind_sets\<close>)

section \<open>Absence of panics\<close>

fun returns :: "outcome \<Rightarrow> bool" where
  "returns (Returned res e) = True"
| "returns (Panicked m) = False"

text \<open>The failure counter is one that counting up from zero can reach.\<close>

definition counter_ok :: "Release \<Rightarrow> bool" where
  "counter_ok rel \<longleftrightarrow> 0 \<le> Status_LastActionFailures (Release_Status rel) \<and>
     Status_LastActionFailures (Release_Status rel) < 2 ^ 63 - 1"

lemma returns_handleFailure:
  assumes "condition_contract (rr_Lib r)" and "status_contract r" and "counter_ok rel"
  shows "runs (handleFailure r rel attempted e captured refetch) (\<lambda>out cs. returns out)"
proof (rule runs_mono [OF handleFailure_runs [OF assms(1,2)]])
  fix out cs
  assume "failure_trace rel attempted e out cs"
  moreover have "failures_after rel = Status_LastActionFailures (Release_Status rel) + 1"
    using assms(3) by (simp add: failures_after_def counter_ok_def)
  then have "backoff (failures_after rel) \<noteq> None"
    using assms(3) by (simp add: backoff_def counter_ok_def)
  ultimately show "returns out"
    by (auto simp: failure_trace_def failure_outcome_def split: if_splits option.splits)
qed

lemma returns_handleSuccess:
  assumes "condition_contract (rr_Lib r)" and "status_contract r"
  shows "runs (handleSuccess r rel n ns captured refetch) (\<lambda>out cs. returns out)"
  by (rule runs_mono [OF handleSuccess_runs [OF assms]]) (auto simp: success_trace_def split: if_splits)

lemma counter_ok_status [simp]:
  "counter_ok (with_status (\<lambda>s. s\<lparr>Status_LastActionFailures := 0\<rparr>) rel)"
  "counter_ok (with_status (\<lambda>s. s\<lparr>Status_LastAction := a\<rparr>) rel) = counter_ok rel"
  "counter_ok (with_status (\<lambda>s. s\<lparr>Status_LastAttemptedArtifactDigest := d,
     Status_LastAttemptedArtifactRevision := v\<rparr>) rel) = counter_ok rel"
  by (simp_all add: counter_ok_def)

definition resolved_ok :: "resolved \<Rightarrow> bool" where
  "resolved_ok res = (case res of Inl out \<Rightarrow> returns out | Inr (ref, rel) \<Rightarrow> counter_ok rel)"

text \<open>What the proofs about a whole reconciliation assume of the environment.\<close>

locale reporting =
  fixes r :: "'w ReleaseReconciler"
  assumes condition_law: "condition_contract (rr_Lib r)"
    and status_law: "status_contract r"
    and retry_law: "retry_contract (rr_Lib r)"
begin

lemma failure_returns:
  "counter_ok rel \<Longrightarrow> runs (handleFailure r rel attempted e captured refetch) (\<lambda>out cs. returns out)"
  by (rule returns_handleFailure [OF condition_law status_law])

lemma success_returns: "runs (handleSuccess r rel n ns captured refetch) (\<lambda>out cs. returns out)"
  by (rule returns_handleSuccess [OF condition_law status_law])

lemma any_runs: "emits (in_kinds K) m \<Longrightarrow> (\<And>a. Q a) \<Longrightarrow> runs m (\<lambda>a cs. Q a)"
  by (erule runs_emits)

lemma up_to_date_returns:
  "counter_ok rel \<Longrightarrow> runs (install_up_to_date r rel preRel foreign) (\<lambda>out cs. returns out)"
  unfolding install_up_to_date_def Let_def
  by (rule runs_bind, rule runs_emits [where P = "\<lambda>_. True"],
      intro emits_intro emits_mono [OF kinds_stampOwnershipMarker], simp, rule runs_case_option,
      rule runs_bind, rule runs_emits [where P = "\<lambda>_. True"],
      intro emits_intro emits_mono [OF kinds_emitEvent], simp)
    (auto intro: success_returns failure_returns)

lemma changes_returns:
  "counter_ok rel \<Longrightarrow> runs (install_changes r rel cr dir rv art preRel foreign) (\<lambda>out cs. returns out)"
  unfolding install_changes_def Let_def
  by (intro runs_bind runs_emits [OF kinds_buildInstallOptions] runs_case_sum failure_returns runs_perform
      runs_case_option runs_if runs_emits [OF kinds_emitEvent] runs_return success_returns)

lemma install_returns:
  assumes "counter_ok rel"
  shows "runs (reconcileInstall r rel cr dir preRel foreign) (\<lambda>out cs. returns out)"
proof -
  have "runs (install_release r rel' cr dir preRel foreign) (\<lambda>out cs. returns out)" if "counter_ok rel'" for rel'
    unfolding install_release_def Let_def
    by (intro runs_bind runs_emits [OF values_kind.emits_Resolve] runs_case_sum failure_returns that runs_perform
        runs_emits [OF kinds_buildPlanInstallOptions] runs_case_prod runs_case_option runs_if
        up_to_date_returns changes_returns)
  then show ?thesis using assms by (simp add: reconcileInstall_def Let_def)
qed

lemma chart_returns:
  "counter_ok rel \<Longrightarrow> runs (reconcile_chart r rel ref dir preRel foreign) (\<lambda>out cs. returns out)"
  unfolding reconcile_chart_def
  by (intro runs_bind runs_emits [OF kinds_ResolveChartRef] runs_case_sum runs_case_option failure_returns
      runs_emits [OF kinds_projectStatus] runs_emits [OF kinds_StatusUpdate] runs_return install_returns)
    (auto simp: fail_with_def split: sum.splits)

lemma fail_resolve_ok: "counter_ok rel \<Longrightarrow> runs (fail_resolve r rel e) (\<lambda>res cs. resolved_ok res)"
  unfolding fail_resolve_def
  by (intro runs_bind runs_mono [OF failure_returns] runs_return) (simp_all add: resolved_ok_def)

lemma advance_ok: "runs (advance r rel) (\<lambda>res cs. resolved_ok res)"
  by (rule runs_advance) (simp_all add: resolved_ok_def)

lemma without_chart_ok:
  assumes "counter_ok rel" and "Spec_ChartRef (Release_Spec rel) \<noteq> None"
  shows "runs (resolve_without_chart r rel) (\<lambda>res cs. resolved_ok res)"
  unfolding resolve_without_chart_def Let_def
  by (intro runs_if runs_bind runs_emits [OF kinds_cleanupChartSourceRef [OF retry_law]] runs_case_option
      fail_resolve_ok assms(1) runs_StatusUpdate_report [OF status_law] runs_case_sum runs_return
      runs_emits [OF kinds_cleanupHelmChart])
    (use assms in \<open>auto simp: resolved_ok_def counter_ok_def status_echo_def\<close>)

lemma resolve_ok:
  assumes "counter_ok rel" and "Spec_Chart (Release_Spec rel) \<noteq> None \<or> Spec_ChartRef (Release_Spec rel) \<noteq> None"
  shows "runs (resolveChartRef r rel) (\<lambda>res cs. resolved_ok res)"
  unfolding resolveChartRef_def Let_def resolve_ready_def
  by (intro runs_case_option without_chart_ok runs_case_sum runs_if runs_bind fail_resolve_ok advance_ok
      runs_emits [OF kinds_ensureHelmChart] runs_return
      runs_emits [OF kinds_cleanupChartSourceRef [OF retry_law]]
      runs_emits [OF kinds_ensureChartSourceRef [OF retry_law]])
    (use assms in \<open>auto simp: resolved_ok_def\<close>)

lemma live_returns:
  assumes "counter_ok rel" and "Spec_Chart (Release_Spec rel) \<noteq> None \<or> Spec_ChartRef (Release_Spec rel) \<noteq> None"
  shows "runs (reconcile_live r rel) (\<lambda>out cs. returns out)"
  unfolding reconcile_live_def reconcile_resolved_def Let_def
  by (intro runs_bind runs_mono [OF resolve_ok] assms runs_case_sum runs_case_prod runs_return
      runs_emits [OF kinds_getRelease] failure_returns runs_emits [OF kinds_MkdirTemp]
      runs_mono [OF chart_returns] runs_emits [OF kinds_RemoveAll])
    (auto simp: resolved_ok_def)

lemma delete_returns: "runs (reconcileDelete r rel) (\<lambda>out cs. returns out)"
  unfolding reconcileDelete_def uninstall_release_def finish_delete_def setCondition_def
  by (intro runs_bind runs_if runs_return runs_observe runs_emits [OF kinds_StatusUpdate] runs_case_sum
      runs_emits [OF kinds_MkdirTemp] runs_emits [OF kinds_buildUninstallOptions] runs_perform runs_case_option
      runs_emits [OF kinds_cleanupChartSourceRef [OF retry_law]] runs_emits [OF kinds_PatchFinalizers]
      runs_emits [OF kinds_RemoveAll])
    (auto simp: fail_with_def split: sum.splits)

end

section \<open>Identity through a reconciliation\<close>

definition resolved_as :: "Release \<Rightarrow> resolved \<Rightarrow> bool" where
  "resolved_as rel0 res = (case res of Inl out \<Rightarrow> True | Inr (ref, rel) \<Rightarrow> same_identity rel0 rel)"

lemma fail_resolved_as: "runs (fail_resolve r rel e) (\<lambda>res cs. resolved_as rel0 res)"
  unfolding fail_resolve_def
  by (intro runs_bind runs_emits [OF kinds_handleFailure] runs_return) (simp add: resolved_as_def)

lemma advance_resolved_as: "runs (advance r rel) (\<lambda>res cs. resolved_as rel0 res)"
  by (rule runs_advance) (simp_all add: resolved_as_def)

context reporting
begin

lemma resolve_identity:
  assumes "same_identity rel0 rel"
  shows "runs (resolveChartRef r rel) (\<lambda>res cs. resolved_as rel0 res)"
  unfolding resolveChartRef_def Let_def resolve_ready_def resolve_without_chart_def
  by (intro runs_case_option runs_case_sum runs_if runs_bind fail_resolved_as advance_resolved_as
      runs_emits [OF kinds_ensureHelmChart] runs_return runs_emits [OF kinds_StatusUpdate]
      runs_emits [OF kinds_cleanupHelmChart]
      runs_emits [OF kinds_cleanupChartSourceRef [OF retry_law]]
      runs_emits [OF kinds_ensureChartSourceRef [OF retry_law]])
    (use assms in \<open>auto simp: resolved_as_def elim: same_identity_meta_spec\<close>)

lemma signed_fail_resolve: "same_identity rel0 rel \<Longrightarrow> emits (attributed r rel0) (fail_resolve r rel e)"
  unfolding fail_resolve_def by (intro emits_intro signed_handleFailure)

lemma signed_after_update:
  assumes "same_identity rel0 rel"
    and "\<And>e. emits (attributed r rel0) (f (Inl e))"
    and "\<And>rel'. same_identity rel0 rel' \<Longrightarrow> emits (attributed r rel0) (f (Inr rel'))"
  shows "emits (attributed r rel0) (State_Monad.bind (StatusUpdate r rel) f)"
proof (rule emits_bind_post [OF signed_StatusUpdate])
  show "runs (StatusUpdate r rel) (\<lambda>u cs. \<forall>rel'. u = Inr rel' \<longrightarrow> same_identity rel0 rel')"
    by (rule runs_StatusUpdate_report [OF status_law]) (use assms(1) in \<open>auto elim: same_identity_echo\<close>)
  show "emits (attributed r rel0) (f u)" if "\<forall>rel'. u = Inr rel' \<longrightarrow> same_identity rel0 rel'" for u
    using that assms(2,3) by (cases u) auto
qed

lemma signed_without_chart:
  assumes "same_identity rel0 rel"
  shows "emits (attributed r rel0) (resolve_without_chart r rel)"
  unfolding resolve_without_chart_def Let_def
  by (intro signed_after_update emits_intro signed_fail_resolve signed_kinds [OF kinds_cleanupHelmChart]
      signed_kinds [OF kinds_cleanupChartSourceRef [OF retry_law]])
    (use assms in \<open>auto simp: unsigned_kinds_def intro: emits_return\<close>)

lemma signed_resolveChartRef:
  assumes "same_identity rel0 rel"
  shows "emits (attributed r rel0) (resolveChartRef r rel)"
  unfolding resolveChartRef_def resolve_ready_def advance_def
  by (intro emits_intro signed_fail_resolve signed_without_chart assms signed_StatusUpdate
      signed_kinds [OF kinds_ensureHelmChart]
      signed_kinds [OF kinds_ensureChartSourceRef [OF retry_law]]
      signed_kinds [OF kinds_cleanupChartSourceRef [OF retry_law]])
    (simp_all add: unsigned_kinds_def)

lemma signed_resolved: "same_identity rel0 rel \<Longrightarrow> emits (attributed r rel0) (reconcile_resolved r rel ref)"
  unfolding reconcile_resolved_def
  by (intro emits_intro signed_getRelease signed_handleFailure signed_reconcile_chart
      signed_kinds [OF kinds_MkdirTemp] signed_kinds [OF kinds_RemoveAll]) (auto simp: unsigned_kinds_def)

lemma signed_live: "emits (attributed r rel) (reconcile_live r rel)"
  unfolding reconcile_live_def
  by (rule emits_bind_post [OF signed_resolveChartRef resolve_identity])
    (auto simp: resolved_as_def intro: emits_return signed_resolved split: sum.splits)

lemma signed_finish_delete: "emits (attributed r rel0) (finish_delete r rel)"
  unfolding finish_delete_def
  by (intro emits_intro signed_StatusUpdate signed_kinds [OF kinds_PatchFinalizers]
      signed_kinds [OF kinds_cleanupChartSourceRef [OF retry_law]])
    (simp_all add: unsigned_kinds_def)

lemma signed_uninstall_release:
  assumes "same_identity rel0 rel"
  shows "emits (attributed r rel0) (uninstall_release r rel dir)"
  unfolding uninstall_release_def
  by (rule emits_bind_built, rule signed_kinds [OF kinds_buildUninstallOptions], simp add: unsigned_kinds_def)
    (intro emits_intro signed_finish_delete; auto simp: signed_simp [OF assms] built_uninstall)

lemma signed_delete: "emits (attributed r rel) (reconcileDelete r rel)"
  unfolding reconcileDelete_def setCondition_def State_Monad.bind_assoc State_Monad.bind_left_identity
  by (rule emits_if, rule emits_return, rule emits_bind, rule emits_observe, rule signed_after_update, simp)
    (unfold sum.case, intro emits_intro signed_kinds [OF kinds_MkdirTemp] signed_kinds [OF kinds_RemoveAll]
      signed_uninstall_release; simp add: unsigned_kinds_def)+

end

end
