(* ===== verification/Reconcile_Safety.thy ===== *)
theory Reconcile_Safety
  imports Reconcile
begin

text \<open>
  Theorems about whole runs of \<^verbatim>\<open>Reconcile\<close>: it never panics, installs only what was planned, acts
  with the identity of the release, deletes in order, leaves no files behind, and does what the
  object it read allows. Each holds for every environment with the stated contracts and for every
  failure of every call; the concrete runs are in the reference environment.
\<close>

section \<open>The gates of the reconciler\<close>

lemma runs_Reconcile:
  assumes "\<And>err. Q (Returned no_result (if IsNotFound err then None else Some err)) [(CGetRelease req, False)]"
    and "\<And>rel w w'. client_GetRelease (rr_Client r) req w = (Inr rel, w') \<Longrightarrow>
      Meta_DeletionTimestamp (Release_Meta rel) \<noteq> None \<Longrightarrow>
      runs (reconcileDelete r rel) (\<lambda>out cs. Q out ((CGetRelease req, True) # cs))"
    and "Q (Returned no_result None) [(CGetRelease req, True)]"
    and "\<And>rel fs ok out. out = (if ok then Returned requeue None else out) \<Longrightarrow> returns out \<Longrightarrow>
      Q out [(CGetRelease req, True), (CPatchRelease (rel\<lparr>Release_Meta := (Release_Meta rel)\<lparr>Meta_Finalizers := fs\<rparr>\<rparr>) rel, ok)]"
    and "\<And>rel w w'. client_GetRelease (rr_Client r) req w = (Inr rel, w') \<Longrightarrow>
      Meta_DeletionTimestamp (Release_Meta rel) = None \<Longrightarrow>
      runs (reconcile_live r rel) (\<lambda>out cs. Q out ((CGetRelease req, True) # cs))"
  shows "runs (Reconcile r req) Q"
  unfolding Reconcile_def
proof (rule runs_bind, rule runs_perform, goal_cases)
  case (1 a w w')
  show ?case
  proof (cases a)
    case (Inl err)
    show ?thesis
      unfolding Inl sum.case succeeded_simps append_Cons append_Nil by (rule runs_return) (rule assms(1))
  next
    case (Inr rel)
    have patch: "runs (PatchFinalizers r rel fs) (\<lambda>p cs. \<exists>ok. cs = [(CPatchRelease (rel\<lparr>Release_Meta :=
        (Release_Meta rel)\<lparr>Meta_Finalizers := fs\<rparr>\<rparr>) rel, ok)] \<and> (ok \<longleftrightarrow> succeeded p))" for fs
      unfolding PatchFinalizers_def Let_def by (rule runs_perform) simp
    show ?thesis
      unfolding Inr sum.case succeeded_simps append_Cons append_Nil
      by (intro runs_if assms(2,5) runs_return assms(3) runs_bind runs_mono [OF patch])
        (use 1 Inr in \<open>auto simp: fail_with_def intro!: assms(4) split: sum.splits\<close>)
  qed
qed

text \<open>What is done with the object that was read.\<close>

definition decided :: "'w ReleaseReconciler \<Rightarrow> Release \<Rightarrow> ('w, outcome) io" where
  "decided r rel =
    (if Meta_DeletionTimestamp (Release_Meta rel) \<noteq> None then reconcileDelete r rel
     else if Spec_Suspend (Release_Spec rel) then returnM (Returned no_result None)
     else if \<not> lib_ContainsFinalizer (rr_Lib r) (Meta_Finalizers (Release_Meta rel)) ReleaseFinalizerName then do {
       p \<leftarrow> PatchFinalizers r rel
              (lib_AddFinalizer (rr_Lib r) (Meta_Finalizers (Release_Meta rel)) ReleaseFinalizerName);
       returnM (case p of
          Inl err \<Rightarrow> fail_with ''add finalizer'' err
        | Inr _ \<Rightarrow> Returned requeue None)
     }
     else reconcile_live r rel)"

lemma run_Reconcile_found:
  assumes "client_GetRelease (rr_Client r) req (world s) = (Inr rel, w)"
  shows "run_state (Reconcile r req) s = run_state (decided r rel) \<lparr>world = w, calls = calls s @ [(CGetRelease req, True)]\<rparr>"
  unfolding Reconcile_def decided_def by (simp add: wp assms)

lemma decided_cases:
  "Meta_DeletionTimestamp (Release_Meta rel) \<noteq> None \<Longrightarrow> decided r rel = reconcileDelete r rel"
  "Meta_DeletionTimestamp (Release_Meta rel) = None \<Longrightarrow> Spec_Suspend (Release_Spec rel) \<Longrightarrow>
     decided r rel = returnM (Returned no_result None)"
  "Meta_DeletionTimestamp (Release_Meta rel) = None \<Longrightarrow> \<not> Spec_Suspend (Release_Spec rel) \<Longrightarrow>
     lib_ContainsFinalizer (rr_Lib r) (Meta_Finalizers (Release_Meta rel)) ReleaseFinalizerName \<Longrightarrow>
     decided r rel = reconcile_live r rel"
  by (simp_all add: decided_def)

lemma trace_Reconcile_found:
  assumes "client_GetRelease (rr_Client r) req (world s) = (Inr rel, w)"
    and "run_state (Reconcile r req) s = run_state m \<lparr>world = w, calls = calls s @ [(CGetRelease req, True)]\<rparr>"
    and "runs m Q"
  shows "\<exists>cs. trace (Reconcile r req) s = (CGetRelease req, True) # cs \<and> Q (fst (run_state (Reconcile r req) s)) cs"
proof -
  from assms(3) obtain cs where "calls (snd (run_state (Reconcile r req) s)) = calls s @ (CGetRelease req, True) # cs"
    and "Q (fst (run_state (Reconcile r req) s)) cs"
    unfolding assms(2) runs_def by (metis append.assoc append_Cons append_Nil sys.select_convs(2))
  then show ?thesis by (simp add: trace_def)
qed

lemma mem_retry_contract: "retry_contract (rr_Lib mem_reconciler)"
  using mem_store_contract by (simp add: store_contract_def)

interpretation mem_reporting: reporting mem_reconciler
  by (unfold_locales) (simp_all add: mem_contracts mem_retry_contract)

lemma list_kinds_mono: "list_all (in_kinds K) cs \<Longrightarrow> K \<subseteq> K' \<Longrightarrow> list_all (in_kinds K') cs"
  by (erule list.pred_mono_strong) (auto simp: in_kinds_def)

lemma hoare_case_option:
  "(x = None \<Longrightarrow> hoare P m Q) \<Longrightarrow> (\<And>a. x = Some a \<Longrightarrow> hoare P (f a) Q) \<Longrightarrow>
   hoare P (case x of None \<Rightarrow> m | Some a \<Rightarrow> f a) Q"
  by (cases x) simp_all

lemma hoare_case_sum:
  "(\<And>e. x = Inl e \<Longrightarrow> hoare P (f e) Q) \<Longrightarrow> (\<And>a. x = Inr a \<Longrightarrow> hoare P (g a) Q) \<Longrightarrow>
   hoare P (case x of Inl e \<Rightarrow> f e | Inr a \<Rightarrow> g a) Q"
  by (cases x) simp_all

section \<open>Sources of a deleted release\<close>

text \<open>A patch of a Release changes no source object; HelmCharts, which a Release owns, may be collected.\<close>

definition patch_frame :: "'w ReleaseReconciler \<Rightarrow> ('w \<Rightarrow> obj_key \<rightharpoonup> json) \<Rightarrow> bool" where
  "patch_frame r store \<longleftrightarrow>
     (\<forall>rel base w k. GVK_Kind (fst k) \<noteq> HelmChartKind \<longrightarrow>
        store (snd (client_PatchRelease (rr_Client r) rel base w)) k = store w k)"

lemma mem_patch_frame: "patch_frame mem_reconciler mem_store"
proof -
  have "mem_store (mem_put_release rel w) = mem_store w" for rel w
    by (rule ext) (simp add: mem_store_def mem_put_release_def)
  then show ?thesis
    by (simp add: patch_frame_def mem_reconciler_def mem_client_def mem_PatchRelease_def unless_down_def)
qed

lemma hoare_finish_delete:
  assumes "api_contract r store okey" and "patch_frame r store"
  shows "hoare (\<lambda>t. source_users r store (world t) = A) (finish_delete r rel)
    (\<lambda>out t. out = Returned no_result None \<longrightarrow>
       source_users r store (world t) = opt_remove r (rel_Name rel) (Status_LastAppliedChartSource (Release_Status rel)) A)"
    (is "hoare ?P _ ?Q")
proof -
  have update: "hoare ?P (StatusUpdate r (with_status f rel)) (\<lambda>u t. ?P t \<and> (\<forall>rel'. u = Inr rel' \<longrightarrow>
      status_echo (with_status f rel) rel'))" for f
    by (rule hoare_conj [OF hoare_keeps [OF keeps_store_users [OF keeps_StatusUpdate [OF api_contractD(2) [OF assms(1)]]]]
          hoare_runs [OF runs_StatusUpdate_report [OF api_contractD(4) [OF assms(1)]]]]) auto
  have patch: "hoare (\<lambda>t. source_users r store (world t) = B) (PatchFinalizers r rel' fs)
      (\<lambda>_ t. source_users r store (world t) = B)" for B rel' fs
    unfolding PatchFinalizers_def Let_def
    by (intro hoare_keeps keeps_perform source_users_cong) (use assms(2) in \<open>unfold patch_frame_def, blast\<close>)
  let ?B = "opt_remove r (rel_Name rel) (Status_LastAppliedChartSource (Release_Status rel)) A"
  have rest: "hoare ?P (do {
      e \<leftarrow> (if Status_LastAppliedChartSource (Release_Status rel') \<noteq> None
            then cleanupChartSourceRef r rel' (Status_LastAppliedChartSource (Release_Status rel'))
            else returnM None);
      case e of
        Some err \<Rightarrow> returnM (fail_with ''delete inline source ref on delete reconcile'' err)
      | None \<Rightarrow> do {
          p \<leftarrow> PatchFinalizers r rel'
                 (lib_RemoveFinalizer (rr_Lib r) (Meta_Finalizers (Release_Meta rel')) ReleaseFinalizerName);
          returnM (case p of Inl err \<Rightarrow> fail_with ''remove finalizer'' err | Inr _ \<Rightarrow> Returned no_result None)
        }
    }) ?Q" if "status_echo (with_status (\<lambda>s. s\<lparr>Status_LastAction := ''uninstall''\<rparr>) rel) rel'" for rel'
  proof (rule hoare_bind)
    from that have same: "rel_Name rel' = rel_Name rel"
      "Status_LastAppliedChartSource (Release_Status rel') = Status_LastAppliedChartSource (Release_Status rel)"
      by (simp_all add: status_echo_def)
    show "hoare ?P (if Status_LastAppliedChartSource (Release_Status rel') \<noteq> None
        then cleanupChartSourceRef r rel' (Status_LastAppliedChartSource (Release_Status rel')) else returnM None)
      (\<lambda>e t. e = None \<longrightarrow> source_users r store (world t) = ?B)"
      using hoare_cleanup_users [OF assms(1), of A rel']
      by (auto simp: same opt_remove_def intro!: hoare_if hoare_return)
  qed (rule hoare_case_option, auto simp: fail_with_def intro!: hoare_bind [OF patch] hoare_return)
  show ?thesis
    unfolding finish_delete_def
    by (rule hoare_bind [OF update], rule hoare_case_sum, rule hoare_return, simp add: fail_with_def,
        rule hoare_assume, rule rest) simp
qed

section \<open>A world to reconcile in\<close>

definition demo_key :: NamespacedName where
  "demo_key = \<lparr>NN_Namespace = ''prod'', NN_Name = ''app''\<rparr>"

definition demo_chart_ref :: ChartSourceRef where
  "demo_chart_ref = \<lparr>ChartRef_APIVersion = '''', ChartRef_Kind = HelmChartKind, ChartRef_Name = ''chart'', ChartRef_Namespace = ''''\<rparr>"

definition demo_referring :: Release where
  "demo_referring = demo_release\<lparr>Release_Spec := empty_spec\<lparr>Spec_ChartRef := Some demo_chart_ref\<rparr>\<rparr>"

text \<open>A ready HelmChart with an artifact.\<close>

definition demo_ready_chart :: json where
  "demo_ready_chart = JObject
     [(''kind'', JString HelmChartKind),
      (''metadata'', JObject [(''name'', JString ''chart''), (''namespace'', JString ''prod'')]),
      (''spec'', JObject []),
      (''status'', JObject
        [(''conditions'', JArray [JObject [(''type'', JString ''Ready''), (''status'', JString ''True'')]]),
         (''artifact'', JObject [(''url'', JString ''http://s/c.tgz'')])])]"

definition demo_world :: "Release \<Rightarrow> mem_world" where
  "demo_world rel = (mem_put demo_ready_chart (mem_put_release rel empty_world))
     \<lparr>mw_plan := (Some (Opaque ''plan''), Some (ExtError ErrReleaseInstallPlanned ''install planned''))\<rparr>"

definition demo_deleted :: Release where
  "demo_deleted = demo_referring\<lparr>Release_Meta := (Release_Meta demo_referring)
     \<lparr>Meta_DeletionTimestamp := Some ''2026-01-02T00:00:00Z''\<rparr>\<rparr>"

definition kinds_of :: "(call \<times> bool) list \<Rightarrow> call_kind list" where
  "kinds_of cs = map (kind_of \<circ> fst) cs"

lemma demo_run: "kinds_of (trace (Reconcile mem_reconciler demo_key) (start (demo_world demo_referring))) =
    [KReleaseGet, KStorageGet, KMkdirTemp, KObjectGet, KTempFile, KHttp, KTempFile, KPlan, KInstall, KStorageGet,
     KStatusUpdate, KRemoveAll]"
  by code_simp

lemma demo_delete_run: "kinds_of (trace (Reconcile mem_reconciler demo_key) (start (demo_world demo_deleted))) =
    [KReleaseGet, KStatusUpdate, KMkdirTemp, KUninstall, KStatusUpdate, KReleasePatch, KRemoveAll]"
  by code_simp

lemma demo_found:
  "client_GetRelease (rr_Client mem_reconciler) demo_key (world (start (demo_world rel))) = (Inr rel, demo_world rel)"
  if "mem_key rel = demo_key"
  using that by (simp add: mem_reconciler_def mem_client_def mem_GetRelease_def unless_down_def start_def
      demo_world_def mem_put_def mem_put_release_def empty_world_def)

lemma demo_keys [simp]: "mem_key demo_referring = demo_key" "mem_key demo_deleted = demo_key"
  by (simp_all add: mem_key_def demo_key_def demo_deleted_def demo_referring_def demo_release_def)

lemma demo_referring_facts [simp]:
  "counter_ok demo_referring" "Spec_ChartRef (Release_Spec demo_referring) = Some demo_chart_ref"
  "Spec_ServiceAccountName (Release_Spec demo_referring) = []" "GetReleaseNamespace demo_referring = ''prod''"
  "Config_DefaultServiceAccountName (rr_Config mem_reconciler) = ''deployer''"
  by (simp_all add: counter_ok_def demo_referring_def demo_release_def empty_spec_def empty_status_def
      GetReleaseNamespace_def mem_reconciler_def mem_config_def)

section \<open>Properties\<close>

text \<open>C3. A reconciliation never panics: whatever the API server, the file system and nelm answer, it
  returns a result or an error, as long as the releases the API server holds have a chart or a
  reference to one, which the validation rule of the resource demands, and a failure counter that
  counting up from zero can reach.\<close>

theorem Reconcile_never_panics:
  assumes "condition_contract (rr_Lib r)" and "status_contract r" and "retry_contract (rr_Lib r)"
    and "\<And>rel w. client_GetRelease (rr_Client r) req (world s) = (Inr rel, w) \<Longrightarrow> counter_ok rel \<and>
      (Spec_Chart (Release_Spec rel) \<noteq> None \<or> Spec_ChartRef (Release_Spec rel) \<noteq> None)"
  shows "returns (fst (run_state (Reconcile r req) s))"
proof (cases "client_GetRelease (rr_Client r) req (world s)")
  case (Pair got w)
  have rep: "reporting r" using assms(1-3) by (rule reporting.intro)
  show ?thesis
  proof (cases got)
    case (Inl err)
    with Pair show ?thesis by (simp add: Reconcile_def wp)
  next
    case (Inr rel)
    note found = Pair [unfolded Inr]
    have "runs (decided r rel) (\<lambda>out cs. returns out)"
      unfolding decided_def PatchFinalizers_def Let_def fail_with_def
      by (intro runs_if reporting.delete_returns [OF rep] reporting.live_returns [OF rep] runs_bind runs_return runs_perform)
        (use assms(4) [OF found] in \<open>auto split: sum.splits\<close>)
    then show ?thesis unfolding run_Reconcile_found [OF found] runs_def by blast
  qed
qed

theorem Reconcile_never_panics_witness: "returns (fst (run_state (Reconcile mem_reconciler demo_key) (start (demo_world demo_referring))))"
proof (rule Reconcile_never_panics)
  show "counter_ok rel \<and> (Spec_Chart (Release_Spec rel) \<noteq> None \<or> Spec_ChartRef (Release_Spec rel) \<noteq> None)"
    if "client_GetRelease (rr_Client mem_reconciler) demo_key (world (start (demo_world demo_referring))) = (Inr rel, w)"
    for rel w
    using that by (simp add: demo_found)
qed (simp_all add: mem_contracts mem_retry_contract)

text \<open>C4. Nothing is installed that was not planned: in every reconciliation, each installation comes
  after a plan for the same release and namespace, its options deploy the same chart with the same
  values, labels, patches and identity as the plan's, and it applies an artifact that nelm returns
  for that plan together with the error that announces changes.\<close>

theorem Reconcile_installs_as_planned:
  assumes "retry_contract (rr_Lib r)"
  shows "planned r {} (trace (Reconcile r req) s)"
proof -
  have "runs (Reconcile r req) (\<lambda>out cs. planned r {} cs)"
    by (rule runs_Reconcile)
      (auto intro: runs_mono [OF planned_reconcile_live [OF assms]]
        runs_kinds_planned [OF kinds_reconcileDelete [OF assms]] simp: delete_kinds_def)
  from runs_trace [OF this] show ?thesis .
qed

theorem Reconcile_installs_as_planned_witness:
  "planned mem_reconciler {} (trace (Reconcile mem_reconciler demo_key) (start (demo_world demo_referring))) \<and>
   KInstall \<in> set (kinds_of (trace (Reconcile mem_reconciler demo_key) (start (demo_world demo_referring))))"
  using Reconcile_installs_as_planned [OF mem_retry_contract] by (simp add: demo_run)

text \<open>C16. Every reconciliation removes the temporary directories it created files in, also when it fails
  half way: after each call that creates a file in a directory there is one that removes the
  directory.\<close>

theorem Reconcile_leaves_no_files:
  assumes "retry_contract (rr_Lib r)"
  shows "leftover (trace (Reconcile r req) s) = {}"
proof -
  have "runs (Reconcile r req) (\<lambda>out cs. leftover cs = {})"
    by (rule runs_Reconcile)
      (use clean_reconcile_live [OF assms] clean_reconcileDelete [OF assms] in \<open>auto simp: clean_def\<close>)
  from runs_trace [OF this] show ?thesis .
qed

theorem Reconcile_leaves_no_files_witness:
  "leftover (trace (Reconcile mem_reconciler demo_key) (start (demo_world demo_referring))) = {} \<and>
   KTempFile \<in> set (kinds_of (trace (Reconcile mem_reconciler demo_key) (start (demo_world demo_referring))))"
  using Reconcile_leaves_no_files [OF mem_retry_contract] by (simp add: demo_run)

text \<open>C5. Every call to nelm in a reconciliation is made for the release and the target namespace of the
  reconciled object, with the connection options built from it, and stores no revision without
  the ownership marker. So when the object or the operator names a service account, no call to
  nelm is made with the operator's own identity.\<close>

theorem Reconcile_acts_as_the_release:
  assumes "condition_contract (rr_Lib r)" and "status_contract r" and "retry_contract (rr_Lib r)"
    and "client_GetRelease (rr_Client r) req (world s) = (Inr rel, w)"
  shows "list_all (attributed r rel) (trace (Reconcile r req) s) \<and>
    (\<forall>sa. sa = (if Spec_ServiceAccountName (Release_Spec rel) \<noteq> '''' then Spec_ServiceAccountName (Release_Spec rel)
                else Config_DefaultServiceAccountName (rr_Config r)) \<and> sa \<noteq> '''' \<longrightarrow>
       list_all (\<lambda>c. pred_option (\<lambda>k. Kube_ImpersonateUser k =
           ''system:serviceaccount:'' @ GetReleaseNamespace rel @ '':'' @ sa) (kube_of (fst c)))
         (trace (Reconcile r req) s))"
proof (intro conjI allI impI)
  have rep: "reporting r" using assms(1-3) by (rule reporting.intro)
  have "emits (attributed r rel) (decided r rel)"
    unfolding decided_def
    by (intro emits_intro reporting.signed_delete [OF rep] reporting.signed_live [OF rep]
        signed_kinds [OF kinds_PatchFinalizers]) (simp add: unsigned_kinds_def)
  from trace_Reconcile_found [OF assms(4) run_Reconcile_found [OF assms(4)] this [unfolded emits_runs]]
  show all: "list_all (attributed r rel) (trace (Reconcile r req) s)"
    by (auto simp: attributed_def)
  fix sa
  assume sa: "sa = (if Spec_ServiceAccountName (Release_Spec rel) \<noteq> '''' then Spec_ServiceAccountName (Release_Spec rel)
                else Config_DefaultServiceAccountName (rr_Config r)) \<and> sa \<noteq> ''''"
  then have user: "Kube_ImpersonateUser (buildKubeConnectionOptions r rel) =
      ''system:serviceaccount:'' @ GetReleaseNamespace rel @ '':'' @ sa"
    by (auto simp: buildKubeConnectionOptions_def Let_def)
  show "list_all (\<lambda>c. pred_option (\<lambda>k. Kube_ImpersonateUser k =
           ''system:serviceaccount:'' @ GetReleaseNamespace rel @ '':'' @ sa) (kube_of (fst c)))
         (trace (Reconcile r req) s)"
    using all by (rule list.pred_mono_strong) (auto simp: attributed_def user elim: option.pred_mono_strong)
qed

theorem Reconcile_acts_as_the_release_witness:
  "list_all (attributed mem_reconciler demo_referring) (trace (Reconcile mem_reconciler demo_key) (start (demo_world demo_referring))) \<and>
   list_all (\<lambda>c. pred_option (\<lambda>k. Kube_ImpersonateUser k = ''system:serviceaccount:prod:deployer'') (kube_of (fst c)))
     (trace (Reconcile mem_reconciler demo_key) (start (demo_world demo_referring)))"
  using Reconcile_acts_as_the_release [OF mem_contracts mem_retry_contract demo_found [of demo_referring]]
  by simp

text \<open>C6. When a release is being deleted, the only patches sent for it are those that remove the
  operator's finalizer from the object and leave everything else as it is; they are sent only after
  nelm has uninstalled the release and after the API server has accepted a status that says so; the
  reconciliation ends without an error and without a retry exactly when such a patch was accepted.
  Without the finalizer nothing is done.\<close>

theorem Reconcile_deletes_in_order:
  assumes "retry_contract (rr_Lib r)"
    and "client_GetRelease (rr_Client r) req (world s) = (Inr rel, w)"
    and "Meta_DeletionTimestamp (Release_Meta rel) \<noteq> None"
  shows "\<exists>cs. trace (Reconcile r req) s = (CGetRelease req, True) # cs \<and>
    delete_trace (rr_Lib r) (lib_ContainsFinalizer (rr_Lib r) (Meta_Finalizers (Release_Meta rel)) ReleaseFinalizerName)
      (fst (run_state (Reconcile r req) s)) cs"
  by (rule trace_Reconcile_found [OF assms(2) _ runs_reconcileDelete [OF assms(1)]])
    (simp add: run_Reconcile_found [OF assms(2)] decided_cases assms(3))

theorem Reconcile_deletes_in_order_witness:
  "\<exists>cs. trace (Reconcile mem_reconciler demo_key) (start (demo_world demo_deleted)) = (CGetRelease demo_key, True) # cs \<and>
     delete_trace (rr_Lib mem_reconciler) True (fst (run_state (Reconcile mem_reconciler demo_key) (start (demo_world demo_deleted)))) cs \<and>
     kinds_of cs = [KStatusUpdate, KMkdirTemp, KUninstall, KStatusUpdate, KReleasePatch, KRemoveAll]"
proof -
  have "Meta_DeletionTimestamp (Release_Meta demo_deleted) \<noteq> None"
    "lib_ContainsFinalizer (rr_Lib mem_reconciler) (Meta_Finalizers (Release_Meta demo_deleted)) ReleaseFinalizerName"
    by (simp_all add: demo_deleted_def demo_referring_def demo_release_def mem_names mem_lib_def)
  with Reconcile_deletes_in_order [OF mem_retry_contract demo_found [of demo_deleted]] obtain cs
    where cs: "trace (Reconcile mem_reconciler demo_key) (start (demo_world demo_deleted)) = (CGetRelease demo_key, True) # cs"
      "delete_trace (rr_Lib mem_reconciler) True (fst (run_state (Reconcile mem_reconciler demo_key) (start (demo_world demo_deleted)))) cs"
    by auto
  with demo_delete_run show ?thesis by (intro exI [of _ cs]) (simp add: kinds_of_def)
qed

text \<open>C7. What a reconciliation may do is decided by the object it read. Nothing is done for an object
  that is gone; a suspended one is left alone; one without the finalizer gets the finalizer and
  nothing else, and is reconciled again. For a deleted object nothing is planned, installed, rolled
  back, labelled or created; for any other nothing is uninstalled and the finalizer stays.\<close>

theorem Reconcile_gates:
  assumes "retry_contract (rr_Lib r)"
  shows "case fst (client_GetRelease (rr_Client r) req (world s)) of
      Inl err \<Rightarrow> trace (Reconcile r req) s = [(CGetRelease req, False)] \<and>
        fst (run_state (Reconcile r req) s) = Returned no_result (if IsNotFound err then None else Some err)
    | Inr rel \<Rightarrow>
        if Meta_DeletionTimestamp (Release_Meta rel) \<noteq> None then
          list_all (in_kinds (- {KPlan, KInstall, KRollback, KLabels, KSourceCreate, KHelmChartApply})) (trace (Reconcile r req) s)
        else if Spec_Suspend (Release_Spec rel) then
          trace (Reconcile r req) s = [(CGetRelease req, True)] \<and>
          fst (run_state (Reconcile r req) s) = Returned no_result None
        else if \<not> lib_ContainsFinalizer (rr_Lib r) (Meta_Finalizers (Release_Meta rel)) ReleaseFinalizerName then
          (\<exists>ok. trace (Reconcile r req) s = [(CGetRelease req, True), (CPatchRelease
             (rel\<lparr>Release_Meta := (Release_Meta rel)\<lparr>Meta_Finalizers :=
                lib_AddFinalizer (rr_Lib r) (Meta_Finalizers (Release_Meta rel)) ReleaseFinalizerName\<rparr>\<rparr>) rel, ok)] \<and>
             (ok \<longleftrightarrow> fst (run_state (Reconcile r req) s) = Returned requeue None))
        else list_all (in_kinds (- {KUninstall, KReleasePatch})) (trace (Reconcile r req) s)"
proof (cases "client_GetRelease (rr_Client r) req (world s)")
  case (Pair got w)
  show ?thesis
  proof (cases got)
    case (Inl err)
    with Pair show ?thesis by (simp add: trace_def Reconcile_def wp)
  next
    case (Inr rel)
    note found = Pair [unfolded Inr]
    note run = run_Reconcile_found [OF found, unfolded decided_def]
    have patch: "runs (do { p \<leftarrow> PatchFinalizers r rel fs;
          returnM (case p of Inl err \<Rightarrow> fail_with msg err | Inr _ \<Rightarrow> Returned requeue None) })
        (\<lambda>out cs. \<exists>ok. cs = [(CPatchRelease (rel\<lparr>Release_Meta := (Release_Meta rel)\<lparr>Meta_Finalizers := fs\<rparr>\<rparr>) rel, ok)] \<and>
          (ok \<longleftrightarrow> out = Returned requeue None))" for fs msg
      unfolding PatchFinalizers_def Let_def
      by (intro runs_intro) (auto simp: fail_with_def split: sum.splits)
    note traced = trace_Reconcile_found [OF found]
    consider "Meta_DeletionTimestamp (Release_Meta rel) \<noteq> None"
      | "Meta_DeletionTimestamp (Release_Meta rel) = None" "Spec_Suspend (Release_Spec rel)"
      | "Meta_DeletionTimestamp (Release_Meta rel) = None" "\<not> Spec_Suspend (Release_Spec rel)"
        "\<not> lib_ContainsFinalizer (rr_Lib r) (Meta_Finalizers (Release_Meta rel)) ReleaseFinalizerName"
      | "Meta_DeletionTimestamp (Release_Meta rel) = None" "\<not> Spec_Suspend (Release_Spec rel)"
        "lib_ContainsFinalizer (rr_Lib r) (Meta_Finalizers (Release_Meta rel)) ReleaseFinalizerName"
      by blast
    then show ?thesis
    proof cases
      case 1
      with run traced [OF _ kinds_reconcileDelete [OF assms, of rel, unfolded emits_runs]] found Inr show ?thesis
        by (auto elim!: list_kinds_mono simp: delete_kinds_def)
    next
      case 2
      with run found show ?thesis by (simp add: trace_def)
    next
      case 3
      with run traced [OF _ patch] found show ?thesis by auto
    next
      case 4
      with run traced [OF _ kinds_reconcile_live [OF assms, of rel, unfolded emits_runs]] found show ?thesis
        by (auto elim!: list_kinds_mono simp: live_kinds_def chart_kinds_def kind_sets)
    qed
  qed
qed

definition demo_suspended :: Release where
  "demo_suspended = demo_referring\<lparr>Release_Spec := (Release_Spec demo_referring)\<lparr>Spec_Suspend := True\<rparr>\<rparr>"

theorem Reconcile_gates_witness:
  "trace (Reconcile mem_reconciler demo_key) (start (demo_world demo_suspended)) = [(CGetRelease demo_key, True)]"
proof -
  have "mem_key demo_suspended = demo_key" "Meta_DeletionTimestamp (Release_Meta demo_suspended) = None"
    "Spec_Suspend (Release_Spec demo_suspended)"
    by (simp_all add: demo_suspended_def mem_key_def demo_key_def demo_referring_def demo_release_def)
  with Reconcile_gates [OF mem_retry_contract, of demo_key "start (demo_world demo_suspended)"] show ?thesis
    by (simp add: demo_found)
qed

text \<open>C17. When the plan of a run fails for any other reason than that it has changes, the deployment
  stops there: this is the one plan of the run, before it only values were read and temporary files
  written, and after it the storage is read and one status update reports the failure of the plan,
  so that nothing is planned again, installed, rolled back or relabelled.\<close>

theorem failed_plan_stops_install:
  assumes "condition_contract (rr_Lib r)" and "status_contract r"
    and "rel = (if Status_ObservedGeneration (Release_Status rel0) \<noteq> rel_Generation rel0
      then with_status (\<lambda>s. s\<lparr>Status_LastActionFailures := 0\<rparr>) rel0 else rel0)"
    and "run_state (Resolve r rel (CR_ValuesFiles chartResult) tempDir) s = (Inr vals, s1)"
    and "run_state (buildPlanInstallOptions r rel (CR_ChartPath chartResult) tempDir vals) s1 = (Inr opts, s2)"
    and "nelm_ReleasePlanInstall (rr_Nelm r) (rel_Name rel0) (GetReleaseNamespace rel0) opts (world s2) =
      ((artifact, Some err), w)"
    and "\<not> planned_changes err"
  shows "\<exists>pre cs.
    trace (reconcileInstall r rel0 chartResult tempDir preRel foreignChange) s =
      pre @ (CReleasePlanInstall (rel_Name rel0) (GetReleaseNamespace rel0) opts, False) # cs \<and>
    list_all (in_kinds (insert KTempFile values_kinds)) pre \<and>
    failure_trace rel False (Wrapped ''plan install'' err)
      (fst (run_state (reconcileInstall r rel0 chartResult tempDir preRel foreignChange) s)) cs"
proof -
  let ?m = "reconcileInstall r rel0 chartResult tempDir preRel foreignChange"
  let ?plan = "(CReleasePlanInstall (rel_Name rel0) (GetReleaseNamespace rel0) opts, False)"
  let ?fail = "handleFailure r rel False (Wrapped ''plan install'' err) preRel False"
  let ?s3 = "\<lparr>world = w, calls = calls s2 @ [?plan]\<rparr>"
  have same: "rel_Name rel = rel_Name rel0" "GetReleaseNamespace rel = GetReleaseNamespace rel0"
    using assms(3) by (simp_all add: GetReleaseNamespace_def)
  have run: "run_state ?m s = run_state ?fail ?s3"
    using assms(4-7) by (simp add: reconcileInstall_def Let_def assms(3) [symmetric] install_release_def same wp)
  obtain xs where xs: "calls s1 = calls s @ xs" "list_all (in_kinds values_kinds) xs"
    using values_kind.emits_Resolve [of r rel "CR_ValuesFiles chartResult" tempDir] assms(4)
    unfolding emits_def by (metis snd_conv)
  obtain ys where ys: "calls s2 = calls s1 @ ys" "list_all (in_kinds {KTempFile}) ys"
    using kinds_buildPlanInstallOptions [of r rel "CR_ChartPath chartResult" tempDir vals] assms(5)
    unfolding emits_def by (metis snd_conv)
  obtain cs where cs: "calls (snd (run_state ?fail ?s3)) = calls s2 @ ?plan # cs"
    "failure_trace rel False (Wrapped ''plan install'' err) (fst (run_state ?fail ?s3)) cs"
    using handleFailure_runs [OF assms(1,2), of rel False "Wrapped ''plan install'' err" preRel False]
    unfolding runs_def by (metis append.assoc append_Cons append_Nil sys.select_convs(2))
  have "trace ?m s = (xs @ ys) @ ?plan # cs"
    unfolding trace_def run cs(1) unfolding ys(1) xs(1) by simp
  moreover have "list_all (in_kinds (insert KTempFile values_kinds)) (xs @ ys)"
    using list_kinds_mono [OF xs(2)] list_kinds_mono [OF ys(2)] by auto
  ultimately show ?thesis using cs(2) run by metis
qed

definition demo_no_plan :: "mem_world sys" where
  "demo_no_plan = start (empty_world\<lparr>mw_plan := (None, Some unavailable)\<rparr>)"

definition demo_chart_result :: ChartResult where
  "demo_chart_result = \<lparr>CR_ChartPath = ''c.tgz'', CR_Digest = [], CR_Revision = [], CR_ValuesFiles = []\<rparr>"

definition succeeds :: "error + 'a \<Rightarrow> bool" where
  "succeeds x = (case x of Inl _ \<Rightarrow> False | Inr _ \<Rightarrow> True)"

theorem failed_plan_stops_install_witness:
  "\<exists>pre opts cs.
    trace (reconcileInstall mem_reconciler demo_referring demo_chart_result ''/tmp'' None False) demo_no_plan =
      pre @ (CReleasePlanInstall ''app'' ''prod'' opts, False) # cs \<and>
    list_all (in_kinds (insert KTempFile values_kinds)) pre \<and>
    failure_trace (with_status (\<lambda>s. s\<lparr>Status_LastActionFailures := 0\<rparr>) demo_referring) False
      (Wrapped ''plan install'' unavailable)
      (fst (run_state (reconcileInstall mem_reconciler demo_referring demo_chart_result ''/tmp'' None False) demo_no_plan)) cs"
proof -
  let ?rel = "with_status (\<lambda>s. s\<lparr>Status_LastActionFailures := 0\<rparr>) demo_referring"
  let ?resolve = "run_state (Resolve mem_reconciler ?rel (CR_ValuesFiles demo_chart_result) ''/tmp'') demo_no_plan"
  let ?vals = "projr (fst ?resolve)" and ?s1 = "snd ?resolve"
  let ?build = "run_state (buildPlanInstallOptions mem_reconciler ?rel (CR_ChartPath demo_chart_result) ''/tmp'' ?vals) ?s1"
  let ?opts = "projr (fst ?build)" and ?s2 = "snd ?build"
  have "succeeds (fst ?resolve)" "succeeds (fst ?build)" by code_simp+
  then have runs: "?resolve = (Inr ?vals, ?s1)" "?build = (Inr ?opts, ?s2)"
    by (auto simp: succeeds_def prod_eq_iff split: sum.splits)
  have "mw_plan (world ?s2) = (None, Some unavailable)" by code_simp
  moreover have "\<not> mw_fail (world ?s2) c" for c by code_simp
  ultimately have plan: "nelm_ReleasePlanInstall (rr_Nelm mem_reconciler) (rel_Name demo_referring)
      (GetReleaseNamespace demo_referring) ?opts (world ?s2) = ((None, Some unavailable), world ?s2)"
    by (simp add: mem_reconciler_def mem_nelm_def)
  have names: "rel_Name demo_referring = ''app''" "GetReleaseNamespace demo_referring = ''prod''" by code_simp+
  have "?rel = (if Status_ObservedGeneration (Release_Status demo_referring) \<noteq> rel_Generation demo_referring
      then with_status (\<lambda>s. s\<lparr>Status_LastActionFailures := 0\<rparr>) demo_referring else demo_referring)"
    by (simp add: demo_referring_def demo_release_def empty_status_def)
  from failed_plan_stops_install [OF mem_contracts this runs plan, of None False] show ?thesis
    unfolding names by (auto simp: unavailable_def planned_changes_def)
qed

text \<open>C18. What the operator does after nelm's uninstallation of a deleted release: when it ends well it
  has removed the release from the users of the source its chart was deployed from, and deleted
  that source if it had no other user; it changes the users of no other source. So a candidate
  source the release was registered with when it was deleted half way through a change of its chart
  keeps the release among its users.\<close>

theorem deletion_releases_deployed_source_only:
  assumes "api_contract r store okey" and "patch_frame r store"
    and "fst (run_state (finish_delete r rel) s) = Returned no_result None"
  shows "source_users r store (world (snd (run_state (finish_delete r rel) s))) =
      opt_remove r (rel_Name rel) (Status_LastAppliedChartSource (Release_Status rel)) (source_users r store (world s))"
  using hoare_finish_delete [OF assms(1,2)] assms(3) by (simp add: hoare_def)

text \<open>A release that is deleted while it is only registered with a candidate source.\<close>

definition demo_half_way :: Release where
  "demo_half_way = (demo_inline (ChartSourcePhaseDisconnecting, None, Some demo_ref))
     \<lparr>Release_Meta := Release_Meta demo_deleted\<rparr>"

fun ended_well :: "outcome \<Rightarrow> bool" where
  "ended_well (Returned res e) \<longleftrightarrow> res = no_result \<and> e = None"
| "ended_well (Panicked m) = False"

lemma ended_well_iff: "out = Returned no_result None \<longleftrightarrow> ended_well out"
  by (cases out) auto

theorem deletion_releases_deployed_source_only_witness:
  "source_users mem_reconciler mem_store (world (snd (run_state (finish_delete mem_reconciler demo_half_way) demo_alone)))
     (ref_key mem_reconciler demo_ref) = Some [''app'']"
proof -
  have "Status_LastAppliedChartSource (Release_Status demo_half_way) = None"
    by (simp add: demo_half_way_def demo_inline_def)
  moreover have "fst (run_state (finish_delete mem_reconciler demo_half_way) demo_alone) = Returned no_result None"
    unfolding ended_well_iff by code_simp
  ultimately have "source_users mem_reconciler mem_store
      (world (snd (run_state (finish_delete mem_reconciler demo_half_way) demo_alone))) =
      source_users mem_reconciler mem_store (world demo_alone)"
    using deletion_releases_deployed_source_only [OF mem_api_contract mem_patch_frame, of demo_half_way demo_alone]
    by (simp add: opt_remove_def)
  moreover have "source_users mem_reconciler mem_store (world demo_alone) (ref_key mem_reconciler demo_ref) = Some [''app'']"
    by code_simp
  ultimately show ?thesis by simp
qed

end
