(* ===== verification/Source_Names.thy ===== *)
theory Source_Names
  imports Chart_Phase
begin

text \<open>
  The names of the objects the operator creates for inline charts (\<^verbatim>\<open>builders_*.go\<close>,
  \<^verbatim>\<open>GetObjectHashedName\<close> and \<^verbatim>\<open>GetHelmChartHashedName\<close>): their form and length, which releases share
  an object, and which never do.
\<close>

section \<open>Names\<close>

lemma hashed_name:
  assumes "GetObjectHashedName L obj = Inr name" and "Source_Meta obj = inline_meta rel"
  shows "\<exists>h. name = rel_Namespace rel @ ''-inline-'' @ h \<and> length h = 12 \<and> set h \<subseteq> set ''0123456789abcdef''"
proof -
  have trim: "strings_TrimRight (ns @ ''-inline'') (CHR ''-'') = ns @ ''-inline''" for ns
    by (rule strings_TrimRight_last) simp_all
  from assms obtain b where "name = rel_Namespace rel @ ''-inline-'' @ take 12 (hex_EncodeToString (sha256_Sum256 b))"
    by (auto simp: GetObjectHashedName_def inline_meta_def Let_def trim [simplified] split: sum.splits)
  moreover have "set (take 12 (hex_EncodeToString (sha256_Sum256 b))) \<subseteq> set ''0123456789abcdef''"
    by (rule subset_trans [OF set_take_subset hex_digits]) (simp add: Sum256_small)
  ultimately show ?thesis by (intro exI [of _ "take 12 (hex_EncodeToString (sha256_Sum256 b))"]) simp
qed

lemma set_hashed_name_Inr:
  assumes "set_hashed_name L obj = Inr src"
  shows "\<exists>name. GetObjectHashedName L obj = Inr name \<and> src = SetName obj name"
  using assms by (auto simp: set_hashed_name_def split: sum.splits)

lemma built_inline:
  assumes "BuildChartSourceFromRelease L g v rel chart = Inr src"
  shows "\<exists>obj. set_hashed_name L obj = Inr src \<and> Source_Meta obj = inline_meta rel"
  using assms
  by (auto simp: BuildChartSourceFromRelease_def buildGitRepository_def buildHelmRepository_def buildBucket_def
      buildOCIRepository_def Let_def split: option.splits)

lemma GetHelmChartHashedName_form:
  "\<exists>h. GetHelmChartHashedName ns n = ns @ ''-inline-'' @ n @ ''-'' @ h \<and> length h = 12"
  by (simp add: GetHelmChartHashedName_def Let_def)

section \<open>Properties\<close>

text \<open>C33. The source object of an inline chart lives in the namespace of the release and is called after
  the namespace and twelve hexadecimal digits, so that its name is twenty characters longer than
  the namespace's.\<close>

theorem inline_source_name:
  assumes "BuildChartSourceFromRelease L sourceAPIGroup sourceAPIVersion rel chart = Inr src"
  shows "SMeta_Namespace (Source_Meta src) = rel_Namespace rel \<and>
    length (SMeta_Name (Source_Meta src)) = length (rel_Namespace rel) + 20 \<and>
    (\<exists>h. SMeta_Name (Source_Meta src) = rel_Namespace rel @ ''-inline-'' @ h \<and> set h \<subseteq> set ''0123456789abcdef'')"
proof -
  obtain obj name where obj: "GetObjectHashedName L obj = Inr name" "src = SetName obj name" "Source_Meta obj = inline_meta rel"
    using built_inline [OF assms] set_hashed_name_Inr by blast
  with hashed_name [OF obj(1,3)] show ?thesis by (auto simp: SetName_def inline_meta_def)
qed

theorem inline_source_name_witness:
  "\<exists>src. BuildChartSourceFromRelease (lib_source (rr_Lib mem_reconciler)) (api_group mem_reconciler)
       (api_version mem_reconciler) (demo_inline ([], None, None)) demo_chart = Inr src \<and>
     length (SMeta_Name (Source_Meta src)) = 24"
proof -
  obtain src where src: "BuildChartSourceFromRelease (lib_source (rr_Lib mem_reconciler)) (api_group mem_reconciler)
      (api_version mem_reconciler) (demo_inline ([], None, None)) demo_chart = Inr src"
    using demo_inline_built by blast
  moreover have "rel_Namespace (demo_inline ([], None, None)) = ''prod''"
    by (simp add: demo_inline_def demo_release_def)
  ultimately show ?thesis using inline_source_name [OF src] by simp
qed

text \<open>C34. Releases of one namespace that ask for the same chart at the same interval are given the same
  source object, whatever else they differ in; this is what its reference counting is for.\<close>

theorem same_chart_same_source:
  assumes "rel_Namespace rel1 = rel_Namespace rel2"
    and "Spec_Interval (Release_Spec rel1) = Spec_Interval (Release_Spec rel2)"
  shows "BuildChartSourceFromRelease L g v rel1 chart = BuildChartSourceFromRelease L g v rel2 chart"
  unfolding BuildChartSourceFromRelease_def buildGitRepository_def buildHelmRepository_def buildBucket_def
    buildOCIRepository_def inline_meta_def assms ..

theorem same_chart_same_source_witness:
  "BuildChartSourceFromRelease (lib_source (rr_Lib mem_reconciler)) mem_group mem_version demo_release demo_chart =
   BuildChartSourceFromRelease (lib_source (rr_Lib mem_reconciler)) mem_group mem_version demo_other demo_chart"
  by (rule same_chart_same_source) (simp_all add: demo_other_def)

text \<open>C35. The HelmChart of a release is its own: two releases of one namespace never get the same name for
  it. The name is twenty-one characters longer than the names of the namespace and the release
  together, so it is a valid object name (at most 253 characters) only up to a combined length
  of 232.\<close>

theorem helmchart_name_injective:
  "(GetHelmChartHashedName ns n = GetHelmChartHashedName ns m \<longleftrightarrow> n = m) \<and>
   length (GetHelmChartHashedName ns n) = length ns + length n + 21 \<and>
   (length (GetHelmChartHashedName ns n) \<le> 253 \<longleftrightarrow> length ns + length n \<le> 232)"
proof -
  obtain h where h: "GetHelmChartHashedName ns n = ns @ ''-inline-'' @ n @ ''-'' @ h" "length h = 12"
    using GetHelmChartHashedName_form by blast
  obtain k where k: "GetHelmChartHashedName ns m = ns @ ''-inline-'' @ m @ ''-'' @ k" "length k = 12"
    using GetHelmChartHashedName_form by blast
  have "n = m" if "n @ CHR ''-'' # h = m @ CHR ''-'' # k"
    using that h(2) k(2) by (subst (asm) append_eq_append_conv) auto
  with h k show ?thesis by auto
qed

end
