(* ===== verification/Watches.thy ===== *)
theory Watches
  imports Reconcile_Safety
begin

text \<open>
  What makes the operator reconcile a release again: the field indexes of \<^verbatim>\<open>release_indexer.go\<close>
  and \<^verbatim>\<open>release_manager.go\<close>, the event filter of \<^verbatim>\<open>internal/predicates\<close> and the functions that map a
  changed source, ConfigMap or Secret to the releases that depend on it. The theorems relate them
  to what a reconciliation reads: nothing it reads is missing from the indexes.

  Logging is left out. \<^verbatim>\<open>HasRevision\<close> of an artifact belongs to the Flux API and is a parameter.
\<close>

section \<open>Objects of events\<close>

record Artifact =
  Art_Revision :: string
  Art_Digest :: string

text \<open>
  A \<^verbatim>\<open>client.Object\<close> by the type assertions the code makes on it. HelmChart and OCIRepository are
  Flux sources with conditions; ConfigMaps and Secrets arrive as metadata only.
\<close>

datatype event_object =
  HelmChartObject (obj_key: NamespacedName) (obj_artifact: "Artifact option") (obj_conditions: "Condition list")
| OCIRepositoryObject (obj_key: NamespacedName) (obj_artifact: "Artifact option") (obj_conditions: "Condition list")
| PartialMetadata (obj_key: NamespacedName) (obj_labels: strmap)

fun as_Source :: "event_object \<Rightarrow> Artifact option option" where
  "as_Source (HelmChartObject n a cs) = Some a"
| "as_Source (OCIRepositoryObject n a cs) = Some a"
| "as_Source (PartialMetadata n ls) = None"

fun as_Getter :: "event_object \<Rightarrow> Condition list option" where
  "as_Getter (HelmChartObject n a cs) = Some cs"
| "as_Getter (OCIRepositoryObject n a cs) = Some cs"
| "as_Getter (PartialMetadata n ls) = None"

definition GetLabels :: "event_object \<Rightarrow> strmap" where
  "GetLabels obj = (case obj of PartialMetadata n ls \<Rightarrow> ls | _ \<Rightarrow> Map.empty)"

text \<open>\<^verbatim>\<open>client.ObjectKeyFromObject(rel)\<close>, and \<^verbatim>\<open>String\<close> of a key.\<close>

definition ObjectKeyFromObject :: "Release \<Rightarrow> NamespacedName" where
  "ObjectKeyFromObject rel = \<lparr>NN_Namespace = rel_Namespace rel, NN_Name = rel_Name rel\<rparr>"

definition NamespacedName_String :: "NamespacedName \<Rightarrow> string" where
  "NamespacedName_String n = NN_Namespace n @ ''/'' @ NN_Name n"

section \<open>The event filter\<close>

definition SourceRevisionChange_Update ::
  "'w k8s_lib \<Rightarrow> (Artifact \<Rightarrow> string \<Rightarrow> bool) \<Rightarrow> event_object option \<Rightarrow> event_object option \<Rightarrow> bool" where
  "SourceRevisionChange_Update L HasRevision objectOld objectNew =
     (case (objectOld, objectNew) of
        (Some old, Some new) \<Rightarrow>
          (case as_Source old of None \<Rightarrow> False | Some oldArtifact \<Rightarrow>
          (case as_Source new of None \<Rightarrow> False | Some newArtifact \<Rightarrow>
             if oldArtifact = None \<and> newArtifact \<noteq> None then True
             else if (case (oldArtifact, newArtifact) of
                        (Some a, Some b) \<Rightarrow> \<not> HasRevision a (Art_Revision b) | _ \<Rightarrow> False) then True
             else
               (case as_Getter old of None \<Rightarrow> False | Some oldConditions \<Rightarrow>
               (case as_Getter new of None \<Rightarrow> False | Some newConditions \<Rightarrow>
                  if \<not> lib_IsReady L oldConditions \<and> lib_IsReady L newConditions then True else False))))
      | _ \<Rightarrow> False)"

definition SourceRevisionChange_Create :: "event_object \<Rightarrow> bool" where
  "SourceRevisionChange_Create obj = False"

definition SourceRevisionChange_Delete :: "event_object \<Rightarrow> bool" where
  "SourceRevisionChange_Delete obj = False"

section \<open>Field indexes\<close>

definition indexSourceRef :: string where "indexSourceRef = ''.metadata.sourceRef''"
definition indexConfigMap :: string where "indexConfigMap = ''.metadata.configMap''"
definition indexSecret :: string where "indexSecret = ''.metadata.secret''"

text \<open>The loops over the references of a release append to \<open>keys\<close>.\<close>

primrec index_refs :: "string \<Rightarrow> string \<Rightarrow> ValuesReference list \<Rightarrow> string list \<Rightarrow> string list" where
  "index_refs kind namespace [] keys = keys"
| "index_refs kind namespace (ref # refs) keys =
     index_refs kind namespace refs
       (if Values_Kind ref = kind then keys @ [namespace @ ''/'' @ Values_Name ref] else keys)"

definition configDependencyIndexerFunc :: "string \<Rightarrow> Release \<Rightarrow> string list" where
  "configDependencyIndexerFunc kind obj =
     (let namespace = rel_Namespace obj;
          spec = Release_Spec obj;
          keys1 = (case Spec_SecretKeyFrom spec of
              Some val \<Rightarrow> if SecretKey_Kind val = kind then [namespace @ ''/'' @ SecretKey_Name val] else []
            | None \<Rightarrow> []);
          keys2 = (case Spec_Provenance spec of
              Some val \<Rightarrow>
                (case Provenance_KeyringFrom val of
                   Some ring \<Rightarrow>
                     if SecretKey_Kind ring = kind then keys1 @ [namespace @ ''/'' @ SecretKey_Name ring] else keys1
                 | None \<Rightarrow> keys1)
            | None \<Rightarrow> keys1);
          keys3 = index_refs kind namespace (Spec_ValuesFrom spec) keys2
      in index_refs kind namespace (Spec_SecretValuesFrom spec) keys3)"

definition source_index :: "string \<Rightarrow> string \<Rightarrow> string \<Rightarrow> string" where
  "source_index kind namespace name = kind @ ''/'' @ namespace @ ''/'' @ name"

definition sourceRefIndexerFunc :: "'w ReleaseReconciler \<Rightarrow> Release \<Rightarrow> string list" where
  "sourceRefIndexerFunc r obj =
     (case Spec_ChartRef (Release_Spec obj) of
        Some ref \<Rightarrow>
          [source_index (ChartRef_Kind ref)
             (if ChartRef_Namespace ref = '''' then rel_Namespace obj else ChartRef_Namespace ref)
             (ChartRef_Name ref)]
      | None \<Rightarrow>
          (case Spec_Chart (Release_Spec obj) of
             None \<Rightarrow> []
           | Some chart \<Rightarrow>
               if Chart_OCI chart \<noteq> None then
                 (case BuildChartSourceFromRelease (lib_source (rr_Lib r)) (api_group r) (api_version r) obj chart of
                    Inl err \<Rightarrow> []
                  | Inr repo \<Rightarrow> [source_index (Type_Kind (Source_Type repo)) (rel_Namespace obj)
                                   (SMeta_Name (Source_Meta repo))])
               else [source_index HelmChartKind (rel_Namespace obj)
                       (GetHelmChartHashedName (rel_Namespace obj) (rel_Name obj))]))"

section \<open>From a changed object to the releases\<close>

definition isReadyOrReconciling :: "'w k8s_lib \<Rightarrow> Release \<Rightarrow> bool" where
  "isReadyOrReconciling L from = (lib_IsReady L (GetConditions from) \<or> lib_IsReconciling L (GetConditions from))"

definition extractDigest :: "string \<Rightarrow> string" where
  "extractDigest revision =
     (if strings_ContainsChar revision (CHR ''@'') then
        let tagDigestPair = strings_Split revision (CHR ''@'')
        in if length tagDigestPair \<noteq> 2 then '''' else tagDigestPair ! 1
      else revision)"

definition ListReleases :: "'w ReleaseReconciler \<Rightarrow> string \<Rightarrow> string \<Rightarrow> ('w, error + Release list) io" where
  "ListReleases r field v = perform (CListReleases field v) succeeded (client_ListReleases (rr_Client r) field v)"

primrec helmchart_requests ::
  "'w k8s_lib \<Rightarrow> (Artifact \<Rightarrow> string \<Rightarrow> bool) \<Rightarrow> Artifact \<Rightarrow> Release list \<Rightarrow> NamespacedName list \<Rightarrow>
   NamespacedName list" where
  "helmchart_requests L HasRevision artifact [] reqs = reqs"
| "helmchart_requests L HasRevision artifact (hr # items) reqs =
     (if isReadyOrReconciling L hr \<and>
         HasRevision artifact (Status_LastAttemptedArtifactRevision (Release_Status hr))
      then helmchart_requests L HasRevision artifact items reqs
      else helmchart_requests L HasRevision artifact items (reqs @ [ObjectKeyFromObject hr]))"

definition requestsForHelmChartChange ::
  "'w ReleaseReconciler \<Rightarrow> (Artifact \<Rightarrow> string \<Rightarrow> bool) \<Rightarrow> event_object \<Rightarrow> ('w, NamespacedName list) io" where
  "requestsForHelmChartChange r HasRevision obj =
     (case obj of
        HelmChartObject n artifact cs \<Rightarrow>
          (case artifact of
             None \<Rightarrow> returnM []
           | Some a \<Rightarrow> do {
               list \<leftarrow> ListReleases r indexSourceRef (HelmChartKind @ ''/'' @ NamespacedName_String n);
               returnM (case list of
                  Inl err \<Rightarrow> []
                | Inr items \<Rightarrow> helmchart_requests (rr_Lib r) HasRevision a items [])
             })
      | _ \<Rightarrow> returnM [])"

primrec oci_requests ::
  "'w k8s_lib \<Rightarrow> Artifact \<Rightarrow> Release list \<Rightarrow> NamespacedName list \<Rightarrow> NamespacedName list" where
  "oci_requests L artifact [] reqs = reqs"
| "oci_requests L artifact (hr # items) reqs =
     (let digest = extractDigest (Art_Revision artifact)
      in if digest = '''' then oci_requests L artifact items reqs
         else if isReadyOrReconciling L hr \<and> digest = Status_LastAttemptedArtifactDigest (Release_Status hr)
         then oci_requests L artifact items reqs
         else oci_requests L artifact items (reqs @ [ObjectKeyFromObject hr]))"

definition requestsForOCIRepositoryChange ::
  "'w ReleaseReconciler \<Rightarrow> event_object \<Rightarrow> ('w, NamespacedName list) io" where
  "requestsForOCIRepositoryChange r obj =
     (case obj of
        OCIRepositoryObject n artifact cs \<Rightarrow>
          (case artifact of
             None \<Rightarrow> returnM []
           | Some a \<Rightarrow> do {
               list \<leftarrow> ListReleases r indexSourceRef (OCIRepositoryKind @ ''/'' @ NamespacedName_String n);
               returnM (case list of
                  Inl err \<Rightarrow> []
                | Inr items \<Rightarrow> oci_requests (rr_Lib r) a items [])
             })
      | _ \<Rightarrow> returnM [])"

definition requestsForConfigDependency ::
  "'w ReleaseReconciler \<Rightarrow> string \<Rightarrow> event_object \<Rightarrow> ('w, NamespacedName list) io" where
  "requestsForConfigDependency r index obj = do {
     list \<leftarrow> ListReleases r index (NamespacedName_String (obj_key obj));
     returnM (case list of
        Inl err \<Rightarrow> []
      | Inr items \<Rightarrow> map ObjectKeyFromObject items)
   }"

section \<open>Registration with the manager\<close>

text \<open>
  The controller as the builder is told to make it: which predicates filter the events of each
  watched type, and which function maps its objects to requests. \<open>GenerationChangedPredicate\<close> and
  \<open>ResourceVersionChangedPredicate\<close> are the library's.
\<close>

datatype watch_predicate =
  GenerationChangedPredicate
| ResourceVersionChangedPredicate
| SourceRevisionChangePredicate
| ConfigDependencyPredicate

datatype watch_map =
  RequestsForHelmChartChange
| RequestsForOCIRepositoryChange
| RequestsForConfigDependency string

record watch =
  Watch_Type :: string
  Watch_Map :: watch_map
  Watch_Predicates :: "watch_predicate list"

record controller =
  Controller_Name :: string
  Controller_For :: "watch_predicate list"
  Controller_MaxConcurrentReconciles :: int
  Controller_Watches :: "watch list"

definition configDependencyPredicate :: "'w ReleaseReconciler \<Rightarrow> event_object \<Rightarrow> bool" where
  "configDependencyPredicate r obj = Config_DependencyWatchLabelSelector (rr_Config r) (GetLabels obj)"

definition registered_indexes :: "'w ReleaseReconciler \<Rightarrow> (string \<times> (Release \<Rightarrow> string list)) list" where
  "registered_indexes r =
     [(indexSourceRef, sourceRefIndexerFunc r),
      (indexConfigMap, configDependencyIndexerFunc ''ConfigMap''),
      (indexSecret, configDependencyIndexerFunc ''Secret'')]"

definition release_controller :: "'w ReleaseReconciler \<Rightarrow> controller" where
  "release_controller r =
     \<lparr>Controller_Name = ''release'', Controller_For = [GenerationChangedPredicate],
      Controller_MaxConcurrentReconciles = Config_MaxConcurrentReconciles (rr_Config r),
      Controller_Watches =
        [\<lparr>Watch_Type = ''HelmChart'', Watch_Map = RequestsForHelmChartChange,
          Watch_Predicates = [SourceRevisionChangePredicate]\<rparr>,
         \<lparr>Watch_Type = ''OCIRepository'', Watch_Map = RequestsForOCIRepositoryChange,
          Watch_Predicates = [SourceRevisionChangePredicate]\<rparr>,
         \<lparr>Watch_Type = ''ConfigMap'', Watch_Map = RequestsForConfigDependency indexConfigMap,
          Watch_Predicates = [ResourceVersionChangedPredicate, ConfigDependencyPredicate]\<rparr>,
         \<lparr>Watch_Type = ''Secret'', Watch_Map = RequestsForConfigDependency indexSecret,
          Watch_Predicates = [ResourceVersionChangedPredicate, ConfigDependencyPredicate]\<rparr>]\<rparr>"

text \<open>The indexes are registered in order, until one fails; \<open>IndexField\<close> and \<open>Complete\<close> are the manager's.\<close>

fun register :: "(string \<Rightarrow> (Release \<Rightarrow> string list) \<Rightarrow> ('m, error option) state) \<Rightarrow>
    (string \<times> (Release \<Rightarrow> string list)) list \<Rightarrow> ('m, error option) state" where
  "register IndexField [] = returnM None"
| "register IndexField ((field, f) # ixs) = do {
     e \<leftarrow> IndexField field f;
     case e of Some err \<Rightarrow> returnM (Some err) | None \<Rightarrow> register IndexField ixs
   }"

definition SetupWithManager ::
  "'w ReleaseReconciler \<Rightarrow> (string \<Rightarrow> (Release \<Rightarrow> string list) \<Rightarrow> ('m, error option) state) \<Rightarrow>
   (controller \<Rightarrow> 'w ReleaseReconciler \<Rightarrow> ('m, error option) state) \<Rightarrow> ('m, error option) state" where
  "SetupWithManager r IndexField Complete = do {
     e \<leftarrow> register IndexField (registered_indexes r);
     case e of Some err \<Rightarrow> returnM (Some err) | None \<Rightarrow> Complete (release_controller r) r
   }"

text \<open>What a watch maps an object to.\<close>

definition mapped_requests ::
  "'w ReleaseReconciler \<Rightarrow> (Artifact \<Rightarrow> string \<Rightarrow> bool) \<Rightarrow> watch_map \<Rightarrow> event_object \<Rightarrow> ('w, NamespacedName list) io" where
  "mapped_requests r HasRevision m obj =
     (case m of
        RequestsForHelmChartChange \<Rightarrow> requestsForHelmChartChange r HasRevision obj
      | RequestsForOCIRepositoryChange \<Rightarrow> requestsForOCIRepositoryChange r obj
      | RequestsForConfigDependency index \<Rightarrow> requestsForConfigDependency r index obj)"

section \<open>What the indexes hold\<close>

lemma set_index_refs:
  "set (index_refs kind ns refs keys) =
     set keys \<union> {ns @ ''/'' @ Values_Name ref | ref. ref \<in> set refs \<and> Values_Kind ref = kind}"
  by (induction refs arbitrary: keys) auto

text \<open>The references of a release to objects of a kind.\<close>

definition depends_on :: "string \<Rightarrow> Release \<Rightarrow> string \<Rightarrow> bool" where
  "depends_on kind rel n \<longleftrightarrow>
     (\<exists>k. (Spec_SecretKeyFrom (Release_Spec rel) = Some k \<or> keyring_ref rel = Some k) \<and>
        SecretKey_Kind k = kind \<and> SecretKey_Name k = n) \<or>
     (\<exists>ref \<in> set (Spec_ValuesFrom (Release_Spec rel)) \<union> set (Spec_SecretValuesFrom (Release_Spec rel)).
        Values_Kind ref = kind \<and> Values_Name ref = n)"

lemma configDependencyIndex_mem:
  "NamespacedName_String \<lparr>NN_Namespace = rel_Namespace rel, NN_Name = n\<rparr> \<in> set (configDependencyIndexerFunc kind rel) \<longleftrightarrow>
   depends_on kind rel n"
  unfolding configDependencyIndexerFunc_def Let_def set_index_refs depends_on_def keyring_ref_def
    NamespacedName_String_def
  by (cases "Spec_SecretKeyFrom (Release_Spec rel)"; cases "Spec_Provenance (Release_Spec rel)";
      cases "Provenance_KeyringFrom (the (Spec_Provenance (Release_Spec rel)))") auto

section \<open>Every object that is read is indexed\<close>

text \<open>A release that differs in its status and in the namespace of its chart reference only.\<close>

definition same_request :: "Release \<Rightarrow> Release \<Rightarrow> bool" where
  "same_request rel0 rel \<longleftrightarrow> Release_Meta rel = Release_Meta rel0 \<and>
     (\<exists>ref. Release_Spec rel = (Release_Spec rel0)\<lparr>Spec_ChartRef := ref\<rparr>)"

lemma same_request_refl [simp]: "same_request rel rel"
  unfolding same_request_def by (intro conjI exI [of _ "Spec_ChartRef (Release_Spec rel)"]) simp_all

lemma same_request_status [simp]: "same_request rel0 (with_status f rel) = same_request rel0 rel"
  by (simp add: same_request_def)

definition resolved_request :: "Release \<Rightarrow> resolved \<Rightarrow> bool" where
  "resolved_request rel0 res = (case res of Inl out \<Rightarrow> True | Inr (ref, rel) \<Rightarrow> same_request rel0 rel)"

lemma fail_resolved_request: "runs (fail_resolve r rel e) (\<lambda>res cs. resolved_request rel0 res)"
  unfolding fail_resolve_def
  by (intro runs_bind runs_emits [OF kinds_handleFailure] runs_return) (simp add: resolved_request_def)

lemma advance_resolved_request: "runs (advance r rel) (\<lambda>res cs. resolved_request rel0 res)"
  by (rule runs_advance) (simp_all add: resolved_request_def)

lemma resolve_request:
  assumes "retry_contract (rr_Lib r)"
  shows "runs (resolveChartRef r rel) (\<lambda>res cs. resolved_request rel res)"
  unfolding resolveChartRef_def Let_def resolve_ready_def resolve_without_chart_def
  by (intro runs_case_option runs_case_sum runs_if runs_bind fail_resolved_request advance_resolved_request
      runs_emits [OF kinds_ensureHelmChart] runs_return runs_emits [OF kinds_StatusUpdate]
      runs_emits [OF kinds_cleanupHelmChart]
      runs_emits [OF kinds_cleanupChartSourceRef [OF assms]]
      runs_emits [OF kinds_ensureChartSourceRef [OF assms]])
    (auto simp: resolved_request_def same_request_def intro: exI [of _ "Spec_ChartRef (Release_Spec rel)"])

definition indexed_reads :: "Release \<Rightarrow> call \<times> bool \<Rightarrow> bool" where
  "indexed_reads rel = reads_only
     (\<lambda>n. NamespacedName_String n \<in> set (configDependencyIndexerFunc ''ConfigMap'' rel))
     (\<lambda>n. NamespacedName_String n \<in> set (configDependencyIndexerFunc ''Secret'' rel))"

text \<open>The kind of a secret key reference can only be \<^verbatim>\<open>Secret\<close> (its validation is an enumeration).\<close>

definition valid_keys :: "Release \<Rightarrow> bool" where
  "valid_keys rel \<longleftrightarrow>
     pred_option (\<lambda>k. SecretKey_Kind k = ''Secret'') (Spec_SecretKeyFrom (Release_Spec rel)) \<and>
     pred_option (\<lambda>k. SecretKey_Kind k = ''Secret'') (keyring_ref rel)"

lemma same_requestD:
  assumes "same_request rel0 rel"
  shows "rel_Namespace rel = rel_Namespace rel0" and "keyring_ref rel = keyring_ref rel0"
    and "Spec_SecretKeyFrom (Release_Spec rel) = Spec_SecretKeyFrom (Release_Spec rel0)"
    and "Spec_ValuesFrom (Release_Spec rel) = Spec_ValuesFrom (Release_Spec rel0)"
    and "Spec_SecretValuesFrom (Release_Spec rel) = Spec_SecretValuesFrom (Release_Spec rel0)"
  using assms by (auto simp: same_request_def keyring_ref_def)

lemma reads_kinds: "emits (in_kinds K) m \<Longrightarrow> KConfigGet \<notin> K \<Longrightarrow> emits (indexed_reads rel) m"
proof (erule emits_mono)
  fix c assume "KConfigGet \<notin> K" and "in_kinds K c"
  then show "indexed_reads rel c"
    unfolding indexed_reads_def by (cases c; cases "fst c") auto
qed

lemma reads_Resolve:
  assumes "same_request rel0 rel" and "valid_keys rel0"
  shows "emits (indexed_reads rel0) (Resolve r rel files dir)"
proof -
  have "values_calls (indexed_reads rel0) rel dir"
    by unfold_locales
      (use assms(2) in \<open>auto simp: indexed_reads_def same_requestD [OF assms(1)] configDependencyIndex_mem depends_on_def
        valid_keys_def\<close>)
  then show ?thesis by (rule values_calls.emits_Resolve)
qed

lemma reads_changes: "emits (indexed_reads rel0) (install_changes r rel cr dir rv art preRel foreign)"
  unfolding install_changes_def
  by (intro emits_intro reads_kinds [OF kinds_buildInstallOptions] reads_kinds [OF kinds_emitEvent]
      reads_kinds [OF kinds_handleFailure_report] reads_kinds [OF kinds_handleFailure_rollback]
      reads_kinds [OF kinds_handleSuccess])
    (auto simp: kind_sets indexed_reads_def)

lemma reads_install_release:
  assumes "same_request rel0 rel" and "valid_keys rel0"
  shows "emits (indexed_reads rel0) (install_release r rel cr dir preRel foreign)"
  unfolding install_release_def
  by (intro emits_intro reads_Resolve assms reads_kinds [OF kinds_handleFailure_report]
      reads_kinds [OF kinds_buildPlanInstallOptions] reads_kinds [OF kinds_up_to_date] reads_changes)
    (auto simp: kind_sets indexed_reads_def)

lemma reads_reconcile_chart:
  assumes "same_request rel0 rel" and "valid_keys rel0"
  shows "emits (indexed_reads rel0) (reconcile_chart r rel ref dir preRel foreign)"
  unfolding reconcile_chart_def reconcileInstall_def
  by (intro emits_intro reads_kinds [OF kinds_ResolveChartRef] reads_kinds [OF kinds_projectStatus]
      reads_kinds [OF kinds_StatusUpdate] reads_kinds [OF kinds_handleFailure_report] reads_install_release)
    (use assms in \<open>simp_all add: kind_sets\<close>)

lemma reads_reconcile_resolved:
  assumes "same_request rel0 rel" and "valid_keys rel0"
  shows "emits (indexed_reads rel0) (reconcile_resolved r rel ref)"
  unfolding reconcile_resolved_def
  by (intro emits_intro reads_kinds [OF kinds_getRelease] reads_kinds [OF kinds_handleFailure_report]
      reads_reconcile_chart assms reads_kinds [OF kinds_MkdirTemp] reads_kinds [OF kinds_RemoveAll])
    (simp_all add: kind_sets)

lemma reads_reconcile_live:
  assumes "retry_contract (rr_Lib r)" and "valid_keys rel"
  shows "emits (indexed_reads rel) (reconcile_live r rel)"
  unfolding reconcile_live_def
proof (rule emits_bind_post [OF _ resolve_request [OF assms(1)]])
  show "emits (indexed_reads rel) (resolveChartRef r rel)"
    by (rule reads_kinds [OF kinds_resolveChartRef [OF assms(1)]]) (simp add: chart_kinds_def kind_sets)
qed (auto simp: resolved_request_def intro: emits_return reads_reconcile_resolved [OF _ assms(2)] split: sum.splits)

section \<open>Lists by index\<close>

text \<open>
  Listing by a registered field returns the releases the cache holds for which the index function
  yields the value.
\<close>

definition list_contract :: "'w ReleaseReconciler \<Rightarrow> ('w \<Rightarrow> Release set) \<Rightarrow> bool" where
  "list_contract r releases \<longleftrightarrow>
     (\<forall>field ix v w items w'. map_of (registered_indexes r) field = Some ix \<longrightarrow>
        client_ListReleases (rr_Client r) field v w = (Inr items, w') \<longrightarrow>
        set items = {rel \<in> releases w. v \<in> set (ix rel)})"

lemma index_lookup:
  "map_of (registered_indexes r) indexSourceRef = Some (sourceRefIndexerFunc r)"
  "map_of (registered_indexes r) indexConfigMap = Some (configDependencyIndexerFunc ''ConfigMap'')"
  "map_of (registered_indexes r) indexSecret = Some (configDependencyIndexerFunc ''Secret'')"
  by (simp_all add: registered_indexes_def indexSourceRef_def indexConfigMap_def indexSecret_def)

lemma list_contractD:
  "list_contract r releases \<Longrightarrow> map_of (registered_indexes r) field = Some ix \<Longrightarrow>
   client_ListReleases (rr_Client r) field v w = (Inr items, w') \<Longrightarrow> set items = {rel \<in> releases w. v \<in> set (ix rel)}"
  unfolding list_contract_def by blast

text \<open>The two loops are filters.\<close>

lemma helmchart_requests_filter:
  "helmchart_requests L has a items reqs = reqs @ map ObjectKeyFromObject
     (filter (\<lambda>hr. \<not> (isReadyOrReconciling L hr \<and>
        has a (Status_LastAttemptedArtifactRevision (Release_Status hr)))) items)"
  by (induction items arbitrary: reqs) auto

lemma oci_requests_filter:
  "oci_requests L a items reqs = reqs @ (if extractDigest (Art_Revision a) = [] then []
     else map ObjectKeyFromObject
       (filter (\<lambda>hr. \<not> (isReadyOrReconciling L hr \<and>
          extractDigest (Art_Revision a) = Status_LastAttemptedArtifactDigest (Release_Status hr))) items))"
  by (induction items arbitrary: reqs) (auto simp: Let_def)

lemma run_requests:
  "run_state (requestsForConfigDependency r index obj) s =
     (case client_ListReleases (rr_Client r) index (NamespacedName_String (obj_key obj)) (world s) of
        (res, w) \<Rightarrow> (case res of Inl e \<Rightarrow> [] | Inr items \<Rightarrow> map ObjectKeyFromObject items,
          \<lparr>world = w, calls = calls s @ [(CListReleases index (NamespacedName_String (obj_key obj)), succeeded res)]\<rparr>))"
  by (simp add: requestsForConfigDependency_def ListReleases_def wp split_beta)

section \<open>The reference of the chart\<close>

text \<open>Server-side apply answers with the object under its name, and setting the owner keeps the name.\<close>

definition helmchart_contract :: "'w ReleaseReconciler \<Rightarrow> bool" where
  "helmchart_contract r \<longleftrightarrow>
     (\<forall>hc w hc' w'. client_ApplyHelmChart (rr_Client r) hc w = (Inr hc', w') \<longrightarrow>
        SMeta_Name (HelmChart_Meta hc') = SMeta_Name (HelmChart_Meta hc)) \<and>
     (\<forall>rel hc hc'. lib_SetControllerReference (rr_Lib r) rel hc = Inr hc' \<longrightarrow>
        SMeta_Name (HelmChart_Meta hc') = SMeta_Name (HelmChart_Meta hc))"

lemma companion_chart_name:
  "companion_chart r rel n chart = Some hc \<Longrightarrow>
   SMeta_Name (HelmChart_Meta hc) = GetHelmChartHashedName (rel_Namespace rel) (rel_Name rel)"
  by (auto simp: companion_chart_def BuildHelmChartForGitRepositorySource_def
      BuildHelmChartForHelmRepositorySource_def BuildHelmChartForBucketSource_def buildHelmChart_def Let_def
      split: option.splits)

definition chart_ref_index :: "ChartSourceRef \<Rightarrow> string" where
  "chart_ref_index ref = source_index (ChartRef_Kind ref) (ChartRef_Namespace ref) (ChartRef_Name ref)"

text \<open>The validation rules: one of a chart and a reference, and one source of a chart.\<close>

definition one_source :: "ReleaseChart \<Rightarrow> bool" where
  "one_source chart \<longleftrightarrow> length (filter id [Chart_Bucket chart \<noteq> None, Chart_Git chart \<noteq> None,
     Chart_OCI chart \<noteq> None, Chart_Repo chart \<noteq> None]) = 1"

definition one_chart :: "Release \<Rightarrow> bool" where
  "one_chart rel \<longleftrightarrow> (Spec_Chart (Release_Spec rel) \<noteq> None) \<noteq> (Spec_ChartRef (Release_Spec rel) \<noteq> None) \<and>
     pred_option one_source (Spec_Chart (Release_Spec rel))"

lemma runs_ensureHelmChart_ref:
  assumes "helmchart_contract r" and "Spec_Chart (Release_Spec rel) = Some chart" and "one_source chart"
  shows "runs (ensureHelmChart r rel n) (\<lambda>res cs. \<forall>ref. res = Inr ref \<longrightarrow> ChartRef_Namespace ref = rel_Namespace rel \<and>
    (if Chart_OCI chart \<noteq> None then ChartRef_Kind ref = OCIRepositoryKind \<and> ChartRef_Name ref = n
     else ChartRef_Kind ref = HelmChartKind \<and>
       ChartRef_Name ref = GetHelmChartHashedName (rel_Namespace rel) (rel_Name rel)))"
proof -
  have none: "companion_chart r rel n chart = None" if "Chart_OCI chart \<noteq> None"
    using that assms(3) by (auto simp: companion_chart_def one_source_def split: option.splits if_splits)
  have applied: "SMeta_Name (HelmChart_Meta hc'') = GetHelmChartHashedName (rel_Namespace rel) (rel_Name rel)"
    if "companion_chart r rel n chart = Some hc" "lib_SetControllerReference (rr_Lib r) rel hc = Inr hc'"
      "client_ApplyHelmChart (rr_Client r) hc' w = (Inr hc'', w')" for hc hc' hc'' w w'
    using assms(1) that companion_chart_name [OF that(1)] unfolding helmchart_contract_def by metis
  show ?thesis
    unfolding ensureHelmChart_def Let_def assms(2) option.case
    by (intro runs_case_option runs_case_sum runs_return runs_bind runs_perform)
      (use none applied in \<open>auto split: sum.splits\<close>)
qed

lemma built_oci_kind:
  assumes "BuildChartSourceFromRelease L g v rel chart = Inr src" and "one_source chart" and "Chart_OCI chart \<noteq> None"
  shows "Type_Kind (Source_Type src) = OCIRepositoryKind"
  using assms
  by (auto simp: BuildChartSourceFromRelease_def one_source_def set_hashed_name_def SetName_def Let_def
      buildOCIRepository_def split: option.splits sum.splits if_splits)

lemma runs_resolve_ready_index:
  assumes "helmchart_contract r" and "Spec_Chart (Release_Spec rel) = Some chart" and "one_source chart"
    and "Spec_ChartRef (Release_Spec rel) = None"
    and "BuildChartSourceFromRelease (lib_source (rr_Lib r)) (api_group r) (api_version r) rel chart = Inr src"
  shows "runs (resolve_ready r rel src) (\<lambda>res cs. \<forall>ref rel'. res = Inr (ref, rel') \<longrightarrow>
    sourceRefIndexerFunc r rel = [chart_ref_index ref])"
  unfolding resolve_ready_def fail_resolve_def
  by (rule runs_bind, rule runs_mono [OF runs_ensureHelmChart_ref [OF assms(1-3)]], rule runs_case_sum,
      rule runs_bind, rule runs_emits [OF kinds_handleFailure], rule runs_return, simp, rule runs_return)
    (use built_oci_kind [OF assms(5,3)] assms in
      \<open>auto simp: sourceRefIndexerFunc_def chart_ref_index_def split: if_splits\<close>)

lemma runs_resolve_index:
  assumes "retry_contract (rr_Lib r)" and "helmchart_contract r" and "one_chart rel"
  shows "runs (resolveChartRef r rel) (\<lambda>res cs. \<forall>ref rel'. res = Inr (ref, rel') \<longrightarrow>
    sourceRefIndexerFunc r rel = [chart_ref_index ref])"
proof -
  have fail: "runs (fail_resolve r rel1 e) (\<lambda>res cs. \<forall>ref rel'. res = Inr (ref, rel') \<longrightarrow> Q ref)" for rel1 e Q
    unfolding fail_resolve_def by (intro runs_bind runs_emits [OF kinds_handleFailure] runs_return) simp
  have adv: "runs (advance r rel1) (\<lambda>res cs. \<forall>ref rel'. res = Inr (ref, rel') \<longrightarrow> Q ref)" for rel1 Q
    by (rule runs_advance) simp_all
  show ?thesis
  proof (cases "Spec_Chart (Release_Spec rel)")
    case None
    show ?thesis
      unfolding resolveChartRef_def resolve_without_chart_def Let_def None option.case
      by (intro runs_if runs_bind runs_case_option runs_case_sum runs_return fail
          runs_emits [OF kinds_StatusUpdate] runs_emits [OF kinds_cleanupHelmChart]
          runs_emits [OF kinds_cleanupChartSourceRef [OF assms(1)]])
        (auto simp: sourceRefIndexerFunc_def chart_ref_index_def None)
  next
    case (Some chart)
    with assms(3) have chart: "one_source chart" "Spec_ChartRef (Release_Spec rel) = None"
      by (auto simp: one_chart_def)
    show ?thesis
      unfolding resolveChartRef_def Let_def Some option.case
      by (intro runs_case_sum runs_if runs_bind fail adv runs_case_option
          runs_resolve_ready_index [OF assms(2) Some chart]
          runs_emits [OF kinds_cleanupChartSourceRef [OF assms(1)]]
          runs_emits [OF kinds_ensureChartSourceRef [OF assms(1)]])
  qed
qed

section \<open>Digests\<close>

lemma length_Split: "length (strings_Split s sep) = Suc (count_list s sep)"
  by (induction s) (auto split: list.splits)

lemma extractDigest_none: "CHR ''@'' \<notin> set d \<Longrightarrow> extractDigest d = d"
  by (simp add: extractDigest_def strings_ContainsChar_def)

lemma extractDigest_one:
  "CHR ''@'' \<notin> set v \<Longrightarrow> CHR ''@'' \<notin> set d \<Longrightarrow> extractDigest (v @ CHR ''@'' # d) = d"
  by (simp add: extractDigest_def strings_ContainsChar_def strings_Split_append_sep strings_Split_no_sep Let_def)

section \<open>The reference environment\<close>

text \<open>The reference environment with the indexes the operator registers.\<close>

definition mem_watching :: "mem_world ReleaseReconciler" where
  "mem_watching = mem_reconciler\<lparr>rr_Client := mem_client (\<lambda>field rel.
     case map_of (registered_indexes mem_reconciler) field of None \<Rightarrow> [] | Some ix \<Rightarrow> ix rel)\<rparr>"

definition mem_cached :: "mem_world \<Rightarrow> Release set" where
  "mem_cached w = set (map snd (mw_releases w))"

lemma watching_parts:
  "rr_Lib mem_watching = rr_Lib mem_reconciler" "rr_Config mem_watching = rr_Config mem_reconciler"
  by (simp_all add: mem_watching_def)

lemma registered_watching: "registered_indexes mem_watching = registered_indexes mem_reconciler"
  unfolding registered_indexes_def sourceRefIndexerFunc_def [abs_def] watching_parts ..

lemma mem_list_contract: "list_contract mem_watching mem_cached"
  unfolding list_contract_def registered_watching
  by (auto simp: mem_watching_def mem_client_def mem_ListReleases_def unless_down_def mem_cached_def split: if_splits)

lemma mem_watching_retry: "retry_contract (rr_Lib mem_watching)"
  using mem_retry_contract by (simp add: mem_watching_def)

lemma mem_helmchart_contract: "helmchart_contract mem_watching"
  by (auto simp: helmchart_contract_def mem_watching_def mem_client_def mem_ApplyHelmChart_def unless_down_def
      mem_reconciler_def mem_lib_def Let_def split: if_splits)

lemma mem_list:
  "\<not> mw_fail w (CListReleases field v) \<Longrightarrow> client_ListReleases (rr_Client mem_watching) field v w =
     (Inr (filter (\<lambda>rel. v \<in> set (case map_of (registered_indexes mem_reconciler) field of None \<Rightarrow> []
        | Some ix \<Rightarrow> ix rel)) (map snd (mw_releases w))), w)"
  by (simp add: mem_watching_def mem_client_def mem_ListReleases_def unless_down_def)

definition demo_artifact :: Artifact where
  "demo_artifact = \<lparr>Art_Revision = ''1'', Art_Digest = ''sha256:aa''\<rparr>"

lemma demo_world_simps [simp]:
  "world (start w) = w" "\<not> mw_fail (demo_world rel) c" "mw_releases (demo_world rel) = [(mem_key rel, rel)]"
  by (simp_all add: start_def demo_world_def mem_put_def mem_put_release_def empty_world_def)

text \<open>A release that reads its values from a ConfigMap, in a world that has it.\<close>

definition demo_configured :: Release where
  "demo_configured = demo_referring\<lparr>Release_Spec := (Release_Spec demo_referring)\<lparr>Spec_ValuesFrom :=
     [\<lparr>Values_Kind = ''ConfigMap'', Values_Name = ''conf'', Values_DataKey = [], Values_Optional = False\<rparr>]\<rparr>\<rparr>"

definition demo_conf :: NamespacedName where
  "demo_conf = \<lparr>NN_Namespace = ''prod'', NN_Name = ''conf''\<rparr>"

fun reads_config :: "NamespacedName \<Rightarrow> call \<times> bool \<Rightarrow> bool" where
  "reads_config n (CGetConfigMap m, b) = (m = n)"
| "reads_config n _ = False"

lemma reads_configD: "reads_config n x \<Longrightarrow> \<exists>b. x = (CGetConfigMap n, b)"
  by (cases "(n, x)" rule: reads_config.cases) auto

section \<open>Properties\<close>

text \<open>C13. A changed ConfigMap or Secret reaches every release that reads it. If a reconciliation of a
  release reads the object, whatever else happens in it, then the function the watch on that type
  maps the object with yields the release, as long as the release is still in the cache and the
  cache can be listed.\<close>

theorem config_changes_reach_readers:
  assumes "retry_contract (rr_Lib r)" and "list_contract r releases" and "valid_keys rel"
    and "(c, b) \<in> set (trace (reconcile_live r rel) s)"
    and "c = (if secret then CGetSecret n else CGetConfigMap n)"
    and "rel \<in> releases (world t)"
    and "client_ListReleases (rr_Client r) (if secret then indexSecret else indexConfigMap)
      (NamespacedName_String n) (world t) = (Inr items, w)"
  shows "\<exists>wt \<in> set (Controller_Watches (release_controller r)).
    Watch_Type wt = (if secret then ''Secret'' else ''ConfigMap'') \<and>
    ObjectKeyFromObject rel \<in> set (fst (run_state (mapped_requests r has (Watch_Map wt) (PartialMetadata n ls)) t))"
proof -
  have "list_all (indexed_reads rel) (trace (reconcile_live r rel) s)"
    by (rule emits_trace [OF reads_reconcile_live [OF assms(1,3)]])
  with assms(4,5) have "NamespacedName_String n \<in>
      set (configDependencyIndexerFunc (if secret then ''Secret'' else ''ConfigMap'') rel)"
    by (auto simp: list_all_iff indexed_reads_def split: if_splits)
  then have "rel \<in> set items"
    using list_contractD [OF assms(2) _ assms(7)] index_lookup assms(6) by (cases secret) auto
  then have "ObjectKeyFromObject rel \<in> set (fst (run_state
      (requestsForConfigDependency r (if secret then indexSecret else indexConfigMap) (PartialMetadata n ls)) t))"
    by (simp add: run_requests assms(7))
  then show ?thesis
    by (cases secret) (simp_all add: release_controller_def mapped_requests_def)
qed

theorem config_changes_reach_readers_witness:
  "\<exists>wt \<in> set (Controller_Watches (release_controller mem_watching)). Watch_Type wt = ''ConfigMap'' \<and>
     ObjectKeyFromObject demo_configured \<in> set (fst (run_state
       (mapped_requests mem_watching (\<lambda>a v. Art_Revision a = v) (Watch_Map wt) (PartialMetadata demo_conf Map.empty))
       (start (demo_world demo_configured))))"
proof -
  have "list_ex (reads_config demo_conf)
      (trace (reconcile_live mem_watching demo_configured) (start (demo_world demo_configured)))"
    by code_simp
  then obtain b where b: "(CGetConfigMap demo_conf, b) \<in>
      set (trace (reconcile_live mem_watching demo_configured) (start (demo_world demo_configured)))"
    by (auto simp: list_ex_iff dest!: reads_configD)
  have keys: "valid_keys demo_configured"
    by (simp add: valid_keys_def demo_configured_def demo_referring_def empty_spec_def keyring_ref_def)
  show ?thesis
    using config_changes_reach_readers [OF mem_watching_retry mem_list_contract keys b, where secret = False,
        where t = "start (demo_world demo_configured)"] mem_list [of "demo_world demo_configured"]
    by (simp add: mem_cached_def)
qed

text \<open>C14. The source index of a release is the reference its chart is read from: when a reconciliation
  gets a chart reference, from the specification or for the inline chart, the index function
  yields exactly that reference, so a change of the object is mapped to the release.\<close>

theorem source_index_is_the_chart_ref:
  assumes "retry_contract (rr_Lib r)" and "helmchart_contract r" and "one_chart rel"
    and "fst (run_state (resolveChartRef r rel) s) = Inr (ref, rel')"
  shows "sourceRefIndexerFunc r rel = [chart_ref_index ref]"
  using runs_resolve_index [OF assms(1-3), THEN runs_trace, of s] assms(4) by simp

lemma demo_resolved:
  "fst (run_state (resolveChartRef mem_watching demo_referring) s) =
     Inr (demo_chart_ref\<lparr>ChartRef_Namespace := ''prod''\<rparr>, demo_referring\<lparr>Release_Spec :=
       (Release_Spec demo_referring)\<lparr>Spec_ChartRef := Some (demo_chart_ref\<lparr>ChartRef_Namespace := ''prod''\<rparr>)\<rparr>\<rparr>)"
  by (simp add: resolveChartRef_def resolve_without_chart_def demo_referring_def demo_release_def empty_spec_def
      empty_status_def demo_chart_ref_def Let_def)

lemma demo_one_chart: "one_chart demo_referring"
  by (simp add: one_chart_def demo_referring_def empty_spec_def)

theorem source_index_is_the_chart_ref_witness:
  "sourceRefIndexerFunc mem_watching demo_referring = [''HelmChart/prod/chart'']"
  using source_index_is_the_chart_ref [OF mem_watching_retry mem_helmchart_contract demo_one_chart demo_resolved]
  by (simp add: chart_ref_index_def source_index_def demo_chart_ref_def HelmChartKind_def)

text \<open>
  \<^verbatim>\<open>HasRevision\<close> of an artifact tells whether the revision is the given one.
\<close>

definition revision_contract :: "(Artifact \<Rightarrow> string \<Rightarrow> bool) \<Rightarrow> bool" where
  "revision_contract has \<longleftrightarrow> (\<forall>a v. has a v \<longleftrightarrow> Art_Revision a = v)"

definition revision_of :: "event_object \<Rightarrow> string option" where
  "revision_of obj = Option.bind (as_Source obj) (map_option Art_Revision)"

text \<open>C30. The filter on source events lets an update pass exactly when the source has an artifact of
  another revision than before, or has become ready; creations and deletions never pass.\<close>

theorem source_filter_passes:
  assumes "revision_contract has" and "as_Source old \<noteq> None" and "as_Source new \<noteq> None"
  shows "(SourceRevisionChange_Update L has (Some old) (Some new) \<longleftrightarrow>
      revision_of new \<noteq> None \<and> revision_of new \<noteq> revision_of old \<or>
      \<not> lib_IsReady L (the (as_Getter old)) \<and> lib_IsReady L (the (as_Getter new))) \<and>
    \<not> SourceRevisionChange_Create new \<and> \<not> SourceRevisionChange_Delete old"
  using assms
  by (cases old; cases new;
      auto simp: SourceRevisionChange_Update_def SourceRevisionChange_Create_def SourceRevisionChange_Delete_def
        revision_of_def revision_contract_def split: option.splits)

theorem source_filter_passes_witness:
  "SourceRevisionChange_Update mem_lib (\<lambda>a v. Art_Revision a = v)
     (Some (HelmChartObject demo_key (Some demo_artifact) []))
     (Some (HelmChartObject demo_key (Some (demo_artifact\<lparr>Art_Revision := ''2''\<rparr>)) []))"
  by (subst source_filter_passes [THEN conjunct1])
    (simp_all add: revision_contract_def revision_of_def demo_artifact_def)

text \<open>C29. A new revision of the HelmChart a release reads its chart from reaches the release: the map
  function of the watch yields it unless the last attempted revision is the one of the artifact.\<close>

theorem new_revision_reaches_release:
  assumes "retry_contract (rr_Lib r)" and "helmchart_contract r" and "one_chart rel"
    and "list_contract r releases" and "revision_contract has"
    and "fst (run_state (resolveChartRef r rel) s) = Inr (ref, rel')" and "ChartRef_Kind ref = HelmChartKind"
    and "now \<in> releases (world t)" and "Release_Meta now = Release_Meta rel" and "Release_Spec now = Release_Spec rel"
    and "Status_LastAttemptedArtifactRevision (Release_Status now) \<noteq> Art_Revision a"
    and "client_ListReleases (rr_Client r) indexSourceRef (chart_ref_index ref) (world t) = (Inr items, w)"
  shows "ObjectKeyFromObject rel \<in> set (fst (run_state (requestsForHelmChartChange r has
      (HelmChartObject \<lparr>NN_Namespace = ChartRef_Namespace ref, NN_Name = ChartRef_Name ref\<rparr> (Some a) cs)) t))"
proof -
  have "sourceRefIndexerFunc r now = sourceRefIndexerFunc r rel"
    unfolding sourceRefIndexerFunc_def BuildChartSourceFromRelease_def buildGitRepository_def
      buildHelmRepository_def buildBucket_def buildOCIRepository_def inline_meta_def assms(9,10) ..
  moreover have "sourceRefIndexerFunc r rel = [chart_ref_index ref]"
    using runs_resolve_index [OF assms(1-3), THEN runs_trace, of s] assms(6) by simp
  ultimately have "now \<in> set items"
    using list_contractD [OF assms(4) index_lookup(1) assms(12)] assms(8) by simp
  moreover have "ObjectKeyFromObject now = ObjectKeyFromObject rel"
    by (simp add: ObjectKeyFromObject_def assms(9))
  moreover have "fst (run_state (requestsForHelmChartChange r has
      (HelmChartObject \<lparr>NN_Namespace = ChartRef_Namespace ref, NN_Name = ChartRef_Name ref\<rparr> (Some a) cs)) t) =
    map ObjectKeyFromObject (filter (\<lambda>hr. \<not> (isReadyOrReconciling (rr_Lib r) hr \<and>
      has a (Status_LastAttemptedArtifactRevision (Release_Status hr)))) items)"
    using assms(12) unfolding chart_ref_index_def source_index_def assms(7)
    by (simp add: requestsForHelmChartChange_def ListReleases_def wp NamespacedName_String_def helmchart_requests_filter)
  ultimately show ?thesis
    using assms(5,11) by (auto simp: revision_contract_def intro!: image_eqI [of _ _ now])
qed

theorem new_revision_reaches_release_witness:
  "ObjectKeyFromObject demo_referring \<in> set (fst (run_state
     (requestsForHelmChartChange mem_watching (\<lambda>a v. Art_Revision a = v)
       (HelmChartObject \<lparr>NN_Namespace = ''prod'', NN_Name = ''chart''\<rparr> (Some demo_artifact) []))
     (start (demo_world demo_referring))))"
  using new_revision_reaches_release [OF mem_watching_retry mem_helmchart_contract demo_one_chart mem_list_contract _
      demo_resolved, where has = "\<lambda>a v. Art_Revision a = v" and now = demo_referring and a = demo_artifact and cs = "[]"
      and t = "start (demo_world demo_referring)"] mem_list [of "demo_world demo_referring"]
  by (simp add: revision_contract_def demo_chart_ref_def mem_cached_def demo_artifact_def demo_referring_def
      demo_release_def empty_status_def)

text \<open>C15. A release whose source is not ready when its interval ends is reconciled neither later nor when
  the source is ready again. The reconciliation ends without asking for another one and leaves
  the conditions of the release as they were; so if the release was ready, and the source comes
  back with the revision that was deployed last, the map function of the watch skips it.\<close>

theorem unready_source_ends_the_interval:
  assumes "isReadyOrReconciling (rr_Lib r) rel"
    and "has a (Status_LastAttemptedArtifactRevision (Release_Status rel))"
    and "fst (run_state (ResolveChartRef r (api_group r) (api_version r) ref dir
      (Config_HTTPRetry (rr_Config r)) (Config_HTTPTimeout (rr_Config r))) s) = Inl err"
    and "as_SourceNotReady err = Some msg"
    and "fst (run_state (reconcile_chart r rel ref dir preRel foreign) s) = Returned res None"
  shows "res = no_result \<and>
    (\<exists>rel'. (CStatusUpdate rel', True) \<in> set (calls (snd (run_state (reconcile_chart r rel ref dir preRel foreign) s))) \<and>
      (\<forall>t n cs w. client_ListReleases (rr_Client r) indexSourceRef (HelmChartKind @ ''/'' @ NamespacedName_String n)
           (world t) = (Inr [rel'], w) \<longrightarrow>
         fst (run_state (requestsForHelmChartChange r has (HelmChartObject n (Some a) cs)) t) = []))"
proof -
  let ?rel = "fst (run_state (projectStatusFromStorage r rel (rel_Name rel) (GetReleaseNamespace rel) preRel False) s)"
  have proj: "projectStatusFromStorage r rel (rel_Name rel) (GetReleaseNamespace rel) preRel False = returnM ?rel"
    by (simp add: projectStatusFromStorage_def)
  obtain s1 where s1: "run_state (ResolveChartRef r (api_group r) (api_version r) ref dir
      (Config_HTTPRetry (rr_Config r)) (Config_HTTPTimeout (rr_Config r))) s = (Inl err, s1)"
    using assms(3) by (metis prod.collapse)
  obtain u w where u: "client_StatusUpdate (rr_Client r) ?rel (world s1) = (u, w)"
    by fastforce
  have run: "run_state (reconcile_chart r rel ref dir preRel foreign) s =
      (case u of Inl e \<Rightarrow> fail_with ''update source-not-ready status'' e | Inr _ \<Rightarrow> Returned no_result None,
       \<lparr>world = w, calls = calls s1 @ [(CStatusUpdate ?rel, succeeded u)]\<rparr>)"
    unfolding reconcile_chart_def by (subst proj) (simp add: s1 assms(4) StatusUpdate_def wp u)
  with assms(5) obtain rel2 where "u = Inr rel2" "res = no_result"
    by (cases u) (auto simp: fail_with_def)
  moreover have "isReadyOrReconciling (rr_Lib r) ?rel \<and> has a (Status_LastAttemptedArtifactRevision (Release_Status ?rel))"
    using assms(1,2) by (simp add: projectStatusFromStorage_def isReadyOrReconciling_def GetConditions_def Let_def
        split: option.splits)
  ultimately show ?thesis
    by (intro conjI, simp, intro exI [of _ ?rel])
      (simp add: run requestsForHelmChartChange_def ListReleases_def wp)
qed

text \<open>A release that was deployed, and the HelmChart it refers to without any condition.\<close>

definition demo_deployed :: Release where
  "demo_deployed = with_status (\<lambda>s. s\<lparr>Status_LastAttemptedArtifactRevision := ''1'', Status_Conditions :=
     [\<lparr>Cond_Type = ''Ready'', Cond_Status = ''True'', Cond_ObservedGeneration = 1, Cond_LastTransitionTime = [],
       Cond_Reason = [], Cond_Message = []\<rparr>]\<rparr>) demo_referring"

definition demo_unready :: "mem_world sys" where
  "demo_unready = start (mem_put (mem_object HelmChartKind \<lparr>SMeta_Name = ''chart'', SMeta_Namespace = ''prod'',
     SMeta_Labels = Map.empty, SMeta_Annotations = None, SMeta_OwnerReferences = []\<rparr> (JObject [])) empty_world)"

theorem unready_source_ends_the_interval_witness:
  "\<exists>rel'. (CStatusUpdate rel', True) \<in> set (calls (snd (run_state (reconcile_chart mem_watching demo_deployed
       (demo_chart_ref\<lparr>ChartRef_Namespace := ''prod''\<rparr>) ''/tmp'' None False) demo_unready))) \<and>
     (\<forall>t n cs w. client_ListReleases (rr_Client mem_watching) indexSourceRef
          (HelmChartKind @ ''/'' @ NamespacedName_String n) (world t) = (Inr [rel'], w) \<longrightarrow>
        fst (run_state (requestsForHelmChartChange mem_watching (\<lambda>a v. Art_Revision a = v)
          (HelmChartObject n (Some demo_artifact) cs)) t) = [])"
proof -
  let ?ref = "demo_chart_ref\<lparr>ChartRef_Namespace := ''prod''\<rparr>"
  have ready: "isReadyOrReconciling (rr_Lib mem_watching) demo_deployed"
    "Art_Revision demo_artifact = Status_LastAttemptedArtifactRevision (Release_Status demo_deployed)"
    by (simp_all add: isReadyOrReconciling_def mem_watching_def mem_reconciler_def mem_lib_def cond_is_def
        demo_deployed_def GetConditions_def demo_artifact_def)
  have unready: "fst (run_state (ResolveChartRef mem_watching (api_group mem_watching) (api_version mem_watching) ?ref
      ''/tmp'' (Config_HTTPRetry (rr_Config mem_watching)) (Config_HTTPTimeout (rr_Config mem_watching))) demo_unready) =
      Inl (SourceNotReadyError ''no conditions found'')"
    by code_simp
  have ended: "fst (run_state (reconcile_chart mem_watching demo_deployed ?ref ''/tmp'' None False) demo_unready) =
      Returned no_result None"
    unfolding ended_well_iff by code_simp
  show ?thesis
    using unready_source_ends_the_interval [where has = "\<lambda>a v. Art_Revision a = v", OF ready unready _ ended] by simp
qed

text \<open>C36. \<^verbatim>\<open>extractDigest\<close> reads back the digest of a revision in either of its formats, and answers with the
  empty string exactly for an empty revision, one with several separators, and one that ends with
  its separator.\<close>

theorem extractDigest_roundtrip:
  "(CHR ''@'' \<notin> set version \<and> CHR ''@'' \<notin> set digest \<longrightarrow>
      extractDigest (version @ ''@'' @ digest) = digest \<and> extractDigest digest = digest) \<and>
   (extractDigest revision = [] \<longleftrightarrow> revision = [] \<or> 1 < count_list revision (CHR ''@'') \<or>
      count_list revision (CHR ''@'') = 1 \<and> last revision = CHR ''@'')"
proof (intro conjI impI)
  assume "CHR ''@'' \<notin> set version \<and> CHR ''@'' \<notin> set digest"
  then show "extractDigest (version @ ''@'' @ digest) = digest" "extractDigest digest = digest"
    by (simp_all add: extractDigest_one extractDigest_none)
next
  consider "count_list revision (CHR ''@'') = 0" | "count_list revision (CHR ''@'') = 1"
    | "1 < count_list revision (CHR ''@'')" by linarith
  then show "extractDigest revision = [] \<longleftrightarrow> revision = [] \<or> 1 < count_list revision (CHR ''@'') \<or>
      count_list revision (CHR ''@'') = 1 \<and> last revision = CHR ''@''"
  proof cases
    case 1
    then show ?thesis by (simp add: count_list_0_iff extractDigest_none)
  next
    case 2
    then have "CHR ''@'' \<in> set revision" by (metis count_list_0_iff zero_neq_one)
    then obtain v d where vd: "revision = v @ CHR ''@'' # d" "CHR ''@'' \<notin> set v"
      by (meson split_list_first)
    with 2 have "count_list d (CHR ''@'') = 0" by simp
    then have d: "CHR ''@'' \<notin> set d" by (simp add: count_list_0_iff)
    then have "last revision = CHR ''@'' \<longleftrightarrow> d = []"
      using vd d by (cases "d = []") (simp_all, metis last_in_set)
    with 2 vd d show ?thesis by (simp add: extractDigest_one)
  next
    case 3
    then have "CHR ''@'' \<in> set revision" by (metis count_list_0_iff not_less_zero)
    with 3 show ?thesis
      by (simp add: extractDigest_def strings_ContainsChar_def length_Split Let_def del: strings_Split.simps)
  qed
qed

theorem extractDigest_roundtrip_witness: "extractDigest ''1.0@sha256:bb'' = ''sha256:bb''"
  using extractDigest_roundtrip [of "''1.0''" "''sha256:bb''"] by simp

text \<open>C37. An OCIRepository whose artifact is the one a release attempted last is not recognised as such:
  the release records the digest of the artifact, and the map function compares it with the
  digest in the revision. When the two differ, a ready release is requested at every event that
  passes the filter.\<close>

theorem oci_requests_compare_revision_digest:
  assumes "extractDigest (Art_Revision a) \<noteq> []" and "extractDigest (Art_Revision a) \<noteq> Art_Digest a"
    and "Status_LastAttemptedArtifactDigest (Release_Status rel) = Art_Digest a"
    and "Status_LastAttemptedArtifactRevision (Release_Status rel) = Art_Revision a" and "rel \<in> set items"
    and "client_ListReleases (rr_Client r) indexSourceRef (OCIRepositoryKind @ ''/'' @ NamespacedName_String n) (world t) =
      (Inr items, w)"
  shows "ObjectKeyFromObject rel \<in> set (fst (run_state (requestsForOCIRepositoryChange r (OCIRepositoryObject n (Some a) cs)) t))"
  using assms by (auto simp: requestsForOCIRepositoryChange_def ListReleases_def wp oci_requests_filter)

definition demo_oci_artifact :: Artifact where
  "demo_oci_artifact = \<lparr>Art_Revision = ''1.0@sha256:bb'', Art_Digest = ''sha256:aa''\<rparr>"

definition demo_oci_release :: Release where
  "demo_oci_release = with_status (\<lambda>s. s\<lparr>Status_LastAttemptedArtifactRevision := ''1.0@sha256:bb'',
     Status_LastAttemptedArtifactDigest := ''sha256:aa''\<rparr>) (demo_deployed\<lparr>Release_Spec := empty_spec
     \<lparr>Spec_ChartRef := Some (demo_chart_ref\<lparr>ChartRef_Kind := OCIRepositoryKind\<rparr>)\<rparr>\<rparr>)"

theorem oci_requests_compare_revision_digest_witness:
  "ObjectKeyFromObject demo_oci_release \<in> set (fst (run_state (requestsForOCIRepositoryChange mem_watching
     (OCIRepositoryObject \<lparr>NN_Namespace = ''prod'', NN_Name = ''chart''\<rparr> (Some demo_oci_artifact) []))
     (start (demo_world demo_oci_release))))"
proof (rule oci_requests_compare_revision_digest [OF _ _ _ _ _ mem_list])
  show "extractDigest (Art_Revision demo_oci_artifact) \<noteq> []"
    "extractDigest (Art_Revision demo_oci_artifact) \<noteq> Art_Digest demo_oci_artifact"
    by code_simp+
  show "Status_LastAttemptedArtifactDigest (Release_Status demo_oci_release) = Art_Digest demo_oci_artifact"
    "Status_LastAttemptedArtifactRevision (Release_Status demo_oci_release) = Art_Revision demo_oci_artifact"
    by (simp_all add: demo_oci_release_def demo_oci_artifact_def)
  have "sourceRefIndexerFunc mem_reconciler demo_oci_release = [''OCIRepository/prod/chart'']"
    by (simp add: sourceRefIndexerFunc_def source_index_def demo_oci_release_def demo_deployed_def demo_referring_def
        demo_release_def demo_chart_ref_def OCIRepositoryKind_def)
  then show "demo_oci_release \<in> set (filter (\<lambda>rel. OCIRepositoryKind @ ''/'' @
      NamespacedName_String \<lparr>NN_Namespace = ''prod'', NN_Name = ''chart''\<rparr> \<in> set (case map_of
        (registered_indexes mem_reconciler) indexSourceRef of None \<Rightarrow> [] | Some ix \<Rightarrow> ix rel))
      (map snd (mw_releases (world (start (demo_world demo_oci_release))))))"
    by (simp add: index_lookup NamespacedName_String_def OCIRepositoryKind_def)
qed simp

end
