(* ===== verification/Go_Heap.thy ===== *)
theory Go_Heap
  imports Go_Prelude "HOL-Library.AList"
begin

text \<open>
  Go memory for the code whose point is sharing: values with pointers, slices and maps over a heap
  of variables, arrays and map tables, the types of such values, what a value denotes and which
  addresses it occupies, and the statements the generated deep copies are made of. The rest of
  the development models a resource as a record, without addresses; \<open>denote\<close> is the step between
  the two views.
\<close>

section \<open>Values and memory\<close>

type_synonym addr = nat

datatype scalar = SString string | SBool bool | SInt int

text \<open>
  A slice is a window (array, offset, length) of an array. \<open>VZero\<close> is memory as \<^verbatim>\<open>new\<close> and \<^verbatim>\<open>make\<close>
  leave it, before it is assigned. The maps of the program map strings to strings; their table is
  an association list.
\<close>

datatype gval =
  VZero
| VScalar scalar
| VPtr "addr option"
| VSlice "(addr \<times> nat \<times> nat) option"
| VMap "addr option"
| VStruct "(string \<times> gval) list"

datatype cell = CVar gval | CArray "gval list" | CMap "(string \<times> scalar) list"

text \<open>Every allocated address is below \<open>lim\<close>.\<close>

record gheap =
  mem :: "addr \<rightharpoonup> cell"
  lim :: addr

definition wf_heap :: "gheap \<Rightarrow> bool" where
  "wf_heap h \<longleftrightarrow> (\<forall>a \<in> dom (mem h). a < lim h)"

text \<open>The program allocates and leaves what was allocated before as it is.\<close>

definition grows :: "gheap \<Rightarrow> gheap \<Rightarrow> bool" where
  "grows h h' \<longleftrightarrow> lim h \<le> lim h' \<and> (\<forall>a < lim h. mem h' a = mem h a)"

lemma grows_refl [simp]: "grows h h"
  by (simp add: grows_def)

lemma grows_trans: "grows h h' \<Longrightarrow> grows h' h'' \<Longrightarrow> grows h h''"
  by (auto simp: grows_def)

section \<open>Types\<close>

datatype gtype = TScalar | TPtr gtype | TSlice gtype | TMap | TStruct "(string \<times> gtype) list"

fun field :: "gval \<Rightarrow> string \<Rightarrow> gval" where
  "field (VStruct vs) n = (case map_of vs n of Some v \<Rightarrow> v | None \<Rightarrow> VZero)"
| "field v n = VZero"

fun set_field :: "gval \<Rightarrow> string \<Rightarrow> gval \<Rightarrow> gval" where
  "set_field (VStruct vs) n w = VStruct (map (\<lambda>(m, v). (m, if m = n then w else v)) vs)"
| "set_field v n w = v"

fun field_names :: "gval \<Rightarrow> string list" where
  "field_names (VStruct vs) = map fst vs"
| "field_names v = []"

fun is_struct :: "gval \<Rightarrow> bool" where
  "is_struct (VStruct vs) = True"
| "is_struct v = False"

definition window :: "nat \<Rightarrow> nat \<Rightarrow> 'a list \<Rightarrow> 'a list" where
  "window off len us = take len (drop off us)"

text \<open>The value has the type, and no address in it dangles.\<close>

fun has_type :: "(addr \<rightharpoonup> cell) \<Rightarrow> gtype \<Rightarrow> gval \<Rightarrow> bool" where
  "has_type m TScalar v = (case v of VScalar s \<Rightarrow> True | _ \<Rightarrow> False)"
| "has_type m (TPtr T) v =
     (case v of
        VPtr None \<Rightarrow> True
      | VPtr (Some a) \<Rightarrow> (case m a of Some (CVar u) \<Rightarrow> has_type m T u | _ \<Rightarrow> False)
      | _ \<Rightarrow> False)"
| "has_type m (TSlice T) v =
     (case v of
        VSlice None \<Rightarrow> True
      | VSlice (Some (a, off, len)) \<Rightarrow>
          (case m a of
             Some (CArray us) \<Rightarrow> off + len \<le> length us \<and> (\<forall>u \<in> set (window off len us). has_type m T u)
           | _ \<Rightarrow> False)
      | _ \<Rightarrow> False)"
| "has_type m TMap v =
     (case v of
        VMap None \<Rightarrow> True
      | VMap (Some a) \<Rightarrow> (case m a of Some (CMap t) \<Rightarrow> distinct (map fst t) | _ \<Rightarrow> False)
      | _ \<Rightarrow> False)"
| "has_type m (TStruct Ts) v =
     (is_struct v \<and> field_names v = map fst Ts \<and> (\<forall>(n, T) \<in> set Ts. has_type m T (field v n)))"

text \<open>What a value of a type stands for: the same without addresses.\<close>

datatype meaning =
  MScalar scalar
| MNil
| MPtr meaning
| MSlice "meaning list"
| MMap "string \<rightharpoonup> scalar"
| MStruct "(string \<times> meaning) list"
| MNone

fun denote :: "(addr \<rightharpoonup> cell) \<Rightarrow> gtype \<Rightarrow> gval \<Rightarrow> meaning" where
  "denote m TScalar v = (case v of VScalar s \<Rightarrow> MScalar s | _ \<Rightarrow> MNone)"
| "denote m (TPtr T) v =
     (case v of
        VPtr None \<Rightarrow> MNil
      | VPtr (Some a) \<Rightarrow> (case m a of Some (CVar u) \<Rightarrow> MPtr (denote m T u) | _ \<Rightarrow> MNone)
      | _ \<Rightarrow> MNone)"
| "denote m (TSlice T) v =
     (case v of
        VSlice None \<Rightarrow> MNil
      | VSlice (Some (a, off, len)) \<Rightarrow>
          (case m a of Some (CArray us) \<Rightarrow> MSlice (map (denote m T) (window off len us)) | _ \<Rightarrow> MNone)
      | _ \<Rightarrow> MNone)"
| "denote m TMap v =
     (case v of
        VMap None \<Rightarrow> MNil
      | VMap (Some a) \<Rightarrow> (case m a of Some (CMap t) \<Rightarrow> MMap (map_of t) | _ \<Rightarrow> MNone)
      | _ \<Rightarrow> MNone)"
| "denote m (TStruct Ts) v = MStruct (map (\<lambda>(n, T). (n, denote m T (field v n))) Ts)"

text \<open>The addresses through which a value can be read or changed.\<close>

fun foot :: "(addr \<rightharpoonup> cell) \<Rightarrow> gtype \<Rightarrow> gval \<Rightarrow> addr set" where
  "foot m TScalar v = {}"
| "foot m (TPtr T) v =
     (case v of
        VPtr (Some a) \<Rightarrow> insert a (case m a of Some (CVar u) \<Rightarrow> foot m T u | _ \<Rightarrow> {})
      | _ \<Rightarrow> {})"
| "foot m (TSlice T) v =
     (case v of
        VSlice (Some (a, off, len)) \<Rightarrow>
          insert a (case m a of Some (CArray us) \<Rightarrow> (\<Union>u \<in> set (window off len us). foot m T u) | _ \<Rightarrow> {})
      | _ \<Rightarrow> {})"
| "foot m TMap v = (case v of VMap (Some a) \<Rightarrow> {a} | _ \<Rightarrow> {})"
| "foot m (TStruct Ts) v = (\<Union>(n, T) \<in> set Ts. foot m T (field v n))"

text \<open>Types without pointers, slices and maps in them.\<close>

fun flat :: "gtype \<Rightarrow> bool" where
  "flat TScalar = True"
| "flat (TStruct Ts) = (\<forall>(n, T) \<in> set Ts. flat T)"
| "flat T = False"

lemma flat_foot: "flat T \<Longrightarrow> foot m T v = {}"
  by (induction T arbitrary: v rule: flat.induct) auto

lemma has_type_iff:
  "has_type m (TPtr T) v \<longleftrightarrow>
     v = VPtr None \<or> (\<exists>a u. v = VPtr (Some a) \<and> m a = Some (CVar u) \<and> has_type m T u)"
  "has_type m (TSlice T) v \<longleftrightarrow>
     v = VSlice None \<or> (\<exists>a off len us. v = VSlice (Some (a, off, len)) \<and> m a = Some (CArray us) \<and>
       off + len \<le> length us \<and> (\<forall>u \<in> set (window off len us). has_type m T u))"
  "has_type m TMap v \<longleftrightarrow>
     v = VMap None \<or> (\<exists>a t. v = VMap (Some a) \<and> m a = Some (CMap t) \<and> distinct (map fst t))"
  by (auto split: gval.splits option.splits cell.splits)

declare has_type.simps(2-4) [simp del]

lemma slice_cases:
  assumes "has_type m (TSlice T) v"
  obtains "v = VSlice None"
  | a off len us where "v = VSlice (Some (a, off, len))" "m a = Some (CArray us)" "off + len \<le> length us"
      "\<And>u. u \<in> set (window off len us) \<Longrightarrow> has_type m T u"
  using assms unfolding has_type_iff by blast

text \<open>A value depends on the memory it occupies only.\<close>

lemma frame:
  assumes "has_type m T v" and "\<And>a. a \<in> foot m T v \<Longrightarrow> m' a = m a"
  shows "has_type m' T v \<and> denote m' T v = denote m T v \<and> foot m' T v = foot m T v"
  using assms
proof (induction T arbitrary: v)
  case (TSlice T)
  from TSlice.prems(1) show ?case
  proof (cases rule: slice_cases)
    case (2 a off len us)
    with TSlice.prems(2) have "m' a = m a" by simp
    moreover have "has_type m' T u \<and> denote m' T u = denote m T u \<and> foot m' T u = foot m T u"
      if "u \<in> set (window off len us)" for u
      using 2 TSlice.prems(2) that by (intro TSlice.IH) auto
    ultimately show ?thesis using 2 by (simp add: has_type_iff)
  qed (simp add: has_type_iff)
next
  case (TStruct Ts)
  have "has_type m' T (field v n) \<and> denote m' T (field v n) = denote m T (field v n) \<and>
      foot m' T (field v n) = foot m T (field v n)" if "(n, T) \<in> set Ts" for n T
    using TStruct.prems that by (intro TStruct.IH [of "(n, T)"]) auto
  with TStruct.prems show ?case by (auto simp: case_prod_beta)
qed (auto simp: has_type_iff)

lemma foot_allocated: "has_type m T v \<Longrightarrow> a \<in> foot m T v \<Longrightarrow> m a \<noteq> None"
proof (induction T arbitrary: v)
  case (TStruct Ts)
  then show ?case by (fastforce simp: case_prod_beta)
next
  case (TSlice T)
  then show ?case by (fastforce simp: has_type_iff)
qed (auto simp: has_type_iff)

lemma foot_below: "wf_heap h \<Longrightarrow> has_type (mem h) T v \<Longrightarrow> a \<in> foot (mem h) T v \<Longrightarrow> a < lim h"
  using foot_allocated [of "mem h" T v a] by (auto simp: wf_heap_def)

lemma frame_grows:
  assumes "wf_heap h" and "grows h h'" and "has_type (mem h) T v"
  shows "has_type (mem h') T v" and "denote (mem h') T v = denote (mem h) T v"
    and "foot (mem h') T v = foot (mem h) T v"
  using frame [OF assms(3), of "mem h'"] foot_below [OF assms(1,3)] assms(2) by (auto simp: grows_def)

section \<open>Statements\<close>

type_synonym 'a mprog = "(gheap, 'a) state"

definition alloc :: "cell \<Rightarrow> addr mprog" where
  "alloc c = State (\<lambda>h. (lim h, h\<lparr>mem := (mem h)(lim h \<mapsto> c), lim := Suc (lim h)\<rparr>))"

definition load :: "addr \<Rightarrow> cell option mprog" where
  "load a = State (\<lambda>h. (mem h a, h))"

definition store :: "addr \<Rightarrow> cell \<Rightarrow> unit mprog" where
  "store a c = State (\<lambda>h. ((), h\<lparr>mem := (mem h)(a \<mapsto> c)\<rparr>))"

lemma run_alloc [simp]:
  "run_state (alloc c) h = (lim h, h\<lparr>mem := (mem h)(lim h \<mapsto> c), lim := Suc (lim h)\<rparr>)"
  by (simp add: alloc_def)

lemma run_load [simp]: "run_state (load a) h = (mem h a, h)"
  by (simp add: load_def)

lemma run_store [simp]: "run_state (store a c) h = ((), h\<lparr>mem := (mem h)(a \<mapsto> c)\<rparr>)"
  by (simp add: store_def)

text \<open>\<^verbatim>\<open>*a\<close>, \<^verbatim>\<open>a[i]\<close> and \<^verbatim>\<open>b[i] = w\<close>; the static types exclude the other cases.\<close>

fun var_of :: "cell option \<Rightarrow> gval" where
  "var_of (Some (CVar u)) = u"
| "var_of _ = VZero"

fun elem_of :: "nat \<Rightarrow> cell option \<Rightarrow> gval" where
  "elem_of i (Some (CArray us)) = (if i < length us then us ! i else VZero)"
| "elem_of i _ = VZero"

fun with_elem :: "nat \<Rightarrow> gval \<Rightarrow> cell option \<Rightarrow> cell" where
  "with_elem i w (Some (CArray us)) = CArray (us[i := w])"
| "with_elem i w (Some c) = c"
| "with_elem i w None = CVar VZero"

text \<open>
  A copier is the code that fills \<^verbatim>\<open>*out\<close> from \<^verbatim>\<open>*in\<close>: it takes the value at \<^verbatim>\<open>in\<close> and gives the one it
  leaves at \<^verbatim>\<open>out\<close>, which it overwrites first. \<open>assign\<close> is \<^verbatim>\<open>*out = *in\<close>.
\<close>

type_synonym copier = "gval \<Rightarrow> gval mprog"

definition assign :: copier where
  "assign v = returnM v"

text \<open>\<^verbatim>\<open>if in.F != nil { *out = new(T); (*in).DeepCopyInto(*out) }\<close>.\<close>

definition ptr_copy :: "copier \<Rightarrow> copier" where
  "ptr_copy DeepCopyInto v =
     (case v of
        VPtr (Some a) \<Rightarrow> do {
          out \<leftarrow> alloc (CVar VZero);
          c \<leftarrow> load a;
          w \<leftarrow> DeepCopyInto (var_of c);
          store out (CVar w);
          returnM (VPtr (Some out))
        }
      | _ \<Rightarrow> returnM v)"

text \<open>\<^verbatim>\<open>*out = make([]T, len(*in)); copy(*out, *in)\<close>.\<close>

definition slice_copy :: copier where
  "slice_copy v =
     (case v of
        VSlice (Some (a, off, len)) \<Rightarrow> do {
          out \<leftarrow> alloc (CArray (replicate len VZero));
          c \<leftarrow> load a;
          store out (CArray (map (\<lambda>i. elem_of (off + i) c) [0..<len]));
          returnM (VSlice (Some (out, 0, len)))
        }
      | _ \<Rightarrow> returnM v)"

text \<open>\<^verbatim>\<open>*out = make([]T, len(*in)); for i := range *in { (*in)[i].DeepCopyInto(&(*out)[i]) }\<close>.\<close>

fun copy_elems :: "copier \<Rightarrow> addr \<Rightarrow> nat \<Rightarrow> addr \<Rightarrow> nat list \<Rightarrow> unit mprog" where
  "copy_elems DeepCopyInto a off out [] = returnM ()"
| "copy_elems DeepCopyInto a off out (i # is) = do {
     c \<leftarrow> load a;
     w \<leftarrow> DeepCopyInto (elem_of (off + i) c);
     d \<leftarrow> load out;
     store out (with_elem i w d);
     copy_elems DeepCopyInto a off out is
   }"

definition slice_copy_each :: "copier \<Rightarrow> copier" where
  "slice_copy_each DeepCopyInto v =
     (case v of
        VSlice (Some (a, off, len)) \<Rightarrow> do {
          out \<leftarrow> alloc (CArray (replicate len VZero));
          copy_elems DeepCopyInto a off out [0..<len];
          returnM (VSlice (Some (out, 0, len)))
        }
      | _ \<Rightarrow> returnM v)"

text \<open>
  \<^verbatim>\<open>*out = make(map[string]string, len(*in)); for key, val := range *in { (*out)[key] = val }\<close>. The
  order of the entries is that of the table; what the copy denotes does not depend on it.
\<close>

fun table_of :: "cell option \<Rightarrow> (string \<times> scalar) list" where
  "table_of (Some (CMap t)) = t"
| "table_of _ = []"

fun copy_entries :: "addr \<Rightarrow> (string \<times> scalar) list \<Rightarrow> unit mprog" where
  "copy_entries out [] = returnM ()"
| "copy_entries out ((key, val) # es) = do {
     d \<leftarrow> load out;
     store out (CMap (AList.update key val (table_of d)));
     copy_entries out es
   }"

definition map_copy :: copier where
  "map_copy v =
     (case v of
        VMap (Some a) \<Rightarrow> do {
          out \<leftarrow> alloc (CMap []);
          c \<leftarrow> load a;
          copy_entries out (table_of c);
          returnM (VMap (Some out))
        }
      | _ \<Rightarrow> returnM v)"

text \<open>A struct: \<^verbatim>\<open>*out = *in\<close>, then the fields named, one after the other.\<close>

fun copy_fields :: "(string \<times> copier) list \<Rightarrow> gval \<Rightarrow> gval \<Rightarrow> gval mprog" where
  "copy_fields [] v out = returnM out"
| "copy_fields ((n, c) # cs) v out = do {
     w \<leftarrow> c (field v n);
     copy_fields cs v (set_field out n w)
   }"

definition struct_copy :: "(string \<times> copier) list \<Rightarrow> copier" where
  "struct_copy cs v = do {
     out \<leftarrow> assign v;
     copy_fields cs v out
   }"

text \<open>\<^verbatim>\<open>if in == nil { return nil }; out := new(T); in.DeepCopyInto(out); return out\<close>.\<close>

definition DeepCopy :: "copier \<Rightarrow> copier" where
  "DeepCopy DeepCopyInto v =
     (case v of
        VPtr (Some a) \<Rightarrow> do {
          out \<leftarrow> alloc (CVar VZero);
          c \<leftarrow> load a;
          w \<leftarrow> DeepCopyInto (var_of c);
          store out (CVar w);
          returnM (VPtr (Some out))
        }
      | _ \<Rightarrow> returnM (VPtr None))"

section \<open>Correct copiers\<close>

text \<open>
  \<open>fresh_copy T l h w M\<close>: in the heap \<open>h\<close> the value \<open>w\<close> denotes \<open>M\<close>, and everything it refers to was
  allocated at \<open>l\<close> or above.
\<close>

definition fresh_copy :: "gtype \<Rightarrow> addr \<Rightarrow> gheap \<Rightarrow> gval \<Rightarrow> meaning \<Rightarrow> bool" where
  "fresh_copy T l h w M \<longleftrightarrow>
     has_type (mem h) T w \<and> denote (mem h) T w = M \<and> foot (mem h) T w \<subseteq> {l..<lim h}"

definition copies :: "gtype \<Rightarrow> copier \<Rightarrow> bool" where
  "copies T f \<longleftrightarrow>
     (\<forall>h v. wf_heap h \<and> has_type (mem h) T v \<longrightarrow>
        (case run_state (f v) h of
           (w, h') \<Rightarrow> wf_heap h' \<and> grows h h' \<and> fresh_copy T (lim h) h' w (denote (mem h) T v)))"

lemma copiesI:
  assumes "\<And>h v w h'. wf_heap h \<Longrightarrow> has_type (mem h) T v \<Longrightarrow> run_state (f v) h = (w, h') \<Longrightarrow>
    wf_heap h' \<and> grows h h' \<and> fresh_copy T (lim h) h' w (denote (mem h) T v)"
  shows "copies T f"
  using assms by (fastforce simp: copies_def split: prod.split)

lemma copiesD:
  assumes "copies T f" and "wf_heap h" and "has_type (mem h) T v" and "run_state (f v) h = (w, h')"
  shows "wf_heap h' \<and> grows h h' \<and> fresh_copy T (lim h) h' w (denote (mem h) T v)"
  using assms by (fastforce simp: copies_def split: prod.splits)

text \<open>A copy stays a copy while the memory allocated for it is left alone.\<close>

lemma fresh_copy_frame:
  assumes "fresh_copy T l h w M" and "lim h \<le> lim h'" and "\<And>a. l \<le> a \<Longrightarrow> a < lim h \<Longrightarrow> mem h' a = mem h a"
    and "l' \<le> l"
  shows "fresh_copy T l' h' w M"
  using frame [of "mem h" T w "mem h'"] assms by (fastforce simp: fresh_copy_def)

lemma fresh_copy_grows: "fresh_copy T l h w M \<Longrightarrow> grows h h' \<Longrightarrow> l' \<le> l \<Longrightarrow> fresh_copy T l' h' w M"
  by (erule fresh_copy_frame) (auto simp: grows_def)

lemma wf_alloc: "wf_heap h \<Longrightarrow> wf_heap (h\<lparr>mem := (mem h)(lim h \<mapsto> c), lim := Suc (lim h)\<rparr>)"
  by (auto simp: wf_heap_def less_Suc_eq)

lemma grows_alloc: "grows h (h\<lparr>mem := (mem h)(lim h \<mapsto> c), lim := Suc (lim h)\<rparr>)"
  by (simp add: grows_def)

lemma copies_assign: "flat T \<Longrightarrow> copies T assign"
  by (rule copiesI) (auto simp: assign_def fresh_copy_def flat_foot)

text \<open>The common part of the copies that allocate one cell: the cell is filled after it was allocated.\<close>

lemma filled_cell:
  assumes "wf_heap h" and "grows h h1" and "wf_heap h2" and "lim h1 = Suc (lim h)"
    and "lim h1 \<le> lim h2" and "\<And>a. a < lim h \<Longrightarrow> mem h2 a = mem h1 a"
  shows "wf_heap (h2\<lparr>mem := (mem h2)(lim h \<mapsto> c)\<rparr>) \<and> grows h (h2\<lparr>mem := (mem h2)(lim h \<mapsto> c)\<rparr>)"
  using assms by (auto simp: wf_heap_def grows_def)

lemma copies_ptr:
  assumes "copies T f"
  shows "copies (TPtr T) (ptr_copy f)"
proof (rule copiesI)
  fix h v w h'
  assume wf: "wf_heap h" and ty: "has_type (mem h) (TPtr T) v" and run: "run_state (ptr_copy f v) h = (w, h')"
  show "wf_heap h' \<and> grows h h' \<and> fresh_copy (TPtr T) (lim h) h' w (denote (mem h) (TPtr T) v)"
  proof (cases "v = VPtr None")
    case True
    with run wf show ?thesis by (auto simp: ptr_copy_def fresh_copy_def has_type_iff)
  next
    case False
    with ty obtain a u where v: "v = VPtr (Some a)" and a: "mem h a = Some (CVar u)" and u: "has_type (mem h) T u"
      by (auto simp: has_type_iff)
    let ?h1 = "h\<lparr>mem := (mem h)(lim h \<mapsto> CVar VZero), lim := Suc (lim h)\<rparr>"
    have g1: "grows h ?h1" by (rule grows_alloc)
    have wf1: "wf_heap ?h1" using wf by (rule wf_alloc)
    have "mem ?h1 a = Some (CVar u)" using wf a by (auto simp: wf_heap_def)
    moreover obtain w2 h2 where f: "run_state (f u) ?h1 = (w2, h2)" by fastforce
    ultimately have w: "w = VPtr (Some (lim h))" and h': "h' = h2\<lparr>mem := (mem h2)(lim h \<mapsto> CVar w2)\<rparr>"
      using run v by (simp_all add: ptr_copy_def split_beta)
    have c: "wf_heap h2" "grows ?h1 h2" "fresh_copy T (Suc (lim h)) h2 w2 (denote (mem h) T u)"
      using copiesD [OF assms wf1 frame_grows(1) [OF wf g1 u] f] frame_grows(2) [OF wf g1 u] by simp_all
    then have "fresh_copy T (Suc (lim h)) h' w2 (denote (mem h) T u)"
      by (rule_tac fresh_copy_frame) (auto simp: h')
    moreover have "wf_heap h' \<and> grows h h'"
      using filled_cell [OF wf g1 c(1)] c(2) by (auto simp: h' grows_def)
    ultimately show ?thesis
      using c(2) by (auto simp: fresh_copy_def has_type_iff w v a h' grows_def)
  qed
qed

lemma DeepCopy_ptr_copy: "has_type m (TPtr T) v \<Longrightarrow> DeepCopy f v = ptr_copy f v"
  by (auto simp: has_type_iff DeepCopy_def ptr_copy_def)

lemma copies_DeepCopy: "copies T f \<Longrightarrow> copies (TPtr T) (DeepCopy f)"
  using copies_ptr by (fastforce simp: copies_def DeepCopy_ptr_copy)

lemma window_elems:
  "off + len \<le> length us \<Longrightarrow> map (\<lambda>i. elem_of (off + i) (Some (CArray us))) [0..<len] = window off len us"
  by (intro nth_equalityI) (auto simp: window_def)

lemma window_all: "length us = len \<Longrightarrow> window 0 len us = us"
  by (simp add: window_def)

lemma copies_slice_flat:
  assumes "flat T"
  shows "copies (TSlice T) slice_copy"
proof (rule copiesI)
  fix h v w h'
  assume wf: "wf_heap h" and ty: "has_type (mem h) (TSlice T) v" and run: "run_state (slice_copy v) h = (w, h')"
  show "wf_heap h' \<and> grows h h' \<and> fresh_copy (TSlice T) (lim h) h' w (denote (mem h) (TSlice T) v)"
  proof (use ty in \<open>cases rule: slice_cases\<close>)
    case 1
    with run wf show ?thesis by (auto simp: slice_copy_def fresh_copy_def has_type_iff)
  next
    case (2 a off len us)
    note v = 2(1) and a = 2(2) and len = 2(3) and us = 2(4)
    have "a < lim h" using wf a by (auto simp: wf_heap_def)
    with run v a have w: "w = VSlice (Some (lim h, 0, len))"
      and h': "h' = h\<lparr>mem := (mem h)(lim h \<mapsto> CArray (window off len us)), lim := Suc (lim h)\<rparr>"
      by (auto simp: slice_copy_def window_elems [OF len] simp del: elem_of.simps)
    have "has_type (mem h') T u \<and> denote (mem h') T u = denote (mem h) T u" if "u \<in> set (window off len us)" for u
      using frame [OF us [OF that], of "mem h'"] by (simp add: flat_foot [OF assms])
    moreover have "length (window off len us) = len" using len by (simp add: window_def)
    ultimately show ?thesis
      using wf_alloc [OF wf] grows_alloc
      by (auto simp: fresh_copy_def has_type_iff w v a h' window_all flat_foot [OF assms])
  qed
qed

text \<open>
  The loop over the elements: the first \<open>k\<close> elements of the new array are copies, and what was there
  before the array is as it was.
\<close>

definition loop_inv :: "gtype \<Rightarrow> gheap \<Rightarrow> gval list \<Rightarrow> nat \<Rightarrow> gheap \<Rightarrow> bool" where
  "loop_inv T h0 us k h \<longleftrightarrow>
     wf_heap h \<and> lim h0 < lim h \<and> (\<forall>x < lim h0. mem h x = mem h0 x) \<and>
     (\<exists>ws. mem h (lim h0) = Some (CArray ws) \<and> length ws = length us \<and>
        (\<forall>j < k. fresh_copy T (Suc (lim h0)) h (ws ! j) (denote (mem h0) T (us ! j))))"

lemma loop_step:
  assumes cp: "copies T f" and wf0: "wf_heap h0" and ty: "has_type (mem h0) T (us ! k)" and k: "k < length us"
    and inv: "loop_inv T h0 us k h" and run: "run_state (f (us ! k)) h = (w, h1)"
  shows "loop_inv T h0 us (Suc k) (h1\<lparr>mem := (mem h1)(lim h0 \<mapsto> with_elem k w (mem h1 (lim h0)))\<rparr>)"
proof -
  from inv obtain ws where wf: "wf_heap h" and l: "lim h0 < lim h" and old: "\<And>x. x < lim h0 \<Longrightarrow> mem h x = mem h0 x"
    and ws: "mem h (lim h0) = Some (CArray ws)" "length ws = length us"
    and copied: "\<And>j. j < k \<Longrightarrow> fresh_copy T (Suc (lim h0)) h (ws ! j) (denote (mem h0) T (us ! j))"
    by (auto simp: loop_inv_def)
  have same: "has_type (mem h) T (us ! k)" "denote (mem h) T (us ! k) = denote (mem h0) T (us ! k)"
    using frame [OF ty, of "mem h"] foot_below [OF wf0 ty] old by auto
  have c: "wf_heap h1" "grows h h1" "fresh_copy T (lim h) h1 w (denote (mem h0) T (us ! k))"
    using copiesD [OF cp wf same(1) run] same(2) by simp_all
  let ?h2 = "h1\<lparr>mem := (mem h1)(lim h0 \<mapsto> CArray (ws[k := w]))\<rparr>"
  have keep: "fresh_copy T (Suc (lim h0)) ?h2 u M" if "fresh_copy T l h1 u M" "Suc (lim h0) \<le> l" for u M l
    using that by (auto intro: fresh_copy_frame)
  have "fresh_copy T (Suc (lim h0)) ?h2 (ws[k := w] ! j) (denote (mem h0) T (us ! j))" if "j < Suc k" for j
  proof (cases "j = k")
    case True
    with keep [OF c(3)] l k ws(2) show ?thesis by simp
  next
    case False
    with that have "fresh_copy T (Suc (lim h0)) h1 (ws ! j) (denote (mem h0) T (us ! j))"
      by (intro fresh_copy_grows [OF copied c(2)]) auto
    with keep False show ?thesis by simp
  qed
  moreover have "mem h1 (lim h0) = Some (CArray ws)" "\<And>x. x < lim h0 \<Longrightarrow> mem h1 x = mem h0 x" "lim h0 < lim h1"
    using c(2) l ws(1) old by (auto simp: grows_def)
  ultimately show ?thesis
    using c(1) ws(2) by (auto simp: loop_inv_def wf_heap_def)
qed

lemma loop_done:
  assumes cp: "copies T f" and wf0: "wf_heap h0" and a: "mem h0 a = Some (CArray vs)" and len: "off + len \<le> length vs"
    and us: "us = window off len vs" and ty: "\<And>u. u \<in> set us \<Longrightarrow> has_type (mem h0) T u"
    and inv: "loop_inv T h0 us k h" and k: "k \<le> len"
  shows "loop_inv T h0 us len (snd (run_state (copy_elems f a off (lim h0) [k..<len]) h))"
  using inv k
proof (induction "len - k" arbitrary: k h)
  case (Suc d)
  then have k: "k < len" "d = len - Suc k" by auto
  have nth: "us ! k = vs ! (off + k)" "k < length us" using k len by (auto simp: us window_def)
  obtain w h1 where run: "run_state (f (us ! k)) h = (w, h1)" by fastforce
  have "a < lim h0" using wf0 a by (auto simp: wf_heap_def)
  with Suc.prems(1) a have "mem h a = Some (CArray vs)" by (simp add: loop_inv_def)
  moreover have "off + k < length vs" using k len by simp
  ultimately have "snd (run_state (copy_elems f a off (lim h0) [k..<len]) h) =
      snd (run_state (copy_elems f a off (lim h0) [Suc k..<len])
        (h1\<lparr>mem := (mem h1)(lim h0 \<mapsto> with_elem k w (mem h1 (lim h0)))\<rparr>))"
    using run nth(1) by (simp add: upt_conv_Cons [OF k(1)] split_beta)
  with Suc.hyps(1) [OF k(2) loop_step [OF cp wf0 ty [OF nth_mem] nth(2) Suc.prems(1) run]] k nth(2) show ?case
    by simp
qed simp

lemma copies_slice:
  assumes "copies T f"
  shows "copies (TSlice T) (slice_copy_each f)"
proof (rule copiesI)
  fix h v w h'
  assume wf: "wf_heap h" and ty: "has_type (mem h) (TSlice T) v" and run: "run_state (slice_copy_each f v) h = (w, h')"
  show "wf_heap h' \<and> grows h h' \<and> fresh_copy (TSlice T) (lim h) h' w (denote (mem h) (TSlice T) v)"
  proof (use ty in \<open>cases rule: slice_cases\<close>)
    case 1
    with run wf show ?thesis by (auto simp: slice_copy_each_def fresh_copy_def has_type_iff)
  next
    case (2 a off len us)
    note v = 2(1) and a = 2(2) and len = 2(3) and us = 2(4)
    let ?us = "window off len us"
    let ?h1 = "h\<lparr>mem := (mem h)(lim h \<mapsto> CArray (replicate len VZero)), lim := Suc (lim h)\<rparr>"
    have l: "length ?us = len" using len by (simp add: window_def)
    have w: "w = VSlice (Some (lim h, 0, len))"
      and h': "h' = snd (run_state (copy_elems f a off (lim h) [0..<len]) ?h1)"
      using run v by (auto simp: slice_copy_each_def split_beta)
    have "loop_inv T h ?us 0 ?h1" using wf_alloc [OF wf] l by (simp add: loop_inv_def)
    from loop_done [OF assms wf a len refl us this] have "loop_inv T h ?us len h'" by (simp add: h')
    then obtain ws where inv: "wf_heap h'" "lim h < lim h'" "\<And>x. x < lim h \<Longrightarrow> mem h' x = mem h x"
      "mem h' (lim h) = Some (CArray ws)" "length ws = len"
      and ws: "\<And>j. j < len \<Longrightarrow> fresh_copy T (Suc (lim h)) h' (ws ! j) (denote (mem h) T (?us ! j))"
      using l by (auto simp: loop_inv_def)
    have "map (denote (mem h') T) ws = map (denote (mem h) T) ?us"
      using ws inv(5) l by (intro nth_equalityI) (auto simp: fresh_copy_def)
    moreover have "has_type (mem h') T u" "foot (mem h') T u \<subseteq> {lim h..<lim h'}" if "u \<in> set ws" for u
      using that ws inv(5) by (fastforce simp: fresh_copy_def in_set_conv_nth)+
    ultimately show ?thesis
      using inv(1-5) by (auto simp: fresh_copy_def has_type_iff w v a window_all grows_def)
  qed
qed

lemma run_copy_entries:
  assumes "mem h out = Some (CMap t)" and "distinct (map fst t)" and "distinct (map fst es)"
  shows "\<exists>t'. run_state (copy_entries out es) h = ((), h\<lparr>mem := (mem h)(out \<mapsto> CMap t')\<rparr>) \<and>
    distinct (map fst t') \<and> map_of t' = map_of t ++ map_of es"
  using assms
proof (induction es arbitrary: h t)
  case Nil
  then show ?case by (intro exI [of _ t]) (simp add: fun_upd_idem)
next
  case (Cons e es)
  obtain key val where e: "e = (key, val)" by fastforce
  let ?t = "AList.update key val t"
  let ?h = "h\<lparr>mem := (mem h)(out \<mapsto> CMap ?t)\<rparr>"
  have "mem ?h out = Some (CMap ?t)" "distinct (map fst ?t)" "distinct (map fst es)"
    using Cons.prems by (simp_all add: distinct_update e)
  from Cons.IH [OF this] obtain t' where run: "run_state (copy_entries out es) ?h = ((), ?h\<lparr>mem := (mem ?h)(out \<mapsto> CMap t')\<rparr>)"
    and t': "distinct (map fst t')" "map_of t' = map_of ?t ++ map_of es"
    by blast
  have "map_of es key = None" using Cons.prems(3) by (simp add: map_of_eq_None_iff e)
  then have "map_of ?t ++ map_of es = map_of t ++ map_of (e # es)"
    by (auto simp: e update_conv' map_add_def split: option.split)
  moreover have "run_state (copy_entries out (e # es)) h = run_state (copy_entries out es) ?h"
    using Cons.prems(1) by (simp add: e)
  moreover have "?h\<lparr>mem := (mem ?h)(out \<mapsto> CMap t')\<rparr> = h\<lparr>mem := (mem h)(out \<mapsto> CMap t')\<rparr>" by simp
  ultimately show ?case using run t' by metis
qed

lemma copies_map: "copies TMap map_copy"
proof (rule copiesI)
  fix h v w h'
  assume wf: "wf_heap h" and ty: "has_type (mem h) TMap v" and run: "run_state (map_copy v) h = (w, h')"
  show "wf_heap h' \<and> grows h h' \<and> fresh_copy TMap (lim h) h' w (denote (mem h) TMap v)"
  proof (cases "v = VMap None")
    case True
    with run wf show ?thesis by (auto simp: map_copy_def fresh_copy_def has_type_iff)
  next
    case False
    with ty obtain a t where v: "v = VMap (Some a)" and a: "mem h a = Some (CMap t)" and t: "distinct (map fst t)"
      by (auto simp: has_type_iff)
    let ?h1 = "h\<lparr>mem := (mem h)(lim h \<mapsto> CMap []), lim := Suc (lim h)\<rparr>"
    have "mem ?h1 a = Some (CMap t)" using wf a by (auto simp: wf_heap_def)
    moreover obtain t' where "run_state (copy_entries (lim h) t) ?h1 = ((), ?h1\<lparr>mem := (mem ?h1)(lim h \<mapsto> CMap t')\<rparr>)"
      and t': "distinct (map fst t')" "map_of t' = map_of t"
      using run_copy_entries [of ?h1 "lim h" "[]" t] t by auto
    ultimately have "w = VMap (Some (lim h))"
      and "h' = h\<lparr>mem := (mem h)(lim h \<mapsto> CMap t'), lim := Suc (lim h)\<rparr>"
      using run v by (auto simp: map_copy_def)
    with t' show ?thesis
      using wf_alloc [OF wf] grows_alloc by (auto simp: fresh_copy_def has_type_iff v a)
  qed
qed

lemma map_of_set_field:
  "map_of (map (\<lambda>(m, v). (m, if m = n then w else v)) vs) k =
   (if k = n then map_option (\<lambda>_. w) (map_of vs k) else map_of vs k)"
  by (induction vs) auto

lemma set_field_simps [simp]:
  "field_names (set_field v n w) = field_names v"
  "is_struct (set_field v n w) = is_struct v"
  "n \<in> set (field_names v) \<Longrightarrow> field (set_field v n w) n = w"
  "m \<noteq> n \<Longrightarrow> field (set_field v n w) m = field v m"
  by (cases v; force simp: map_of_set_field map_of_eq_None_iff split: option.split)+

text \<open>
  The fields of a struct: those in \<open>D\<close> are copied, the others still alias the original's, and have
  to be flat at the end.
\<close>

definition fields_inv :: "(string \<times> gtype) list \<Rightarrow> gheap \<Rightarrow> gval \<Rightarrow> string set \<Rightarrow> gval \<Rightarrow> gheap \<Rightarrow> bool" where
  "fields_inv Ts h0 v D out h \<longleftrightarrow>
     wf_heap h \<and> grows h0 h \<and> is_struct out \<and> field_names out = map fst Ts \<and>
     (\<forall>(n, T) \<in> set Ts.
        if n \<in> D then fresh_copy T (lim h0) h (field out n) (denote (mem h0) T (field v n))
        else field out n = field v n)"

lemma fields_invD:
  assumes "fields_inv Ts h0 v D out h" and "(n, T) \<in> set Ts"
  shows "n \<in> D \<Longrightarrow> fresh_copy T (lim h0) h (field out n) (denote (mem h0) T (field v n))"
    and "n \<notin> D \<Longrightarrow> field out n = field v n"
  using assms by (auto simp: fields_inv_def split: if_splits)

lemma fields_step:
  assumes dist: "distinct (map fst Ts)" and wf0: "wf_heap h0" and ty: "has_type (mem h0) (TStruct Ts) v"
    and n: "map_of Ts n = Some T" and cp: "copies T f"
    and inv: "fields_inv Ts h0 v D out h" and run: "run_state (f (field v n)) h = (w, h1)"
  shows "fields_inv Ts h0 v (insert n D) (set_field out n w) h1"
proof -
  from n have nT: "(n, T) \<in> set Ts" by (rule map_of_SomeD)
  have wf: "wf_heap h" and g: "grows h0 h" using inv by (simp_all add: fields_inv_def)
  have vn: "has_type (mem h0) T (field v n)" using ty nT by auto
  have c: "wf_heap h1" "grows h h1" "fresh_copy T (lim h) h1 w (denote (mem h0) T (field v n))"
    using copiesD [OF cp wf frame_grows(1) [OF wf0 g vn] run] frame_grows(2) [OF wf0 g vn] by simp_all
  have names: "field_names out = map fst Ts" using inv by (simp add: fields_inv_def)
  have "if m \<in> insert n D then fresh_copy S (lim h0) h1 (field (set_field out n w) m) (denote (mem h0) S (field v m))
      else field (set_field out n w) m = field v m" if m: "(m, S) \<in> set Ts" for m S
  proof (cases "m = n")
    case True
    with m dist n have "S = T" by simp
    moreover have "n \<in> set (field_names out)" using nT names by force
    moreover have "fresh_copy T (lim h0) h1 w (denote (mem h0) T (field v n))"
      using g by (intro fresh_copy_grows [OF c(3)]) (simp_all add: grows_def)
    ultimately show ?thesis using True by simp
  next
    case False
    with inv m c(2) show ?thesis
      by (fastforce simp: fields_inv_def intro: fresh_copy_grows)
  qed
  with inv c(1,2) g show ?thesis
    by (auto simp: fields_inv_def intro: grows_trans)
qed

lemma fields_all:
  assumes "distinct (map fst Ts)" and "wf_heap h0" and "has_type (mem h0) (TStruct Ts) v"
    and "\<And>n f. (n, f) \<in> set cs \<Longrightarrow> \<exists>T. map_of Ts n = Some T \<and> copies T f"
    and "fields_inv Ts h0 v D out h" and "run_state (copy_fields cs v out) h = (w, h')"
  shows "fields_inv Ts h0 v (fst ` set cs \<union> D) w h'"
  using assms(4-)
proof (induction cs arbitrary: D h out)
  case (Cons c cs)
  obtain n f where c: "c = (n, f)" by fastforce
  obtain u h1 where run: "run_state (f (field v n)) h = (u, h1)" by fastforce
  from Cons.prems(1) obtain T where T: "map_of Ts n = Some T" "copies T f" by (auto simp: c)
  from Cons.prems(3) run have "run_state (copy_fields cs v (set_field out n u)) h1 = (w, h')"
    by (simp add: c)
  from Cons.IH [OF _ fields_step [OF assms(1-3) T Cons.prems(2) run] this] Cons.prems(1)
  show ?case by (simp add: c)
qed simp

text \<open>
  A struct is copied when every field is either copied by one of its statements, with a copier for
  its type, or is flat.
\<close>

lemma copies_struct:
  assumes "distinct (map fst Ts)"
    and "list_all (\<lambda>(n, T). case map_of cs n of Some f \<Rightarrow> copies T f | None \<Rightarrow> flat T) Ts"
    and "list_all (\<lambda>(n, f). n \<in> fst ` set Ts) cs" and "distinct (map fst cs)"
  shows "copies (TStruct Ts) (struct_copy cs)"
proof (rule copiesI)
  fix h v w h'
  assume wf: "wf_heap h" and ty: "has_type (mem h) (TStruct Ts) v" and run: "run_state (struct_copy cs v) h = (w, h')"
  have "\<exists>T. map_of Ts n = Some T \<and> copies T f" if "(n, f) \<in> set cs" for n f
  proof -
    from assms(3) that obtain T where "(n, T) \<in> set Ts" by (fastforce simp: list_all_iff)
    with assms that show ?thesis by (fastforce simp: list_all_iff)
  qed
  moreover have "fields_inv Ts h v {} v h" using wf ty by (auto simp: fields_inv_def)
  moreover have "run_state (copy_fields cs v v) h = (w, h')" using run by (simp add: struct_copy_def assign_def)
  ultimately have inv: "fields_inv Ts h v (fst ` set cs \<union> {}) w h'" by (rule fields_all [OF assms(1) wf ty])
  then have g: "grows h h'" by (simp add: fields_inv_def)
  have "fresh_copy T (lim h) h' (field w n) (denote (mem h) T (field v n))" if "(n, T) \<in> set Ts" for n T
  proof (cases "n \<in> fst ` set cs")
    case True
    with fields_invD(1) [OF inv that] show ?thesis by simp
  next
    case False
    then have "map_of cs n = None" by (simp add: map_of_eq_None_iff)
    with assms(2) that have "flat T" by (fastforce simp: list_all_iff)
    moreover have "field w n = field v n" using fields_invD(2) [OF inv that] False by simp
    moreover have "has_type (mem h) T (field v n)" using ty that by auto
    ultimately show ?thesis using frame_grows(1,2) [OF wf g] by (simp add: fresh_copy_def flat_foot)
  qed
  with inv show "wf_heap h' \<and> grows h h' \<and> fresh_copy (TStruct Ts) (lim h) h' w (denote (mem h) (TStruct Ts) v)"
    by (fastforce simp: fields_inv_def fresh_copy_def)
qed

section \<open>What a deep copy promises\<close>

text \<open>
  A copy denotes what the original denoted, the original still does, and neither changes with what
  is done to the other: \<open>h''\<close> is any later heap in which only memory of the one was changed, or memory
  that was not allocated yet.
\<close>

locale deep_copier =
  fixes T :: gtype and f :: copier
  assumes copies: "copies T f"
begin

lemma copy_denotes:
  assumes "wf_heap h" and "has_type (mem h) T v" and "run_state (f v) h = (w, h')"
  shows "has_type (mem h') T w" and "denote (mem h') T w = denote (mem h) T v"
  using copiesD [OF copies assms] by (simp_all add: fresh_copy_def)

lemma heap_grows:
  assumes "wf_heap h" and "has_type (mem h) T v" and "run_state (f v) h = (w, h')"
  shows "grows h h'"
  using copiesD [OF copies assms] by simp

lemma original_kept:
  assumes "wf_heap h" and "has_type (mem h) T v" and "run_state (f v) h = (w, h')"
  shows "has_type (mem h') T v" and "denote (mem h') T v = denote (mem h) T v"
  by (rule frame_grows(1,2) [OF assms(1) heap_grows [OF assms] assms(2)])+

lemma disjoint:
  assumes "wf_heap h" and "has_type (mem h) T v" and "run_state (f v) h = (w, h')"
  shows "foot (mem h') T v \<inter> foot (mem h') T w = {}"
proof -
  have "foot (mem h') T w \<subseteq> {lim h..<lim h'}"
    using copiesD [OF copies assms] by (simp add: fresh_copy_def)
  moreover have "foot (mem h') T v \<subseteq> {..<lim h}"
    unfolding frame_grows(3) [OF assms(1) heap_grows [OF assms] assms(2)] using foot_below [OF assms(1,2)] by blast
  ultimately show ?thesis by fastforce
qed

lemma independent:
  assumes "wf_heap h" and "has_type (mem h) T v" and "run_state (f v) h = (w, h')"
  shows "(\<And>a. a \<in> dom (mem h') - foot (mem h') T v \<Longrightarrow> mem h'' a = mem h' a) \<Longrightarrow>
      denote (mem h'') T w = denote (mem h) T v"
    and "(\<And>a. a \<in> dom (mem h') - foot (mem h') T w \<Longrightarrow> mem h'' a = mem h' a) \<Longrightarrow>
      denote (mem h'') T v = denote (mem h) T v"
proof -
  note w = copy_denotes [OF assms] and v = original_kept [OF assms] and d = disjoint [OF assms]
  show "denote (mem h'') T w = denote (mem h) T v"
    if "\<And>a. a \<in> dom (mem h') - foot (mem h') T v \<Longrightarrow> mem h'' a = mem h' a"
    using frame [OF w(1), of "mem h''"] foot_allocated [OF w(1)] d that w(2) by fastforce
  show "denote (mem h'') T v = denote (mem h) T v"
    if "\<And>a. a \<in> dom (mem h') - foot (mem h') T w \<Longrightarrow> mem h'' a = mem h' a"
    using frame [OF v(1), of "mem h''"] foot_allocated [OF v(1)] d that v(2) by fastforce
qed

end

interpretation string_map: deep_copier TMap map_copy
  by (unfold_locales) (rule copies_map)

section \<open>Copies directed by the type\<close>

text \<open>The reference copier: every part of a value is copied the way its type says.\<close>

fun clone :: "gtype \<Rightarrow> copier" where
  "clone TScalar = assign"
| "clone (TPtr T) = ptr_copy (clone T)"
| "clone (TSlice T) = slice_copy_each (clone T)"
| "clone TMap = map_copy"
| "clone (TStruct Ts) = struct_copy (map (\<lambda>(n, T). (n, clone T)) Ts)"

fun distinct_fields :: "gtype \<Rightarrow> bool" where
  "distinct_fields (TPtr T) = distinct_fields T"
| "distinct_fields (TSlice T) = distinct_fields T"
| "distinct_fields (TStruct Ts) = (distinct (map fst Ts) \<and> (\<forall>(n, T) \<in> set Ts. distinct_fields T))"
| "distinct_fields T = True"

lemma copies_clone: "distinct_fields T \<Longrightarrow> copies T (clone T)"
proof (induction T rule: clone.induct)
  case (5 Ts)
  let ?cs = "map (\<lambda>(n, T). (n, clone T)) Ts"
  have names: "map fst ?cs = map fst Ts" by (simp add: case_prod_beta comp_def)
  have dist: "distinct (map fst ?cs)" unfolding names using "5.prems" by simp
  show ?case
    unfolding clone.simps
  proof (rule copies_struct)
    show "list_all (\<lambda>(n, T). case map_of ?cs n of Some f \<Rightarrow> copies T f | None \<Rightarrow> flat T) Ts"
      unfolding list_all_iff
    proof (clarify)
      fix n T
      assume T: "(n, T) \<in> set Ts"
      then have "(n, clone T) \<in> set ?cs" by force
      then have "map_of ?cs n = Some (clone T)" by (rule map_of_is_SomeI [OF dist])
      moreover have "copies T (clone T)" using 5 T by fastforce
      ultimately show "case map_of ?cs n of None \<Rightarrow> flat T | Some f \<Rightarrow> copies T f" by simp
    qed
    show "list_all (\<lambda>(n, f). n \<in> fst ` set Ts) ?cs" by (force simp: list_all_iff)
  qed (use "5.prems" dist in simp_all)
qed (simp_all add: copies_assign copies_ptr copies_slice copies_map)

text \<open>The zero value of a type.\<close>

fun zero_value :: "gtype \<Rightarrow> gval" where
  "zero_value TScalar = VScalar (SString [])"
| "zero_value (TPtr T) = VPtr None"
| "zero_value (TSlice T) = VSlice None"
| "zero_value TMap = VMap None"
| "zero_value (TStruct Ts) = VStruct (map (\<lambda>(n, T). (n, zero_value T)) Ts)"

end
