(* ===== verification/Deep_Copy.thy ===== *)
theory Deep_Copy
  imports Go_Heap
begin

text \<open>
  The deep copies of the API types (\<^verbatim>\<open>zz_generated.deepcopy.go\<close>): the types of
  \<^verbatim>\<open>release_types.go\<close> as layouts in Go memory, the \<^verbatim>\<open>DeepCopyInto\<close> of each as the list of its
  statements in the order of the file, and \<^verbatim>\<open>DeepCopy\<close> and \<^verbatim>\<open>DeepCopyObject\<close>. The reconciler takes a deep
  copy of a release as the base of a patch before it changes the release, and one of a chart source
  reference when it records the source in use, so a copy must keep what it was made from, and share
  no memory with it. The types of other packages and their copies are parameters.
\<close>

section \<open>Types of other packages\<close>

record third_party =
  TypeMeta_type :: gtype
  ObjectMeta_type :: gtype
  ListMeta_type :: gtype
  Duration_type :: gtype
  Condition_type :: gtype
  JSON_type :: gtype
  BucketSTSSpec_type :: gtype
  GitRepositoryVerification_type :: gtype
  GitRepositoryInclude_type :: gtype
  OCILayerSelector_type :: gtype
  OCIRepositoryVerification_type :: gtype
  ObjectMeta_DeepCopyInto :: copier
  ListMeta_DeepCopyInto :: copier
  Condition_DeepCopyInto :: copier
  JSON_DeepCopyInto :: copier
  BucketSTSSpec_DeepCopyInto :: copier
  OCIRepositoryVerification_DeepCopyInto :: copier

text \<open>
  Their deep copies are deep, and those that are copied by assignment have nothing to share. A point in
  time is a scalar: the time zone it refers to is never written.
\<close>

definition third_party_contract :: "third_party \<Rightarrow> bool" where
  "third_party_contract X \<longleftrightarrow>
     copies (ObjectMeta_type X) (ObjectMeta_DeepCopyInto X) \<and>
     copies (ListMeta_type X) (ListMeta_DeepCopyInto X) \<and>
     copies (Condition_type X) (Condition_DeepCopyInto X) \<and>
     copies (JSON_type X) (JSON_DeepCopyInto X) \<and>
     copies (BucketSTSSpec_type X) (BucketSTSSpec_DeepCopyInto X) \<and>
     copies (OCIRepositoryVerification_type X) (OCIRepositoryVerification_DeepCopyInto X) \<and>
     flat (TypeMeta_type X) \<and>
     flat (Duration_type X) \<and>
     flat (GitRepositoryVerification_type X) \<and>
     flat (GitRepositoryInclude_type X) \<and>
     flat (OCILayerSelector_type X)"

section \<open>Types\<close>

definition CredentialReference_type :: "gtype" where
  "CredentialReference_type = TStruct
     [(''Kind'', TScalar), (''Name'', TScalar)]"

definition CertificateReference_type :: "gtype" where
  "CertificateReference_type = TStruct
     [(''Name'', TScalar)]"

definition ProxySettingsReference_type :: "gtype" where
  "ProxySettingsReference_type = TStruct
     [(''Kind'', TScalar), (''Name'', TScalar)]"

definition BucketChartSource_type :: "third_party \<Rightarrow> gtype" where
  "BucketChartSource_type X = TStruct
     [(''Endpoint'', TScalar), (''BucketName'', TScalar), (''Path'', TScalar),
      (''ValuesFiles'', TSlice TScalar), (''IgnoreMissingValuesFiles'', TScalar),
      (''Provider'', TScalar), (''Region'', TScalar), (''Prefix'', TScalar),
      (''CredentialsFrom'', TPtr CredentialReference_type),
      (''CertificateFrom'', TPtr CertificateReference_type),
      (''ProxySettingsFrom'', TPtr ProxySettingsReference_type), (''ServiceAccountName'', TScalar),
      (''Insecure'', TScalar), (''Ignore'', TPtr TScalar), (''STS'', TPtr (BucketSTSSpec_type X)),
      (''Interval'', Duration_type X), (''Timeout'', TPtr (Duration_type X)),
      (''ReconcileStrategy'', TScalar)]"

definition ChartSourceRef_type :: "gtype" where
  "ChartSourceRef_type = TStruct
     [(''APIVersion'', TScalar), (''Kind'', TScalar), (''Name'', TScalar), (''Namespace'', TScalar)]"

definition ChartSourceReference_type :: "gtype" where
  "ChartSourceReference_type = TStruct
     [(''Group'', TScalar), (''Version'', TScalar), (''Kind'', TScalar), (''Name'', TScalar),
      (''Namespace'', TScalar)]"

definition GitRepositoryChartSource_type :: "third_party \<Rightarrow> gtype" where
  "GitRepositoryChartSource_type X = TStruct
     [(''URL'', TScalar), (''Branch'', TScalar), (''Tag'', TScalar), (''SemVer'', TScalar),
      (''Commit'', TScalar), (''Reference'', TScalar), (''Path'', TScalar),
      (''ValuesFiles'', TSlice TScalar), (''IgnoreMissingValuesFiles'', TScalar),
      (''CredentialsFrom'', TPtr CredentialReference_type), (''Provider'', TScalar),
      (''ServiceAccountName'', TScalar), (''ProxySettingsFrom'', TPtr ProxySettingsReference_type),
      (''Submodules'', TScalar), (''SparseCheckout'', TSlice TScalar), (''Ignore'', TPtr TScalar),
      (''Verification'', TPtr (GitRepositoryVerification_type X)),
      (''Include'', TSlice (GitRepositoryInclude_type X)), (''Interval'', Duration_type X),
      (''Timeout'', TPtr (Duration_type X)), (''ReconcileStrategy'', TScalar)]"

definition HelmRepositoryChartSource_type :: "third_party \<Rightarrow> gtype" where
  "HelmRepositoryChartSource_type X = TStruct
     [(''URL'', TScalar), (''Name'', TScalar), (''Version'', TScalar),
      (''ValuesFiles'', TSlice TScalar), (''IgnoreMissingValuesFiles'', TScalar),
      (''CredentialsFrom'', TPtr CredentialReference_type),
      (''CertificateFrom'', TPtr CertificateReference_type), (''PassCredentials'', TScalar),
      (''Verify'', TPtr (OCIRepositoryVerification_type X)), (''Insecure'', TScalar),
      (''Interval'', Duration_type X), (''Timeout'', TPtr (Duration_type X))]"

definition InstallConfig_type :: "third_party \<Rightarrow> gtype" where
  "InstallConfig_type X = TStruct
     [(''Timeout'', TPtr (Duration_type X)), (''AutoRollback'', TScalar), (''NoInstallCRDs'', TScalar),
      (''DeletePropagation'', TScalar), (''NoForceAdoption'', TScalar),
      (''NoRemoveManualChanges'', TScalar), (''NoDefaultPatches'', TScalar),
      (''TemplatesAllowDNS'', TScalar), (''Retries'', TScalar)]"

definition OCIRepositoryChartSource_type :: "third_party \<Rightarrow> gtype" where
  "OCIRepositoryChartSource_type X = TStruct
     [(''URL'', TScalar), (''Tag'', TScalar), (''SemVer'', TScalar), (''Digest'', TScalar),
      (''SemverFilter'', TScalar), (''CredentialsFrom'', TPtr CredentialReference_type),
      (''CertificateFrom'', TPtr CertificateReference_type),
      (''ProxySettingsFrom'', TPtr ProxySettingsReference_type), (''ServiceAccountName'', TScalar),
      (''Provider'', TScalar), (''Insecure'', TScalar), (''Ignore'', TPtr TScalar),
      (''LayerSelector'', TPtr (OCILayerSelector_type X)),
      (''Verify'', TPtr (OCIRepositoryVerification_type X)), (''Interval'', Duration_type X),
      (''Timeout'', TPtr (Duration_type X))]"

definition PatchMatcher_type :: "gtype" where
  "PatchMatcher_type = TStruct
     [(''Kinds'', TSlice TScalar), (''Names'', TSlice TScalar), (''Namespaces'', TSlice TScalar),
      (''Groups'', TSlice TScalar), (''Versions'', TSlice TScalar), (''Charts'', TSlice TScalar),
      (''Labels'', TMap), (''Annotations'', TMap)]"

definition Patch_type :: "gtype" where
  "Patch_type = TStruct
     [(''Match'', PatchMatcher_type), (''Type'', TScalar), (''Patch'', TScalar)]"

definition SecretKeyReference_type :: "gtype" where
  "SecretKeyReference_type = TStruct
     [(''Kind'', TScalar), (''Name'', TScalar), (''DataKey'', TScalar)]"

definition ProvenanceConfig_type :: "gtype" where
  "ProvenanceConfig_type = TStruct
     [(''Strategy'', TScalar), (''KeyringFrom'', TPtr SecretKeyReference_type)]"

definition ReleaseChart_type :: "third_party \<Rightarrow> gtype" where
  "ReleaseChart_type X = TStruct
     [(''BucketChartSource'', TPtr (BucketChartSource_type X)),
      (''GitRepositoryChartSource'', TPtr (GitRepositoryChartSource_type X)),
      (''OCIRepositoryChartSource'', TPtr (OCIRepositoryChartSource_type X)),
      (''HelmRepositoryChartSource'', TPtr (HelmRepositoryChartSource_type X))]"

definition ValuesReference_type :: "gtype" where
  "ValuesReference_type = TStruct
     [(''Kind'', TScalar), (''Name'', TScalar), (''DataKey'', TScalar), (''Optional'', TScalar)]"

definition RollbackConfig_type :: "third_party \<Rightarrow> gtype" where
  "RollbackConfig_type X = TStruct
     [(''Timeout'', TPtr (Duration_type X)), (''DeletePropagation'', TScalar),
      (''NoForceAdoption'', TScalar), (''NoRemoveManualChanges'', TScalar),
      (''NoDefaultPatches'', TScalar)]"

definition UninstallConfig_type :: "third_party \<Rightarrow> gtype" where
  "UninstallConfig_type X = TStruct
     [(''Timeout'', TPtr (Duration_type X)), (''DeleteNamespace'', TScalar),
      (''DeletePropagation'', TScalar), (''NoRemoveManualChanges'', TScalar),
      (''NoDefaultPatches'', TScalar)]"

definition TrackingConfig_type :: "third_party \<Rightarrow> gtype" where
  "TrackingConfig_type X = TStruct
     [(''ReadinessTimeout'', Duration_type X), (''CreationTimeout'', Duration_type X),
      (''DeletionTimeout'', Duration_type X), (''PodLogs'', TScalar), (''FinalTracking'', TScalar)]"

definition ReleaseStorageConfig_type :: "gtype" where
  "ReleaseStorageConfig_type = TStruct
     [(''HistoryLimit'', TScalar)]"

definition ValidationConfig_type :: "third_party \<Rightarrow> gtype" where
  "ValidationConfig_type X = TStruct
     [(''NoResourceValidation'', TScalar), (''NoValuesSchemaValidation'', TScalar),
      (''Skip'', TSlice TScalar), (''ExtraSchemas'', TSlice TScalar),
      (''SchemaCacheLifetime'', Duration_type X)]"

definition TypescriptConfig_type :: "gtype" where
  "TypescriptConfig_type = TStruct
     [(''IgnoreBundleJS'', TScalar)]"

definition ReleaseSpec_type :: "third_party \<Rightarrow> gtype" where
  "ReleaseSpec_type X = TStruct
     [(''Chart'', TPtr (ReleaseChart_type X)), (''ChartRef'', TPtr ChartSourceRef_type),
      (''TargetNamespace'', TScalar), (''Interval'', Duration_type X), (''Timeout'', Duration_type X),
      (''Suspend'', TScalar), (''Values'', TPtr (JSON_type X)),
      (''ValuesFrom'', TSlice ValuesReference_type), (''NoDefaultValues'', TScalar),
      (''SetRootContextJSON'', TSlice TScalar), (''SecretKeyFrom'', TPtr SecretKeyReference_type),
      (''SecretValuesFrom'', TSlice ValuesReference_type), (''ServiceAccountName'', TScalar),
      (''NoDefaultSecretValues'', TScalar), (''Install'', TPtr (InstallConfig_type X)),
      (''Rollback'', TPtr (RollbackConfig_type X)), (''Uninstall'', TPtr (UninstallConfig_type X)),
      (''ExtraAnnotations'', TMap), (''ExtraLabels'', TMap), (''RuntimeAnnotations'', TMap),
      (''RuntimeLabels'', TMap), (''DiffPatches'', TSlice Patch_type),
      (''RenderPatches'', TSlice Patch_type), (''AppVersion'', TScalar),
      (''ReleaseInfoAnnotations'', TMap), (''ReleaseLabels'', TMap),
      (''Tracking'', TPtr (TrackingConfig_type X)), (''Provenance'', TPtr ProvenanceConfig_type),
      (''ReleaseStorage'', TPtr ReleaseStorageConfig_type),
      (''Validation'', TPtr (ValidationConfig_type X)), (''Typescript'', TPtr TypescriptConfig_type)]"

definition ReleaseStatus_type :: "third_party \<Rightarrow> gtype" where
  "ReleaseStatus_type X = TStruct
     [(''ObservedGeneration'', TScalar), (''Conditions'', TSlice (Condition_type X)),
      (''Revision'', TScalar), (''RevisionStatus'', TScalar), (''LastAction'', TScalar),
      (''LastActionFailures'', TScalar), (''LastAttemptedArtifactRevision'', TScalar),
      (''LastAttemptedArtifactDigest'', TScalar), (''ChartSourcePhase'', TScalar),
      (''LastAppliedChartSource'', TPtr ChartSourceReference_type),
      (''CandidateChartSource'', TPtr ChartSourceReference_type)]"

definition Release_type :: "third_party \<Rightarrow> gtype" where
  "Release_type X = TStruct
     [(''TypeMeta'', TypeMeta_type X), (''ObjectMeta'', ObjectMeta_type X),
      (''Spec'', ReleaseSpec_type X), (''Status'', ReleaseStatus_type X)]"

definition ReleaseList_type :: "third_party \<Rightarrow> gtype" where
  "ReleaseList_type X = TStruct
     [(''TypeMeta'', TypeMeta_type X), (''ListMeta'', ListMeta_type X),
      (''Items'', TSlice (Release_type X))]"

section \<open>Copies\<close>

definition CredentialReference_DeepCopyInto :: "copier" where
  "CredentialReference_DeepCopyInto = struct_copy
     []"

definition CredentialReference_DeepCopy :: "copier" where
  "CredentialReference_DeepCopy = DeepCopy CredentialReference_DeepCopyInto"

definition CertificateReference_DeepCopyInto :: "copier" where
  "CertificateReference_DeepCopyInto = struct_copy
     []"

definition CertificateReference_DeepCopy :: "copier" where
  "CertificateReference_DeepCopy = DeepCopy CertificateReference_DeepCopyInto"

definition ProxySettingsReference_DeepCopyInto :: "copier" where
  "ProxySettingsReference_DeepCopyInto = struct_copy
     []"

definition ProxySettingsReference_DeepCopy :: "copier" where
  "ProxySettingsReference_DeepCopy = DeepCopy ProxySettingsReference_DeepCopyInto"

definition BucketChartSource_DeepCopyInto :: "third_party \<Rightarrow> copier" where
  "BucketChartSource_DeepCopyInto X = struct_copy
     [(''ValuesFiles'', slice_copy), (''CredentialsFrom'', ptr_copy assign),
      (''CertificateFrom'', ptr_copy assign), (''ProxySettingsFrom'', ptr_copy assign),
      (''Ignore'', ptr_copy assign), (''STS'', ptr_copy (BucketSTSSpec_DeepCopyInto X)),
      (''Interval'', assign), (''Timeout'', ptr_copy assign)]"

definition BucketChartSource_DeepCopy :: "third_party \<Rightarrow> copier" where
  "BucketChartSource_DeepCopy X = DeepCopy (BucketChartSource_DeepCopyInto X)"

definition ChartSourceRef_DeepCopyInto :: "copier" where
  "ChartSourceRef_DeepCopyInto = struct_copy
     []"

definition ChartSourceRef_DeepCopy :: "copier" where
  "ChartSourceRef_DeepCopy = DeepCopy ChartSourceRef_DeepCopyInto"

definition ChartSourceReference_DeepCopyInto :: "copier" where
  "ChartSourceReference_DeepCopyInto = struct_copy
     []"

definition ChartSourceReference_DeepCopy :: "copier" where
  "ChartSourceReference_DeepCopy = DeepCopy ChartSourceReference_DeepCopyInto"

definition GitRepositoryChartSource_DeepCopyInto :: "copier" where
  "GitRepositoryChartSource_DeepCopyInto = struct_copy
     [(''ValuesFiles'', slice_copy), (''CredentialsFrom'', ptr_copy assign),
      (''ProxySettingsFrom'', ptr_copy assign), (''SparseCheckout'', slice_copy),
      (''Ignore'', ptr_copy assign), (''Verification'', ptr_copy assign), (''Include'', slice_copy),
      (''Interval'', assign), (''Timeout'', ptr_copy assign)]"

definition GitRepositoryChartSource_DeepCopy :: "copier" where
  "GitRepositoryChartSource_DeepCopy = DeepCopy GitRepositoryChartSource_DeepCopyInto"

definition HelmRepositoryChartSource_DeepCopyInto :: "third_party \<Rightarrow> copier" where
  "HelmRepositoryChartSource_DeepCopyInto X = struct_copy
     [(''ValuesFiles'', slice_copy), (''CredentialsFrom'', ptr_copy assign),
      (''CertificateFrom'', ptr_copy assign),
      (''Verify'', ptr_copy (OCIRepositoryVerification_DeepCopyInto X)), (''Interval'', assign),
      (''Timeout'', ptr_copy assign)]"

definition HelmRepositoryChartSource_DeepCopy :: "third_party \<Rightarrow> copier" where
  "HelmRepositoryChartSource_DeepCopy X = DeepCopy (HelmRepositoryChartSource_DeepCopyInto X)"

definition InstallConfig_DeepCopyInto :: "copier" where
  "InstallConfig_DeepCopyInto = struct_copy
     [(''Timeout'', ptr_copy assign)]"

definition InstallConfig_DeepCopy :: "copier" where
  "InstallConfig_DeepCopy = DeepCopy InstallConfig_DeepCopyInto"

definition OCIRepositoryChartSource_DeepCopyInto :: "third_party \<Rightarrow> copier" where
  "OCIRepositoryChartSource_DeepCopyInto X = struct_copy
     [(''CredentialsFrom'', ptr_copy assign), (''CertificateFrom'', ptr_copy assign),
      (''ProxySettingsFrom'', ptr_copy assign), (''Ignore'', ptr_copy assign),
      (''LayerSelector'', ptr_copy assign),
      (''Verify'', ptr_copy (OCIRepositoryVerification_DeepCopyInto X)), (''Interval'', assign),
      (''Timeout'', ptr_copy assign)]"

definition OCIRepositoryChartSource_DeepCopy :: "third_party \<Rightarrow> copier" where
  "OCIRepositoryChartSource_DeepCopy X = DeepCopy (OCIRepositoryChartSource_DeepCopyInto X)"

definition PatchMatcher_DeepCopyInto :: "copier" where
  "PatchMatcher_DeepCopyInto = struct_copy
     [(''Kinds'', slice_copy), (''Names'', slice_copy), (''Namespaces'', slice_copy),
      (''Groups'', slice_copy), (''Versions'', slice_copy), (''Charts'', slice_copy),
      (''Labels'', map_copy), (''Annotations'', map_copy)]"

definition PatchMatcher_DeepCopy :: "copier" where
  "PatchMatcher_DeepCopy = DeepCopy PatchMatcher_DeepCopyInto"

definition Patch_DeepCopyInto :: "copier" where
  "Patch_DeepCopyInto = struct_copy
     [(''Match'', PatchMatcher_DeepCopyInto)]"

definition Patch_DeepCopy :: "copier" where
  "Patch_DeepCopy = DeepCopy Patch_DeepCopyInto"

definition SecretKeyReference_DeepCopyInto :: "copier" where
  "SecretKeyReference_DeepCopyInto = struct_copy
     []"

definition SecretKeyReference_DeepCopy :: "copier" where
  "SecretKeyReference_DeepCopy = DeepCopy SecretKeyReference_DeepCopyInto"

definition ProvenanceConfig_DeepCopyInto :: "copier" where
  "ProvenanceConfig_DeepCopyInto = struct_copy
     [(''KeyringFrom'', ptr_copy assign)]"

definition ProvenanceConfig_DeepCopy :: "copier" where
  "ProvenanceConfig_DeepCopy = DeepCopy ProvenanceConfig_DeepCopyInto"

definition ReleaseChart_DeepCopyInto :: "third_party \<Rightarrow> copier" where
  "ReleaseChart_DeepCopyInto X = struct_copy
     [(''BucketChartSource'', ptr_copy (BucketChartSource_DeepCopyInto X)),
      (''GitRepositoryChartSource'', ptr_copy GitRepositoryChartSource_DeepCopyInto),
      (''OCIRepositoryChartSource'', ptr_copy (OCIRepositoryChartSource_DeepCopyInto X)),
      (''HelmRepositoryChartSource'', ptr_copy (HelmRepositoryChartSource_DeepCopyInto X))]"

definition ReleaseChart_DeepCopy :: "third_party \<Rightarrow> copier" where
  "ReleaseChart_DeepCopy X = DeepCopy (ReleaseChart_DeepCopyInto X)"

definition ValuesReference_DeepCopyInto :: "copier" where
  "ValuesReference_DeepCopyInto = struct_copy
     []"

definition ValuesReference_DeepCopy :: "copier" where
  "ValuesReference_DeepCopy = DeepCopy ValuesReference_DeepCopyInto"

definition RollbackConfig_DeepCopyInto :: "copier" where
  "RollbackConfig_DeepCopyInto = struct_copy
     [(''Timeout'', ptr_copy assign)]"

definition RollbackConfig_DeepCopy :: "copier" where
  "RollbackConfig_DeepCopy = DeepCopy RollbackConfig_DeepCopyInto"

definition UninstallConfig_DeepCopyInto :: "copier" where
  "UninstallConfig_DeepCopyInto = struct_copy
     [(''Timeout'', ptr_copy assign)]"

definition UninstallConfig_DeepCopy :: "copier" where
  "UninstallConfig_DeepCopy = DeepCopy UninstallConfig_DeepCopyInto"

definition TrackingConfig_DeepCopyInto :: "copier" where
  "TrackingConfig_DeepCopyInto = struct_copy
     [(''ReadinessTimeout'', assign), (''CreationTimeout'', assign), (''DeletionTimeout'', assign)]"

definition TrackingConfig_DeepCopy :: "copier" where
  "TrackingConfig_DeepCopy = DeepCopy TrackingConfig_DeepCopyInto"

definition ReleaseStorageConfig_DeepCopyInto :: "copier" where
  "ReleaseStorageConfig_DeepCopyInto = struct_copy
     []"

definition ReleaseStorageConfig_DeepCopy :: "copier" where
  "ReleaseStorageConfig_DeepCopy = DeepCopy ReleaseStorageConfig_DeepCopyInto"

definition ValidationConfig_DeepCopyInto :: "copier" where
  "ValidationConfig_DeepCopyInto = struct_copy
     [(''Skip'', slice_copy), (''ExtraSchemas'', slice_copy), (''SchemaCacheLifetime'', assign)]"

definition ValidationConfig_DeepCopy :: "copier" where
  "ValidationConfig_DeepCopy = DeepCopy ValidationConfig_DeepCopyInto"

definition TypescriptConfig_DeepCopyInto :: "copier" where
  "TypescriptConfig_DeepCopyInto = struct_copy
     []"

definition TypescriptConfig_DeepCopy :: "copier" where
  "TypescriptConfig_DeepCopy = DeepCopy TypescriptConfig_DeepCopyInto"

definition ReleaseSpec_DeepCopyInto :: "third_party \<Rightarrow> copier" where
  "ReleaseSpec_DeepCopyInto X = struct_copy
     [(''Chart'', ptr_copy (ReleaseChart_DeepCopyInto X)), (''ChartRef'', ptr_copy assign),
      (''Interval'', assign), (''Timeout'', assign), (''Values'', ptr_copy (JSON_DeepCopyInto X)),
      (''ValuesFrom'', slice_copy), (''SetRootContextJSON'', slice_copy),
      (''SecretKeyFrom'', ptr_copy assign), (''SecretValuesFrom'', slice_copy),
      (''Install'', ptr_copy InstallConfig_DeepCopyInto),
      (''Rollback'', ptr_copy RollbackConfig_DeepCopyInto),
      (''Uninstall'', ptr_copy UninstallConfig_DeepCopyInto), (''ExtraAnnotations'', map_copy),
      (''ExtraLabels'', map_copy), (''RuntimeAnnotations'', map_copy), (''RuntimeLabels'', map_copy),
      (''DiffPatches'', slice_copy_each Patch_DeepCopyInto),
      (''RenderPatches'', slice_copy_each Patch_DeepCopyInto), (''ReleaseInfoAnnotations'', map_copy),
      (''ReleaseLabels'', map_copy), (''Tracking'', ptr_copy assign),
      (''Provenance'', ptr_copy ProvenanceConfig_DeepCopyInto), (''ReleaseStorage'', ptr_copy assign),
      (''Validation'', ptr_copy ValidationConfig_DeepCopyInto), (''Typescript'', ptr_copy assign)]"

definition ReleaseSpec_DeepCopy :: "third_party \<Rightarrow> copier" where
  "ReleaseSpec_DeepCopy X = DeepCopy (ReleaseSpec_DeepCopyInto X)"

definition ReleaseStatus_DeepCopyInto :: "third_party \<Rightarrow> copier" where
  "ReleaseStatus_DeepCopyInto X = struct_copy
     [(''Conditions'', slice_copy_each (Condition_DeepCopyInto X)),
      (''LastAppliedChartSource'', ptr_copy assign), (''CandidateChartSource'', ptr_copy assign)]"

definition ReleaseStatus_DeepCopy :: "third_party \<Rightarrow> copier" where
  "ReleaseStatus_DeepCopy X = DeepCopy (ReleaseStatus_DeepCopyInto X)"

definition Release_DeepCopyInto :: "third_party \<Rightarrow> copier" where
  "Release_DeepCopyInto X = struct_copy
     [(''TypeMeta'', assign), (''ObjectMeta'', ObjectMeta_DeepCopyInto X),
      (''Spec'', ReleaseSpec_DeepCopyInto X), (''Status'', ReleaseStatus_DeepCopyInto X)]"

definition Release_DeepCopy :: "third_party \<Rightarrow> copier" where
  "Release_DeepCopy X = DeepCopy (Release_DeepCopyInto X)"

definition ReleaseList_DeepCopyInto :: "third_party \<Rightarrow> copier" where
  "ReleaseList_DeepCopyInto X = struct_copy
     [(''TypeMeta'', assign), (''ListMeta'', ListMeta_DeepCopyInto X),
      (''Items'', slice_copy_each (Release_DeepCopyInto X))]"

definition ReleaseList_DeepCopy :: "third_party \<Rightarrow> copier" where
  "ReleaseList_DeepCopy X = DeepCopy (ReleaseList_DeepCopyInto X)"

text \<open>As a \<^verbatim>\<open>runtime.Object\<close>: the nil interface, \<open>None\<close>, for a nil pointer.\<close>

definition Release_DeepCopyObject :: "third_party \<Rightarrow> gval \<Rightarrow> gval option mprog" where
  "Release_DeepCopyObject X v = do {
     c \<leftarrow> Release_DeepCopy X v;
     returnM (if c \<noteq> VPtr None then Some c else None)
   }"

definition ReleaseList_DeepCopyObject :: "third_party \<Rightarrow> gval \<Rightarrow> gval option mprog" where
  "ReleaseList_DeepCopyObject X v = do {
     c \<leftarrow> ReleaseList_DeepCopy X v;
     returnM (if c \<noteq> VPtr None then Some c else None)
   }"

text \<open>Every type of the API with its \<^verbatim>\<open>DeepCopy\<close>.\<close>

definition api_types :: "third_party \<Rightarrow> (gtype \<times> copier) list" where
  "api_types X =
     [(BucketChartSource_type X, BucketChartSource_DeepCopy X),
      (CertificateReference_type, CertificateReference_DeepCopy),
      (ChartSourceRef_type, ChartSourceRef_DeepCopy),
      (ChartSourceReference_type, ChartSourceReference_DeepCopy),
      (CredentialReference_type, CredentialReference_DeepCopy),
      (GitRepositoryChartSource_type X, GitRepositoryChartSource_DeepCopy),
      (HelmRepositoryChartSource_type X, HelmRepositoryChartSource_DeepCopy X),
      (InstallConfig_type X, InstallConfig_DeepCopy),
      (OCIRepositoryChartSource_type X, OCIRepositoryChartSource_DeepCopy X),
      (Patch_type, Patch_DeepCopy), (PatchMatcher_type, PatchMatcher_DeepCopy),
      (ProvenanceConfig_type, ProvenanceConfig_DeepCopy),
      (ProxySettingsReference_type, ProxySettingsReference_DeepCopy),
      (Release_type X, Release_DeepCopy X), (ReleaseChart_type X, ReleaseChart_DeepCopy X),
      (ReleaseList_type X, ReleaseList_DeepCopy X), (ReleaseSpec_type X, ReleaseSpec_DeepCopy X),
      (ReleaseStatus_type X, ReleaseStatus_DeepCopy X),
      (ReleaseStorageConfig_type, ReleaseStorageConfig_DeepCopy),
      (RollbackConfig_type X, RollbackConfig_DeepCopy),
      (SecretKeyReference_type, SecretKeyReference_DeepCopy),
      (TrackingConfig_type X, TrackingConfig_DeepCopy),
      (TypescriptConfig_type, TypescriptConfig_DeepCopy),
      (UninstallConfig_type X, UninstallConfig_DeepCopy),
      (ValidationConfig_type X, ValidationConfig_DeepCopy),
      (ValuesReference_type, ValuesReference_DeepCopy)]"

section \<open>Every copy is deep\<close>

lemmas copy_rules = copies_assign copies_ptr copies_slice copies_slice_flat copies_map

lemma flat_types [simp]:
  "flat CredentialReference_type"
  "flat CertificateReference_type"
  "flat ProxySettingsReference_type"
  "flat ChartSourceRef_type"
  "flat ChartSourceReference_type"
  "flat SecretKeyReference_type"
  "flat ValuesReference_type"
  "flat ReleaseStorageConfig_type"
  "flat TypescriptConfig_type"
  by (simp_all add: CredentialReference_type_def CertificateReference_type_def ProxySettingsReference_type_def ChartSourceRef_type_def ChartSourceReference_type_def SecretKeyReference_type_def ValuesReference_type_def ReleaseStorageConfig_type_def TypescriptConfig_type_def)

locale third_party_library =
  fixes X :: third_party
  assumes contract: "third_party_contract X"
begin

lemma third_party_copies [simp]:
  "copies (ObjectMeta_type X) (ObjectMeta_DeepCopyInto X)"
  "copies (ListMeta_type X) (ListMeta_DeepCopyInto X)"
  "copies (Condition_type X) (Condition_DeepCopyInto X)"
  "copies (JSON_type X) (JSON_DeepCopyInto X)"
  "copies (BucketSTSSpec_type X) (BucketSTSSpec_DeepCopyInto X)"
  "copies (OCIRepositoryVerification_type X) (OCIRepositoryVerification_DeepCopyInto X)"
  "flat (TypeMeta_type X)"
  "flat (Duration_type X)"
  "flat (GitRepositoryVerification_type X)"
  "flat (GitRepositoryInclude_type X)"
  "flat (OCILayerSelector_type X)"
  using contract by (simp_all add: third_party_contract_def)

lemma flat_TrackingConfig [simp]: "flat (TrackingConfig_type X)"
  by (simp add: TrackingConfig_type_def)

lemma copies_CredentialReference [simp]: "copies CredentialReference_type CredentialReference_DeepCopyInto"
  unfolding CredentialReference_type_def CredentialReference_DeepCopyInto_def by (rule copies_struct) (simp_all add: copy_rules)

lemma copies_CertificateReference [simp]: "copies CertificateReference_type CertificateReference_DeepCopyInto"
  unfolding CertificateReference_type_def CertificateReference_DeepCopyInto_def by (rule copies_struct) (simp_all add: copy_rules)

lemma copies_ProxySettingsReference [simp]: "copies ProxySettingsReference_type ProxySettingsReference_DeepCopyInto"
  unfolding ProxySettingsReference_type_def ProxySettingsReference_DeepCopyInto_def by (rule copies_struct) (simp_all add: copy_rules)

lemma copies_BucketChartSource [simp]: "copies (BucketChartSource_type X) (BucketChartSource_DeepCopyInto X)"
  unfolding BucketChartSource_type_def BucketChartSource_DeepCopyInto_def by (rule copies_struct) (simp_all add: copy_rules)

lemma copies_ChartSourceRef [simp]: "copies ChartSourceRef_type ChartSourceRef_DeepCopyInto"
  unfolding ChartSourceRef_type_def ChartSourceRef_DeepCopyInto_def by (rule copies_struct) (simp_all add: copy_rules)

lemma copies_ChartSourceReference [simp]: "copies ChartSourceReference_type ChartSourceReference_DeepCopyInto"
  unfolding ChartSourceReference_type_def ChartSourceReference_DeepCopyInto_def by (rule copies_struct) (simp_all add: copy_rules)

lemma copies_GitRepositoryChartSource [simp]: "copies (GitRepositoryChartSource_type X) GitRepositoryChartSource_DeepCopyInto"
  unfolding GitRepositoryChartSource_type_def GitRepositoryChartSource_DeepCopyInto_def by (rule copies_struct) (simp_all add: copy_rules)

lemma copies_HelmRepositoryChartSource [simp]: "copies (HelmRepositoryChartSource_type X) (HelmRepositoryChartSource_DeepCopyInto X)"
  unfolding HelmRepositoryChartSource_type_def HelmRepositoryChartSource_DeepCopyInto_def by (rule copies_struct) (simp_all add: copy_rules)

lemma copies_InstallConfig [simp]: "copies (InstallConfig_type X) InstallConfig_DeepCopyInto"
  unfolding InstallConfig_type_def InstallConfig_DeepCopyInto_def by (rule copies_struct) (simp_all add: copy_rules)

lemma copies_OCIRepositoryChartSource [simp]: "copies (OCIRepositoryChartSource_type X) (OCIRepositoryChartSource_DeepCopyInto X)"
  unfolding OCIRepositoryChartSource_type_def OCIRepositoryChartSource_DeepCopyInto_def by (rule copies_struct) (simp_all add: copy_rules)

lemma copies_PatchMatcher [simp]: "copies PatchMatcher_type PatchMatcher_DeepCopyInto"
  unfolding PatchMatcher_type_def PatchMatcher_DeepCopyInto_def by (rule copies_struct) (simp_all add: copy_rules)

lemma copies_Patch [simp]: "copies Patch_type Patch_DeepCopyInto"
  unfolding Patch_type_def Patch_DeepCopyInto_def by (rule copies_struct) (simp_all add: copy_rules)

lemma copies_SecretKeyReference [simp]: "copies SecretKeyReference_type SecretKeyReference_DeepCopyInto"
  unfolding SecretKeyReference_type_def SecretKeyReference_DeepCopyInto_def by (rule copies_struct) (simp_all add: copy_rules)

lemma copies_ProvenanceConfig [simp]: "copies ProvenanceConfig_type ProvenanceConfig_DeepCopyInto"
  unfolding ProvenanceConfig_type_def ProvenanceConfig_DeepCopyInto_def by (rule copies_struct) (simp_all add: copy_rules)

lemma copies_ReleaseChart [simp]: "copies (ReleaseChart_type X) (ReleaseChart_DeepCopyInto X)"
  unfolding ReleaseChart_type_def ReleaseChart_DeepCopyInto_def by (rule copies_struct) (simp_all add: copy_rules)

lemma copies_ValuesReference [simp]: "copies ValuesReference_type ValuesReference_DeepCopyInto"
  unfolding ValuesReference_type_def ValuesReference_DeepCopyInto_def by (rule copies_struct) (simp_all add: copy_rules)

lemma copies_RollbackConfig [simp]: "copies (RollbackConfig_type X) RollbackConfig_DeepCopyInto"
  unfolding RollbackConfig_type_def RollbackConfig_DeepCopyInto_def by (rule copies_struct) (simp_all add: copy_rules)

lemma copies_UninstallConfig [simp]: "copies (UninstallConfig_type X) UninstallConfig_DeepCopyInto"
  unfolding UninstallConfig_type_def UninstallConfig_DeepCopyInto_def by (rule copies_struct) (simp_all add: copy_rules)

lemma copies_TrackingConfig [simp]: "copies (TrackingConfig_type X) TrackingConfig_DeepCopyInto"
  unfolding TrackingConfig_type_def TrackingConfig_DeepCopyInto_def by (rule copies_struct) (simp_all add: copy_rules)

lemma copies_ReleaseStorageConfig [simp]: "copies ReleaseStorageConfig_type ReleaseStorageConfig_DeepCopyInto"
  unfolding ReleaseStorageConfig_type_def ReleaseStorageConfig_DeepCopyInto_def by (rule copies_struct) (simp_all add: copy_rules)

lemma copies_ValidationConfig [simp]: "copies (ValidationConfig_type X) ValidationConfig_DeepCopyInto"
  unfolding ValidationConfig_type_def ValidationConfig_DeepCopyInto_def by (rule copies_struct) (simp_all add: copy_rules)

lemma copies_TypescriptConfig [simp]: "copies TypescriptConfig_type TypescriptConfig_DeepCopyInto"
  unfolding TypescriptConfig_type_def TypescriptConfig_DeepCopyInto_def by (rule copies_struct) (simp_all add: copy_rules)

lemma copies_ReleaseSpec [simp]: "copies (ReleaseSpec_type X) (ReleaseSpec_DeepCopyInto X)"
  unfolding ReleaseSpec_type_def ReleaseSpec_DeepCopyInto_def by (rule copies_struct) (simp_all add: copy_rules)

lemma copies_ReleaseStatus [simp]: "copies (ReleaseStatus_type X) (ReleaseStatus_DeepCopyInto X)"
  unfolding ReleaseStatus_type_def ReleaseStatus_DeepCopyInto_def by (rule copies_struct) (simp_all add: copy_rules)

lemma copies_Release [simp]: "copies (Release_type X) (Release_DeepCopyInto X)"
  unfolding Release_type_def Release_DeepCopyInto_def by (rule copies_struct) (simp_all add: copy_rules)

lemma copies_ReleaseList [simp]: "copies (ReleaseList_type X) (ReleaseList_DeepCopyInto X)"
  unfolding ReleaseList_type_def ReleaseList_DeepCopyInto_def by (rule copies_struct) (simp_all add: copy_rules)

lemma copies_api: "(T, copy) \<in> set (api_types X) \<Longrightarrow> copies (TPtr T) copy"
  by (auto simp: api_types_def CredentialReference_DeepCopy_def CertificateReference_DeepCopy_def ProxySettingsReference_DeepCopy_def BucketChartSource_DeepCopy_def ChartSourceRef_DeepCopy_def ChartSourceReference_DeepCopy_def GitRepositoryChartSource_DeepCopy_def HelmRepositoryChartSource_DeepCopy_def InstallConfig_DeepCopy_def OCIRepositoryChartSource_DeepCopy_def PatchMatcher_DeepCopy_def Patch_DeepCopy_def SecretKeyReference_DeepCopy_def ProvenanceConfig_DeepCopy_def ReleaseChart_DeepCopy_def ValuesReference_DeepCopy_def RollbackConfig_DeepCopy_def UninstallConfig_DeepCopy_def TrackingConfig_DeepCopy_def ReleaseStorageConfig_DeepCopy_def ValidationConfig_DeepCopy_def TypescriptConfig_DeepCopy_def ReleaseSpec_DeepCopy_def ReleaseStatus_DeepCopy_def Release_DeepCopy_def ReleaseList_DeepCopy_def copies_DeepCopy)

end

section \<open>Example\<close>

text \<open>
  Other packages whose deep copies follow their types, with the layouts the example needs: the
  labels, annotations and finalizers of \<^verbatim>\<open>ObjectMeta\<close>, and the raw bytes of \<^verbatim>\<open>JSON\<close>.
\<close>

definition demo_third_party :: third_party where
  "demo_third_party =
     (let meta = TStruct [(''Name'', TScalar), (''Labels'', TMap), (''Annotations'', TMap), (''Finalizers'', TSlice TScalar)];
          json = TStruct [(''Raw'', TSlice TScalar)];
          verification = TStruct [(''Provider'', TScalar), (''SecretRef'', TPtr (TStruct [(''Name'', TScalar)]))];
          plain = TStruct [(''Name'', TScalar)]
      in \<lparr>TypeMeta_type = plain, ObjectMeta_type = meta, ListMeta_type = plain, Duration_type = TScalar,
          Condition_type = plain, JSON_type = json, BucketSTSSpec_type = verification,
          GitRepositoryVerification_type = plain, GitRepositoryInclude_type = plain, OCILayerSelector_type = plain,
          OCIRepositoryVerification_type = verification,
          ObjectMeta_DeepCopyInto = clone meta, ListMeta_DeepCopyInto = clone plain, Condition_DeepCopyInto = clone plain,
          JSON_DeepCopyInto = clone json, BucketSTSSpec_DeepCopyInto = clone verification,
          OCIRepositoryVerification_DeepCopyInto = clone verification\<rparr>)"

lemma demo_third_party_contract: "third_party_contract demo_third_party"
  by (simp add: third_party_contract_def demo_third_party_def Let_def copies_clone del: clone.simps)

interpretation demo_library: third_party_library demo_third_party
  by unfold_locales (rule demo_third_party_contract)

interpretation demo_release: deep_copier "TPtr (Release_type demo_third_party)" "Release_DeepCopy demo_third_party"
  by unfold_locales (rule demo_library.copies_api, simp add: api_types_def)

text \<open>A release at address 2 whose finalizers are the array at address 0 and extra labels the table at 1.\<close>

definition demo_object :: gval where
  "demo_object =
     (let zero = zero_value (Release_type demo_third_party)
      in set_field
           (set_field zero ''ObjectMeta'' (set_field (field zero ''ObjectMeta'') ''Finalizers'' (VSlice (Some (0, 0, 1)))))
           ''Spec'' (set_field (field zero ''Spec'') ''ExtraLabels'' (VMap (Some 1))))"

definition demo_heap :: gheap where
  "demo_heap =
     \<lparr>mem = [0 \<mapsto> CArray [VScalar (SString ''nelm.werf.io/release'')], 1 \<mapsto> CMap [(''team'', SString ''a'')],
             2 \<mapsto> CVar demo_object],
      lim = 3\<rparr>"

definition demo_pointer :: gval where
  "demo_pointer = VPtr (Some 2)"

lemma demo_heap_wf: "wf_heap demo_heap"
  by (auto simp: wf_heap_def demo_heap_def split: if_splits)

lemma demo_heap_typed: "has_type (mem demo_heap) (TPtr (Release_type demo_third_party)) demo_pointer"
  by code_simp

text \<open>The copy of the example: three new cells.\<close>

lemma demo_copy:
  "fst (run_state (Release_DeepCopy demo_third_party demo_pointer) demo_heap) = VPtr (Some 3)"
  "lim (snd (run_state (Release_DeepCopy demo_third_party demo_pointer) demo_heap)) = 6"
  by code_simp+

lemma demo_copy_foot:
  "0 \<in> foot (mem (snd (run_state (Release_DeepCopy demo_third_party demo_pointer) demo_heap)))
     (TPtr (Release_type demo_third_party)) demo_pointer"
  by code_simp

section \<open>Properties\<close>

text \<open>C39. Every \<^verbatim>\<open>DeepCopy\<close> of the API types is deep: the copy denotes what the original denoted and the
  original still does; whatever is written to the memory of the original afterwards, or allocated,
  the copy still denotes the same, and whatever is written to the memory of the copy, the original
  does.\<close>

theorem DeepCopy_independent:
  assumes "third_party_contract X" and "(T, copy) \<in> set (api_types X)"
    and "wf_heap h" and "has_type (mem h) (TPtr T) v" and "run_state (copy v) h = (w, h')"
  shows "denote (mem h') (TPtr T) w = denote (mem h) (TPtr T) v \<and>
    denote (mem h') (TPtr T) v = denote (mem h) (TPtr T) v \<and>
    (\<forall>h''. (\<forall>a \<in> dom (mem h') - foot (mem h') (TPtr T) v. mem h'' a = mem h' a) \<longrightarrow>
       denote (mem h'') (TPtr T) w = denote (mem h) (TPtr T) v) \<and>
    (\<forall>h''. (\<forall>a \<in> dom (mem h') - foot (mem h') (TPtr T) w. mem h'' a = mem h' a) \<longrightarrow>
       denote (mem h'') (TPtr T) v = denote (mem h) (TPtr T) v)"
proof -
  have "deep_copier (TPtr T) copy"
    using third_party_library.copies_api [OF third_party_library.intro, OF assms(1,2)] by (rule deep_copier.intro)
  note rules = deep_copier.copy_denotes(2) [OF this] deep_copier.original_kept(2) [OF this] deep_copier.independent [OF this]
  show ?thesis using rules [OF assms(3-5)] by blast
qed

theorem DeepCopy_independent_witness:
  "let h' = snd (run_state (Release_DeepCopy demo_third_party demo_pointer) demo_heap);
       T = TPtr (Release_type demo_third_party)
   in denote (mem h') T (VPtr (Some 3)) = denote (mem demo_heap) T demo_pointer \<and>
      denote ((mem h')(0 \<mapsto> CArray [])) T (VPtr (Some 3)) = denote (mem demo_heap) T demo_pointer"
proof -
  let ?T = "TPtr (Release_type demo_third_party)"
  let ?h = "snd (run_state (Release_DeepCopy demo_third_party demo_pointer) demo_heap)"
  have mem_api: "(Release_type demo_third_party, Release_DeepCopy demo_third_party) \<in> set (api_types demo_third_party)"
    by (simp add: api_types_def)
  note deep = DeepCopy_independent [OF demo_third_party_contract mem_api demo_heap_wf demo_heap_typed,
      OF surjective_pairing, unfolded demo_copy(1)]
  have "mem (?h\<lparr>mem := (mem ?h)(0 \<mapsto> CArray [])\<rparr>) a = mem ?h a" if "a \<in> dom (mem ?h) - foot (mem ?h) ?T demo_pointer" for a
    using that demo_copy_foot by (auto simp del: foot.simps)
  with deep have "denote (mem (?h\<lparr>mem := (mem ?h)(0 \<mapsto> CArray [])\<rparr>)) ?T (VPtr (Some 3)) = denote (mem demo_heap) ?T demo_pointer"
    by blast
  then have changed: "denote ((mem ?h)(0 \<mapsto> CArray [])) ?T (VPtr (Some 3)) = denote (mem demo_heap) ?T demo_pointer"
    by (simp del: denote.simps)
  show ?thesis unfolding Let_def by (rule conjI [OF deep [THEN conjunct1] changed])
qed

end
