(* ===== verification/Command_Line.thy ===== *)
theory Command_Line
  imports Go_Prelude "HOL-Library.Log_Nat"
begin

text \<open>
  The command line of the operator (\<^verbatim>\<open>cmd/main.go\<close>, up to \<^verbatim>\<open>flag.Parse\<close>): the flags it declares, their
  defaults and the variables they set, and what the standard library does with the arguments:
  \<^verbatim>\<open>strconv.ParseBool\<close>, \<^verbatim>\<open>strconv.ParseInt\<close> with base 0, \<^verbatim>\<open>time.ParseDuration\<close> and the loop of
  \<^verbatim>\<open>flag.FlagSet.Parse\<close>. The flags that the logger and the client library add to the set are a
  parameter.
\<close>

section \<open>Numbers\<close>

abbreviation byte :: "char \<Rightarrow> int" where
  "byte c \<equiv> of_char c"

definition is_digit :: "char \<Rightarrow> bool" where
  "is_digit c \<longleftrightarrow> 48 \<le> byte c \<and> byte c \<le> 57"

definition digit_val :: "char \<Rightarrow> int" where
  "digit_val c = byte c - 48"

text \<open>\<^verbatim>\<open>c | ('x' - 'X')\<close>, and the value of a letter or digit.\<close>

definition lower :: "int \<Rightarrow> int" where
  "lower b = (if even (b div 32) then b + 32 else b)"

definition digit_of :: "char \<Rightarrow> int option" where
  "digit_of c =
     (if is_digit c then Some (digit_val c)
      else if 97 \<le> lower (byte c) \<and> lower (byte c) \<le> 122 then Some (lower (byte c) - 97 + 10)
      else None)"

datatype num_error = ErrSyntax | ErrRange

text \<open>The loop of \<^verbatim>\<open>strconv.ParseUint\<close> for 64 bits and base 0; the flag records an underscore.\<close>

fun parse_digits :: "int \<Rightarrow> string \<Rightarrow> int \<Rightarrow> bool \<Rightarrow> num_error + int \<times> bool" where
  "parse_digits base [] n underscores = Inr (n, underscores)"
| "parse_digits base (c # s) n underscores =
     (if c = CHR ''_'' then parse_digits base s n True
      else case digit_of c of
             None \<Rightarrow> Inl ErrSyntax
           | Some d \<Rightarrow>
               if base \<le> d then Inl ErrSyntax
               else if (2 ^ 64 - 1) div base + 1 \<le> n then Inl ErrRange
               else if 2 ^ 64 - 1 < n * base + d then Inl ErrRange
               else parse_digits base s (n * base + d) underscores)"

text \<open>\<^verbatim>\<open>underscoreOK\<close>: underscores only between digits, or between the base prefix and a digit.\<close>

fun underscore_loop :: "bool \<Rightarrow> char \<Rightarrow> string \<Rightarrow> bool" where
  "underscore_loop hex saw [] = (saw \<noteq> CHR ''_'')"
| "underscore_loop hex saw (c # s) =
     (if is_digit c \<or> hex \<and> 97 \<le> lower (byte c) \<and> lower (byte c) \<le> 102 then underscore_loop hex CHR ''0'' s
      else if c = CHR ''_'' then if saw \<noteq> CHR ''0'' then False else underscore_loop hex CHR ''_'' s
      else if saw = CHR ''_'' then False
      else underscore_loop hex CHR ''!'' s)"

definition underscoreOK :: "string \<Rightarrow> bool" where
  "underscoreOK s0 =
     (let s = (case s0 of c # cs \<Rightarrow> if c = CHR ''-'' \<or> c = CHR ''+'' then cs else s0 | [] \<Rightarrow> [])
      in case s of
           z # p # cs \<Rightarrow>
             if z = CHR ''0'' \<and> lower (byte p) \<in> {98, 111, 120}
             then underscore_loop (lower (byte p) = 120) CHR ''0'' cs
             else underscore_loop False CHR ''^'' s
         | _ \<Rightarrow> underscore_loop False CHR ''^'' s)"

text \<open>The base of a literal and the digits after its prefix.\<close>

definition base_prefix :: "string \<Rightarrow> int \<times> string" where
  "base_prefix s =
     (if s \<noteq> [] \<and> hd s = CHR ''0'' then
        if 3 \<le> length s \<and> lower (byte (s ! 1)) = 98 then (2, drop 2 s)
        else if 3 \<le> length s \<and> lower (byte (s ! 1)) = 111 then (8, drop 2 s)
        else if 3 \<le> length s \<and> lower (byte (s ! 1)) = 120 then (16, drop 2 s)
        else (8, tl s)
      else (10, s))"

definition ParseUint :: "string \<Rightarrow> num_error + int" where
  "ParseUint s =
     (if s = [] then Inl ErrSyntax
      else let (base, ds) = base_prefix s
           in case parse_digits base ds 0 False of
                Inl e \<Rightarrow> Inl e
              | Inr (n, underscores) \<Rightarrow> if underscores \<and> \<not> underscoreOK s then Inl ErrSyntax else Inr n)"

definition ParseInt :: "string \<Rightarrow> num_error + int" where
  "ParseInt s =
     (if s = [] then Inl ErrSyntax
      else let neg = (hd s = CHR ''-'');
               t = (if neg \<or> hd s = CHR ''+'' then tl s else s)
           in case ParseUint t of
                Inl e \<Rightarrow> Inl e
              | Inr un \<Rightarrow>
                  if \<not> neg \<and> 2 ^ 63 \<le> un \<or> neg \<and> 2 ^ 63 < un then Inl ErrRange
                  else Inr (if neg then - un else un))"

definition ParseBool :: "string \<Rightarrow> bool option" where
  "ParseBool s =
     (if s \<in> {''1'', ''t'', ''T'', ''TRUE'', ''true'', ''True''} then Some True
      else if s \<in> {''0'', ''f'', ''F'', ''FALSE'', ''false'', ''False''} then Some False
      else None)"

section \<open>Durations\<close>

fun leadingInt :: "string \<Rightarrow> int \<Rightarrow> (int \<times> string) option" where
  "leadingInt [] x = Some (x, [])"
| "leadingInt (c # s) x =
     (if \<not> is_digit c then Some (x, c # s)
      else if 2 ^ 63 div 10 < x then None
      else let y = x * 10 + digit_val c
           in if 2 ^ 63 < y then None else leadingInt s y)"

fun leadingFraction :: "string \<Rightarrow> int \<Rightarrow> int \<Rightarrow> bool \<Rightarrow> int \<times> int \<times> string" where
  "leadingFraction [] x scale overflow = (x, scale, [])"
| "leadingFraction (c # s) x scale overflow =
     (if \<not> is_digit c then (x, scale, c # s)
      else if overflow then leadingFraction s x scale True
      else if (2 ^ 63 - 1) div 10 < x then leadingFraction s x scale True
      else let y = x * 10 + digit_val c
           in if 2 ^ 63 < y then leadingFraction s x scale True
              else leadingFraction s y (scale * 10) False)"

text \<open>
  \<^verbatim>\<open>float64\<close> of a positive quotient: 53 significant bits, ties to even. The values here are far from
  the limits of the exponent.
\<close>

definition round_div :: "int \<Rightarrow> int \<Rightarrow> int" where
  "round_div n d = (let q = n div d; r = n mod d in if 2 * r > d \<or> 2 * r = d \<and> odd q then q + 1 else q)"

definition shift_frac :: "int \<Rightarrow> int \<Rightarrow> int \<Rightarrow> int \<times> int" where
  "shift_frac k n d = (if 0 \<le> k then (n * 2 ^ nat k, d) else (n, d * 2 ^ nat (- k)))"

definition float64 :: "int \<times> int \<Rightarrow> int \<times> int" where
  "float64 x =
     (case x of (n, d) \<Rightarrow>
        if n = 0 then (0, 1)
        else let k0 = 53 - bitlen n + bitlen d;
                 k = (case shift_frac k0 n d of (a, b) \<Rightarrow> if 2 ^ 53 \<le> a div b then k0 - 1 else k0);
                 m = (case shift_frac k n d of (a, b) \<Rightarrow> round_div a b)
             in shift_frac (- k) m 1)"

text \<open>\<^verbatim>\<open>uint64(float64(f) * (float64(unit) / scale))\<close>.\<close>

definition fraction_ns :: "int \<Rightarrow> int \<Rightarrow> int \<Rightarrow> int" where
  "fraction_ns f unit scale =
     (let (a, b) = float64 (f, 1); (c, d) = float64 (unit, scale); (m, e) = float64 (a * c, b * d)
      in m div e)"

definition unitMap :: "(string \<times> int) list" where
  "unitMap =
     [(''ns'', 1), (''us'', 10 ^ 3), ([CHR 0xC2, CHR 0xB5, CHR ''s''], 10 ^ 3), ([CHR 0xCE, CHR 0xBC, CHR ''s''], 10 ^ 3),
      (''ms'', 10 ^ 6), (''s'', 10 ^ 9), (''m'', 60 * 10 ^ 9), (''h'', 3600 * 10 ^ 9)]"

definition unit_char :: "char \<Rightarrow> bool" where
  "unit_char c \<longleftrightarrow> \<not> (c = CHR ''.'' \<or> is_digit c)"

text \<open>One number with its unit; \<open>None\<close> is the error.\<close>

definition duration_part :: "string \<Rightarrow> (int \<times> string) option" where
  "duration_part s =
     (if \<not> (hd s = CHR ''.'' \<or> is_digit (hd s)) then None
      else case leadingInt s 0 of
             None \<Rightarrow> None
           | Some (v, s1) \<Rightarrow>
               let pre = (length s1 \<noteq> length s);
                   point = (s1 \<noteq> [] \<and> hd s1 = CHR ''.'');
                   (f, scale, s2) = (if point then leadingFraction (tl s1) 0 1 False else (0, 1, s1));
                   post = (point \<and> length s2 \<noteq> length (tl s1));
                   u = takeWhile unit_char s2;
                   s3 = dropWhile unit_char s2
               in if \<not> pre \<and> \<not> post then None
                  else if u = [] then None
                  else case map_of unitMap u of
                         None \<Rightarrow> None
                       | Some unit \<Rightarrow>
                           if 2 ^ 63 div unit < v then None
                           else let w = (if 0 < f then (v * unit + fraction_ns f unit scale) mod 2 ^ 64 else v * unit)
                                in if 0 < f \<and> 2 ^ 63 < w then None else Some (w, s3))"

lemma leadingInt_shorter: "leadingInt s x = Some (v, s') \<Longrightarrow> length s' \<le> length s"
  by (induction s x rule: leadingInt.induct) (auto simp: Let_def split: if_splits)

lemma leadingFraction_shorter: "leadingFraction s x sc b = (f, sc', s') \<Longrightarrow> length s' \<le> length s"
  by (induction s x sc b rule: leadingFraction.induct) (auto simp: Let_def split: if_splits)

lemma dropWhile_shorter: "takeWhile P s \<noteq> [] \<Longrightarrow> length (dropWhile P s) < length s"
  by (cases s) (auto simp: le_imp_less_Suc length_dropWhile_le split: if_splits)

lemma duration_part_shorter: "duration_part s = Some (w, s') \<Longrightarrow> length s' < length s"
proof -
  assume a: "duration_part s = Some (w, s')"
  then obtain v s1 where s1: "leadingInt s 0 = Some (v, s1)"
    by (auto simp: duration_part_def split: if_splits option.splits)
  obtain f sc s2 where s2: "(if s1 \<noteq> [] \<and> hd s1 = CHR ''.'' then leadingFraction (tl s1) 0 1 False else (0, 1, s1)) = (f, sc, s2)"
    by (metis prod_cases3)
  from a s1 s2 have "takeWhile unit_char s2 \<noteq> []" "s' = dropWhile unit_char s2"
    by (auto simp: duration_part_def Let_def split: if_splits option.splits prod.splits)
  then have "length s' < length s2" using dropWhile_shorter by blast
  also have "length s2 \<le> length s1"
    using s2 leadingFraction_shorter [of "tl s1"] by (auto split: if_splits) (metis diff_le_self le_trans length_tl)
  also have "length s1 \<le> length s" using s1 by (rule leadingInt_shorter)
  finally show ?thesis .
qed

function duration_loop :: "string \<Rightarrow> int \<Rightarrow> int option" where
  "duration_loop s d =
     (if s = [] then Some d
      else case duration_part s of
             None \<Rightarrow> None
           | Some (v, s') \<Rightarrow>
               let d' = (d + v) mod 2 ^ 64
               in if 2 ^ 63 < d' then None else duration_loop s' d')"
  by pat_completeness auto
termination by (relation "measure (\<lambda>(s, d). length s)") (auto dest: duration_part_shorter)

declare duration_loop.simps [simp del]

definition ParseDuration :: "string \<Rightarrow> duration option" where
  "ParseDuration s =
     (let neg = (s \<noteq> [] \<and> hd s = CHR ''-'');
          t = (if neg \<or> s \<noteq> [] \<and> hd s = CHR ''+'' then tl s else s)
      in if t = ''0'' then Some 0
         else if t = [] then None
         else case duration_loop t 0 of
                None \<Rightarrow> None
              | Some d \<Rightarrow>
                  if neg then Some (wrap64 (- d))
                  else if 2 ^ 63 - 1 < d then None
                  else Some d)"

text \<open>The parsers on concrete arguments.\<close>

lemma ParseInt_examples:
  "ParseInt ''0x1F'' = Inr 31" "ParseInt ''010'' = Inr 8" "ParseInt ''1_000'' = Inr 1000"
  "ParseInt ''1__0'' = Inl ErrSyntax" "ParseInt ''08'' = Inl ErrSyntax" "ParseInt ''9223372036854775808'' = Inl ErrRange"
  by code_simp+

lemma ParseDuration_examples:
  "ParseDuration ''1h15m30.918s'' = Some 4530918000000" "ParseDuration ''-1.5h'' = Some (- 5400000000000)"
  "ParseDuration ''.5ms'' = Some 500000" "ParseDuration ''30'' = None" "ParseDuration ''0'' = Some 0"
  "ParseDuration ''9223372036854775808ns'' = None"
  by code_simp+

section \<open>Flags\<close>

text \<open>Every flag of the program that is not the logger's own, under the name of its variable.\<close>

record flags =
  Flag_MetricsBindAddress :: string
  Flag_HealthProbeBindAddress :: string
  Flag_LeaderElect :: bool
  Flag_MetricsSecure :: bool
  Flag_metricsCertDir :: string
  Flag_metricsCertName :: string
  Flag_metricsCertKey :: string
  Flag_DefaultServiceAccountName :: string
  Flag_MaxConcurrentReconciles :: int
  Flag_GracefulShutdownTimeout :: duration
  Flag_WatchAllNamespaces :: bool
  Flag_WatchNamespace :: string
  Flag_SourceAPIGroup :: string
  Flag_SourceAPIVersion :: string
  Flag_HTTPRetry :: int
  Flag_HTTPTimeout :: duration
  Flag_dependencyWatchLabelSelector :: string
  Flag_ReleaseStorageDriver :: string
  Flag_ReleaseStorageSQLConnection :: string
  Flag_KubeQPSLimit :: int
  Flag_KubeBurstLimit :: int
  Flag_KubeRequestTimeout :: duration
  Flag_NetworkParallelism :: int
  Flag_DenoBinaryPath :: string
  Flag_TempDir :: string
  Flag_LogLevel :: string

definition flag_defaults :: flags where
  "flag_defaults =
     \<lparr>Flag_MetricsBindAddress = ''0'', Flag_HealthProbeBindAddress = '':8081'',
      Flag_LeaderElect = False, Flag_MetricsSecure = True, Flag_metricsCertDir = '''',
      Flag_metricsCertName = ''tls.crt'', Flag_metricsCertKey = ''tls.key'',
      Flag_DefaultServiceAccountName = '''', Flag_MaxConcurrentReconciles = 1,
      Flag_GracefulShutdownTimeout = 600 * time_Second, Flag_WatchAllNamespaces = True,
      Flag_WatchNamespace = '''', Flag_SourceAPIGroup = ''source.toolkit.fluxcd.io'',
      Flag_SourceAPIVersion = ''v1'', Flag_HTTPRetry = 9, Flag_HTTPTimeout = 30 * time_Second,
      Flag_dependencyWatchLabelSelector = '''', Flag_ReleaseStorageDriver = ''secret'',
      Flag_ReleaseStorageSQLConnection = '''', Flag_KubeQPSLimit = 50, Flag_KubeBurstLimit = 100,
      Flag_KubeRequestTimeout = 0, Flag_NetworkParallelism = 30, Flag_DenoBinaryPath = '''',
      Flag_TempDir = '''', Flag_LogLevel = ''info''\<rparr>"

text \<open>
  The logger's options are made before the flags are parsed, when the variables hold the defaults.
\<close>

definition zap_Development :: "flags \<Rightarrow> bool" where
  "zap_Development parsed =
     (let cfg = flag_defaults in Flag_LogLevel cfg = ''debug'' \<or> Flag_LogLevel cfg = ''trace'')"

section \<open>The flag set\<close>

text \<open>The kinds of flags the program declares, with the variable each sets.\<close>

datatype flag_var =
  StringVar "string \<Rightarrow> flags \<Rightarrow> flags"
| BoolVar "bool \<Rightarrow> flags \<Rightarrow> flags"
| IntVar "int \<Rightarrow> flags \<Rightarrow> flags"
| DurationVar "duration \<Rightarrow> flags \<Rightarrow> flags"

definition declared_flags :: "(string \<times> flag_var) list" where
  "declared_flags =
     [(''metrics-bind-address'', StringVar (\<lambda>v f. f\<lparr>Flag_MetricsBindAddress := v\<rparr>)),
      (''health-probe-bind-address'', StringVar (\<lambda>v f. f\<lparr>Flag_HealthProbeBindAddress := v\<rparr>)),
      (''leader-elect'', BoolVar (\<lambda>v f. f\<lparr>Flag_LeaderElect := v\<rparr>)),
      (''metrics-secure'', BoolVar (\<lambda>v f. f\<lparr>Flag_MetricsSecure := v\<rparr>)),
      (''metrics-cert-path'', StringVar (\<lambda>v f. f\<lparr>Flag_metricsCertDir := v\<rparr>)),
      (''metrics-cert-name'', StringVar (\<lambda>v f. f\<lparr>Flag_metricsCertName := v\<rparr>)),
      (''metrics-cert-key'', StringVar (\<lambda>v f. f\<lparr>Flag_metricsCertKey := v\<rparr>)),
      (''default-service-account'', StringVar (\<lambda>v f. f\<lparr>Flag_DefaultServiceAccountName := v\<rparr>)),
      (''max-concurrent-reconciles'', IntVar (\<lambda>v f. f\<lparr>Flag_MaxConcurrentReconciles := v\<rparr>)),
      (''graceful-shutdown-timeout'', DurationVar (\<lambda>v f. f\<lparr>Flag_GracefulShutdownTimeout := v\<rparr>)),
      (''watch-all-namespaces'', BoolVar (\<lambda>v f. f\<lparr>Flag_WatchAllNamespaces := v\<rparr>)),
      (''watch-namespace'', StringVar (\<lambda>v f. f\<lparr>Flag_WatchNamespace := v\<rparr>)),
      (''source-api-group'', StringVar (\<lambda>v f. f\<lparr>Flag_SourceAPIGroup := v\<rparr>)),
      (''source-api-version'', StringVar (\<lambda>v f. f\<lparr>Flag_SourceAPIVersion := v\<rparr>)),
      (''http-retry'', IntVar (\<lambda>v f. f\<lparr>Flag_HTTPRetry := v\<rparr>)),
      (''http-timeout'', DurationVar (\<lambda>v f. f\<lparr>Flag_HTTPTimeout := v\<rparr>)),
      (''dependency-watch-label-selector'', StringVar (\<lambda>v f. f\<lparr>Flag_dependencyWatchLabelSelector := v\<rparr>)),
      (''release-storage-driver'', StringVar (\<lambda>v f. f\<lparr>Flag_ReleaseStorageDriver := v\<rparr>)),
      (''release-storage-sql-connection'', StringVar (\<lambda>v f. f\<lparr>Flag_ReleaseStorageSQLConnection := v\<rparr>)),
      (''kube-qps-limit'', IntVar (\<lambda>v f. f\<lparr>Flag_KubeQPSLimit := v\<rparr>)),
      (''kube-burst-limit'', IntVar (\<lambda>v f. f\<lparr>Flag_KubeBurstLimit := v\<rparr>)),
      (''kube-request-timeout'', DurationVar (\<lambda>v f. f\<lparr>Flag_KubeRequestTimeout := v\<rparr>)),
      (''network-parallelism'', IntVar (\<lambda>v f. f\<lparr>Flag_NetworkParallelism := v\<rparr>)),
      (''deno-binary-path'', StringVar (\<lambda>v f. f\<lparr>Flag_DenoBinaryPath := v\<rparr>)),
      (''temp-dir'', StringVar (\<lambda>v f. f\<lparr>Flag_TempDir := v\<rparr>)),
      (''log-level'', StringVar (\<lambda>v f. f\<lparr>Flag_LogLevel := v\<rparr>))]"

text \<open>
  A flag that another package adds to the set: whether it is a boolean flag, and the values it
  accepts. What it sets belongs to that package, so it is kept as the name and the value.
\<close>

type_synonym other_flags = "string \<Rightarrow> (bool \<times> (string \<Rightarrow> bool)) option"

record parsed =
  Parsed_Flags :: flags
  Parsed_Others :: "(string \<times> string) list"

datatype flag_error =
  ErrHelp
| BadSyntax string
| NotDefined string
| NeedsArgument string
| InvalidValue string string

fun is_bool :: "flag_var \<Rightarrow> bool" where
  "is_bool (BoolVar upd) = True"
| "is_bool _ = False"

text \<open>\<^verbatim>\<open>Value.Set\<close>; \<open>None\<close> is an error.\<close>

fun Set_flag :: "flag_var \<Rightarrow> string \<Rightarrow> flags \<Rightarrow> flags option" where
  "Set_flag (StringVar upd) s f = Some (upd s f)"
| "Set_flag (BoolVar upd) s f = map_option (\<lambda>b. upd b f) (ParseBool s)"
| "Set_flag (IntVar upd) s f = (case ParseInt s of Inl e \<Rightarrow> None | Inr i \<Rightarrow> Some (upd i f))"
| "Set_flag (DurationVar upd) s f = map_option (\<lambda>d. upd d f) (ParseDuration s)"

text \<open>The flag of a name in the set: whether it is boolean, and its \<^verbatim>\<open>Set\<close>.\<close>

definition formal :: "other_flags \<Rightarrow> string \<Rightarrow> (bool \<times> (string \<Rightarrow> parsed \<Rightarrow> parsed option)) option" where
  "formal others name =
     (case map_of declared_flags name of
        Some var \<Rightarrow> Some (is_bool var, \<lambda>s p. map_option (\<lambda>f. p\<lparr>Parsed_Flags := f\<rparr>) (Set_flag var s (Parsed_Flags p)))
      | None \<Rightarrow>
          (case others name of
             Some (bool, ok) \<Rightarrow>
               Some (bool, \<lambda>s p. if ok s then Some (p\<lparr>Parsed_Others := Parsed_Others p @ [(name, s)]\<rparr>) else None)
           | None \<Rightarrow> None))"

text \<open>The name of a flag argument without its minus signs, and the value after the first equals sign.\<close>

definition name_value :: "string \<Rightarrow> string \<times> string option" where
  "name_value s =
     (let name = hd s # takeWhile (\<lambda>c. c \<noteq> CHR ''='') (tl s);
          rest = dropWhile (\<lambda>c. c \<noteq> CHR ''='') (tl s)
      in (name, if rest = [] then None else Some (tl rest)))"

text \<open>\<^verbatim>\<open>parseOne\<close>: the end of the flags with the arguments left, an error, or one flag set.\<close>

datatype parse_step = Done "string list" | Failed flag_error | Seen parsed "string list"

fun with_value :: "string \<Rightarrow> string \<Rightarrow> parsed option \<Rightarrow> string list \<Rightarrow> parse_step" where
  "with_value name v None args = Failed (InvalidValue v name)"
| "with_value name v (Some p) args = Seen p args"

definition set_named :: "other_flags \<Rightarrow> parsed \<Rightarrow> string \<Rightarrow> string option \<Rightarrow> string list \<Rightarrow> parse_step" where
  "set_named others p name value args =
     (case formal others name of
        None \<Rightarrow> if name = ''help'' \<or> name = ''h'' then Failed ErrHelp else Failed (NotDefined name)
      | Some (bool, Set) \<Rightarrow>
          if bool then
            (case value of
               Some v \<Rightarrow> with_value name v (Set v p) args
             | None \<Rightarrow> with_value name ''true'' (Set ''true'' p) args)
          else
            (case value of
               Some v \<Rightarrow> with_value name v (Set v p) args
             | None \<Rightarrow>
                 (case args of
                    [] \<Rightarrow> Failed (NeedsArgument name)
                  | v # args' \<Rightarrow> with_value name v (Set v p) args')))"

fun parseOne :: "other_flags \<Rightarrow> parsed \<Rightarrow> string list \<Rightarrow> parse_step" where
  "parseOne others p [] = Done []"
| "parseOne others p (s # args) =
     (if length s < 2 \<or> hd s \<noteq> CHR ''-'' then Done (s # args)
      else if s = ''--'' then Done args
      else let name = (if s ! 1 = CHR ''-'' then drop 2 s else tl s)
           in if hd name = CHR ''-'' \<or> hd name = CHR ''='' then Failed (BadSyntax s)
              else case name_value name of (n, v) \<Rightarrow> set_named others p n v args)"

lemma with_value_Seen: "with_value n v r args = Seen p' args' \<Longrightarrow> args' = args"
  by (cases r) auto

lemma set_named_shorter: "set_named others p n v args = Seen p' args' \<Longrightarrow> length args' \<le> length args"
  by (auto simp: set_named_def dest!: with_value_Seen split: if_splits option.splits prod.splits list.splits)

lemma parseOne_shorter: "parseOne others p args = Seen p' args' \<Longrightarrow> length args' < length args"
  by (cases "(others, p, args)" rule: parseOne.cases)
    (auto simp: Let_def le_imp_less_Suc dest: set_named_shorter split: if_splits prod.splits)

text \<open>\<^verbatim>\<open>Parse\<close>: the variables and the arguments left, or the error.\<close>

function Parse :: "other_flags \<Rightarrow> parsed \<Rightarrow> string list \<Rightarrow> flag_error + parsed \<times> string list" where
  "Parse others p args =
     (case parseOne others p args of
        Done rest \<Rightarrow> Inr (p, rest)
      | Failed e \<Rightarrow> Inl e
      | Seen p' args' \<Rightarrow> Parse others p' args')"
  by pat_completeness auto
termination by (relation "measure (\<lambda>(others, p, args). length args)") (auto dest: parseOne_shorter)

declare Parse.simps [simp del]

text \<open>\<^verbatim>\<open>flag.Parse\<close> on the command line, which exits on an error: 0 when help was asked for, 2 otherwise.\<close>

definition flag_Parse :: "other_flags \<Rightarrow> string list \<Rightarrow> int + flags" where
  "flag_Parse others args =
     (case Parse others \<lparr>Parsed_Flags = flag_defaults, Parsed_Others = []\<rparr> args of
        Inl ErrHelp \<Rightarrow> Inl 0
      | Inl e \<Rightarrow> Inl 2
      | Inr (p, rest) \<Rightarrow> Inr (Parsed_Flags p))"

section \<open>Writing the command line of a configuration\<close>

definition fmt_t :: "bool \<Rightarrow> string" where
  "fmt_t b = (if b then ''true'' else ''false'')"

definition flag_arg :: "string \<Rightarrow> string \<Rightarrow> string" where
  "flag_arg name v = ''--'' @ name @ ''='' @ v"

definition flag_args :: "flags \<Rightarrow> string list" where
  "flag_args f =
     [flag_arg ''metrics-bind-address'' (Flag_MetricsBindAddress f),
      flag_arg ''health-probe-bind-address'' (Flag_HealthProbeBindAddress f),
      flag_arg ''leader-elect'' (fmt_t (Flag_LeaderElect f)),
      flag_arg ''metrics-secure'' (fmt_t (Flag_MetricsSecure f)),
      flag_arg ''metrics-cert-path'' (Flag_metricsCertDir f),
      flag_arg ''metrics-cert-name'' (Flag_metricsCertName f),
      flag_arg ''metrics-cert-key'' (Flag_metricsCertKey f),
      flag_arg ''default-service-account'' (Flag_DefaultServiceAccountName f),
      flag_arg ''max-concurrent-reconciles'' (fmt_d (Flag_MaxConcurrentReconciles f)),
      flag_arg ''graceful-shutdown-timeout'' (fmt_d (Flag_GracefulShutdownTimeout f) @ ''ns''),
      flag_arg ''watch-all-namespaces'' (fmt_t (Flag_WatchAllNamespaces f)),
      flag_arg ''watch-namespace'' (Flag_WatchNamespace f),
      flag_arg ''source-api-group'' (Flag_SourceAPIGroup f),
      flag_arg ''source-api-version'' (Flag_SourceAPIVersion f),
      flag_arg ''http-retry'' (fmt_d (Flag_HTTPRetry f)),
      flag_arg ''http-timeout'' (fmt_d (Flag_HTTPTimeout f) @ ''ns''),
      flag_arg ''dependency-watch-label-selector'' (Flag_dependencyWatchLabelSelector f),
      flag_arg ''release-storage-driver'' (Flag_ReleaseStorageDriver f),
      flag_arg ''release-storage-sql-connection'' (Flag_ReleaseStorageSQLConnection f),
      flag_arg ''kube-qps-limit'' (fmt_d (Flag_KubeQPSLimit f)),
      flag_arg ''kube-burst-limit'' (fmt_d (Flag_KubeBurstLimit f)),
      flag_arg ''kube-request-timeout'' (fmt_d (Flag_KubeRequestTimeout f) @ ''ns''),
      flag_arg ''network-parallelism'' (fmt_d (Flag_NetworkParallelism f)),
      flag_arg ''deno-binary-path'' (Flag_DenoBinaryPath f),
      flag_arg ''temp-dir'' (Flag_TempDir f),
      flag_arg ''log-level'' (Flag_LogLevel f)]"

definition int64 :: "int \<Rightarrow> bool" where
  "int64 i \<longleftrightarrow> - (2 ^ 63) \<le> i \<and> i < 2 ^ 63"

definition flags_in_range :: "flags \<Rightarrow> bool" where
  "flags_in_range f \<longleftrightarrow>
     int64 (Flag_MaxConcurrentReconciles f) \<and>
     int64 (Flag_GracefulShutdownTimeout f) \<and>
     int64 (Flag_HTTPRetry f) \<and>
     int64 (Flag_HTTPTimeout f) \<and>
     int64 (Flag_KubeQPSLimit f) \<and>
     int64 (Flag_KubeBurstLimit f) \<and>
     int64 (Flag_KubeRequestTimeout f) \<and>
     int64 (Flag_NetworkParallelism f)"

section \<open>Reading back what was written\<close>

lemma digit_char: "n < 10 \<Longrightarrow> is_digit (''0123456789'' ! n) \<and> digit_val (''0123456789'' ! n) = int n"
  by (auto simp: less_Suc_eq numeral_eq_Suc is_digit_def digit_val_def)

abbreviation decimal :: "int \<Rightarrow> string \<Rightarrow> int" where
  "decimal \<equiv> foldl (\<lambda>x c. x * 10 + digit_val c)"

lemma digit_val_nonneg: "is_digit c \<Longrightarrow> 0 \<le> digit_val c \<and> digit_val c < 10"
  by (simp add: is_digit_def digit_val_def)

lemma decimal_ge: "\<forall>c \<in> set s. is_digit c \<Longrightarrow> 0 \<le> x \<Longrightarrow> x \<le> decimal x s"
proof (induction s arbitrary: x)
  case (Cons c s)
  then have d: "0 \<le> digit_val c" by (simp add: digit_val_nonneg)
  with Cons.prems have "x \<le> x * 10 + digit_val c" by simp
  also have "\<dots> \<le> decimal (x * 10 + digit_val c) s" using Cons d by simp
  finally show ?case by simp
qed simp

lemma fmt_nat_not_Nil [simp]: "fmt_nat n \<noteq> []"
  by (subst fmt_nat.simps) simp

lemma fmt_nat_digits: "\<forall>c \<in> set (fmt_nat n). is_digit c"
proof (induction n rule: fmt_nat.induct)
  case (1 n)
  then show ?case by (subst fmt_nat.simps) (auto simp: digit_char)
qed

lemma decimal_fmt_nat: "decimal 0 (fmt_nat n) = int n"
proof (induction n rule: fmt_nat.induct)
  case (1 n)
  then show ?case by (subst fmt_nat.simps) (auto simp: digit_char zdiv_int zmod_int)
qed

lemma fmt_nat_hd: "0 < n \<Longrightarrow> hd (fmt_nat n) \<noteq> CHR ''0''"
proof (induction n rule: fmt_nat.induct)
  case (1 n)
  show ?case
  proof (cases "n < 10")
    case True
    with "1.prems" digit_char [OF True] show ?thesis
      by (subst fmt_nat.simps) (auto simp: digit_val_def)
  next
    case False
    with 1 show ?thesis by (subst fmt_nat.simps) simp
  qed
qed

lemma leadingInt_digits:
  assumes "\<forall>c \<in> set s. is_digit c" and "0 \<le> x" and "decimal x s \<le> 2 ^ 63" and "rest = [] \<or> \<not> is_digit (hd rest)"
  shows "leadingInt (s @ rest) x = Some (decimal x s, rest)"
  using assms
proof (induction s arbitrary: x)
  case Nil
  then show ?case by (cases rest) auto
next
  case (Cons c s)
  have d: "0 \<le> digit_val c" using Cons.prems(1) by (simp add: digit_val_nonneg)
  have "x * 10 + digit_val c \<le> 2 ^ 63" using decimal_ge [of s "x * 10 + digit_val c"] Cons.prems d by simp
  with Cons d show ?case by (simp add: Let_def)
qed

lemma parse_digits_decimal:
  assumes "\<forall>c \<in> set s. is_digit c" and "0 \<le> x" and "decimal x s < 2 ^ 64"
  shows "parse_digits 10 s x u = Inr (decimal x s, u)"
  using assms
proof (induction s arbitrary: x)
  case (Cons c s)
  have d: "0 \<le> digit_val c" "digit_val c < 10" using Cons.prems(1) by (simp_all add: digit_val_nonneg)
  have "x * 10 + digit_val c < 2 ^ 64" using decimal_ge [of s "x * 10 + digit_val c"] Cons.prems d by simp
  moreover have "digit_of c = Some (digit_val c)" "c \<noteq> CHR ''_''"
    using Cons.prems(1) by (auto simp: digit_of_def is_digit_def)
  ultimately show ?case using Cons d by simp
qed simp

lemma ParseUint_fmt_nat: "n < 2 ^ 64 \<Longrightarrow> ParseUint (fmt_nat n) = Inr (int n)"
proof (cases "n = 0")
  case False
  moreover assume "n < 2 ^ 64"
  ultimately show ?thesis
    using parse_digits_decimal [OF fmt_nat_digits, of 0 n False, OF order_refl] fmt_nat_hd [of n]
    by (simp add: ParseUint_def base_prefix_def decimal_fmt_nat)
qed (simp add: ParseUint_def base_prefix_def fmt_nat.simps)

lemma fmt_nat_hd_digit: "is_digit (hd (fmt_nat n))"
  using fmt_nat_digits hd_in_set [OF fmt_nat_not_Nil] by blast

lemma fmt_nat_no_sign: "hd (fmt_nat n) \<noteq> CHR ''-''" "hd (fmt_nat n) \<noteq> CHR ''+''"
  using fmt_nat_hd_digit [of n] by (force simp: is_digit_def)+

lemma ParseInt_fmt_d: "int64 i \<Longrightarrow> ParseInt (fmt_d i) = Inr i"
  by (auto simp: ParseInt_def fmt_d_def int64_def Let_def ParseUint_fmt_nat fmt_nat_no_sign nat_less_iff)

lemma duration_part_ns: "n \<le> 2 ^ 63 \<Longrightarrow> duration_part (fmt_nat n @ ''ns'') = Some (int n, [])"
proof -
  assume "n \<le> 2 ^ 63"
  then have "leadingInt (fmt_nat n @ ''ns'') 0 = Some (int n, ''ns'')"
    using leadingInt_digits [OF fmt_nat_digits, of 0 n "''ns''"] by (simp add: decimal_fmt_nat is_digit_def)
  moreover note fmt_nat_hd_digit [of n]
  moreover have "takeWhile unit_char ''ns'' = ''ns''" "dropWhile unit_char ''ns'' = []"
    by (simp_all add: unit_char_def is_digit_def)
  ultimately show ?thesis using \<open>n \<le> 2 ^ 63\<close> by (simp add: duration_part_def unitMap_def)
qed

lemma duration_loop_ns: "n \<le> 2 ^ 63 \<Longrightarrow> duration_loop (fmt_nat n @ ''ns'') 0 = Some (int n)"
  by (subst duration_loop.simps) (simp add: duration_part_ns duration_loop.simps Let_def)

lemma ParseDuration_fmt_d: "int64 i \<Longrightarrow> ParseDuration (fmt_d i @ ''ns'') = Some i"
  by (auto simp: ParseDuration_def fmt_d_def int64_def Let_def duration_loop_ns fmt_nat_no_sign nat_le_iff
      append_eq_Cons_conv)

lemma ParseBool_fmt_t: "ParseBool (fmt_t b) = Some b"
  by (simp add: ParseBool_def fmt_t_def)

text \<open>One argument that names a declared flag with a value it accepts.\<close>

lemma Parse_flag:
  assumes "map_of declared_flags name = Some var" and "Set_flag var v (Parsed_Flags p) = Some f"
    and "name \<noteq> []" and "CHR ''='' \<notin> set name" and "hd name \<noteq> CHR ''-''"
  shows "Parse others p (flag_arg name v # args) = Parse others (p\<lparr>Parsed_Flags := f\<rparr>) args"
proof -
  obtain c cs where name: "name = c # cs" using assms(3) by (cases name) auto
  have "name_value (name @ CHR ''='' # v) = (name, Some v)"
    using assms(4) by (auto simp: name_value_def name takeWhile_append dropWhile_append)
  then have "parseOne others p (flag_arg name v # args) = Seen (p\<lparr>Parsed_Flags := f\<rparr>) args"
    using assms by (auto simp: flag_arg_def name set_named_def formal_def)
  then show ?thesis by (subst Parse.simps) simp
qed

lemma declared_names: "distinct (map fst declared_flags)"
  by (simp add: declared_flags_def)

lemma Parse_nothing: "Parse others p [] = Inr (p, [])"
  by (subst Parse.simps) simp

lemma flag_args_parsed:
  assumes "flags_in_range f"
  shows "flag_Parse others (flag_args f) = Inr f"
proof -
  have "Parse others \<lparr>Parsed_Flags = flag_defaults, Parsed_Others = []\<rparr> (flag_args f) =
      Inr (\<lparr>Parsed_Flags = f, Parsed_Others = []\<rparr>, [])"
    using assms
    by (cases f) (simp add: flag_args_def flags_in_range_def Parse_flag Parse_nothing declared_flags_def
        ParseBool_fmt_t ParseInt_fmt_d ParseDuration_fmt_d flag_defaults_def)
  then show ?thesis by (simp add: flag_Parse_def)
qed

section \<open>Properties\<close>

text \<open>C40. Every configuration can be given on the command line: whatever the values of the flags are, as
  long as the numbers and durations fit in 64 bits, parsing the arguments that write them out gives
  exactly these values back, so each flag sets its own variable and no other; and without arguments
  every flag has its default.\<close>

theorem command_line_roundtrip:
  assumes "flags_in_range f"
  shows "flag_Parse others (flag_args f) = Inr f \<and> flag_Parse others [] = Inr flag_defaults"
  using flag_args_parsed [OF assms] by (simp add: flag_Parse_def Parse_nothing)

theorem command_line_roundtrip_witness:
  "flag_Parse (\<lambda>_. None) (flag_args (flag_defaults\<lparr>Flag_HTTPRetry := -3, Flag_WatchNamespace := ''a=b''\<rparr>)) =
   Inr (flag_defaults\<lparr>Flag_HTTPRetry := -3, Flag_WatchNamespace := ''a=b''\<rparr>)"
  using command_line_roundtrip [of "flag_defaults\<lparr>Flag_HTTPRetry := -3, Flag_WatchNamespace := ''a=b''\<rparr>" "\<lambda>_. None"]
  by (simp add: flags_in_range_def int64_def flag_defaults_def time_Second_def)

end
