(* ===== verification/Operator_Main.thy ===== *)
theory Operator_Main
  imports Watches Command_Line
begin

text \<open>
  The start of the operator (\<^verbatim>\<open>cmd/main.go\<close>): the scheme its types are registered with
  (\<^verbatim>\<open>groupversion_info.go\<close>, the \<^verbatim>\<open>init\<close> functions), the configuration made from the flags and the
  environment, the options of the manager, and the order in which everything is set up, with the
  exit code of every failure. The manager, the scheme, label selectors and the cluster
  configuration are parameters; logging and the stack traces of the debugging feature gate are left
  out.
\<close>

section \<open>Registration of the types\<close>

record GroupVersion =
  GV_Group :: string
  GV_Version :: string

definition SchemeGroupVersion :: GroupVersion where
  "SchemeGroupVersion = \<lparr>GV_Group = ''nelm.werf.io'', GV_Version = ''v1alpha1''\<rparr>"

text \<open>The builder of the scheme, with the objects the \<^verbatim>\<open>init\<close> function of the package registers.\<close>

record scheme_Builder =
  Builder_GroupVersion :: GroupVersion
  Builder_Objects :: "string list"

definition Register :: "string list \<Rightarrow> scheme_Builder \<Rightarrow> scheme_Builder" where
  "Register objects bld = bld\<lparr>Builder_Objects := Builder_Objects bld @ objects\<rparr>"

definition SchemeBuilder :: scheme_Builder where
  "SchemeBuilder =
     Register [''Release'', ''ReleaseList''] \<lparr>Builder_GroupVersion = SchemeGroupVersion, Builder_Objects = []\<rparr>"

section \<open>Configuration\<close>

definition env_fallback :: "string \<Rightarrow> string \<Rightarrow> string" where
  "env_fallback v flag = (if v \<noteq> '''' \<and> flag = '''' then v else flag)"

definition operator_config :: "(string \<Rightarrow> string) \<Rightarrow> flags \<Rightarrow> (strmap \<Rightarrow> bool) \<Rightarrow> OperatorConfig" where
  "operator_config Getenv f selector =
     \<lparr>Config_DefaultServiceAccountName = Flag_DefaultServiceAccountName f,
      Config_LeaderElect = Flag_LeaderElect f,
      Config_MaxConcurrentReconciles = Flag_MaxConcurrentReconciles f,
      Config_MetricsBindAddress = Flag_MetricsBindAddress f,
      Config_HealthProbeBindAddress = Flag_HealthProbeBindAddress f,
      Config_MetricsSecure = Flag_MetricsSecure f,
      Config_MetricsCertDir = Flag_metricsCertDir f,
      Config_MetricsCertName = Flag_metricsCertName f,
      Config_MetricsCertKey = Flag_metricsCertKey f,
      Config_GracefulShutdownTimeout = Flag_GracefulShutdownTimeout f,
      Config_WatchAllNamespaces = Flag_WatchAllNamespaces f,
      Config_WatchNamespace = Flag_WatchNamespace f,
      Config_DependencyWatchLabelSelector = selector,
      Config_SourceAPIGroup = Flag_SourceAPIGroup f,
      Config_SourceAPIVersion = Flag_SourceAPIVersion f,
      Config_HTTPRetry = Flag_HTTPRetry f,
      Config_HTTPTimeout = Flag_HTTPTimeout f,
      Config_ReleaseStorageDriver = Flag_ReleaseStorageDriver f,
      Config_ReleaseStorageSQLConnection =
        env_fallback (Getenv ''NELM_RELEASE_STORAGE_SQL_CONNECTION'') (Flag_ReleaseStorageSQLConnection f),
      Config_KubeQPSLimit = Flag_KubeQPSLimit f,
      Config_KubeBurstLimit = Flag_KubeBurstLimit f,
      Config_KubeRequestTimeout = Flag_KubeRequestTimeout f,
      Config_NetworkParallelism = Flag_NetworkParallelism f,
      Config_DenoBinaryPath = env_fallback (Getenv ''NELM_DENO_BINARY_PATH'') (Flag_DenoBinaryPath f),
      Config_TempDir = Flag_TempDir f,
      Config_LogLevel = Flag_LogLevel f\<rparr>"

text \<open>
  \<^verbatim>\<open>float32\<close> of an integer: the nearest integer with 24 significant bits, ties to even.
\<close>

definition float32_of_int :: "int \<Rightarrow> int" where
  "float32_of_int x =
     (let n = \<bar>x\<bar>; k = bitlen n - 24
      in if k \<le> 0 then x
         else let d = 2 ^ nat k; q = n div d; r = n mod d;
                  q' = (if 2 * r > d \<or> 2 * r = d \<and> odd q then q + 1 else q)
              in sgn x * (q' * d))"

lemma float32_exact: "\<bar>x\<bar> < 2 ^ 24 \<Longrightarrow> float32_of_int x = x"
proof -
  assume "\<bar>x\<bar> < 2 ^ 24"
  then have "bitlen \<bar>x\<bar> \<le> 24" by (subst bitlen_le_iff_power) simp_all
  then show ?thesis by (simp add: float32_of_int_def Let_def)
qed

lemma float32_ties: "float32_of_int (2 ^ 24 + 1) = 2 ^ 24" "float32_of_int (2 ^ 24 + 3) = 2 ^ 24 + 4"
  by code_simp+

record RestConfig =
  Rest_QPS :: int
  Rest_Burst :: int
  Rest_Timeout :: duration

definition rest_config :: "OperatorConfig \<Rightarrow> RestConfig \<Rightarrow> RestConfig" where
  "rest_config cfg base =
     (let rest = base\<lparr>Rest_QPS := float32_of_int (Config_KubeQPSLimit cfg), Rest_Burst := Config_KubeBurstLimit cfg\<rparr>
      in if Config_KubeRequestTimeout cfg > 0 then rest\<lparr>Rest_Timeout := Config_KubeRequestTimeout cfg\<rparr> else rest)"

section \<open>Options of the manager\<close>

record MetricsOptions =
  Metrics_BindAddress :: string
  Metrics_SecureServing :: bool
  Metrics_Authenticated :: bool  \<comment> \<open>the filter provider is set\<close>
  Metrics_CertDir :: string
  Metrics_CertName :: string
  Metrics_KeyName :: string

definition metrics_options :: "OperatorConfig \<Rightarrow> MetricsOptions" where
  "metrics_options cfg =
     (let opts = \<lparr>Metrics_BindAddress = Config_MetricsBindAddress cfg, Metrics_SecureServing = Config_MetricsSecure cfg,
                  Metrics_Authenticated = False, Metrics_CertDir = '''', Metrics_CertName = '''', Metrics_KeyName = ''''\<rparr>;
          opts1 = (if Config_MetricsSecure cfg then opts\<lparr>Metrics_Authenticated := True\<rparr> else opts)
      in if Config_MetricsCertDir cfg \<noteq> '''' then
           opts1\<lparr>Metrics_CertDir := Config_MetricsCertDir cfg, Metrics_CertName := Config_MetricsCertName cfg,
                 Metrics_KeyName := Config_MetricsCertKey cfg\<rparr>
         else opts1)"

record ManagerOptions =
  Mgr_Metrics :: MetricsOptions
  Mgr_HealthProbeBindAddress :: string
  Mgr_LeaderElection :: bool
  Mgr_LeaderElectionID :: string
  Mgr_GracefulShutdownTimeout :: duration
  Mgr_DefaultNamespaces :: "string list"  \<comment> \<open>empty for all namespaces\<close>

definition manager_options :: "OperatorConfig \<Rightarrow> ManagerOptions option" where
  "manager_options cfg =
     (let opts = \<lparr>Mgr_Metrics = metrics_options cfg, Mgr_HealthProbeBindAddress = Config_HealthProbeBindAddress cfg,
                  Mgr_LeaderElection = Config_LeaderElect cfg, Mgr_LeaderElectionID = ''50578024.werf.io'',
                  Mgr_GracefulShutdownTimeout = Config_GracefulShutdownTimeout cfg, Mgr_DefaultNamespaces = []\<rparr>
      in if Config_WatchNamespace cfg \<noteq> '''' then Some (opts\<lparr>Mgr_DefaultNamespaces := [Config_WatchNamespace cfg]\<rparr>)
         else if \<not> Config_WatchAllNamespaces cfg then None
         else Some opts)"

section \<open>The program\<close>

text \<open>The manager and what else the program gets from its libraries; \<open>'m\<close> is the state of the manager.\<close>

record ('m, 'w) runtime =
  rt_Getenv :: "string \<Rightarrow> string"
  rt_OtherFlags :: other_flags
  rt_ClientgoAddToScheme :: "('m, error option) state"
  rt_BuilderAddToScheme :: "scheme_Builder \<Rightarrow> ('m, error option) state"
  rt_SourceAddToScheme :: "('m, error option) state"
  rt_GetConfig :: "RestConfig option"  \<comment> \<open>\<open>None\<close> when \<^verbatim>\<open>GetConfigOrDie\<close> exits\<close>
  rt_LabelsParse :: "string \<Rightarrow> error + (strmap \<Rightarrow> bool)"
  rt_NewManager :: "RestConfig \<Rightarrow> ManagerOptions \<Rightarrow> ('m, error option) state"
  rt_GetClient :: "'w kube_client"
  rt_Os :: "'w os_env"
  rt_Nelm :: "'w nelm_lib"
  rt_Lib :: "'w k8s_lib"
  rt_IndexField :: "string \<Rightarrow> (Release \<Rightarrow> string list) \<Rightarrow> ('m, error option) state"
  rt_Complete :: "controller \<Rightarrow> 'w ReleaseReconciler \<Rightarrow> ('m, error option) state"
  rt_AddHealthzCheck :: "string \<Rightarrow> ('m, error option) state"
  rt_AddReadyzCheck :: "string \<Rightarrow> ('m, error option) state"
  rt_Start :: "('m, error option) state"

text \<open>The reconciler is made with a client, a scheme and a configuration, and without an event recorder.\<close>

definition main_reconciler :: "('m, 'w) runtime \<Rightarrow> OperatorConfig \<Rightarrow> 'w ReleaseReconciler" where
  "main_reconciler R cfg =
     \<lparr>rr_Client = rt_GetClient R, rr_Config = cfg, rr_EventRecorder = False,
      rr_Os = rt_Os R, rr_Nelm = rt_Nelm R, rr_Lib = rt_Lib R\<rparr>"

definition exit_on_error :: "('m, error option) state \<Rightarrow> ('m, int) state \<Rightarrow> ('m, int) state" where
  "exit_on_error step rest = do {
     e \<leftarrow> step;
     case e of Some err \<Rightarrow> returnM 1 | None \<Rightarrow> rest
   }"

definition start_operator :: "('m, 'w) runtime \<Rightarrow> flags \<Rightarrow> ('m, int) state" where
  "start_operator R f =
     (case rt_GetConfig R of
        None \<Rightarrow> returnM 1
      | Some restConfig \<Rightarrow>
          let cfg0 = operator_config (rt_Getenv R) f (\<lambda>_. True)
          in case manager_options cfg0 of
               None \<Rightarrow> returnM 1
             | Some mgrOptions \<Rightarrow>
                 (case (if Flag_dependencyWatchLabelSelector f \<noteq> ''''
                        then rt_LabelsParse R (Flag_dependencyWatchLabelSelector f) else Inr (\<lambda>_. True)) of
                    Inl err \<Rightarrow> returnM 1
                  | Inr selector \<Rightarrow>
                      let cfg = operator_config (rt_Getenv R) f selector
                      in exit_on_error (rt_NewManager R (rest_config cfg restConfig) mgrOptions)
                        (exit_on_error (SetupWithManager (main_reconciler R cfg) (rt_IndexField R) (rt_Complete R))
                        (exit_on_error (rt_AddHealthzCheck R ''healthz'')
                        (exit_on_error (rt_AddReadyzCheck R ''readyz'')
                        (exit_on_error (rt_Start R)
                        (returnM 0)))))))"

definition main :: "('m, 'w) runtime \<Rightarrow> string list \<Rightarrow> ('m, int) state" where
  "main R args =
     (case flag_Parse (rt_OtherFlags R) args of
        Inl code \<Rightarrow> returnM code
      | Inr f \<Rightarrow> start_operator R f)"

text \<open>\<^verbatim>\<open>utilruntime.Must\<close> panics, and the program ends with 2.\<close>

definition Must :: "('m, error option) state \<Rightarrow> ('m, int) state \<Rightarrow> ('m, int) state" where
  "Must step rest = do {
     e \<leftarrow> step;
     case e of Some err \<Rightarrow> returnM 2 | None \<Rightarrow> rest
   }"

definition AddToScheme :: "('m, 'w) runtime \<Rightarrow> ('m, error option) state" where
  "AddToScheme R = rt_BuilderAddToScheme R SchemeBuilder"

text \<open>The program: \<^verbatim>\<open>init\<close>, then \<^verbatim>\<open>main\<close>.\<close>

definition program :: "('m, 'w) runtime \<Rightarrow> string list \<Rightarrow> ('m, int) state" where
  "program R args =
     Must (rt_ClientgoAddToScheme R) (Must (AddToScheme R) (Must (rt_SourceAddToScheme R) (main R args)))"

section \<open>The order of the start\<close>

text \<open>Steps that are run one after the other until one fails.\<close>

fun run_steps :: "('m, error option) state list \<Rightarrow> 'm \<Rightarrow> bool \<times> 'm" where
  "run_steps [] m = (True, m)"
| "run_steps (step # steps) m =
     (case run_state step m of (e, m') \<Rightarrow> if e = None then run_steps steps m' else (False, m'))"

definition exit_code :: "bool \<times> 'm \<Rightarrow> int \<times> 'm" where
  "exit_code = apfst (\<lambda>ok. if ok then 0 else 1)"

lemma run_steps_append:
  "run_steps (xs @ ys) m = (case run_steps xs m of (ok, m') \<Rightarrow> if ok then run_steps ys m' else (False, m'))"
  by (induction xs arbitrary: m) (auto split: prod.splits)

lemma run_register:
  "run_state (register IndexField ixs) m = (e, m') \<Longrightarrow>
   run_steps (map (\<lambda>(field, f). IndexField field f) ixs) m = (e = None, m')"
  by (induction ixs arbitrary: m rule: register.induct) (auto split: prod.splits option.splits)

lemma run_setup:
  assumes "run_state (SetupWithManager r IndexField Complete) m = (e, m')"
  shows "run_steps (map (\<lambda>(field, f). IndexField field f) (registered_indexes r) @ [Complete (release_controller r) r]) m =
    (e = None, m')"
proof -
  obtain e1 m1 where reg: "run_state (register IndexField (registered_indexes r)) m = (e1, m1)"
    by fastforce
  with assms show ?thesis
    by (cases e1) (auto simp: SetupWithManager_def run_steps_append run_register [OF reg] split: prod.splits)
qed

lemma run_exit_on_error:
  assumes "run_steps steps m = (fst (run_state step m) = None, snd (run_state step m))"
    and "\<And>m'. run_state rest m' = exit_code (run_steps later m')"
  shows "run_state (exit_on_error step rest) m = exit_code (run_steps (steps @ later) m)"
  using assms by (cases "run_state step m") (auto simp: exit_on_error_def run_steps_append exit_code_def split: option.splits)

lemma run_exit_step:
  assumes "\<And>m'. run_state rest m' = exit_code (run_steps later m')"
  shows "run_state (exit_on_error step rest) m = exit_code (run_steps (step # later) m)"
  using run_exit_on_error [of "[step]" m step rest later, OF _ assms] by (simp add: split_beta)

definition start_steps :: "('m, 'w) runtime \<Rightarrow> OperatorConfig \<Rightarrow> RestConfig \<Rightarrow> ManagerOptions \<Rightarrow> ('m, error option) state list" where
  "start_steps R cfg base opts =
     [rt_NewManager R (rest_config cfg base) opts] @
     map (\<lambda>(field, f). rt_IndexField R field f) (registered_indexes (main_reconciler R cfg)) @
     [rt_Complete R (release_controller (main_reconciler R cfg)) (main_reconciler R cfg), rt_AddHealthzCheck R ''healthz'',
      rt_AddReadyzCheck R ''readyz'', rt_Start R]"

lemma run_main_steps:
  "run_state
     (exit_on_error (rt_NewManager R (rest_config cfg base) opts)
       (exit_on_error (SetupWithManager (main_reconciler R cfg) (rt_IndexField R) (rt_Complete R))
         (exit_on_error (rt_AddHealthzCheck R ''healthz'')
           (exit_on_error (rt_AddReadyzCheck R ''readyz'')
             (exit_on_error (rt_Start R) (returnM 0)))))) m = exit_code (run_steps (start_steps R cfg base opts) m)"
proof -
  have last: "run_state (exit_on_error (rt_AddHealthzCheck R ''healthz'') (exit_on_error (rt_AddReadyzCheck R ''readyz'')
      (exit_on_error (rt_Start R) (returnM 0)))) m' =
    exit_code (run_steps [rt_AddHealthzCheck R ''healthz'', rt_AddReadyzCheck R ''readyz'', rt_Start R] m')" for m'
    by (intro run_exit_step) (simp add: exit_code_def)
  have "run_state (exit_on_error (SetupWithManager (main_reconciler R cfg) (rt_IndexField R) (rt_Complete R))
      (exit_on_error (rt_AddHealthzCheck R ''healthz'') (exit_on_error (rt_AddReadyzCheck R ''readyz'')
      (exit_on_error (rt_Start R) (returnM 0))))) m' =
    exit_code (run_steps ((map (\<lambda>(field, f). rt_IndexField R field f) (registered_indexes (main_reconciler R cfg)) @
      [rt_Complete R (release_controller (main_reconciler R cfg)) (main_reconciler R cfg)]) @
      [rt_AddHealthzCheck R ''healthz'', rt_AddReadyzCheck R ''readyz'', rt_Start R]) m')" for m'
    by (rule run_exit_on_error [OF run_setup last]) simp
  from run_exit_step [OF this] show ?thesis by (simp add: start_steps_def)
qed

lemma run_Must:
  "run_state (Must step rest) m =
     (case run_state step m of (e, m') \<Rightarrow> if e = None then run_state rest m' else (2, m'))"
  by (auto simp: Must_def split: option.splits prod.splits)

lemma run_start_operator:
  "run_state (start_operator R f) m =
     (case rt_GetConfig R of
        None \<Rightarrow> (1, m)
      | Some base \<Rightarrow>
          if Flag_WatchNamespace f = [] \<and> \<not> Flag_WatchAllNamespaces f then (1, m)
          else
            let selector = (if Flag_dependencyWatchLabelSelector f = [] then Inr (\<lambda>_. True)
                            else rt_LabelsParse R (Flag_dependencyWatchLabelSelector f))
            in case selector of
                 Inl err \<Rightarrow> (1, m)
               | Inr sel \<Rightarrow>
                   let cfg = operator_config (rt_Getenv R) f sel
                   in exit_code (run_steps (start_steps R cfg base ((the (manager_options cfg))
                        \<lparr>Mgr_DefaultNamespaces := filter (\<lambda>ns. ns \<noteq> []) [Flag_WatchNamespace f]\<rparr>)) m))"
proof -
  have opts: "manager_options (operator_config g f s1) = manager_options (operator_config g f s2)" for g s1 s2
    by (simp add: manager_options_def metrics_options_def operator_config_def Let_def)
  have ns: "manager_options (operator_config g f s) =
      (if Flag_WatchNamespace f = [] \<and> \<not> Flag_WatchAllNamespaces f then None
       else Some ((the (manager_options (operator_config g f s)))
         \<lparr>Mgr_DefaultNamespaces := filter (\<lambda>ns. ns \<noteq> []) [Flag_WatchNamespace f]\<rparr>))" for g s
    by (simp add: manager_options_def operator_config_def Let_def)
  show ?thesis
  proof (cases "rt_GetConfig R")
    case (Some base)
    show ?thesis
      unfolding start_operator_def Let_def Some option.case
      by (subst ns, subst opts [of _ _ "\<lambda>_. True"]) (auto simp: run_main_steps split: sum.splits)
  qed (simp add: start_operator_def)
qed

section \<open>A start that is logged\<close>

text \<open>What the program asks the manager and the scheme to do, with the values it passes.\<close>

datatype startup =
  ClientgoTypes
| ReleaseTypes scheme_Builder
| SourceTypes
| ManagerMade RestConfig ManagerOptions
| IndexMade string "Release \<Rightarrow> string list"
| ControllerMade controller OperatorConfig
| HealthzAdded string
| ReadyzAdded string
| ManagerStarted

definition attempt :: "(startup \<Rightarrow> error option) \<Rightarrow> startup \<Rightarrow> (startup list, error option) state" where
  "attempt fails e = State (\<lambda>done_before. (fails e, done_before @ [e]))"

text \<open>A runtime that logs every request; which of them fail is given by \<open>fails\<close>.\<close>

definition logged :: "(startup \<Rightarrow> error option) \<Rightarrow> (startup list, 'w) runtime \<Rightarrow> (startup list, 'w) runtime" where
  "logged fails R = R
     \<lparr>rt_ClientgoAddToScheme := attempt fails ClientgoTypes,
      rt_BuilderAddToScheme := (\<lambda>b. attempt fails (ReleaseTypes b)),
      rt_SourceAddToScheme := attempt fails SourceTypes,
      rt_NewManager := (\<lambda>rest opts. attempt fails (ManagerMade rest opts)),
      rt_IndexField := (\<lambda>field ix. attempt fails (IndexMade field ix)),
      rt_Complete := (\<lambda>c r. attempt fails (ControllerMade c (rr_Config r))),
      rt_AddHealthzCheck := (\<lambda>n. attempt fails (HealthzAdded n)),
      rt_AddReadyzCheck := (\<lambda>n. attempt fails (ReadyzAdded n)),
      rt_Start := attempt fails ManagerStarted\<rparr>"

text \<open>The requests made, up to the first that fails.\<close>

fun attempted :: "(startup \<Rightarrow> error option) \<Rightarrow> startup list \<Rightarrow> startup list" where
  "attempted fails [] = []"
| "attempted fails (e # es) = e # (if fails e = None then attempted fails es else [])"

definition all_succeed :: "(startup \<Rightarrow> error option) \<Rightarrow> startup list \<Rightarrow> bool" where
  "all_succeed fails es \<longleftrightarrow> list_all (\<lambda>e. fails e = None) es"

lemma run_attempts:
  "run_steps (map (attempt fails) es) earlier = (all_succeed fails es, earlier @ attempted fails es)"
  by (induction es arbitrary: earlier) (simp_all add: attempt_def all_succeed_def)

lemma attempted_all: "all_succeed fails es \<Longrightarrow> attempted fails es = es"
  by (induction es) (simp_all add: all_succeed_def)

text \<open>
  The intended start: the types of the API group, then, from the values of the flags \<open>f\<close>, the cluster
  configuration \<open>base\<close>, the environment and the parsed selector, the configuration of the reconciler,
  the connection and the options of the manager, and all requests in order.
\<close>

definition scheme_events :: "startup list" where
  "scheme_events =
     [ClientgoTypes,
      ReleaseTypes \<lparr>Builder_GroupVersion = \<lparr>GV_Group = ''nelm.werf.io'', GV_Version = ''v1alpha1''\<rparr>,
                    Builder_Objects = [''Release'', ''ReleaseList'']\<rparr>,
      SourceTypes]"

definition intended_config :: "(string \<Rightarrow> string) \<Rightarrow> flags \<Rightarrow> (strmap \<Rightarrow> bool) \<Rightarrow> OperatorConfig" where
  "intended_config env f sel =
     \<lparr>Config_DefaultServiceAccountName = Flag_DefaultServiceAccountName f,
      Config_LeaderElect = Flag_LeaderElect f,
      Config_MaxConcurrentReconciles = Flag_MaxConcurrentReconciles f,
      Config_MetricsBindAddress = Flag_MetricsBindAddress f,
      Config_HealthProbeBindAddress = Flag_HealthProbeBindAddress f,
      Config_MetricsSecure = Flag_MetricsSecure f,
      Config_MetricsCertDir = Flag_metricsCertDir f,
      Config_MetricsCertName = Flag_metricsCertName f,
      Config_MetricsCertKey = Flag_metricsCertKey f,
      Config_GracefulShutdownTimeout = Flag_GracefulShutdownTimeout f,
      Config_WatchAllNamespaces = Flag_WatchAllNamespaces f,
      Config_WatchNamespace = Flag_WatchNamespace f,
      Config_DependencyWatchLabelSelector = sel,
      Config_SourceAPIGroup = Flag_SourceAPIGroup f,
      Config_SourceAPIVersion = Flag_SourceAPIVersion f,
      Config_HTTPRetry = Flag_HTTPRetry f,
      Config_HTTPTimeout = Flag_HTTPTimeout f,
      Config_ReleaseStorageDriver = Flag_ReleaseStorageDriver f,
      Config_ReleaseStorageSQLConnection =
        (if Flag_ReleaseStorageSQLConnection f \<noteq> [] then Flag_ReleaseStorageSQLConnection f
         else env ''NELM_RELEASE_STORAGE_SQL_CONNECTION''),
      Config_KubeQPSLimit = Flag_KubeQPSLimit f,
      Config_KubeBurstLimit = Flag_KubeBurstLimit f,
      Config_KubeRequestTimeout = Flag_KubeRequestTimeout f,
      Config_NetworkParallelism = Flag_NetworkParallelism f,
      Config_DenoBinaryPath =
        (if Flag_DenoBinaryPath f \<noteq> [] then Flag_DenoBinaryPath f else env ''NELM_DENO_BINARY_PATH''),
      Config_TempDir = Flag_TempDir f,
      Config_LogLevel = Flag_LogLevel f\<rparr>"

definition manager_event :: "flags \<Rightarrow> RestConfig \<Rightarrow> startup" where
  "manager_event f base =
     ManagerMade
       \<lparr>Rest_QPS = float32_of_int (Flag_KubeQPSLimit f), Rest_Burst = Flag_KubeBurstLimit f,
        Rest_Timeout = (if Flag_KubeRequestTimeout f > 0 then Flag_KubeRequestTimeout f else Rest_Timeout base)\<rparr>
       \<lparr>Mgr_Metrics =
          \<lparr>Metrics_BindAddress = Flag_MetricsBindAddress f, Metrics_SecureServing = Flag_MetricsSecure f,
           Metrics_Authenticated = Flag_MetricsSecure f, Metrics_CertDir = Flag_metricsCertDir f,
           Metrics_CertName = (if Flag_metricsCertDir f = [] then [] else Flag_metricsCertName f),
           Metrics_KeyName = (if Flag_metricsCertDir f = [] then [] else Flag_metricsCertKey f)\<rparr>,
        Mgr_HealthProbeBindAddress = Flag_HealthProbeBindAddress f,
        Mgr_LeaderElection = Flag_LeaderElect f, Mgr_LeaderElectionID = ''50578024.werf.io'',
        Mgr_GracefulShutdownTimeout = Flag_GracefulShutdownTimeout f,
        Mgr_DefaultNamespaces = (if Flag_WatchNamespace f = [] then [] else [Flag_WatchNamespace f])\<rparr>"

definition start_events :: "('m, 'w) runtime \<Rightarrow> flags \<Rightarrow> RestConfig \<Rightarrow> (strmap \<Rightarrow> bool) \<Rightarrow> startup list" where
  "start_events R f base sel =
     (let cfg = intended_config (rt_Getenv R) f sel
      in [manager_event f base,
          IndexMade ''.metadata.sourceRef'' (sourceRefIndexerFunc (main_reconciler R cfg)),
          IndexMade ''.metadata.configMap'' (configDependencyIndexerFunc ''ConfigMap''),
          IndexMade ''.metadata.secret'' (configDependencyIndexerFunc ''Secret''),
          ControllerMade
            \<lparr>Controller_Name = ''release'', Controller_For = [GenerationChangedPredicate],
             Controller_MaxConcurrentReconciles = Flag_MaxConcurrentReconciles f,
             Controller_Watches =
               [\<lparr>Watch_Type = ''HelmChart'', Watch_Map = RequestsForHelmChartChange,
                 Watch_Predicates = [SourceRevisionChangePredicate]\<rparr>,
                \<lparr>Watch_Type = ''OCIRepository'', Watch_Map = RequestsForOCIRepositoryChange,
                 Watch_Predicates = [SourceRevisionChangePredicate]\<rparr>,
                \<lparr>Watch_Type = ''ConfigMap'', Watch_Map = RequestsForConfigDependency ''.metadata.configMap'',
                 Watch_Predicates = [ResourceVersionChangedPredicate, ConfigDependencyPredicate]\<rparr>,
                \<lparr>Watch_Type = ''Secret'', Watch_Map = RequestsForConfigDependency ''.metadata.secret'',
                 Watch_Predicates = [ResourceVersionChangedPredicate, ConfigDependencyPredicate]\<rparr>]\<rparr>
            cfg,
          HealthzAdded ''healthz'', ReadyzAdded ''readyz'', ManagerStarted])"

lemma operator_config_intended: "operator_config env f sel = intended_config env f sel"
  by (simp add: operator_config_def intended_config_def env_fallback_def)

lemma start_steps_logged:
  assumes "Flag_WatchNamespace f \<noteq> [] \<or> Flag_WatchAllNamespaces f"
  shows "start_steps (logged fails R) (operator_config (rt_Getenv R) f sel) base
      ((the (manager_options (operator_config (rt_Getenv R) f sel)))
         \<lparr>Mgr_DefaultNamespaces := filter (\<lambda>ns. ns \<noteq> []) [Flag_WatchNamespace f]\<rparr>) =
    map (attempt fails) (start_events R f base sel)"
proof -
  have same: "main_reconciler (logged fails R) cfg = main_reconciler R cfg" for cfg
    by (simp add: main_reconciler_def logged_def)
  have steps: "rt_NewManager (logged fails R) = (\<lambda>rest opts. attempt fails (ManagerMade rest opts))"
    "rt_IndexField (logged fails R) = (\<lambda>field ix. attempt fails (IndexMade field ix))"
    "rt_Complete (logged fails R) = (\<lambda>c r. attempt fails (ControllerMade c (rr_Config r)))"
    "rt_AddHealthzCheck (logged fails R) = (\<lambda>n. attempt fails (HealthzAdded n))"
    "rt_AddReadyzCheck (logged fails R) = (\<lambda>n. attempt fails (ReadyzAdded n))"
    "rt_Start (logged fails R) = attempt fails ManagerStarted"
    by (simp_all add: logged_def)
  have config: "rr_Config (main_reconciler R cfg) = cfg" for cfg
    by (simp add: main_reconciler_def)
  have workers: "Config_MaxConcurrentReconciles (intended_config env f sel) = Flag_MaxConcurrentReconciles f" for env
    by (simp add: intended_config_def)
  have manager: "ManagerMade (rest_config (operator_config (rt_Getenv R) f sel) base)
      ((the (manager_options (operator_config (rt_Getenv R) f sel)))
         \<lparr>Mgr_DefaultNamespaces := filter (\<lambda>ns. ns \<noteq> []) [Flag_WatchNamespace f]\<rparr>) = manager_event f base"
    using assms by (cases base) (auto simp: manager_event_def rest_config_def manager_options_def metrics_options_def
        operator_config_def Let_def)
  show ?thesis
    unfolding start_steps_def same registered_indexes_def release_controller_def steps manager config
    unfolding start_events_def Let_def operator_config_intended workers indexSourceRef_def indexConfigMap_def indexSecret_def
    by simp
qed

lemma run_start_logged:
  "rt_GetConfig R = None \<or> Flag_WatchNamespace f = [] \<and> \<not> Flag_WatchAllNamespaces f \<or>
   Flag_dependencyWatchLabelSelector f \<noteq> [] \<and> (\<exists>err. rt_LabelsParse R (Flag_dependencyWatchLabelSelector f) = Inl err) \<Longrightarrow>
   run_state (start_operator (logged fails R) f) earlier = (1, earlier)"
  "rt_GetConfig R = Some base \<Longrightarrow> Flag_WatchNamespace f \<noteq> [] \<or> Flag_WatchAllNamespaces f \<Longrightarrow>
   (if Flag_dependencyWatchLabelSelector f = [] then Inr (\<lambda>_. True)
    else rt_LabelsParse R (Flag_dependencyWatchLabelSelector f)) = Inr sel \<Longrightarrow>
   run_state (start_operator (logged fails R) f) earlier =
     (if all_succeed fails (start_events R f base sel) then 0 else 1,
      earlier @ attempted fails (start_events R f base sel))"
proof -
  have parts: "rt_GetConfig (logged fails R) = rt_GetConfig R" "rt_LabelsParse (logged fails R) = rt_LabelsParse R"
    "rt_Getenv (logged fails R) = rt_Getenv R"
    by (simp_all add: logged_def)
  show "rt_GetConfig R = None \<or> Flag_WatchNamespace f = [] \<and> \<not> Flag_WatchAllNamespaces f \<or>
      Flag_dependencyWatchLabelSelector f \<noteq> [] \<and> (\<exists>err. rt_LabelsParse R (Flag_dependencyWatchLabelSelector f) = Inl err) \<Longrightarrow>
    run_state (start_operator (logged fails R) f) earlier = (1, earlier)"
    by (auto simp: run_start_operator parts split: option.splits)
  show "run_state (start_operator (logged fails R) f) earlier =
     (if all_succeed fails (start_events R f base sel) then 0 else 1,
      earlier @ attempted fails (start_events R f base sel))"
    if "rt_GetConfig R = Some base" and "Flag_WatchNamespace f \<noteq> [] \<or> Flag_WatchAllNamespaces f"
      and "(if Flag_dependencyWatchLabelSelector f = [] then Inr (\<lambda>_. True)
        else rt_LabelsParse R (Flag_dependencyWatchLabelSelector f)) = Inr sel"
    unfolding run_start_operator parts that(1) option.case Let_def that(3) sum.case
      start_steps_logged [OF that(2)] run_attempts exit_code_def
    using that(2) by auto
qed

lemma run_program_logged:
  "run_state (program (logged fails R) args) [] =
     (if all_succeed fails scheme_events
      then run_state (main (logged fails R) args) scheme_events
      else (2, attempted fails scheme_events))"
  by (auto simp: program_def run_Must AddToScheme_def SchemeBuilder_def Register_def SchemeGroupVersion_def
      logged_def attempt_def scheme_events_def all_succeed_def)

section \<open>Events\<close>

lemma no_events_emitEvent: "\<not> rr_EventRecorder r \<Longrightarrow> emits (in_kinds {}) (emitEvent r rel t reason m)"
  by (simp add: emitEvent_def emits_return)

lemma no_events_up_to_date:
  "\<not> rr_EventRecorder r \<Longrightarrow> emits (in_kinds (- {KEvent})) (install_up_to_date r rel preRel foreign)"
  unfolding install_up_to_date_def
  by (intro emits_intro emits_kinds_mono [OF kinds_stampOwnershipMarker] emits_kinds_mono [OF no_events_emitEvent]
      emits_kinds_mono [OF kinds_handleFailure_report] emits_kinds_mono [OF kinds_handleSuccess])
    (auto simp: kind_sets)

lemma no_events_changes:
  "\<not> rr_EventRecorder r \<Longrightarrow> emits (in_kinds (- {KEvent})) (install_changes r rel cr dir rv art preRel foreign)"
  unfolding install_changes_def
  by (intro emits_intro emits_kinds_mono [OF kinds_buildInstallOptions] emits_kinds_mono [OF no_events_emitEvent]
      emits_kinds_mono [OF kinds_handleFailure_report] emits_kinds_mono [OF kinds_handleFailure_rollback]
      emits_kinds_mono [OF kinds_handleSuccess])
    (auto simp: kind_sets)

lemma no_events_live:
  assumes "\<not> rr_EventRecorder r" and "retry_contract (rr_Lib r)"
  shows "emits (in_kinds (- {KEvent})) (reconcile_live r rel)"
  unfolding reconcile_live_def reconcile_resolved_def reconcile_chart_def reconcileInstall_def install_release_def
  by (intro emits_intro emits_kinds_mono [OF kinds_resolveChartRef [OF assms(2)]] emits_kinds_mono [OF kinds_getRelease]
      emits_kinds_mono [OF kinds_handleFailure_report] emits_kinds_mono [OF kinds_MkdirTemp]
      emits_kinds_mono [OF kinds_ResolveChartRef] emits_kinds_mono [OF kinds_projectStatus]
      emits_kinds_mono [OF kinds_StatusUpdate] emits_kinds_mono [OF values_kind.emits_Resolve]
      emits_kinds_mono [OF kinds_buildPlanInstallOptions] no_events_up_to_date no_events_changes assms(1)
      emits_kinds_mono [OF kinds_RemoveAll])
    (auto simp: chart_kinds_def kind_sets)

section \<open>Properties\<close>


definition demo_runtime :: "(startup list, mem_world) runtime" where
  "demo_runtime =
     \<lparr>rt_Getenv = (\<lambda>_. []), rt_OtherFlags = (\<lambda>_. None), rt_ClientgoAddToScheme = returnM None,
      rt_BuilderAddToScheme = (\<lambda>b. returnM None), rt_SourceAddToScheme = returnM None,
      rt_GetConfig = Some \<lparr>Rest_QPS = 0, Rest_Burst = 0, Rest_Timeout = 0\<rparr>,
      rt_LabelsParse = (\<lambda>s. Inr (\<lambda>_. True)), rt_NewManager = (\<lambda>rest opts. returnM None),
      rt_GetClient = rr_Client mem_reconciler, rt_Os = rr_Os mem_reconciler, rt_Nelm = rr_Nelm mem_reconciler,
      rt_Lib = rr_Lib mem_reconciler, rt_IndexField = (\<lambda>field f. returnM None), rt_Complete = (\<lambda>c r. returnM None),
      rt_AddHealthzCheck = (\<lambda>n. returnM None), rt_AddReadyzCheck = (\<lambda>n. returnM None), rt_Start = returnM None\<rparr>"


text \<open>C38. The operator as the program builds it never emits an event: the reconciler is made without a
  recorder, so the events for adopted, reconciled and repaired foreign changes go nowhere.\<close>

theorem operator_emits_no_events:
  assumes "retry_contract (rt_Lib R)"
  shows "list_all (in_kinds (- {KEvent})) (trace (Reconcile (main_reconciler R cfg) req) s)"
proof -
  let ?r = "main_reconciler R cfg"
  have r: "\<not> rr_EventRecorder ?r" "retry_contract (rr_Lib ?r)"
    using assms by (simp_all add: main_reconciler_def)
  have "runs (Reconcile ?r req) (\<lambda>out cs. list_all (in_kinds (- {KEvent})) cs)"
    by (rule runs_Reconcile)
      (auto intro: runs_emits [OF no_events_live [OF r]] runs_emits [OF kinds_reconcileDelete [OF r(2)]]
        elim!: list_kinds_mono simp: delete_kinds_def)
  from runs_trace [OF this] show ?thesis .
qed

theorem operator_emits_no_events_witness:
  "list_all (in_kinds (- {KEvent}))
     (trace (Reconcile (main_reconciler demo_runtime mem_config) demo_key) (start (demo_world demo_referring)))"
  by (rule operator_emits_no_events) (simp add: demo_runtime_def mem_retry_contract)

end
