(* ===== verification/Spec2Isabelle.thy ===== *)
theory Spec2Isabelle
  imports Reconcile_Safety Source_Names Watches Deep_Copy Operator_Main
begin

text \<open>
  \<^bold>\<open>A verification development of nelm-operator.\<close>

  The operator (\<^verbatim>\<open>src/\<close>) reconciles objects of the kind Release: each names a Helm chart, inline or
  by a reference to a Flux source object, and values; the operator deploys it with the nelm library,
  watches what it depends on, and uninstalls it when the object is deleted.

  \<^bold>\<open>Parts and theories.\<close> Each theory opens with the files it models. Definitions keep the names of
  the functions; a helper that models a part of a function is mapped to the lines of that part.

  \<^item> \<open>Go_Prelude\<close>: strings, 64-bit integers, durations and errors of Go, the state monad, Hoare triples.
  \<^item> \<open>Go_Sha256\<close>: SHA-256 and hexadecimal encoding, which the names of source objects are made with.
  \<^item> \<open>Release_Types\<close>: the Release resource (\<^verbatim>\<open>api/v1alpha1\<close>) as records, with its accessors.
  \<^item> \<open>Source_Builders\<close>, \<open>Source_Names\<close>: the source objects built for inline charts (\<^verbatim>\<open>internal/source\<close>), their
    names, which releases share one.
  \<^item> \<open>Environment\<close>: the operator configuration (\<^verbatim>\<open>internal/config\<close>) and the records of functions that stand
    for the Kubernetes client, the file system, HTTP, nelm and the Kubernetes helper modules, with the
    program logic of the development (below). \<open>Reference_Env\<close> is an executable instance of them.
  \<^item> \<open>Source_Refs\<close>: the reference counting of shared source objects in an annotation, refined against a
    map from objects to their users.
  \<^item> \<open>Install_Options\<close>: all options handed to nelm; a plan and an installation of one release agree.
  \<^item> \<open>Status_Handlers\<close>: the release storage, ownership marker, foreign changes, conditions, success, failure,
    retries with backoff, automatic rollback.
  \<^item> \<open>Source_Resolve\<close>, \<open>Values_Resolve\<close>: the chart artifact and the values files of a reconciliation.
  \<^item> \<open>Chart_Phase\<close>: the machine that moves a release from one inline chart source to another.
  \<^item> \<open>Reconcile\<close>, \<open>Reconcile_Safety\<close>: the reconciliation, installation and deletion, and theorems on whole runs.
  \<^item> \<open>Watches\<close>: field indexes, the event filter (\<^verbatim>\<open>internal/predicates\<close>), the functions from a changed object
    to the releases to reconcile, and the set-up of the controller.
  \<^item> \<open>Go_Heap\<close>, \<open>Deep_Copy\<close>: Go memory with pointers, slices and maps, and the generated deep copies of the
    API types (\<^verbatim>\<open>zz_generated.deepcopy.go\<close>) as programs over it. The other theories take a resource as
    a record, which is what it denotes in memory; there a deep copy is the record itself.
  \<^item> \<open>Command_Line\<close>: the flags of the program, and how the standard library parses them.
  \<^item> \<open>Operator_Main\<close>: the registration of the types (\<^verbatim>\<open>groupversion_info.go\<close>), the configuration and the start
    of the program (\<^verbatim>\<open>cmd/main.go\<close>).

  \<^bold>\<open>State and effects.\<close> A function of the controller is a program in a state monad over an arbitrary
  world and the list of the calls made, each with whether it succeeded (\<open>perform\<close>). A call may do
  anything the parameter it stands for does; theorems about order and safety hold for every
  environment and every pattern of failures, those about stored state under contracts that state
  documented behaviour of the called code (\<open>store_contract\<close>, \<open>status_contract\<close>, \<open>condition_contract\<close>,
  \<open>retry_contract\<close>, \<open>list_contract\<close> and others). The contracts hold together in the reference
  environment, in which the concrete runs are made. The mutated Release is passed on explicitly; a
  successful write replaces it by the server's answer. A panic of Go is an outcome of its own.

  \<^bold>\<open>What is shown.\<close> Reference counting refines a map of user lists, and leaks an object whose deletion
  failed. The phase machine is simulated by the code under any failures. Along every history of runs
  of the code, a release that gets its chart resolved is registered with the source it deploys from
  and stays so, with one exception that is shown to be real: a pass without an inline chart that left
  the sources and could not record it, followed by one with the inline chart again. At most four
  passes in a row over one specification ask to be run again. A failure is reported once, with exactly one of retry and
  stall, and its backoff is right for the first 29 failures. A reconciliation never panics, installs
  only what was planned and nothing after a failed plan, acts only for and as its release, removes
  the finalizer (and changes nothing else of the object) only after the uninstallation, and leaves no
  files. Whatever a reconciliation reads is in the indexes, so changes of it reach the release, except
  that a source that was not ready and comes back unchanged does not. A deep copy shares no memory
  with its original. The command line can express every configuration, and the start of the program
  makes the intended requests with the values of the flags, in order, with one exit code for each
  kind of failure.

  \<^bold>\<open>Bounds and fuel.\<close> No definition of the model takes fuel; \<open>drive\<close>,
  which repeats passes of \<open>resolveChartRef\<close> in one theorem, takes a number of passes, and five are
  enough because the machine is at most four steps from being settled (\<open>phase_rank\<close>). Loops are structural recursion over lists, except the
  parsers of durations and of the command line, which end because every step shortens their input, and
  the functions on types in memory, which follow the type; the retry on
  conflict of the library is a parameter that runs its body a finite number of times (four times in
  the reference environment). Integers are unbounded where the code only compares or copies them, and
  wrapped to 64 bits where it computes with them.

  \<^bold>\<open>Not modelled.\<close> Logging and the stack traces of a debugging feature gate; the flags that the logger and
  the client library add to the command line, and the inside of Flux, nelm, controller-runtime and the
  Kubernetes API server, which are parameters. Two idealisations of the API server matter for the
  theorems on source objects: a deletion that is accepted removes the object, although finalizers may
  delay it, and a pass reads the status that was accepted last, although caches may lag behind.
  Concurrent reconciliations interleave at the level of whole passes and of single registrations and
  clean-ups of other releases. What nelm does to the cluster is not modelled; theorems about source
  objects after a deletion start where the uninstallation has ended.
\<close>

end
